(* ===== verification/GoPrelude.thy ===== *)
theory GoPrelude
  imports Main "HOL-Library.Char_ord" "HOL-Library.List_Lexorder" "HOL-Library.AList"
begin

text \<open>
  The part of Go and its standard library that the program uses everywhere: byte
  strings and the functions of package \<open>strings\<close>, decimal printing, quoting with
  the verb \<open>%q\<close>, Go maps, and computations that return a value or an error and
  change a state.

  Strings are lists of bytes (\<^typ>\<open>char list\<close>). The functions of package
  \<open>strings\<close> that depend on Unicode classes (\<open>TrimSpace\<close>, \<open>ToLower\<close>, \<open>ToUpper\<close>,
  \<open>Fields\<close>, \<open>EqualFold\<close>) and the verb \<open>%q\<close> are modelled on ASCII text: a byte above
  127 is an ordinary letter for them.

  A Go map is an association list with distinct keys. The order of the list is the
  order in which a \<open>range\<close> loop happens to visit the map, which Go leaves open; a
  theorem about an arbitrary list therefore covers every iteration order. Reading
  is \<open>map_of\<close>, writing \<open>m[k] = v\<close> is \<open>AList.update k v m\<close>.
\<close>

named_theorems go_simps \<open>characteristic equations of the Go library functions\<close>

section \<open>Bytes and strings\<close>

definition isSpace :: "char \<Rightarrow> bool" where
  "isSpace c \<longleftrightarrow> c \<in> {CHR 0x09, CHR 0x0A, CHR 0x0B, CHR 0x0C, CHR 0x0D, CHR 0x20}"

definition TrimRightFunc :: "(char \<Rightarrow> bool) \<Rightarrow> string \<Rightarrow> string" where
  "TrimRightFunc p s = rev (dropWhile p (rev s))"

definition TrimFunc :: "(char \<Rightarrow> bool) \<Rightarrow> string \<Rightarrow> string" where
  "TrimFunc p s = TrimRightFunc p (dropWhile p s)"

definition TrimSpace :: "string \<Rightarrow> string" where
  "TrimSpace s = TrimFunc isSpace s"

definition Trim :: "string \<Rightarrow> string \<Rightarrow> string" where
  "Trim s cutset = TrimFunc (\<lambda>c. c \<in> set cutset) s"

definition TrimRight :: "string \<Rightarrow> string \<Rightarrow> string" where
  "TrimRight s cutset = TrimRightFunc (\<lambda>c. c \<in> set cutset) s"

fun HasPrefix :: "string \<Rightarrow> string \<Rightarrow> bool" where
  "HasPrefix s [] = True"
| "HasPrefix [] (p # ps) = False"
| "HasPrefix (c # s) (p # ps) = (c = p \<and> HasPrefix s ps)"

definition HasSuffix :: "string \<Rightarrow> string \<Rightarrow> bool" where
  "HasSuffix s p = HasPrefix (rev s) (rev p)"

definition TrimPrefix :: "string \<Rightarrow> string \<Rightarrow> string" where
  "TrimPrefix s p = (if HasPrefix s p then drop (length p) s else s)"

definition TrimSuffix :: "string \<Rightarrow> string \<Rightarrow> string" where
  "TrimSuffix s p = (if HasSuffix s p then take (length s - length p) s else s)"

text \<open>\<open>strings.Index\<close> and \<open>strings.LastIndex\<close>; the result -1 of the Go functions is \<open>None\<close>.\<close>

fun Index :: "string \<Rightarrow> string \<Rightarrow> nat option" where
  "Index [] sub = (if sub = [] then Some 0 else None)"
| "Index (c # s) sub =
     (if HasPrefix (c # s) sub then Some 0 else map_option Suc (Index s sub))"

fun LastIndex :: "string \<Rightarrow> string \<Rightarrow> nat option" where
  "LastIndex [] sub = (if sub = [] then Some 0 else None)"
| "LastIndex (c # s) sub =
     (case LastIndex s sub of
        Some i \<Rightarrow> Some (Suc i)
      | None \<Rightarrow> if HasPrefix (c # s) sub then Some 0 else None)"

definition Contains :: "string \<Rightarrow> string \<Rightarrow> bool" where
  "Contains s sub \<longleftrightarrow> Index s sub \<noteq> None"

text \<open>\<open>strings.Split(s, sep)\<close> for a separator of one byte, the only form the program uses.\<close>

fun Split :: "string \<Rightarrow> char \<Rightarrow> string list" where
  "Split [] sep = [[]]"
| "Split (c # s) sep =
     (if c = sep then [] # Split s sep
      else (case Split s sep of [] \<Rightarrow> [[c]] | p # ps \<Rightarrow> (c # p) # ps))"

fun Join :: "string list \<Rightarrow> string \<Rightarrow> string" where
  "Join [] sep = []"
| "Join [p] sep = p"
| "Join (p # q # ps) sep = p @ sep @ Join (q # ps) sep"

text \<open>\<open>strings.Fields\<close>: the maximal runs of bytes that are not white space.\<close>

fun fieldsAcc :: "string \<Rightarrow> string \<Rightarrow> string list" where
  "fieldsAcc cur [] = (if cur = [] then [] else [rev cur])"
| "fieldsAcc cur (c # s) =
     (if isSpace c then (if cur = [] then fieldsAcc [] s else rev cur # fieldsAcc [] s)
      else fieldsAcc (c # cur) s)"

definition Fields :: "string \<Rightarrow> string list" where
  "Fields s = fieldsAcc [] s"

definition toLowerC :: "char \<Rightarrow> char" where
  "toLowerC c = (if CHR ''A'' \<le> c \<and> c \<le> CHR ''Z'' then char_of (of_char c + (32::nat)) else c)"

definition toUpperC :: "char \<Rightarrow> char" where
  "toUpperC c = (if CHR ''a'' \<le> c \<and> c \<le> CHR ''z'' then char_of (of_char c - (32::nat)) else c)"

definition ToLower :: "string \<Rightarrow> string" where
  "ToLower s = map toLowerC s"

definition ToUpper :: "string \<Rightarrow> string" where
  "ToUpper s = map toUpperC s"

definition EqualFold :: "string \<Rightarrow> string \<Rightarrow> bool" where
  "EqualFold s t \<longleftrightarrow> ToLower s = ToLower t"

section \<open>Decimal numbers and quoting\<close>

definition digitChar :: "nat \<Rightarrow> char" where
  "digitChar d = char_of (48 + d)"

fun decNat :: "nat \<Rightarrow> string" where
  "decNat n = (if n < 10 then [digitChar n] else decNat (n div 10) @ [digitChar (n mod 10)])"

declare decNat.simps [simp del]

text \<open>The verb \<open>%d\<close> and \<open>fmt.Sprint\<close> on an \<open>int\<close>.\<close>

definition decInt :: "int \<Rightarrow> string" where
  "decInt i = (if i < 0 then CHR ''-'' # decNat (nat (- i)) else decNat (nat i))"

definition isDigit :: "char \<Rightarrow> bool" where
  "isDigit c \<longleftrightarrow> CHR ''0'' \<le> c \<and> c \<le> CHR ''9''"

definition digitVal :: "char \<Rightarrow> int" where
  "digitVal c = of_char c - 48"

definition parseDigits :: "string \<Rightarrow> int" where
  "parseDigits s = foldl (\<lambda>a c. 10 * a + digitVal c) 0 s"

text \<open>
  \<open>strconv.Atoi\<close> on a 64-bit platform: an optional sign, then at least one digit and
  only digits, with a value that fits a signed 64-bit integer. \<open>None\<close> is the error.
\<close>

definition Atoi :: "string \<Rightarrow> int option" where
  "Atoi s =
     (let neg = HasPrefix s ''-'';
          body = (if HasPrefix s ''-'' \<or> HasPrefix s ''+'' then drop 1 s else s)
      in if body = [] \<or> \<not> list_all isDigit body then None
         else let n = (if neg then - parseDigits body else parseDigits body)
              in if - (2 ^ 63) \<le> n \<and> n < 2 ^ 63 then Some n else None)"

definition hexDigit :: "nat \<Rightarrow> char" where
  "hexDigit d = (if d < 10 then char_of (48 + d) else char_of (87 + d))"

definition quoteChar :: "char \<Rightarrow> string" where
  "quoteChar c =
     (if c = CHR 0x22 then [CHR 0x5C, CHR 0x22]
      else if c = CHR 0x5C then [CHR 0x5C, CHR 0x5C]
      else if c = CHR 0x07 then [CHR 0x5C, CHR ''a'']
      else if c = CHR 0x08 then [CHR 0x5C, CHR ''b'']
      else if c = CHR 0x0C then [CHR 0x5C, CHR ''f'']
      else if c = CHR 0x0A then [CHR 0x5C, CHR ''n'']
      else if c = CHR 0x0D then [CHR 0x5C, CHR ''r'']
      else if c = CHR 0x09 then [CHR 0x5C, CHR ''t'']
      else if c = CHR 0x0B then [CHR 0x5C, CHR ''v'']
      else if c < CHR 0x20 \<or> c = CHR 0x7F
        then [CHR 0x5C, CHR ''x'', hexDigit (of_char c div 16), hexDigit (of_char c mod 16)]
      else [c])"

text \<open>The verb \<open>%q\<close> on a string.\<close>

definition quoteGo :: "string \<Rightarrow> string" where
  "quoteGo s = [CHR 0x22] @ concat (map quoteChar s) @ [CHR 0x22]"

section \<open>Results and stateful computations\<close>

text \<open>
  A function that returns \<open>(T, error)\<close> returns \<open>'e + 'a\<close>, with \<open>Inl\<close> the error. A
  function that also changes a state of type \<open>'w\<close> (the world outside the program, or
  a component's own state) is a computation of type \<open>'w \<Rightarrow> ('e + 'a) \<times> 'w\<close>: the state
  after an error is part of the result.
\<close>

type_synonym ('w, 'e, 'a) comp = "'w \<Rightarrow> ('e + 'a) \<times> 'w"

definition retC :: "'a \<Rightarrow> ('w, 'e, 'a) comp" where
  "retC x w = (Inr x, w)"

definition failC :: "'e \<Rightarrow> ('w, 'e, 'a) comp" where
  "failC e w = (Inl e, w)"

definition bindC :: "('w, 'e, 'a) comp \<Rightarrow> ('a \<Rightarrow> ('w, 'e, 'b) comp) \<Rightarrow> ('w, 'e, 'b) comp" where
  "bindC f g w = (case f w of (Inl e, w') \<Rightarrow> (Inl e, w') | (Inr x, w') \<Rightarrow> g x w')"

definition liftC :: "'e + 'a \<Rightarrow> ('w, 'e, 'a) comp" where
  "liftC r w = (r, w)"

definition bindE :: "'e + 'a \<Rightarrow> ('a \<Rightarrow> 'e + 'b) \<Rightarrow> 'e + 'b" where
  "bindE r g = (case r of Inl e \<Rightarrow> Inl e | Inr x \<Rightarrow> g x)"

fun mapE :: "('a \<Rightarrow> 'e + 'b) \<Rightarrow> 'a list \<Rightarrow> 'e + 'b list" where
  "mapE f [] = Inr []"
| "mapE f (x # xs) = (case f x of Inl e \<Rightarrow> Inl e | Inr y \<Rightarrow>
     (case mapE f xs of Inl e \<Rightarrow> Inl e | Inr ys \<Rightarrow> Inr (y # ys)))"

definition isOk :: "'e + 'a \<Rightarrow> bool" where
  "isOk r = (case r of Inl _ \<Rightarrow> False | Inr _ \<Rightarrow> True)"

section \<open>Paths (path/filepath)\<close>

text \<open>\<open>filepath.Clean\<close>, \<open>filepath.Join\<close> and \<open>filepath.Ext\<close> with \<open>/\<close> as the separator.\<close>

fun cleanParts :: "bool \<Rightarrow> string list \<Rightarrow> string list \<Rightarrow> string list" where
  "cleanParts rooted acc [] = rev acc"
| "cleanParts rooted acc (p # ps) =
     (if p = [] \<or> p = ''.'' then cleanParts rooted acc ps
      else if p = ''..'' then
        (case acc of
           [] \<Rightarrow> cleanParts rooted (if rooted then [] else [p]) ps
         | q # acc' \<Rightarrow> if q = ''..'' then cleanParts rooted (p # acc) ps else cleanParts rooted acc' ps)
      else cleanParts rooted (p # acc) ps)"

definition pathClean :: "string \<Rightarrow> string" where
  "pathClean p =
     (let rooted = HasPrefix p ''/'';
          q = Join (cleanParts rooted [] (Split p (CHR ''/''))) ''/''
      in if rooted then CHR ''/'' # q else if q = [] then ''.'' else q)"

definition pathJoin :: "string \<Rightarrow> string \<Rightarrow> string" where
  "pathJoin a b =
     (if a = [] then (if b = [] then [] else pathClean b) else pathClean (a @ ''/'' @ b))"

definition pathExt :: "string \<Rightarrow> string" where
  "pathExt p =
     (let base = last (Split p (CHR ''/''))
      in case LastIndex base ''.'' of Some i \<Rightarrow> drop i base | None \<Rightarrow> [])"

section \<open>Lemmas: trimming, prefixes, searching\<close>

lemma HasPrefix_iff: "HasPrefix s p \<longleftrightarrow> (\<exists>t. s = p @ t)"
  by (induction s p rule: HasPrefix.induct) auto

lemma HasPrefix_append [simp]: "HasPrefix (p @ t) p"
  by (auto simp: HasPrefix_iff)

lemma HasSuffix_iff: "HasSuffix s p \<longleftrightarrow> (\<exists>t. s = t @ p)"
proof -
  have "HasSuffix s p \<longleftrightarrow> (\<exists>t. rev s = rev p @ t)"
    by (simp add: HasSuffix_def HasPrefix_iff)
  also have "\<dots> \<longleftrightarrow> (\<exists>t. s = t @ p)"
    by (metis rev_append rev_rev_ident)
  finally show ?thesis .
qed

lemma HasSuffix_append [simp]: "HasSuffix (t @ p) p"
  by (auto simp: HasSuffix_iff)

lemma TrimSuffix_append [simp]: "TrimSuffix (t @ p) p = t"
  by (simp add: TrimSuffix_def)

lemma TrimPrefix_append [simp]: "TrimPrefix (p @ t) p = t"
  by (simp add: TrimPrefix_def)

lemma TrimSpace_Nil [simp]: "TrimSpace [] = []"
  by (simp add: TrimSpace_def TrimFunc_def TrimRightFunc_def)

lemma set_TrimFunc: "set (TrimFunc p s) \<subseteq> set s"
  by (auto simp: TrimFunc_def TrimRightFunc_def dest!: set_dropWhileD)

lemma set_TrimSpace: "set (TrimSpace s) \<subseteq> set s"
  by (simp add: TrimSpace_def set_TrimFunc)

lemma dropWhile_id: "(s = [] \<or> \<not> p (hd s)) \<Longrightarrow> dropWhile p s = s"
  by (cases s) auto

text \<open>A string that neither starts nor ends with a trimmed byte is left alone.\<close>

lemma TrimFunc_id:
  assumes "s = [] \<or> \<not> p (hd s) \<and> \<not> p (last s)"
  shows "TrimFunc p s = s"
proof (cases s)
  case Nil
  then show ?thesis by (simp add: TrimFunc_def TrimRightFunc_def)
next
  case (Cons c t)
  with assms have "\<not> p (hd s)" "\<not> p (last s)" by auto
  then have "dropWhile p s = s" "dropWhile p (rev s) = rev s"
    by (auto intro!: dropWhile_id simp: hd_rev)
  then show ?thesis by (simp add: TrimFunc_def TrimRightFunc_def)
qed

lemma TrimSpace_id: "s = [] \<or> \<not> isSpace (hd s) \<and> \<not> isSpace (last s) \<Longrightarrow> TrimSpace s = s"
  by (simp add: TrimSpace_def TrimFunc_id)

lemma TrimSpace_no_space: "(\<And>c. c \<in> set s \<Longrightarrow> \<not> isSpace c) \<Longrightarrow> TrimSpace s = s"
  by (rule TrimSpace_id) (cases s, auto)

lemma TrimRightFunc_ends: "TrimRightFunc p s = [] \<or> \<not> p (last (TrimRightFunc p s))"
proof (cases "dropWhile p (rev s)")
  case Nil
  then show ?thesis by (simp add: TrimRightFunc_def)
next
  case (Cons a xs)
  then show ?thesis
    using hd_dropWhile [of p "rev s"] by (simp add: TrimRightFunc_def last_rev)
qed

lemma hd_TrimRightFunc: "TrimRightFunc p s \<noteq> [] \<Longrightarrow> hd (TrimRightFunc p s) = hd s"
proof -
  assume ne: "TrimRightFunc p s \<noteq> []"
  have "rev s = takeWhile p (rev s) @ dropWhile p (rev s)" by simp
  then have "s = rev (dropWhile p (rev s)) @ rev (takeWhile p (rev s))"
    by (metis rev_append rev_rev_ident)
  with ne show ?thesis
    unfolding TrimRightFunc_def by (metis hd_append2)
qed

lemma TrimFunc_ends:
  "TrimFunc p s = [] \<or> \<not> p (hd (TrimFunc p s)) \<and> \<not> p (last (TrimFunc p s))"
proof (cases "TrimFunc p s = []")
  case False
  then have ne: "TrimRightFunc p (dropWhile p s) \<noteq> []" by (simp add: TrimFunc_def)
  then have "dropWhile p s \<noteq> []" by (metis TrimRightFunc_def dropWhile.simps(1) rev.simps(1))
  then have "\<not> p (hd (dropWhile p s))" by (rule hd_dropWhile)
  with ne TrimRightFunc_ends [of p "dropWhile p s"] show ?thesis
    by (simp add: TrimFunc_def hd_TrimRightFunc)
qed simp

lemma TrimFunc_idem [simp]: "TrimFunc p (TrimFunc p s) = TrimFunc p s"
  by (rule TrimFunc_id) (rule TrimFunc_ends)

lemma TrimSpace_idem [simp]: "TrimSpace (TrimSpace s) = TrimSpace s"
  by (simp add: TrimSpace_def)

lemma Trim_idem [simp]: "Trim (Trim s cs) cs = Trim s cs"
  by (simp add: Trim_def)

lemma Index_Some_split:
  "Index s sub = Some i \<Longrightarrow> i + length sub \<le> length s \<and> s = take i s @ sub @ drop (i + length sub) s"
proof (induction s arbitrary: i)
  case Nil
  then show ?case by (auto split: if_splits)
next
  case (Cons c s)
  show ?case
  proof (cases "HasPrefix (c # s) sub")
    case True
    with Cons.prems have "i = 0" by simp
    moreover from True obtain t where "c # s = sub @ t" by (auto simp: HasPrefix_iff)
    moreover from this have "length sub \<le> length (c # s)" by (metis le_add1 length_append)
    ultimately show ?thesis by simp
  next
    case False
    with Cons.prems obtain j where "Index s sub = Some j" "i = Suc j" by auto
    with Cons.IH [of j] show ?thesis by simp
  qed
qed

lemma Index_None_iff: "Index s sub = None \<longleftrightarrow> (\<forall>a b. s \<noteq> a @ sub @ b)"
proof (induction s)
  case Nil
  then show ?case by auto
next
  case (Cons c s)
  show ?case
  proof (cases "HasPrefix (c # s) sub")
    case True
    then have "\<exists>a b. c # s = a @ sub @ b"
      by (metis HasPrefix_iff append_Nil)
    with True show ?thesis by auto
  next
    case False
    have "(\<exists>a b. c # s = a @ sub @ b) \<longleftrightarrow> (\<exists>a b. s = a @ sub @ b)"
    proof
      assume "\<exists>a b. c # s = a @ sub @ b"
      then obtain a b where ab: "c # s = a @ sub @ b" by auto
      with False have "a \<noteq> []" by (auto simp: HasPrefix_iff)
      with ab show "\<exists>a b. s = a @ sub @ b" by (cases a) auto
    next
      assume "\<exists>a b. s = a @ sub @ b"
      then show "\<exists>a b. c # s = a @ sub @ b" by (metis append_Cons)
    qed
    with False Cons show ?thesis by (auto simp: map_option_is_None)
  qed
qed

lemma Contains_iff: "Contains s sub \<longleftrightarrow> (\<exists>a b. s = a @ sub @ b)"
  using Index_None_iff [of s sub] by (auto simp: Contains_def)

lemma Contains_char [simp]: "Contains s [c] \<longleftrightarrow> c \<in> set s"
  by (auto simp: Contains_iff in_set_conv_decomp)

lemma Index_char_None: "Index s [c] = None \<longleftrightarrow> c \<notin> set s"
  by (metis Contains_char Contains_def)

lemma Index_char_append: "c \<notin> set a \<Longrightarrow> Index (a @ c # b) [c] = Some (length a)"
  by (induction a) auto

section \<open>Lemmas: splitting and joining\<close>

lemma Split_not_Nil [simp]: "Split s sep \<noteq> []"
  by (induction s) (auto split: list.splits)

lemma Split_no_sep: "p \<in> set (Split s sep) \<Longrightarrow> sep \<notin> set p"
proof (induction s arbitrary: p)
  case (Cons c s)
  then show ?case by (auto split: if_splits list.splits)
qed simp

lemma Join_Cons: "Join (p # ps) sep = (if ps = [] then p else p @ sep @ Join ps sep)"
  by (cases ps) auto

lemma Join_Split [simp]: "Join (Split s sep) [sep] = s"
proof (induction s)
  case (Cons c s)
  obtain p ps where pps: "Split s sep = p # ps"
    by (meson Split_not_Nil neq_Nil_conv)
  show ?case
  proof (cases "c = sep")
    case True
    with Cons pps show ?thesis by (simp add: Join_Cons)
  next
    case False
    have "Join ((c # p) # ps) [sep] = c # Join (p # ps) [sep]"
      by (simp add: Join_Cons)
    with False Cons pps show ?thesis by simp
  qed
qed simp

lemma Split_char_free: "sep \<notin> set p \<Longrightarrow> Split p sep = [p]"
  by (induction p) auto

lemma Split_append_sep: "sep \<notin> set p \<Longrightarrow> Split (p @ sep # s) sep = p # Split s sep"
  by (induction p) auto

lemma Split_Join: "ps \<noteq> [] \<Longrightarrow> \<forall>p\<in>set ps. sep \<notin> set p \<Longrightarrow> Split (Join ps [sep]) sep = ps"
  by (induction ps "[sep]" rule: Join.induct) (auto simp: Split_char_free Split_append_sep)

lemma length_Split: "length (Split s sep) = Suc (count_list s sep)"
  by (induction s) (auto split: list.splits)

section \<open>Lemmas: case mapping\<close>

lemma toLowerC_idem [simp]: "toLowerC (toLowerC c) = toLowerC c"
proof (cases "CHR ''A'' \<le> c \<and> c \<le> CHR ''Z''")
  case True
  then have r: "(65::nat) \<le> of_char c" "of_char c \<le> (90::nat)"
    by (auto simp: less_eq_char_def)
  then have "of_char (char_of (of_char c + (32::nat)) :: char) = (of_char c + 32::nat)"
    by (simp add: of_char_of)
  with r have "\<not> (char_of (of_char c + (32::nat)) :: char) \<le> CHR ''Z''"
    by (simp add: less_eq_char_def)
  with True show ?thesis by (simp add: toLowerC_def)
next
  case False
  then have "toLowerC c = c" by (auto simp: toLowerC_def)
  then show ?thesis by simp
qed

lemma ToLower_idem [simp]: "ToLower (ToLower s) = ToLower s"
  by (simp add: ToLower_def)

lemma ToLower_Nil [simp]: "ToLower [] = []"
  by (simp add: ToLower_def)

lemma length_ToLower [simp]: "length (ToLower s) = length s"
  by (simp add: ToLower_def)

section \<open>Lemmas: decimal numbers\<close>

lemma isDigit_digitChar: "d < 10 \<Longrightarrow> isDigit (digitChar d)"
  by (simp add: isDigit_def digitChar_def less_eq_char_def of_char_of)

lemma digitVal_digitChar: "d < 10 \<Longrightarrow> digitVal (digitChar d) = int d"
proof -
  assume "d < 10"
  have "(of_char (digitChar d) :: int) = int (of_char (digitChar d))"
    by (metis of_nat_of_char)
  also have "(of_char (digitChar d) :: nat) = 48 + d"
    using \<open>d < 10\<close> by (simp add: digitChar_def of_char_of)
  finally show ?thesis by (simp add: digitVal_def)
qed

lemma decNat_not_Nil [simp]: "decNat n \<noteq> []"
  by (subst decNat.simps) simp

lemma decNat_digits: "list_all isDigit (decNat n)"
proof (induction n rule: decNat.induct)
  case (1 n)
  then show ?case
    by (subst decNat.simps) (auto simp: isDigit_digitChar)
qed

lemma parseDigits_append: "parseDigits (s @ [c]) = 10 * parseDigits s + digitVal c"
  by (simp add: parseDigits_def)

lemma parseDigits_decNat: "parseDigits (decNat n) = int n"
proof (induction n rule: decNat.induct)
  case (1 n)
  show ?case
  proof (cases "n < 10")
    case True
    then show ?thesis
      by (subst decNat.simps) (simp add: parseDigits_def digitVal_digitChar)
  next
    case False
    with 1 have "parseDigits (decNat (n div 10)) = int (n div 10)" by simp
    moreover have "int (10 * (n div 10) + n mod 10) = int n" by (simp only: mult_div_mod_eq)
    then have "10 * int (n div 10) + int (n mod 10) = int n" by (simp only: of_nat_add of_nat_mult of_nat_numeral)
    ultimately show ?thesis using False
      by (subst decNat.simps) (simp only: parseDigits_append digitVal_digitChar if_False mod_less_divisor zero_less_numeral)
  qed
qed

lemma isDigit_not_sign: "isDigit c \<Longrightarrow> c \<noteq> CHR ''-'' \<and> c \<noteq> CHR ''+''"
  by (auto simp: isDigit_def less_eq_char_def)

lemma decNat_no_sign: "\<not> HasPrefix (decNat n) ''-'' \<and> \<not> HasPrefix (decNat n) ''+''"
proof (cases "decNat n")
  case (Cons c s)
  with decNat_digits [of n] have "isDigit c" by simp
  with Cons show ?thesis by (auto dest: isDigit_not_sign)
qed simp

text \<open>\<open>strconv.Atoi\<close> reads back what \<open>%d\<close> prints, for every 64-bit integer.\<close>

lemma Atoi_decInt:
  assumes "- (2 ^ 63) \<le> i" "i < 2 ^ 63"
  shows "Atoi (decInt i) = Some i"
proof (cases "i < 0")
  case True
  then show ?thesis using assms
    by (simp add: Atoi_def decInt_def decNat_digits parseDigits_decNat)
next
  case False
  then show ?thesis using assms
    by (simp add: Atoi_def decInt_def decNat_digits parseDigits_decNat decNat_no_sign)
qed

lemma Atoi_range: "Atoi s = Some n \<Longrightarrow> - (2 ^ 63) \<le> n \<and> n < 2 ^ 63"
  by (auto simp: Atoi_def Let_def split: if_splits)

section \<open>Lemmas: results and computations\<close>

lemma bindC_Inl: "f w = (Inl e, w') \<Longrightarrow> bindC f g w = (Inl e, w')"
  by (simp add: bindC_def)

lemma bindC_Inr: "f w = (Inr x, w') \<Longrightarrow> bindC f g w = g x w'"
  by (simp add: bindC_def)

lemma bindC_retC [simp]: "bindC (retC x) g = g x"
  by (rule ext) (simp add: bindC_def retC_def)

lemma bindC_failC [simp]: "bindC (failC e) g = failC e"
  by (rule ext) (simp add: bindC_def failC_def)

lemma bindC_assoc: "bindC (bindC f g) h = bindC f (\<lambda>x. bindC (g x) h)"
  by (rule ext) (auto simp: bindC_def split: prod.splits sum.splits)

lemma bindE_simps [simp]: "bindE (Inl e) g = Inl e" "bindE (Inr x) g = g x"
  by (simp_all add: bindE_def)

lemma mapE_length: "mapE f xs = Inr ys \<Longrightarrow> length ys = length xs"
  by (induction xs arbitrary: ys) (auto split: sum.splits)

lemma mapE_pure: "(\<And>x. x \<in> set xs \<Longrightarrow> f x = Inr (g x)) \<Longrightarrow> mapE f xs = Inr (map g xs)"
  by (induction xs) auto

section \<open>Lemmas: Go maps as association lists\<close>

lemma distinct_keys_update: "distinct (map fst m) \<Longrightarrow> distinct (map fst (AList.update k v m))"
  by (rule distinct_update)

lemma keys_update: "fst ` set (AList.update k v m) = insert k (fst ` set m)"
  by (simp add: dom_update)

lemma map_of_eq_Some_iff_mem:
  "distinct (map fst m) \<Longrightarrow> map_of m k = Some v \<longleftrightarrow> (k, v) \<in> set m"
  by (rule map_of_eq_Some_iff)

lemmas comp_defs = bindC_def retC_def failC_def liftC_def

lemmas go_string_defs = TrimSpace_def TrimFunc_def TrimRightFunc_def Trim_def TrimRight_def
  HasSuffix_def TrimPrefix_def TrimSuffix_def Contains_def Fields_def ToLower_def ToUpper_def
  EqualFold_def toLowerC_def toUpperC_def isSpace_def
end
