(* ===== verification/Errors.thy ===== *)
theory Errors
  imports GoPrelude
begin

text \<open>
  Error values and their mapping to the PostgREST error shape: packages
  \<open>internal/errkind\<close>, \<open>internal/store/errs\<close>, \<open>internal/driver/errors.go\<close> and
  \<open>internal/postgrest/errors.go\<close>. An error is a value of type \<open>err\<close>; \<open>fmt.Errorf\<close>
  with the verb \<open>%w\<close> is the constructor \<open>Wrapf\<close>, and \<open>errors.Is\<close> / \<open>errors.As\<close>
  walk down the wrapped errors as in Go.
\<close>

section \<open>Error values\<close>

record APIError =
  ae_Code :: string
  ae_Message :: string
  ae_Details :: "string option"
  ae_Hint :: "string option"
  ae_Status :: nat

datatype err =
    ErrNotFound
  | ErrNotSupported
  | ErrOpNotSupported string string
  | ErrAPI APIError
  | ErrJSONSyntax string
  | ErrJSONType string
  | ErrEOF
  | ErrUnexpectedEOF
  | ErrAuthDisabled
  | ErrMissingAPIKey
  | ErrInvalidAPIKey
  | ErrMissingBearer
  | ErrInvalidJWT
  | ErrAdminAuthDisabled
  | ErrAdminMissingKey
  | ErrAdminInvalidKey
  | ErrBreakerOpen
  | Errorf string
  | Wrapf string err string

text \<open>\<open>OpNotSupported.Error\<close> of errkind/operation.go.\<close>

definition opNotSupportedMsg :: "string \<Rightarrow> string \<Rightarrow> string" where
  "opNotSupportedMsg op protocol = op @ '' is not supported for protocol '' @ quoteGo protocol"

fun errMsg :: "err \<Rightarrow> string" where
  "errMsg ErrNotFound = ''not found''"
| "errMsg ErrNotSupported = ''operation not supported by this driver''"
| "errMsg (ErrOpNotSupported op protocol) = opNotSupportedMsg op protocol"
| "errMsg (ErrAPI e) = ae_Message e"
| "errMsg (ErrJSONSyntax m) = m"
| "errMsg (ErrJSONType m) = m"
| "errMsg ErrEOF = ''EOF''"
| "errMsg ErrUnexpectedEOF = ''unexpected EOF''"
| "errMsg ErrAuthDisabled = ''gateway auth disabled''"
| "errMsg ErrMissingAPIKey = ''missing apikey header''"
| "errMsg ErrInvalidAPIKey = ''invalid apikey''"
| "errMsg ErrMissingBearer = ''missing authorization bearer token''"
| "errMsg ErrInvalidJWT = ''invalid jwt''"
| "errMsg ErrAdminAuthDisabled = ''admin auth disabled''"
| "errMsg ErrAdminMissingKey = ''missing admin api key''"
| "errMsg ErrAdminInvalidKey = ''invalid admin api key''"
| "errMsg ErrBreakerOpen = ''circuit breaker open''"
| "errMsg (Errorf m) = m"
| "errMsg (Wrapf pre e suf) = pre @ errMsg e @ suf"

text \<open>\<open>errors.Is(err, target)\<close> for a sentinel, and \<open>errors.As\<close> for the typed errors.\<close>

fun errIs :: "err \<Rightarrow> err \<Rightarrow> bool" where
  "errIs (Wrapf pre e suf) target = (Wrapf pre e suf = target \<or> errIs e target)"
| "errIs e target = (e = target)"

fun asAPIError :: "err \<Rightarrow> APIError option" where
  "asAPIError (ErrAPI a) = Some a"
| "asAPIError (Wrapf pre e suf) = asAPIError e"
| "asAPIError _ = None"

fun asOpNotSupported :: "err \<Rightarrow> (string \<times> string) option" where
  "asOpNotSupported (ErrOpNotSupported op protocol) = Some (op, protocol)"
| "asOpNotSupported (Wrapf pre e suf) = asOpNotSupported e"
| "asOpNotSupported _ = None"

fun asJSONError :: "err \<Rightarrow> bool" where
  "asJSONError (ErrJSONSyntax _) = True"
| "asJSONError (ErrJSONType _) = True"
| "asJSONError (Wrapf pre e suf) = asJSONError e"
| "asJSONError _ = False"

text \<open>\<open>WrapNotSupported\<close> of driver/errors.go; \<open>None\<close> is the nil error.\<close>

definition OpNotSupported :: "string \<Rightarrow> string \<Rightarrow> err" where
  "OpNotSupported op protocol = ErrOpNotSupported op protocol"

definition WrapNotSupported :: "string \<Rightarrow> string \<Rightarrow> err option \<Rightarrow> err option" where
  "WrapNotSupported op protocol eo =
     (case eo of
        None \<Rightarrow> None
      | Some e \<Rightarrow>
          if errIs e ErrNotSupported then Some (OpNotSupported op protocol)
          else if asOpNotSupported e \<noteq> None then Some e
          else Some e)"

section \<open>The PostgREST error constructors\<close>

definition strPtr :: "string \<Rightarrow> string option" where
  "strPtr s = (if s = [] then None else Some s)"

definition fallback :: "string \<Rightarrow> string \<Rightarrow> string" where
  "fallback v dflt = (if TrimSpace v = [] then dflt else v)"

definition mkAPIError ::
  "string \<Rightarrow> string \<Rightarrow> string option \<Rightarrow> string option \<Rightarrow> nat \<Rightarrow> APIError" where
  "mkAPIError code msg details hint status =
     \<lparr>ae_Code = code, ae_Message = msg, ae_Details = details, ae_Hint = hint, ae_Status = status\<rparr>"

definition TableNotFound :: "string \<Rightarrow> string \<Rightarrow> APIError" where
  "TableNotFound schema table =
     (let schema = fallback schema ''public''; table = fallback table ''unknown''
      in mkAPIError ''PGRST205''
           (''Could not find the table '' @ [CHR 0x27] @ schema @ ''.'' @ table @ [CHR 0x27]
            @ '' in the schema cache'') None None 404)"

definition RPCNotFound :: "string \<Rightarrow> string \<Rightarrow> APIError" where
  "RPCNotFound schema name =
     (let schema = fallback schema ''public''
      in mkAPIError ''PGRST202''
           (''Could not find the function '' @ schema @ ''.'' @ name @ '' in the schema cache'')
           None None 404)"

definition InvalidBody :: "err option \<Rightarrow> APIError" where
  "InvalidBody eo =
     mkAPIError ''PGRST102''
       (case eo of None \<Rightarrow> ''Invalid request body'' | Some e \<Rightarrow> errMsg e) None None 400"

definition UnsupportedMethod :: "string \<Rightarrow> APIError" where
  "UnsupportedMethod m = mkAPIError ''PGRST117'' (''Unsupported HTTP method: '' @ m) None None 405"

definition InvalidRPCMethod :: APIError where
  "InvalidRPCMethod =
     mkAPIError ''PGRST101'' ''Functions only support GET and POST verbs'' None None 405"

definition AuthError :: "string \<Rightarrow> APIError" where
  "AuthError msg =
     mkAPIError ''PGRST301'' msg None
       (strPtr ''Provide a valid apikey header and Authorization: Bearer <anon-key or JWT>'') 401"

definition InvalidPath :: APIError where
  "InvalidPath = mkAPIError ''PGRST125'' ''Invalid path specified in request URL'' None None 404"

definition SingleNotFound :: APIError where
  "SingleNotFound =
     mkAPIError ''PGRST116'' ''Cannot coerce the result to a single JSON object''
       (strPtr ''The result contains 0 rows'') None 404"

definition MultipleRows :: APIError where
  "MultipleRows =
     mkAPIError ''PGRST116'' ''Cannot coerce the result to a single JSON object''
       (strPtr ''The result contains more than 1 row'') None 404"

definition EmbedNotSupported :: APIError where
  "EmbedNotSupported =
     mkAPIError ''PGRST200'' ''Embedded resources are not supported'' None
       (strPtr ''Use flat column names in select= without nested ( ) syntax'') 400"

definition UnsupportedOperation :: "string \<Rightarrow> APIError" where
  "UnsupportedOperation msg = mkAPIError ''PGRST000'' msg None None 400"

definition DriverOperationNotSupported :: "string \<Rightarrow> string \<Rightarrow> APIError" where
  "DriverOperationNotSupported op protocol =
     mkAPIError ''PGRST000'' (opNotSupportedMsg op protocol) None
       (strPtr ''See /rest/v1/ OpenAPI and docs/drivers/ for protocol capabilities'')
       (if op \<in> {''insert'', ''update'', ''delete'', ''upsert''} then 405 else 400)"

definition InternalError :: "err option \<Rightarrow> APIError" where
  "InternalError eo =
     mkAPIError ''PGRST000''
       (case eo of None \<Rightarrow> ''Internal server error'' | Some e \<Rightarrow> errMsg e) None None 500"

section \<open>MapError\<close>

record ErrorContext =
  ec_Schema :: string
  ec_Table :: string
  ec_RPC :: string

definition isJSONSyntaxError :: "err option \<Rightarrow> bool" where
  "isJSONSyntaxError eo =
     (case eo of
        None \<Rightarrow> False
      | Some e \<Rightarrow>
          if asJSONError e then True
          else if errIs e ErrEOF \<or> errIs e ErrUnexpectedEOF then True
          else let msg = ToLower (errMsg e)
               in Contains msg ''json'' \<or> Contains msg ''unexpected end of json'')"

definition MapError :: "err option \<Rightarrow> ErrorContext \<Rightarrow> APIError option" where
  "MapError eo ctx =
     (case eo of
        None \<Rightarrow> None
      | Some e \<Rightarrow>
          (case asAPIError e of
             Some a \<Rightarrow> Some a
           | None \<Rightarrow>
               if errIs e ErrNotFound then
                 (if ec_RPC ctx \<noteq> [] then Some (RPCNotFound (ec_Schema ctx) (ec_RPC ctx))
                  else Some (TableNotFound (ec_Schema ctx) (ec_Table ctx)))
               else if isJSONSyntaxError (Some e) then Some (InvalidBody (Some e))
               else (case asOpNotSupported e of
                       Some (op, protocol) \<Rightarrow> Some (DriverOperationNotSupported op protocol)
                     | None \<Rightarrow>
                         if Contains (errMsg e) ''not supported''
                         then Some (UnsupportedOperation (errMsg e))
                         else Some (mkAPIError ''PGRST000'' (errMsg e) None None 400))))"

lemmas api_error_defs = mkAPIError_def TableNotFound_def RPCNotFound_def InvalidBody_def
  UnsupportedMethod_def InvalidRPCMethod_def AuthError_def InvalidPath_def SingleNotFound_def
  MultipleRows_def EmbedNotSupported_def UnsupportedOperation_def
  DriverOperationNotSupported_def InternalError_def

section \<open>Lemmas\<close>

text \<open>Every status the constructors produce is an HTTP error status.\<close>

definition errorStatus :: "APIError \<Rightarrow> bool" where
  "errorStatus a \<longleftrightarrow> 400 \<le> ae_Status a \<and> ae_Status a < 600"

lemma constructors_errorStatus:
  "errorStatus (TableNotFound s t)" "errorStatus (RPCNotFound s t)" "errorStatus (InvalidBody eo)"
  "errorStatus (UnsupportedMethod m)" "errorStatus InvalidRPCMethod" "errorStatus (AuthError m)"
  "errorStatus InvalidPath" "errorStatus SingleNotFound" "errorStatus MultipleRows"
  "errorStatus EmbedNotSupported" "errorStatus (UnsupportedOperation m)"
  "errorStatus (DriverOperationNotSupported op p)" "errorStatus (InternalError eo)"
  by (simp_all add: errorStatus_def api_error_defs Let_def)

lemma asAPIError_None_Op: "asOpNotSupported e = Some x \<Longrightarrow> asAPIError e = None"
  by (induction e) auto

lemma WrapNotSupported_None_iff: "WrapNotSupported op p eo = None \<longleftrightarrow> eo = None"
  by (auto simp: WrapNotSupported_def split: option.splits)

lemma asAPIError_None_NotFound: "errIs e ErrNotFound \<Longrightarrow> asAPIError e = None"
  by (induction e) auto

section \<open>Properties\<close>

text \<open>\<open>MapError\<close> turns every error into a client error: an API error found by unwrapping is
  passed on as it is; any other error gives a status 400, 404 or 405, never a server error; 404 is
  exactly the answer for a wrapped not-found error, and 405 only for an unsupported write.\<close>

theorem MapError_status:
  "case MapError (Some e) ctx of
     None \<Rightarrow> False
   | Some a \<Rightarrow>
       (case asAPIError e of
          Some a' \<Rightarrow> a = a'
        | None \<Rightarrow>
            ae_Status a \<in> {400, 404, 405} \<and> (ae_Status a = 404 \<longleftrightarrow> errIs e ErrNotFound) \<and>
            (ae_Status a = 405 \<longleftrightarrow> \<not> errIs e ErrNotFound \<and> \<not> isJSONSyntaxError (Some e) \<and>
               (\<exists>op p. asOpNotSupported e = Some (op, p) \<and> op \<in> {''insert'', ''update'', ''delete'', ''upsert''})))"
  by (auto simp: MapError_def api_error_defs Let_def split: option.split)
end
