(* ===== verification/Values.thy ===== *)
theory Values
  imports Errors
begin

text \<open>
  Dynamic values. A Go value of type \<open>any\<close> that came from JSON, CSV, YAML or a database
  is a \<open>val\<close>; a row \<open>map[string]any\<close> is an association list. A number decoded by
  \<open>encoding/json\<close> into \<open>any\<close> (a float64) is \<open>VNum t\<close>, where \<open>t\<close> is the text the verb
  \<open>%v\<close> prints for it; an \<open>int\<close> or \<open>int64\<close> is \<open>VInt\<close>. A \<open>json.RawMessage\<close> is
  represented by the outcome of parsing it (\<open>raw\<close>), and decoding it into a Go struct
  by the entries the decoder visits and the kinds of the struct's fields.
\<close>

section \<open>Values and fmt.Sprint\<close>

datatype val =
    VNil
  | VBool bool
  | VInt int
  | VNum string
  | VStr string
  | VArr "val list"
  | VObj "(string \<times> val) list"

type_synonym row = "(string \<times> val) list"

text \<open>\<open>fmt.Sprint\<close> of one operand; maps are printed in the order of their keys.\<close>

fun Sprint :: "val \<Rightarrow> string" where
  "Sprint VNil = ''<nil>''"
| "Sprint (VBool b) = (if b then ''true'' else ''false'')"
| "Sprint (VInt i) = decInt i"
| "Sprint (VNum t) = t"
| "Sprint (VStr s) = s"
| "Sprint (VArr vs) = ''['' @ Join (map Sprint vs) '' '' @ '']''"
| "Sprint (VObj kvs) =
     ''map['' @ Join (map (\<lambda>kv. fst kv @ '':'' @ snd kv)
       (sort_key fst (map (\<lambda>kv. (fst kv, Sprint (snd kv))) kvs))) '' '' @ '']''"

text \<open>Reading a missing key of a \<open>map[string]any\<close> gives nil.\<close>

definition getAny :: "row \<Rightarrow> string \<Rightarrow> val" where
  "getAny m k = (case map_of m k of Some v \<Rightarrow> v | None \<Rightarrow> VNil)"

section \<open>Building maps\<close>

text \<open>
  The loop \<open>for k, v := range m { out[f(k)] = v }\<close> and its variants: the writes are done
  in the order the loop visits the entries, so a later entry wins.
\<close>

fun buildMap :: "('k \<times> 'v) list \<Rightarrow> ('k \<times> 'v) list \<Rightarrow> ('k \<times> 'v) list" where
  "buildMap acc [] = acc"
| "buildMap acc ((k, v) # kvs) = buildMap (AList.update k v acc) kvs"

lemma distinct_buildMap: "distinct (map fst acc) \<Longrightarrow> distinct (map fst (buildMap acc kvs))"
  by (induction acc kvs rule: buildMap.induct) (auto intro: distinct_update)

lemma map_of_buildMap: "map_of (buildMap acc kvs) k = (map_of acc ++ map_of (rev kvs)) k"
  by (induction acc kvs rule: buildMap.induct) (auto simp: update_conv' map_add_def split: option.splits)

lemma map_of_buildMap_Nil: "map_of (buildMap [] kvs) k = map_of (rev kvs) k"
  by (simp add: map_of_buildMap map_add_def split: option.splits)

text \<open>Distinct keys: the order of the writes does not matter and no entry is lost.\<close>

lemma map_of_rev_distinct: "distinct (map fst kvs) \<Longrightarrow> map_of (rev kvs) = map_of kvs"
  by (subst map_of_inject_set) (simp_all flip: rev_map)

lemma map_of_buildMap_distinct: "distinct (map fst kvs) \<Longrightarrow> map_of (buildMap [] kvs) k = map_of kvs k"
  by (simp add: map_of_buildMap_Nil map_of_rev_distinct)

lemma keys_buildMap: "fst ` set (buildMap acc kvs) = fst ` set acc \<union> fst ` set kvs"
  by (induction acc kvs rule: buildMap.induct) (auto simp: keys_update)

lemma update_new: "k \<notin> fst ` set q \<Longrightarrow> AList.update k v q = q @ [(k, v)]"
  by (induction q) auto

lemma buildMap_distinct_id:
  "distinct (map fst acc @ map fst kvs) \<Longrightarrow> buildMap acc kvs = acc @ kvs"
  by (induction acc kvs rule: buildMap.induct) (auto simp: update_new)

section \<open>Raw JSON messages and struct decoding\<close>

datatype raw =
    RawEmpty
  | RawBad string
  | RawJSON val

datatype fkind =
    FStr
  | FInt
  | FBool
  | FAny
  | FStrList
  | FStrMap
  | FAnyMap
  | FStruct "(string \<times> fkind) list"

text \<open>\<open>kindOk k v\<close>: the decoder stores the JSON value \<open>v\<close> in a field of kind \<open>k\<close> without a type error.\<close>

definition baseKindOk :: "fkind \<Rightarrow> val \<Rightarrow> bool" where
  "baseKindOk k v \<longleftrightarrow>
     (case v of
        VNil \<Rightarrow> True
      | VStr s \<Rightarrow> k = FStr \<or> k = FAny
      | VInt i \<Rightarrow> k = FInt \<or> k = FAny
      | VNum t \<Rightarrow> k = FAny \<or> k = FInt \<and> Atoi t \<noteq> None
      | VBool b \<Rightarrow> k = FBool \<or> k = FAny
      | VArr vs \<Rightarrow> k = FAny \<or>
          k = FStrList \<and> list_all (\<lambda>v. case v of VNil \<Rightarrow> True | VStr s \<Rightarrow> True | _ \<Rightarrow> False) vs
      | VObj kvs \<Rightarrow> k = FAny \<or> k = FAnyMap \<or>
          k = FStrMap \<and>
            list_all (\<lambda>kv. case snd kv of VNil \<Rightarrow> True | VStr s \<Rightarrow> True | _ \<Rightarrow> False) kvs)"

fun kindOk :: "fkind \<Rightarrow> val \<Rightarrow> bool" where
  "kindOk (FStruct fs) v =
     (case v of
        VNil \<Rightarrow> True
      | VObj kvs \<Rightarrow>
          list_all (\<lambda>kv. list_all (\<lambda>f. EqualFold (fst f) (fst kv) \<longrightarrow> kindOk (snd f) (snd kv)) fs) kvs
      | _ \<Rightarrow> False)"
| "kindOk k v = baseKindOk k v"

text \<open>
  The entries of the object that decoding into a struct visits, and whether decoding
  fails. \<open>encoding/json\<close> matches keys to fields without regard to case, leaves a field
  alone on \<open>null\<close>, checks the syntax before it stores anything, and reports a type
  error after it has stored the well-typed fields.
\<close>

definition rawEntries :: "raw \<Rightarrow> row" where
  "rawEntries r = (case r of RawJSON (VObj kvs) \<Rightarrow> kvs | _ \<Rightarrow> [])"

definition unmarshalErr :: "fkind \<Rightarrow> raw \<Rightarrow> err option" where
  "unmarshalErr k r =
     (case r of
        RawEmpty \<Rightarrow> Some (ErrJSONSyntax ''unexpected end of JSON input'')
      | RawBad m \<Rightarrow> Some (ErrJSONSyntax m)
      | RawJSON v \<Rightarrow> if kindOk k v then None
                     else Some (ErrJSONType ''json: cannot unmarshal value into Go value''))"

text \<open>\<open>ParseServerOptions\<close>: empty and \<open>null\<close> options are the zero struct.\<close>

definition ParseServerOptions :: "(string \<times> fkind) list \<Rightarrow> raw \<Rightarrow> row \<times> err option" where
  "ParseServerOptions fs r =
     (if r = RawEmpty \<or> r = RawJSON VNil then ([], None)
      else (rawEntries r, unmarshalErr (FStruct fs) r))"

text \<open>The value a field holds after decoding: the last entry of its name that was stored.\<close>

definition storedField :: "fkind \<Rightarrow> row \<Rightarrow> string \<Rightarrow> val option" where
  "storedField k kvs name =
     map_option snd (find (\<lambda>kv. EqualFold name (fst kv) \<and> snd kv \<noteq> VNil \<and> kindOk k (snd kv)) (rev kvs))"

definition strField :: "row \<Rightarrow> string \<Rightarrow> string" where
  "strField kvs name = (case storedField FStr kvs name of Some (VStr s) \<Rightarrow> s | _ \<Rightarrow> [])"

text \<open>A \<open>map[string]string\<close> field: the entries in order, null as the empty string.\<close>

definition strMapField :: "row \<Rightarrow> string \<Rightarrow> (string \<times> string) list" where
  "strMapField kvs name =
     (case storedField FStrMap kvs name of
        Some (VObj m) \<Rightarrow> buildMap [] (map (\<lambda>kv. (fst kv, case snd kv of VStr s \<Rightarrow> s | _ \<Rightarrow> [])) m)
      | _ \<Rightarrow> [])"

text \<open>Decoding into \<open>map[string]any\<close> and into \<open>[]map[string]any\<close>; a later duplicate key wins.\<close>

definition valRow :: "val \<Rightarrow> row" where
  "valRow v = (case v of VObj kvs \<Rightarrow> buildMap [] kvs | _ \<Rightarrow> [])"

definition unmarshalRow :: "raw \<Rightarrow> err + row" where
  "unmarshalRow r =
     (case unmarshalErr FAnyMap r of
        Some e \<Rightarrow> Inl e
      | None \<Rightarrow> Inr (case r of RawJSON v \<Rightarrow> valRow v | _ \<Rightarrow> []))"

definition unmarshalRows :: "raw \<Rightarrow> err + row list" where
  "unmarshalRows r =
     (case r of
        RawJSON (VArr vs) \<Rightarrow>
          if list_all (kindOk FAnyMap) vs then Inr (map valRow vs)
          else Inl (ErrJSONType ''json: cannot unmarshal value into Go value'')
      | RawJSON VNil \<Rightarrow> Inr []
      | RawJSON _ \<Rightarrow> Inl (ErrJSONType ''json: cannot unmarshal value into Go value'')
      | RawBad m \<Rightarrow> Inl (ErrJSONSyntax m)
      | RawEmpty \<Rightarrow> Inl (ErrJSONSyntax ''unexpected end of JSON input''))"

lemma ParseServerOptions_empty [simp]:
  "ParseServerOptions fs RawEmpty = ([], None)" "ParseServerOptions fs (RawJSON VNil) = ([], None)"
  by (simp_all add: ParseServerOptions_def)

lemma strField_Nil [simp]: "strField [] name = []"
  by (simp add: strField_def storedField_def)

lemma strMapField_Nil [simp]: "strMapField [] name = []"
  by (simp add: strMapField_def storedField_def)
end
