(* ===== verification/HttpLib.thy ===== *)
theory HttpLib
  imports Values
begin

text \<open>
  What the program uses of \<open>net/http\<close> and \<open>net/url\<close>: headers, query values, requests,
  the response writer and outgoing calls. A header or a \<open>url.Values\<close> is an association
  list from names to value lists. The response writer keeps what Go's does: headers set
  after \<open>WriteHeader\<close> are not sent.
\<close>

type_synonym Header = "(string \<times> string list) list"
type_synonym Values = "(string \<times> string list) list"

definition headerGet :: "Header \<Rightarrow> string \<Rightarrow> string" where
  "headerGet h k =
     (case find (\<lambda>kv. EqualFold (fst kv) k) h of
        Some (_, v # _) \<Rightarrow> v
      | _ \<Rightarrow> [])"

text \<open>\<open>Header.Set\<close>: header names are equal up to case (they are stored canonically).\<close>

fun headerSet :: "string \<Rightarrow> string \<Rightarrow> Header \<Rightarrow> Header" where
  "headerSet k v [] = [(k, [v])]"
| "headerSet k v ((k', vs) # h) =
     (if EqualFold k' k then (k', [v]) # h else (k', vs) # headerSet k v h)"

definition valuesGet :: "Values \<Rightarrow> string \<Rightarrow> string" where
  "valuesGet q k = (case map_of q k of Some (v # _) \<Rightarrow> v | _ \<Rightarrow> [])"

definition valuesSet :: "string \<Rightarrow> string \<Rightarrow> Values \<Rightarrow> Values" where
  "valuesSet k v q = AList.update k [v] q"

definition valuesAdd :: "string \<Rightarrow> string \<Rightarrow> Values \<Rightarrow> Values" where
  "valuesAdd k v q =
     AList.update k ((case map_of q k of Some vs \<Rightarrow> vs | None \<Rightarrow> []) @ [v]) q"

definition hexUpper :: "nat \<Rightarrow> char" where
  "hexUpper d = (if d < 10 then char_of (48 + d) else char_of (55 + d))"

definition queryEscapeChar :: "char \<Rightarrow> string" where
  "queryEscapeChar c =
     (if isDigit c \<or> (CHR ''a'' \<le> c \<and> c \<le> CHR ''z'') \<or> (CHR ''A'' \<le> c \<and> c \<le> CHR ''Z'')
         \<or> c \<in> {CHR ''-'', CHR ''_'', CHR ''.'', CHR ''~''} then [c]
      else if c = CHR '' '' then ''+''
      else [CHR ''%'', hexUpper (of_char c div 16), hexUpper (of_char c mod 16)])"

definition queryEscape :: "string \<Rightarrow> string" where
  "queryEscape s = concat (map queryEscapeChar s)"

text \<open>\<open>Values.Encode\<close>: sorted by key, each value as \<open>key=value\<close>, joined by \<open>&\<close>.\<close>

definition valuesEncode :: "Values \<Rightarrow> string" where
  "valuesEncode q =
     Join (concat (map (\<lambda>kv. map (\<lambda>v. queryEscape (fst kv) @ ''='' @ queryEscape v) (snd kv))
       (sort_key fst q))) ''&''"

section \<open>Incoming requests and the response writer\<close>

text \<open>
  A request body is its text, the outcome of parsing the whole text as JSON (\<open>json.Unmarshal\<close>) and
  the outcome of parsing its first value (\<open>json.Decoder.Decode\<close>, which ignores what follows). \<open>r_BodyErr\<close> is the error of
  reading the body to its end, if that fails.
\<close>

record Request =
  r_Method :: string
  r_Path :: string
  r_Query :: Values
  r_Header :: Header
  r_Host :: string
  r_ContentLength :: int
  r_BodyText :: string
  r_Body :: raw
  r_BodyFirst :: raw
  r_BodyErr :: "err option"

text \<open>
  A response body is the JSON value written, plain text, or nothing. \<open>w_Header\<close> is the
  header map the handler edits, \<open>w_Sent\<close> the status and the headers as they were when
  the status line was written.
\<close>

datatype body = NoBody | JSONBody val | TextBody string

record ResponseWriter =
  w_Header :: Header
  w_Sent :: "(nat \<times> Header) option"
  w_Body :: body

definition newWriter :: ResponseWriter where
  "newWriter = \<lparr>w_Header = [], w_Sent = None, w_Body = NoBody\<rparr>"

definition setHeader :: "string \<Rightarrow> string \<Rightarrow> ResponseWriter \<Rightarrow> ResponseWriter" where
  "setHeader k v w = w\<lparr>w_Header := headerSet k v (w_Header w)\<rparr>"

text \<open>Only the first \<open>WriteHeader\<close> of a response counts.\<close>

definition WriteHeader :: "nat \<Rightarrow> ResponseWriter \<Rightarrow> ResponseWriter" where
  "WriteHeader status w =
     (case w_Sent w of
        None \<Rightarrow> w\<lparr>w_Sent := Some (status, w_Header w)\<rparr>
      | Some _ \<Rightarrow> w)"

text \<open>Writing a body sends status 200 first when no status was written.\<close>

definition writeBody :: "body \<Rightarrow> ResponseWriter \<Rightarrow> ResponseWriter" where
  "writeBody b w = (WriteHeader 200 w)\<lparr>w_Body := b\<rparr>"

text \<open>\<open>WriteJSON\<close> and \<open>WriteJSONContentType\<close> of internal/httpx/json.go.\<close>

definition WriteJSONContentType :: "nat \<Rightarrow> string \<Rightarrow> val \<Rightarrow> ResponseWriter \<Rightarrow> ResponseWriter" where
  "WriteJSONContentType status contentType v w =
     writeBody (JSONBody v) (WriteHeader status (setHeader ''Content-Type'' contentType w))"

definition WriteJSON :: "nat \<Rightarrow> val \<Rightarrow> ResponseWriter \<Rightarrow> ResponseWriter" where
  "WriteJSON status v w = WriteJSONContentType status ''application/json'' v w"

definition sentStatus :: "ResponseWriter \<Rightarrow> nat option" where
  "sentStatus w = map_option fst (w_Sent w)"

definition sentHeader :: "ResponseWriter \<Rightarrow> string \<Rightarrow> string" where
  "sentHeader w k = (case w_Sent w of Some (_, h) \<Rightarrow> headerGet h k | None \<Rightarrow> [])"

section \<open>Outgoing calls\<close>

text \<open>The body of an outgoing request is a text (a form) or a JSON value; an answer carries its status line,
  its body and the outcome of parsing the body as JSON.\<close>

record HTTPRequest =
  hq_Method :: string
  hq_URL :: string
  hq_Header :: Header
  hq_Text :: string
  hq_Body :: raw

record HTTPResponse =
  hr_Status :: nat
  hr_Text :: string
  hr_Body :: string
  hr_JSON :: raw

section \<open>Lemmas\<close>

lemma headerGet_headerSet: "headerGet (headerSet k v h) k = v"
  by (induction k v h rule: headerSet.induct) (auto simp: headerGet_def EqualFold_def)

lemma headerGet_headerSet_other:
  "\<not> EqualFold k k' \<Longrightarrow> headerGet (headerSet k v h) k' = headerGet h k'"
  by (induction k v h rule: headerSet.induct) (auto simp: headerGet_def EqualFold_def)

lemma valuesGet_valuesSet: "valuesGet (valuesSet k v q) k' = (if k' = k then v else valuesGet q k')"
  by (simp add: valuesGet_def valuesSet_def update_conv')

lemma sentStatus_new [simp]: "sentStatus newWriter = None"
  by (simp add: sentStatus_def newWriter_def)

lemma WriteHeader_first: "w_Sent w = None \<Longrightarrow> w_Sent (WriteHeader s w) = Some (s, w_Header w)"
  by (simp add: WriteHeader_def)

lemma WriteHeader_keeps: "w_Sent w = Some x \<Longrightarrow> WriteHeader s w = w"
  by (simp add: WriteHeader_def)

lemma WriteJSON_sent:
  "w_Sent w = None \<Longrightarrow> sentStatus (WriteJSON s v w) = Some s"
  "w_Sent w = None \<Longrightarrow> sentHeader (WriteJSON s v w) ''Content-Type'' = ''application/json''"
  "w_Body (WriteJSON s v w) = JSONBody v"
  by (simp_all add: WriteJSON_def WriteJSONContentType_def writeBody_def WriteHeader_def setHeader_def
      sentStatus_def sentHeader_def headerGet_headerSet split: option.splits)

lemmas writer_defs = WriteJSON_def WriteJSONContentType_def writeBody_def WriteHeader_def
  setHeader_def sentStatus_def sentHeader_def newWriter_def
end
