(* ===== verification/Models.thy ===== *)
theory Models
  imports Values
begin

text \<open>
  The metadata model of \<open>internal/models\<close>: servers, foreign tables, columns, functions
  and the request bodies of the admin API. A UUID is a natural number with 0 for
  \<open>uuid.Nil\<close>; a time is a number of nanoseconds. Optional (pointer) fields are options,
  a slice that may be nil is an option of a list where the code tells nil and empty
  apart.
\<close>

type_synonym uuid = nat
type_synonym time = int
type_synonym Protocol = string

definition uuidNil :: uuid where "uuidNil = 0"

abbreviation (input) ProtocolHTTP :: Protocol where "ProtocolHTTP \<equiv> ''http''"
abbreviation (input) ProtocolPostgres :: Protocol where "ProtocolPostgres \<equiv> ''postgres''"
abbreviation (input) ProtocolMySQL :: Protocol where "ProtocolMySQL \<equiv> ''mysql''"
abbreviation (input) ProtocolSQLite :: Protocol where "ProtocolSQLite \<equiv> ''sqlite''"
abbreviation (input) ProtocolFile :: Protocol where "ProtocolFile \<equiv> ''file''"
abbreviation (input) ProtocolMongo :: Protocol where "ProtocolMongo \<equiv> ''mongo''"
abbreviation (input) ProtocolS3 :: Protocol where "ProtocolS3 \<equiv> ''s3''"
abbreviation (input) ProtocolFirebase :: Protocol where "ProtocolFirebase \<equiv> ''firebase''"
abbreviation (input) ProtocolNotion :: Protocol where "ProtocolNotion \<equiv> ''notion''"
abbreviation (input) ProtocolRedis :: Protocol where "ProtocolRedis \<equiv> ''redis''"
abbreviation (input) ProtocolAirtable :: Protocol where "ProtocolAirtable \<equiv> ''airtable''"
abbreviation (input) ProtocolSheets :: Protocol where "ProtocolSheets \<equiv> ''sheets''"

section \<open>Entities\<close>

record Credential =
  cr_ID :: uuid
  cr_Name :: string
  cr_CreatedAt :: time

record Server =
  s_ID :: uuid
  s_Name :: string
  s_Protocol :: Protocol
  s_Options :: raw
  s_CredentialRef :: "uuid option"
  s_Enabled :: bool
  s_UpdatedAt :: time

record Table =
  t_ID :: uuid
  t_ServerID :: uuid
  t_SchemaName :: string
  t_TableName :: string
  t_RemoteName :: string
  t_KeyColumns :: "string list"
  t_Options :: raw
  t_ServerName :: string

record Column =
  c_ID :: uuid
  c_TableID :: uuid
  c_Name :: string
  c_DataType :: string
  c_RemoteName :: string
  c_Nullable :: bool
  c_Position :: int

record Function =
  f_ID :: uuid
  f_ServerID :: uuid
  f_SchemaName :: string
  f_Name :: string
  f_Operation :: string
  f_RemotePath :: string
  f_Method :: string
  f_Options :: raw
  f_ServerName :: string

record ResolvedTable =
  rt_Table :: Table
  rt_Server :: Server
  rt_Columns :: "Column list"

record ResolvedFunction =
  rf_Function :: Function
  rf_Server :: Server

section \<open>Admin request bodies\<close>

record CreateServerRequest =
  csr_Name :: string
  csr_Protocol :: Protocol
  csr_Options :: raw
  csr_CredentialRef :: "uuid option"
  csr_Credential :: row
  csr_CredentialName :: string
  csr_Enabled :: "bool option"

record UpdateServerRequest =
  usr_Options :: raw
  usr_CredentialRef :: "uuid option"
  usr_Enabled :: "bool option"

record ColumnInput =
  ci_Name :: string
  ci_DataType :: string
  ci_RemoteName :: string
  ci_Nullable :: "bool option"
  ci_Position :: int

record UpdateTableRequest =
  utr_RemoteName :: "string option"
  utr_KeyColumns :: "string list option"
  utr_Options :: raw

record UpdateColumnRequest =
  ucr_DataType :: "string option"
  ucr_RemoteName :: "string option"
  ucr_Nullable :: "bool option"
  ucr_Position :: "int option"

record UpdateFunctionRequest =
  ufr_Operation :: "string option"
  ufr_RemotePath :: "string option"
  ufr_Method :: "string option"
  ufr_Options :: raw

record CreateTableRequest =
  ctr_ServerName :: string
  ctr_SchemaName :: string
  ctr_TableName :: string
  ctr_RemoteName :: string
  ctr_KeyColumns :: "string list option"
  ctr_Options :: raw
  ctr_Columns :: "ColumnInput list"

record CreateFunctionRequest =
  cfr_ServerName :: string
  cfr_SchemaName :: string
  cfr_Name :: string
  cfr_Operation :: string
  cfr_RemotePath :: string
  cfr_Method :: string
  cfr_Options :: raw

section \<open>Option structs and remote names\<close>

text \<open>The JSON fields of the option structs and their kinds.\<close>

definition HTTPAuthFields :: "(string \<times> fkind) list" where
  "HTTPAuthFields = [(''type'', FStr), (''options'', FAnyMap)]"

definition HTTPServerOptionsFields :: "(string \<times> fkind) list" where
  "HTTPServerOptionsFields =
     [(''endpoint'', FStr), (''basePath'', FStr), (''auth'', FStruct HTTPAuthFields), (''headers'', FStrMap)]"

definition HTTPHeaderFields :: "(string \<times> fkind) list" where
  "HTTPHeaderFields = [(''headers'', FStrMap)]"

definition PostgresServerOptionsFields :: "(string \<times> fkind) list" where
  "PostgresServerOptionsFields = [(''dsn'', FStr), (''schema'', FStr)]"

definition MySQLServerOptionsFields :: "(string \<times> fkind) list" where
  "MySQLServerOptionsFields = [(''dsn'', FStr), (''database'', FStr)]"

definition FileServerOptionsFields :: "(string \<times> fkind) list" where
  "FileServerOptionsFields = [(''rootPath'', FStr)]"

definition FileTableOptionsFields :: "(string \<times> fkind) list" where
  "FileTableOptionsFields = [(''format'', FStr)]"

definition RedisTableOptionsFields :: "(string \<times> fkind) list" where
  "RedisTableOptionsFields = [(''keyPrefix'', FStr), (''type'', FStr)]"

definition S3TableOptionsFields :: "(string \<times> fkind) list" where
  "S3TableOptionsFields = [(''prefix'', FStr), (''format'', FStr)]"

definition MongoTableOptionsFields :: "(string \<times> fkind) list" where
  "MongoTableOptionsFields = [(''collection'', FStr)]"

definition RemoteColumnName :: "Column \<Rightarrow> string" where
  "RemoteColumnName col = (if c_RemoteName col \<noteq> [] then c_RemoteName col else c_Name col)"

definition RemoteTableName :: "Table \<Rightarrow> string" where
  "RemoteTableName t = (if t_RemoteName t \<noteq> [] then t_RemoteName t else t_TableName t)"
end
