(* ===== verification/HttpAuth.thy ===== *)
theory HttpAuth
  imports HttpLib Models
begin

text \<open>
  The authentication package (\<open>internal/auth\<close>): the credential vault (credential.go), the overlay of
  credentials on options, the authentication of outgoing requests (httpauth.go), and the validation of
  keys and tokens of incoming requests (gateway.go, admin.go). The AEAD cipher, JSON texts, the HTTP
  client and the JWT parser are parameters.
\<close>

section \<open>The vault (credential.go)\<close>

record aead =
  ad_nonceSize :: nat
  ad_seal :: "string \<Rightarrow> string \<Rightarrow> string"
  ad_open :: "string \<Rightarrow> string \<Rightarrow> err + string"

text \<open>
  A vault is a cipher and the JSON encoding of maps; \<open>None\<close> is the nil vault. The nonce read from the
  random source is an argument, or an error when the source fails.
\<close>

record Vault =
  va_aead :: aead
  va_marshal :: "row \<Rightarrow> err + string"
  va_unmarshal :: "string \<Rightarrow> raw"

definition Encrypt :: "Vault option \<Rightarrow> err + string \<Rightarrow> row \<Rightarrow> err + string" where
  "Encrypt vo nonce data =
     (case vo of
        None \<Rightarrow> Inl (Errorf ''vault is nil'')
      | Some v \<Rightarrow>
          bindE (va_marshal v data) (\<lambda>plain.
          bindE nonce (\<lambda>n. Inr (n @ ad_seal (va_aead v) n plain))))"

definition Decrypt :: "Vault option \<Rightarrow> string \<Rightarrow> err + row" where
  "Decrypt vo payload =
     (case vo of
        None \<Rightarrow> Inl (Errorf ''vault is nil'')
      | Some v \<Rightarrow>
          let n = ad_nonceSize (va_aead v)
          in if length payload < n then Inl (Errorf ''invalid credential payload'')
             else (case ad_open (va_aead v) (take n payload) (drop n payload) of
                     Inl e \<Rightarrow> Inl (Wrapf ''decrypt credential: '' e '''')
                   | Inr plain \<Rightarrow> unmarshalRow (va_unmarshal v plain)))"

section \<open>Overlaying credentials\<close>

definition secretKeys :: "string list" where
  "secretKeys =
     [''username'', ''password'', ''apiKey'', ''token'',
      ''clientId'', ''clientSecret'', ''client_id'', ''client_secret'']"

definition findKey :: "string list \<Rightarrow> string \<Rightarrow> bool" where
  "findKey keys target \<longleftrightarrow> target \<in> set keys"

definition usable :: "val \<Rightarrow> bool" where
  "usable v \<longleftrightarrow> v \<noteq> VNil \<and> Sprint v \<noteq> []"

definition overlaySecret :: "row \<Rightarrow> row \<Rightarrow> string \<Rightarrow> row" where
  "overlaySecret cred out k =
     (case map_of cred k of
        Some v \<Rightarrow> if usable v then AList.update k v out else out
      | None \<Rightarrow> out)"

definition overlayOther :: "row \<Rightarrow> string \<times> val \<Rightarrow> row" where
  "overlayOther out kv =
     (if findKey secretKeys (fst kv) \<or> map_of out (fst kv) \<noteq> None then out
      else AList.update (fst kv) (snd kv) out)"

definition MergeCredentialIntoOptions :: "row \<Rightarrow> row \<Rightarrow> row" where
  "MergeCredentialIntoOptions opts cred =
     foldl overlayOther (foldl (overlaySecret cred) opts secretKeys) cred"

section \<open>Outgoing requests (httpauth.go)\<close>

record HTTPAuth =
  ha_Type :: string
  ha_Options :: row

record 'w httpClient =
  hc_check :: "string \<Rightarrow> string \<Rightarrow> err option"
  hc_do :: "HTTPRequest \<Rightarrow> ('w, err, HTTPResponse) comp"
  hc_parseURL :: "string \<Rightarrow> err + string \<times> Values"

text \<open>\<open>base64.StdEncoding\<close>.\<close>

definition b64char :: "nat \<Rightarrow> char" where
  "b64char n =
     (if n < 26 then char_of (65 + n) else if n < 52 then char_of (71 + n)
      else if n < 62 then char_of (n - 4) else if n = 62 then CHR ''+'' else CHR ''/'')"

fun b64 :: "nat list \<Rightarrow> string" where
  "b64 [] = []"
| "b64 [a] = [b64char (a div 4), b64char ((a mod 4) * 16), CHR ''='', CHR ''='']"
| "b64 [a, b] = [b64char (a div 4), b64char ((a mod 4) * 16 + b div 16), b64char ((b mod 16) * 4), CHR ''='']"
| "b64 (a # b # c # r) =
     [b64char (a div 4), b64char ((a mod 4) * 16 + b div 16), b64char ((b mod 16) * 4 + c div 64), b64char (c mod 64)] @ b64 r"

definition base64 :: "string \<Rightarrow> string" where
  "base64 s = b64 (map of_char s)"

definition strOpt :: "row \<Rightarrow> string \<Rightarrow> string" where
  "strOpt opts key = (case map_of opts key of Some v \<Rightarrow> Sprint v | None \<Rightarrow> [])"

definition accessTokenFields :: "(string \<times> fkind) list" where
  "accessTokenFields = [(''access_token'', FStr)]"

definition fetchClientCredentialsToken :: "'w httpClient \<Rightarrow> row \<Rightarrow> ('w, err, string) comp" where
  "fetchClientCredentialsToken client opts =
     (let tokenURL = strOpt opts ''tokenUrl'';
          form = valuesSet ''client_secret'' (strOpt opts ''clientSecret'')
                   (valuesSet ''client_id'' (strOpt opts ''clientId'')
                     (valuesSet ''grant_type'' ''client_credentials'' []));
          scope = strOpt opts ''scope'';
          form = (if scope \<noteq> [] then valuesSet ''scope'' scope form else form)
      in if tokenURL = [] then failC (Errorf ''client_credentials: tokenUrl required'')
         else (case hc_check client ''POST'' tokenURL of
                 Some e \<Rightarrow> failC e
               | None \<Rightarrow>
                   bindC (hc_do client
                       \<lparr>hq_Method = ''POST'', hq_URL = tokenURL,
                        hq_Header = headerSet ''Content-Type'' ''application/x-www-form-urlencoded'' [],
                        hq_Text = valuesEncode form, hq_Body = RawEmpty\<rparr>) (\<lambda>resp.
                     liftC
                       (if hr_Status resp \<ge> 400 then
                          Inl (Errorf (''token endpoint returned '' @ decNat (hr_Status resp) @ '': '' @ hr_Body resp))
                        else (case unmarshalErr (FStruct accessTokenFields) (hr_JSON resp) of
                                Some e \<Rightarrow> Inl e
                              | None \<Rightarrow>
                                  let tok = strField (rawEntries (hr_JSON resp)) ''access_token''
                                  in if tok = [] then Inl (Errorf ''token response missing access_token'')
                                     else Inr tok)))))"

definition ApplyHTTPAuth ::
  "'w httpClient \<Rightarrow> HTTPAuth option \<Rightarrow> Header \<Rightarrow> ('w, err, Header) comp" where
  "ApplyHTTPAuth client auth h =
     (case auth of
        None \<Rightarrow> retC h
      | Some a \<Rightarrow>
          let opts = ha_Options a; t = ha_Type a
          in if t = [] \<or> t = ''NONE'' then retC h
             else if t = ''BASIC'' then
               retC (headerSet ''Authorization''
                 (''Basic '' @ base64 (strOpt opts ''username'' @ '':'' @ strOpt opts ''password'')) h)
             else if t = ''API_KEY'' then
               (let label = strOpt opts ''label''
                in retC (headerSet (if label = [] then ''X-API-Key'' else label) (strOpt opts ''apiKey'') h))
             else if t = ''BEARER_TOKEN'' then
               retC (headerSet ''Authorization'' (''Bearer '' @ strOpt opts ''token'') h)
             else if t = ''CLIENT_CREDENTIALS'' then
               bindC (fetchClientCredentialsToken client opts)
                 (\<lambda>tok. retC (headerSet ''Authorization'' (''Bearer '' @ tok) h))
             else if t = ''UNIVERSAL'' then
               retC (foldl (\<lambda>h (k, v). if k = ''legacyPreset'' then h else headerSet k (Sprint v) h) h opts)
             else failC (Errorf (''unsupported auth type '' @ quoteGo t)))"

section \<open>Incoming requests (gateway.go, admin.go)\<close>

record Gateway =
  gw_AnonKey :: string
  gw_ServiceKey :: string
  gw_JWTSecret :: string
  gw_Enabled :: bool

record GatewayClaims =
  gc_Subject :: string
  gc_Role :: string
  gc_Raw :: row

text \<open>
  The JWT library: \<open>jw_parse secret token\<close> is the message of the error or the claims of a valid
  HS256 token; the expiry and the subject are read from the claims.
\<close>

record jwtLib =
  jw_parse :: "string \<Rightarrow> string \<Rightarrow> string + row"
  jw_exp :: "row \<Rightarrow> int option"
  jw_sub :: "row \<Rightarrow> string option"

definition NewGateway :: "string \<Rightarrow> string \<Rightarrow> string \<Rightarrow> Gateway" where
  "NewGateway anon service secret =
     \<lparr>gw_AnonKey = TrimSpace anon, gw_ServiceKey = TrimSpace service, gw_JWTSecret = TrimSpace secret,
      gw_Enabled = (TrimSpace anon \<noteq> [])\<rparr>"

definition isAPIKey :: "Gateway \<Rightarrow> string \<Rightarrow> bool" where
  "isAPIKey g key =
     (if key = [] then False
      else if gw_AnonKey g \<noteq> [] \<and> key = gw_AnonKey g then True
      else if gw_ServiceKey g \<noteq> [] \<and> key = gw_ServiceKey g then True
      else False)"

definition parseJWT :: "jwtLib \<Rightarrow> int \<Rightarrow> Gateway \<Rightarrow> string \<Rightarrow> err + GatewayClaims" where
  "parseJWT lib now g tokenString =
     (case jw_parse lib (gw_JWTSecret g) tokenString of
        Inl m \<Rightarrow> Inl (Wrapf '''' ErrInvalidJWT ('': '' @ m))
      | Inr claims \<Rightarrow>
          if (case jw_exp lib claims of Some e \<Rightarrow> e < now | None \<Rightarrow> False)
          then Inl (Wrapf '''' ErrInvalidJWT '': token is expired'')
          else Inr \<lparr>gc_Subject = (case jw_sub lib claims of Some s \<Rightarrow> s | None \<Rightarrow> []),
                    gc_Role = (case map_of claims ''role'' of Some (VStr s) \<Rightarrow> s | _ \<Rightarrow> []),
                    gc_Raw = claims\<rparr>)"

definition Validate :: "jwtLib \<Rightarrow> int \<Rightarrow> Gateway \<Rightarrow> string \<Rightarrow> string \<Rightarrow> err + GatewayClaims option" where
  "Validate lib now g apikey bearer =
     (if \<not> gw_Enabled g then Inl ErrAuthDisabled
      else let apikey = TrimSpace apikey; bearer = TrimSpace bearer
           in if apikey = [] then Inl ErrMissingAPIKey
              else if \<not> isAPIKey g apikey then Inl ErrInvalidAPIKey
              else if bearer = [] then Inl ErrMissingBearer
              else if isAPIKey g bearer then Inr None
              else if gw_JWTSecret g = [] then
                Inl (Wrapf '''' ErrInvalidJWT '': configure DATASPAN_JWT_SECRET for user tokens'')
              else (case parseJWT lib now g bearer of Inl e \<Rightarrow> Inl e | Inr c \<Rightarrow> Inr (Some c)))"

definition BearerToken :: "string \<Rightarrow> string" where
  "BearerToken authorization =
     (let a = TrimSpace authorization
      in if HasPrefix a ''Bearer '' then TrimSpace (TrimPrefix a ''Bearer '') else [])"

record Admin =
  am_Key :: string
  am_Enabled :: bool

definition NewAdmin :: "string \<Rightarrow> Admin" where
  "NewAdmin key = \<lparr>am_Key = TrimSpace key, am_Enabled = (TrimSpace key \<noteq> [])\<rparr>"

definition adminValidate :: "Admin \<Rightarrow> string \<Rightarrow> err option" where
  "adminValidate a key =
     (if \<not> am_Enabled a then Some ErrAdminAuthDisabled
      else let key = TrimSpace key
           in if key = [] then Some ErrAdminMissingKey
              else if key \<noteq> am_Key a then Some ErrAdminInvalidKey
              else None)"

definition AdminAPIKeyFromRequest :: "Request \<Rightarrow> string" where
  "AdminAPIKeyFromRequest r =
     (let v = TrimSpace (headerGet (r_Header r) ''X-Api-Key'')
      in if v \<noteq> [] then v else BearerToken (headerGet (r_Header r) ''Authorization''))"

section \<open>Lemmas\<close>

lemma map_of_overlaySecret:
  "map_of (overlaySecret cred out k') k =
     (if k = k' then (case map_of cred k of Some v \<Rightarrow> if usable v then Some v else map_of out k | None \<Rightarrow> map_of out k)
      else map_of out k)"
  by (auto simp: overlaySecret_def update_conv' split: option.split)

lemma map_of_overlaySecrets:
  "map_of (foldl (overlaySecret cred) out ks) k =
     (if k \<in> set ks then (case map_of cred k of Some v \<Rightarrow> if usable v then Some v else map_of out k | None \<Rightarrow> map_of out k)
      else map_of out k)"
  by (induction ks arbitrary: out) (auto simp: map_of_overlaySecret split: option.splits)

lemma map_of_overlayOther:
  "map_of (overlayOther out (k', v)) k =
     (case map_of out k of
        Some x \<Rightarrow> Some x
      | None \<Rightarrow> if k = k' \<and> k' \<notin> set secretKeys then Some v else None)"
  by (auto simp: overlayOther_def findKey_def update_conv' split: option.split)

lemma map_of_overlayOthers:
  "distinct (map fst cred) \<Longrightarrow>
   map_of (foldl overlayOther out cred) k =
     (case map_of out k of Some v \<Rightarrow> Some v
      | None \<Rightarrow> if k \<in> set secretKeys then None else map_of cred k)"
proof (induction cred arbitrary: out)
  case (Cons kv cred)
  obtain k' v where kv: "kv = (k', v)" by (cases kv)
  have no: "map_of cred k' = None" using Cons.prems kv by (simp add: map_of_eq_None_iff)
  have IH: "map_of (foldl overlayOther out' cred) k =
      (case map_of out' k of Some v \<Rightarrow> Some v | None \<Rightarrow> if k \<in> set secretKeys then None else map_of cred k)" for out'
    using Cons.IH Cons.prems by simp
  show ?case
    using no by (auto simp: kv IH map_of_overlayOther split: option.split)
qed (simp split: option.split)

section \<open>Properties\<close>

text \<open>How a credential overlays the options: a secret field (one of the eight listed) of the credential wins
  when it is present, not null and not empty; any other option that is already set stays; and the
  credential's remaining fields are added, but never a secret one that is null or empty.\<close>

theorem MergeCredentialIntoOptions_spec:
  assumes "distinct (map fst cred)"
  shows "map_of (MergeCredentialIntoOptions opts cred) k =
    (if k \<in> set secretKeys \<and> (case map_of cred k of Some v \<Rightarrow> usable v | None \<Rightarrow> False) then map_of cred k
     else (case map_of opts k of
             Some v \<Rightarrow> Some v
           | None \<Rightarrow> if k \<in> set secretKeys then None else map_of cred k))"
  using map_of_overlayOthers [OF assms, of "foldl (overlaySecret cred) opts secretKeys" k]
  by (auto simp: MergeCredentialIntoOptions_def map_of_overlaySecrets split: option.splits)

theorem MergeCredentialIntoOptions_spec_witness:
  "map_of (MergeCredentialIntoOptions [(''token'', VStr ''old''), (''label'', VStr ''X'')]
      [(''token'', VStr ''new''), (''label'', VStr ''Y''), (''password'', VStr '''')]) ''token'' = Some (VStr ''new'')"
  by (subst MergeCredentialIntoOptions_spec) (simp_all add: secretKeys_def usable_def)

text \<open>What the vault encrypts it decrypts to the same credential, provided the cipher opens what it
  sealed under the same nonce, the nonce has the cipher's length, and the JSON text of the data reads back
  as the data.\<close>

theorem Decrypt_Encrypt:
  assumes "va_marshal v data = Inr plain" "va_unmarshal v plain = RawJSON (VObj data)" "distinct (map fst data)"
    and "length n = ad_nonceSize (va_aead v)" "ad_open (va_aead v) n (ad_seal (va_aead v) n plain) = Inr plain"
  shows "bindE (Encrypt (Some v) (Inr n) data) (Decrypt (Some v)) = Inr data"
  using assms by (simp add: Encrypt_def Decrypt_def bindE_def unmarshalRow_def unmarshalErr_def valRow_def
      baseKindOk_def buildMap_distinct_id Let_def)

text \<open>A cipher that reverses the text and appends the nonce, for the example.\<close>

definition exampleVault :: Vault where
  "exampleVault =
     \<lparr>va_aead = \<lparr>ad_nonceSize = 2, ad_seal = (\<lambda>n s. rev s @ n), ad_open = (\<lambda>n s. Inr (rev (take (length s - 2) s)))\<rparr>,
      va_marshal = (\<lambda>d. Inr ''{''), va_unmarshal = (\<lambda>_. RawJSON (VObj [(''dsn'', VStr ''x'')]))\<rparr>"

theorem Decrypt_Encrypt_witness:
  "bindE (Encrypt (Some exampleVault) (Inr ''ab'') [(''dsn'', VStr ''x'')]) (Decrypt (Some exampleVault)) =
     Inr [(''dsn'', VStr ''x'')]"
  by (rule Decrypt_Encrypt) (simp_all add: exampleVault_def)

text \<open>The gateway accepts a request exactly when it is enabled, the \<open>apikey\<close> header (trimmed) is the
  anonymous or the service key, and the bearer token is one of these keys or, if a secret is configured, a
  token the JWT library accepts that has not expired; an unset service key is never matched.\<close>

theorem Validate_accepts_iff:
  "isOk (Validate lib now g apikey bearer) \<longleftrightarrow>
     gw_Enabled g \<and>
     TrimSpace apikey \<noteq> [] \<and> (TrimSpace apikey = gw_AnonKey g \<or> TrimSpace apikey = gw_ServiceKey g) \<and>
     TrimSpace bearer \<noteq> [] \<and>
     (TrimSpace bearer = gw_AnonKey g \<or> TrimSpace bearer = gw_ServiceKey g \<or>
      gw_JWTSecret g \<noteq> [] \<and>
      (case jw_parse lib (gw_JWTSecret g) (TrimSpace bearer) of
         Inl m \<Rightarrow> False
       | Inr claims \<Rightarrow> (case jw_exp lib claims of Some e \<Rightarrow> now \<le> e | None \<Rightarrow> True)))"
  by (auto simp: Validate_def isAPIKey_def parseJWT_def isOk_def Let_def split: sum.splits option.splits if_splits)
end
