(* ===== verification/Snapshot.thy ===== *)
theory Snapshot
  imports HttpAuth
begin

text \<open>
  The in-memory form of the file store (\<open>internal/store/file/data.go\<close>): the records of the snapshot,
  the text form of encrypted payloads, and the conversions between option JSON and YAML nodes. A YAML
  node that holds a decoded JSON value is that value. Identifiers are lists searched by index loops;
  the lemmas on such lists are shared by the operations of the store.
\<close>

section \<open>Records\<close>

record CredentialRecord =
  crr_ID :: uuid
  crr_Name :: string
  crr_Payload :: string
  crr_CreatedAt :: time

record ServerRecord =
  svr_ID :: uuid
  svr_Name :: string
  svr_Protocol :: string
  svr_Options :: val
  svr_CredentialRef :: "uuid option"
  svr_Enabled :: bool
  svr_UpdatedAt :: time

record TableRecord =
  tbr_ID :: uuid
  tbr_ServerID :: uuid
  tbr_SchemaName :: string
  tbr_TableName :: string
  tbr_RemoteName :: string
  tbr_KeyColumns :: "string list"
  tbr_Options :: val

record ColumnRecord =
  clr_ID :: uuid
  clr_TableID :: uuid
  clr_Name :: string
  clr_DataType :: string
  clr_RemoteName :: string
  clr_Nullable :: bool
  clr_Position :: int

record FunctionRecord =
  fnr_ID :: uuid
  fnr_ServerID :: uuid
  fnr_SchemaName :: string
  fnr_Name :: string
  fnr_Operation :: string
  fnr_RemotePath :: string
  fnr_Method :: string
  fnr_Options :: val

record snapshot =
  sn_Credentials :: "CredentialRecord list"
  sn_Servers :: "ServerRecord list"
  sn_Tables :: "TableRecord list"
  sn_Columns :: "ColumnRecord list"
  sn_Functions :: "FunctionRecord list"

definition emptySnapshot :: snapshot where
  "emptySnapshot =
     \<lparr>sn_Credentials = [], sn_Servers = [], sn_Tables = [], sn_Columns = [], sn_Functions = []\<rparr>"

text \<open>\<open>rawToNode\<close>: what is not JSON becomes the empty object. \<open>nodeToRaw\<close> gives the value back. A YAML node holds a JSON value here:
  nodes that are none (NaN, keys that are not strings), for which the source gives the empty object, do not occur. The source
  decodes a number to a \<open>float64\<close> and prints it again, which can change the text of a large or fractional number; the model keeps it.\<close>

definition rawToNode :: "raw \<Rightarrow> val" where
  "rawToNode r = (case r of RawJSON v \<Rightarrow> v | _ \<Rightarrow> VObj [])"

definition nodeToRaw :: "val \<Rightarrow> raw" where
  "nodeToRaw node = RawJSON node"

definition serverModel :: "ServerRecord \<Rightarrow> Server" where
  "serverModel r =
     \<lparr>s_ID = svr_ID r, s_Name = svr_Name r, s_Protocol = svr_Protocol r, s_Options = nodeToRaw (svr_Options r),
      s_CredentialRef = svr_CredentialRef r, s_Enabled = svr_Enabled r, s_UpdatedAt = svr_UpdatedAt r\<rparr>"

text \<open>The server's name is not part of a table or function record; the operations fill it in.\<close>

definition tableModel :: "TableRecord \<Rightarrow> Table" where
  "tableModel r =
     \<lparr>t_ID = tbr_ID r, t_ServerID = tbr_ServerID r, t_SchemaName = tbr_SchemaName r, t_TableName = tbr_TableName r,
      t_RemoteName = tbr_RemoteName r, t_KeyColumns = tbr_KeyColumns r, t_Options = nodeToRaw (tbr_Options r),
      t_ServerName = []\<rparr>"

definition columnModel :: "ColumnRecord \<Rightarrow> Column" where
  "columnModel r =
     \<lparr>c_ID = clr_ID r, c_TableID = clr_TableID r, c_Name = clr_Name r, c_DataType = clr_DataType r,
      c_RemoteName = clr_RemoteName r, c_Nullable = clr_Nullable r, c_Position = clr_Position r\<rparr>"

definition functionModel :: "FunctionRecord \<Rightarrow> Function" where
  "functionModel r =
     \<lparr>f_ID = fnr_ID r, f_ServerID = fnr_ServerID r, f_SchemaName = fnr_SchemaName r, f_Name = fnr_Name r,
      f_Operation = fnr_Operation r, f_RemotePath = fnr_RemotePath r, f_Method = fnr_Method r,
      f_Options = nodeToRaw (fnr_Options r), f_ServerName = []\<rparr>"

section \<open>Payloads\<close>

definition b64val :: "char \<Rightarrow> nat option" where
  "b64val c =
     (let n = of_char c :: nat
      in if 65 \<le> n \<and> n \<le> 90 then Some (n - 65)
         else if 97 \<le> n \<and> n \<le> 122 then Some (n - 71)
         else if 48 \<le> n \<and> n \<le> 57 then Some (n + 4)
         else if n = 43 then Some 62 else if n = 47 then Some 63 else None)"

text \<open>\<open>base64.StdEncoding.DecodeString\<close>: line breaks are skipped, the padding is required.\<close>

fun b64dec :: "string \<Rightarrow> nat list option" where
  "b64dec [] = Some []"
| "b64dec (a # b # c # d # r) =
     (if r = [] \<and> d = CHR ''='' then
        (if c = CHR ''='' then
           (case (b64val a, b64val b) of
              (Some x, Some y) \<Rightarrow> Some [x * 4 + y div 16]
            | _ \<Rightarrow> None)
         else (case (b64val a, b64val b, b64val c) of
                 (Some x, Some y, Some z) \<Rightarrow> Some [x * 4 + y div 16, (y mod 16) * 16 + z div 4]
               | _ \<Rightarrow> None))
      else (case (b64val a, b64val b, b64val c, b64val d, b64dec r) of
              (Some x, Some y, Some z, Some t, Some ns) \<Rightarrow>
                Some ([x * 4 + y div 16, (y mod 16) * 16 + z div 4, (z mod 4) * 64 + t] @ ns)
            | _ \<Rightarrow> None))"
| "b64dec _ = None"

definition encodePayload :: "string \<Rightarrow> string" where
  "encodePayload payload = base64 payload"

definition decodePayload :: "string \<Rightarrow> err + string" where
  "decodePayload s =
     (case b64dec (filter (\<lambda>c. c \<noteq> CHR 0x0A \<and> c \<noteq> CHR 0x0D) s) of
        None \<Rightarrow> Inl (Errorf ''illegal base64 data'')
      | Some ns \<Rightarrow> Inr (map char_of ns))"

section \<open>Index loops\<close>

text \<open>The first index with a property (\<open>idx < 0\<close> in the code is \<open>None\<close>), and removal at an index.\<close>

fun indexOf :: "('a \<Rightarrow> bool) \<Rightarrow> 'a list \<Rightarrow> nat option" where
  "indexOf p [] = None"
| "indexOf p (x # xs) = (if p x then Some 0 else map_option Suc (indexOf p xs))"

definition removeAt :: "nat \<Rightarrow> 'a list \<Rightarrow> 'a list" where
  "removeAt i xs = take i xs @ drop (Suc i) xs"

section \<open>Lemmas\<close>

lemma indexOf_Some: "indexOf p xs = Some i \<Longrightarrow> i < length xs \<and> p (xs ! i) \<and> find p xs = Some (xs ! i)"
  by (induction p xs arbitrary: i rule: indexOf.induct) (auto split: if_splits)

lemma indexOf_None: "indexOf p xs = None \<longleftrightarrow> (\<forall>x\<in>set xs. \<not> p x)"
  by (induction p xs rule: indexOf.induct) auto

lemma set_removeAt: "set (removeAt i xs) \<subseteq> set xs"
  by (auto simp: removeAt_def dest: in_set_takeD in_set_dropD)

lemma distinct_removeAt: "distinct (map f xs) \<Longrightarrow> distinct (map f (removeAt i xs))"
proof -
  assume d: "distinct (map f xs)"
  have "map f xs = map f (take i xs) @ map f (drop i xs)" by (simp flip: map_append)
  with d have *: "distinct (map f (take i xs) @ map f (drop i xs))" by simp
  have "set (drop (Suc i) xs) \<subseteq> set (drop i xs)" by (simp add: set_drop_subset_set_drop)
  moreover have "distinct (map f (drop (Suc i) xs))" using d by (metis distinct_drop drop_map)
  ultimately show ?thesis using * by (auto simp: removeAt_def)
qed

text \<open>Removing at the index of a key removes exactly the records of that key, when keys are distinct.\<close>

lemma removeAt_indexOf:
  "distinct (map f xs) \<Longrightarrow> indexOf (\<lambda>x. f x = k) xs = Some i \<Longrightarrow> removeAt i xs = filter (\<lambda>x. f x \<noteq> k) xs"
proof (induction xs arbitrary: i)
  case (Cons x xs)
  show ?case
  proof (cases "f x = k")
    case True
    then have "f y \<noteq> k" if "y \<in> set xs" for y using Cons.prems(1) that by (metis distinct.simps(2) image_eqI list.map(2) set_map)
    then have "filter (\<lambda>x. f x \<noteq> k) xs = xs" by (intro filter_True) auto
    then show ?thesis using Cons.prems True by (simp add: removeAt_def)
  next
    case False
    then obtain j where "indexOf (\<lambda>x. f x = k) xs = Some j" "i = Suc j" using Cons.prems by auto
    then show ?thesis using Cons.IH [of j] Cons.prems False by (simp add: removeAt_def)
  qed
qed simp

lemma find_unique:
  "distinct (map f xs) \<Longrightarrow> x \<in> set xs \<Longrightarrow> find (\<lambda>y. f y = f x) xs = Some x"
proof (induction xs)
  case (Cons a xs)
  then show ?case by (cases "a = x") (auto simp: image_iff)
qed simp

lemma find_append: "find p (xs @ ys) = (case find p xs of Some x \<Rightarrow> Some x | None \<Rightarrow> find p ys)"
  by (induction xs) auto

text \<open>Replacing at an index by a record of the same key keeps the keys.\<close>

lemma map_update_same: "i < length xs \<Longrightarrow> f y = f (xs ! i) \<Longrightarrow> map f (xs[i := y]) = map f xs"
  by (simp add: map_update list_update_same_conv)

lemma of_char_b64char:
  "n < 64 \<Longrightarrow> (of_char (b64char n) :: nat) =
     (if n < 26 then 65 + n else if n < 52 then 71 + n else if n < 62 then n - 4 else if n = 62 then 43 else 47)"
  by (simp add: b64char_def)

lemma b64val_b64char: "n < 64 \<Longrightarrow> b64val (b64char n) = Some n"
  by (auto simp: b64val_def of_char_b64char Let_def)

lemma b64char_not_pad:
  assumes "n < 64"
  shows "b64char n \<noteq> CHR ''='' \<and> b64char n \<noteq> CHR 0x0A \<and> b64char n \<noteq> CHR 0x0D"
proof -
  have "(of_char (b64char n) :: nat) \<notin> {61, 10, 13}"
    using assms by (auto simp: of_char_b64char)
  then show ?thesis by (intro conjI; intro notI) simp_all
qed

lemma b64_not_Nil: "b64 ns = [] \<longleftrightarrow> ns = []"
  by (cases ns rule: b64.cases) auto

lemma b64dec_b64: "list_all (\<lambda>n. n < 256) ns \<Longrightarrow> b64dec (b64 ns) = Some ns"
proof (induction ns rule: b64.induct)
  case (4 a b c r)
  then have lt: "a < 256" "b < 256" "c < 256" by auto
  have "a div 4 < 64" "(a mod 4) * 16 + b div 16 < 64" "(b mod 16) * 4 + c div 64 < 64" "c mod 64 < 64"
    using lt by auto
  then show ?case
    using 4 lt by (auto simp: b64val_b64char b64char_not_pad)
qed (auto simp: b64val_b64char b64char_not_pad)

lemma b64_no_breaks: "list_all (\<lambda>n. n < 256) ns \<Longrightarrow> filter (\<lambda>c. c \<noteq> CHR 0x0A \<and> c \<noteq> CHR 0x0D) (b64 ns) = b64 ns"
proof (induction ns rule: b64.induct)
  case (4 a b c r)
  then have lt: "a < 256" "b < 256" "c < 256" by auto
  have "a div 4 < 64" "(a mod 4) * 16 + b div 16 < 64" "(b mod 16) * 4 + c div 64 < 64" "c mod 64 < 64"
    using lt by auto
  then show ?case using 4 by (simp add: b64char_not_pad)
qed (auto simp: b64char_not_pad)

lemma decodePayload_encodePayload [simp]: "decodePayload (encodePayload p) = Inr p"
proof -
  have "list_all (\<lambda>n. n < 256) (map of_char p :: nat list)"
    by (simp add: list_all_iff)
  then show ?thesis
    by (simp add: decodePayload_def encodePayload_def base64_def b64_no_breaks b64dec_b64 map_idI)
qed

lemma rawToNode_nodeToRaw [simp]: "rawToNode (nodeToRaw v) = v"
  by (simp add: rawToNode_def nodeToRaw_def)

section \<open>Invariants\<close>

text \<open>
  Identifiers are unique and were all given out; every table and function belongs to a server of the
  store, and every column to a table.
\<close>

definition idsOk :: "('r \<Rightarrow> uuid) \<Rightarrow> uuid \<Rightarrow> 'r list \<Rightarrow> bool" where
  "idsOk key n xs \<longleftrightarrow> distinct (map key xs) \<and> (\<forall>x\<in>set xs. key x \<le> n)"

definition storeRefs :: "snapshot \<Rightarrow> uuid \<Rightarrow> bool" where
  "storeRefs d n \<longleftrightarrow>
     idsOk crr_ID n (sn_Credentials d) \<and> idsOk svr_ID n (sn_Servers d) \<and> idsOk tbr_ID n (sn_Tables d) \<and>
     idsOk clr_ID n (sn_Columns d) \<and> idsOk fnr_ID n (sn_Functions d) \<and>
     tbr_ServerID ` set (sn_Tables d) \<subseteq> svr_ID ` set (sn_Servers d) \<and>
     fnr_ServerID ` set (sn_Functions d) \<subseteq> svr_ID ` set (sn_Servers d) \<and>
     clr_TableID ` set (sn_Columns d) \<subseteq> tbr_ID ` set (sn_Tables d)"

text \<open>No two servers or credentials have one name, no two tables or functions one name in a schema.\<close>

definition storeNames :: "snapshot \<Rightarrow> bool" where
  "storeNames d \<longleftrightarrow>
     distinct (map crr_Name (sn_Credentials d)) \<and> distinct (map svr_Name (sn_Servers d)) \<and>
     distinct (map (\<lambda>t. (tbr_SchemaName t, tbr_TableName t)) (sn_Tables d)) \<and>
     distinct (map (\<lambda>f. (fnr_SchemaName f, fnr_Name f)) (sn_Functions d))"

lemma idsOk_append:
  "idsOk key n xs \<Longrightarrow> n \<le> m \<Longrightarrow> distinct (map key ys) \<Longrightarrow> \<forall>y\<in>set ys. n < key y \<and> key y \<le> m \<Longrightarrow>
   idsOk key m (xs @ ys)"
  by (fastforce simp: idsOk_def)

lemma idsOk_mono: "idsOk key n xs \<Longrightarrow> n \<le> m \<Longrightarrow> idsOk key m xs"
  by (auto simp: idsOk_def)

lemma idsOk_one: "idsOk key n xs \<Longrightarrow> key y = Suc n \<Longrightarrow> idsOk key (Suc n) (xs @ [y])"
  by (rule idsOk_append) auto

lemma idsOk_removeAt: "idsOk key n xs \<Longrightarrow> idsOk key n (removeAt i xs)"
  using set_removeAt [of i xs] by (auto simp: idsOk_def distinct_removeAt)

lemma image_removeAt: "f ` set xs \<subseteq> A \<Longrightarrow> f ` set (removeAt i xs) \<subseteq> A"
  using set_removeAt [of i xs] by blast

lemma idsOk_filter: "idsOk key n xs \<Longrightarrow> idsOk key n (filter p xs)"
  by (auto simp: idsOk_def distinct_map_filter)

lemma idsOk_update: "idsOk key n xs \<Longrightarrow> i < length xs \<Longrightarrow> key y = key (xs ! i) \<Longrightarrow> idsOk key n (xs[i := y])"
  by (auto simp: idsOk_def map_update_same dest!: set_update_subset_insert [THEN subsetD])

lemma image_update_same: "i < length xs \<Longrightarrow> f y = f (xs ! i) \<Longrightarrow> f ` set (xs[i := y]) = f ` set xs"
  by (metis map_update_same set_map)

section \<open>Changes\<close>

text \<open>The changes of the snapshot that the operations make keep the references, and the names when \<open>u\<close> asks for
  them as well.\<close>

definition storeOk :: "bool \<Rightarrow> snapshot \<Rightarrow> uuid \<Rightarrow> bool" where
  "storeOk u d n \<longleftrightarrow> storeRefs d n \<and> (u \<longrightarrow> storeNames d)"

lemmas storeOk_defs = storeOk_def storeRefs_def storeNames_def

lemma storeOk_mono: "storeOk u d n \<Longrightarrow> n \<le> m \<Longrightarrow> storeOk u d m"
  by (auto simp: storeOk_defs intro: idsOk_mono)

lemma storeOk_add_credential:
  "storeOk u d n \<Longrightarrow> (u \<longrightarrow> \<not> list_ex (\<lambda>c. crr_Name c = crr_Name r) (sn_Credentials d)) \<Longrightarrow> crr_ID r = Suc n \<Longrightarrow>
   storeOk u (d\<lparr>sn_Credentials := sn_Credentials d @ [r]\<rparr>) (Suc n)"
  using storeOk_mono [of u d n "Suc n"] by (auto simp: storeOk_defs list_ex_iff idsOk_one)

lemma storeOk_add_server:
  "storeOk u d n \<Longrightarrow> (u \<longrightarrow> \<not> list_ex (\<lambda>c. svr_Name c = svr_Name r) (sn_Servers d)) \<Longrightarrow> svr_ID r = Suc n \<Longrightarrow>
   storeOk u (d\<lparr>sn_Servers := sn_Servers d @ [r]\<rparr>) (Suc n)"
  using storeOk_mono [of u d n "Suc n"] by (auto simp: storeOk_defs list_ex_iff idsOk_one)

lemma storeOk_add_table:
  assumes "storeOk u d n" "u \<longrightarrow> \<not> list_ex (\<lambda>t. tbr_SchemaName t = tbr_SchemaName r \<and> tbr_TableName t = tbr_TableName r) (sn_Tables d)"
    and "tbr_ID r = Suc n" "tbr_ServerID r \<in> svr_ID ` set (sn_Servers d)"
    and "Suc n \<le> m" "distinct (map clr_ID cols)" "\<forall>c\<in>set cols. n < clr_ID c \<and> clr_ID c \<le> m \<and> clr_TableID c = Suc n"
  shows "storeOk u (d\<lparr>sn_Tables := sn_Tables d @ [r], sn_Columns := sn_Columns d @ cols\<rparr>) m"
proof -
  have "idsOk tbr_ID m (sn_Tables d @ [r])" "idsOk clr_ID m (sn_Columns d @ cols)"
    using assms by (auto simp: storeOk_defs intro!: idsOk_append)
  moreover have "storeOk u d m" using assms(1,5) storeOk_mono by (meson Suc_leD)
  ultimately show ?thesis
    using assms by (auto simp: storeOk_defs list_ex_iff image_iff)
qed

lemma storeOk_add_function:
  "storeOk u d n \<Longrightarrow> (u \<longrightarrow> \<not> list_ex (\<lambda>f. fnr_SchemaName f = fnr_SchemaName r \<and> fnr_Name f = fnr_Name r) (sn_Functions d)) \<Longrightarrow>
   fnr_ID r = Suc n \<Longrightarrow> fnr_ServerID r \<in> svr_ID ` set (sn_Servers d) \<Longrightarrow>
   storeOk u (d\<lparr>sn_Functions := sn_Functions d @ [r]\<rparr>) (Suc n)"
  using storeOk_mono [of u d n "Suc n"] by (auto simp: storeOk_defs list_ex_iff idsOk_one)

end
