(* ===== verification/Declarative.thy ===== *)
theory Declarative
  imports Snapshot
begin

text \<open>
  The declarative form of the metadata (drivers.yaml): the document of the importer
  (\<open>internal/importer/types.go\<close>, \<open>merge.go\<close>, \<open>mode.go\<close>) and the one of the file store
  (\<open>internal/store/file/declarative.go\<close>, \<open>bridge.go\<close>), its compilation into a snapshot and back. Both
  documents have the same credentials, tables and functions; they differ in the credential of a server.
  A loop over a Go map visits the keys in the order they were inserted: the entries of a merged document are in that order
  here, and in any order in a run. \<open>uuid.New\<close> is a counter that
  never gives an identifier twice; the random source, the clock and the environment are parameters.
\<close>

section \<open>Documents\<close>

record DeclCredential =
  dc_Name :: string
  dc_Data :: row

record DeclServer =
  ds_Name :: string
  ds_Protocol :: string
  ds_Credential :: row
  ds_Enabled :: "bool option"
  ds_Options :: row

record DeclColumn =
  dcl_Name :: string
  dcl_DataType :: string
  dcl_RemoteName :: string
  dcl_Nullable :: "bool option"
  dcl_Position :: int

record DeclTable =
  dt_Server :: string
  dt_Schema :: string
  dt_Name :: string
  dt_RemoteName :: string
  dt_KeyColumns :: "string list"
  dt_Options :: row
  dt_Columns :: "DeclColumn list"

record DeclFunction =
  df_Server :: string
  df_Schema :: string
  df_Name :: string
  df_Operation :: string
  df_RemotePath :: string
  df_Method :: string
  df_Options :: row

record DeclarativeDoc =
  dd_Credentials :: "DeclCredential list"
  dd_Servers :: "DeclServer list"
  dd_Tables :: "DeclTable list"
  dd_Functions :: "DeclFunction list"

text \<open>The server of the file store's document names a shared credential or holds the secrets itself.\<close>

record declCredentialField =
  cf_Name :: string
  cf_Data :: row

record declServer =
  fs_Name :: string
  fs_Protocol :: string
  fs_Credential :: declCredentialField
  fs_Enabled :: "bool option"
  fs_Options :: row

record declarativeDoc =
  fd_Credentials :: "DeclCredential list"
  fd_Servers :: "declServer list"
  fd_Tables :: "DeclTable list"
  fd_Functions :: "DeclFunction list"

section \<open>Merging (merge.go)\<close>

definition schemaOr :: "string \<Rightarrow> string" where
  "schemaOr s = (if TrimSpace s = [] then ''public'' else TrimSpace s)"

definition nul :: char where "nul = char_of (0 :: nat)"

definition declKey :: "string \<Rightarrow> string \<Rightarrow> string \<Rightarrow> string" where
  "declKey server schema name =
     (if TrimSpace server = [] \<or> TrimSpace name = [] then []
      else schemaOr schema @ [nul] @ TrimSpace name @ [nul] @ TrimSpace server)"

definition tableKey :: "DeclTable \<Rightarrow> string" where
  "tableKey t = declKey (dt_Server t) (dt_Schema t) (dt_Name t)"

definition functionKey :: "DeclFunction \<Rightarrow> string" where
  "functionKey f = declKey (df_Server f) (df_Schema f) (df_Name f)"

text \<open>Entries with an empty key are skipped; a later entry of the same key wins.\<close>

definition mergeBy :: "('a \<Rightarrow> string) \<Rightarrow> 'a list \<Rightarrow> 'a list" where
  "mergeBy key xs =
     map snd (foldl (\<lambda>m x. if key x = [] then m else AList.update (key x) x m) [] xs)"

definition MergeDeclarativeDocs :: "DeclarativeDoc list \<Rightarrow> err + DeclarativeDoc" where
  "MergeDeclarativeDocs docs =
     (if list_ex (\<lambda>s. TrimSpace (ds_Name s) = []) (concat (map dd_Servers docs))
      then Inl (Errorf ''server name is required'')
      else Inr \<lparr>dd_Credentials = mergeBy (\<lambda>c. TrimSpace (dc_Name c)) (concat (map dd_Credentials docs)),
                dd_Servers = mergeBy (\<lambda>s. TrimSpace (ds_Name s)) (concat (map dd_Servers docs)),
                dd_Tables = mergeBy tableKey (concat (map dd_Tables docs)),
                dd_Functions = mergeBy functionKey (concat (map dd_Functions docs))\<rparr>)"

record Result =
  re_Servers :: nat
  re_Tables :: nat
  re_Functions :: nat

definition CountResult :: "DeclarativeDoc \<Rightarrow> Result" where
  "CountResult doc =
     \<lparr>re_Servers = length (dd_Servers doc), re_Tables = length (dd_Tables doc),
      re_Functions = length (dd_Functions doc)\<rparr>"

section \<open>Between the two documents (bridge.go)\<close>

definition declarativeFromImporter :: "DeclarativeDoc \<Rightarrow> declarativeDoc" where
  "declarativeFromImporter doc =
     \<lparr>fd_Credentials = dd_Credentials doc,
      fd_Servers = map (\<lambda>s. \<lparr>fs_Name = ds_Name s, fs_Protocol = ds_Protocol s,
                             fs_Credential = \<lparr>cf_Name = [], cf_Data = ds_Credential s\<rparr>,
                             fs_Enabled = ds_Enabled s, fs_Options = ds_Options s\<rparr>) (dd_Servers doc),
      fd_Tables = dd_Tables doc, fd_Functions = dd_Functions doc\<rparr>"

definition declarativeToImporter :: "declarativeDoc \<Rightarrow> DeclarativeDoc" where
  "declarativeToImporter doc =
     \<lparr>dd_Credentials = fd_Credentials doc,
      dd_Servers = map (\<lambda>s. \<lparr>ds_Name = fs_Name s, ds_Protocol = fs_Protocol s,
                             ds_Credential = cf_Data (fs_Credential s),
                             ds_Enabled = fs_Enabled s, ds_Options = fs_Options s\<rparr>) (fd_Servers doc),
      dd_Tables = fd_Tables doc, dd_Functions = fd_Functions doc\<rparr>"

section \<open>Compilation (declarative.go)\<close>

text \<open>
  What compilation reads of its surroundings: the vault, the nonce read for the credential that gets the
  next identifier, the clock and the process environment.
\<close>

record compileEnv =
  ce_vault :: "Vault option"
  ce_nonce :: "uuid \<Rightarrow> err + string"
  ce_now :: time
  ce_getenv :: "string \<Rightarrow> string"

record compiler =
  cp_out :: snapshot
  cp_creds :: "(string \<times> uuid) list"
  cp_servers :: "(string \<times> uuid) list"
  cp_next :: uuid

fun foldE :: "('a \<Rightarrow> 's \<Rightarrow> err + 's) \<Rightarrow> 'a list \<Rightarrow> 's \<Rightarrow> err + 's" where
  "foldE f [] s = Inr s"
| "foldE f (x # xs) s = (case f x s of Inl e \<Rightarrow> Inl e | Inr s' \<Rightarrow> foldE f xs s')"

text \<open>The error of \<open>json.Marshal\<close> is left out: the values of a document are JSON values, which always marshal.\<close>

definition mapToNode :: "row \<Rightarrow> val" where
  "mapToNode m = rawToNode (RawJSON (VObj m))"

definition expandEnvValue :: "(string \<Rightarrow> string) \<Rightarrow> val \<Rightarrow> val" where
  "expandEnvValue getenv v =
     (case v of
        VStr s \<Rightarrow>
          if HasPrefix s ''${'' \<and> HasSuffix s ''}'' then
            (let ev = getenv (TrimSuffix (TrimPrefix s ''${'') ''}'') in if ev \<noteq> [] then VStr ev else v)
          else v
      | _ \<Rightarrow> v)"

definition expandEnvMap :: "(string \<Rightarrow> string) \<Rightarrow> row \<Rightarrow> row" where
  "expandEnvMap getenv m = map (\<lambda>(k, v). (k, expandEnvValue getenv v)) m"

definition registerCred :: "compileEnv \<Rightarrow> string \<Rightarrow> row \<Rightarrow> compiler \<Rightarrow> err + uuid \<times> compiler" where
  "registerCred env name data c =
     (let name = TrimSpace name
      in if name = [] then Inl (Errorf ''credential name is required'')
         else (case map_of (cp_creds c) name of
                 Some i \<Rightarrow> Inr (i, c)
               | None \<Rightarrow>
                   (case Encrypt (ce_vault env) (ce_nonce env (Suc (cp_next c))) (expandEnvMap (ce_getenv env) data) of
                      Inl e \<Rightarrow> Inl (Wrapf (''credential '' @ quoteGo name @ '': '') e [])
                    | Inr payload \<Rightarrow>
                        let i = Suc (cp_next c);
                            out = cp_out c;
                            r = \<lparr>crr_ID = i, crr_Name = name, crr_Payload = encodePayload payload,
                                 crr_CreatedAt = ce_now env\<rparr>
                        in Inr (i, c\<lparr>cp_creds := AList.update name i (cp_creds c), cp_next := i,
                                     cp_out := out\<lparr>sn_Credentials := sn_Credentials out @ [r]\<rparr>\<rparr>))))"

definition compileCredential :: "compileEnv \<Rightarrow> DeclCredential \<Rightarrow> compiler \<Rightarrow> err + compiler" where
  "compileCredential env cr c =
     (if TrimSpace (dc_Name cr) = [] then Inr c
      else (case registerCred env (dc_Name cr) (dc_Data cr) c of Inl e \<Rightarrow> Inl e | Inr (_, c1) \<Rightarrow> Inr c1))"

text \<open>The credential of a server: registered from the secrets, or looked up by name.\<close>

definition serverCredRef :: "compileEnv \<Rightarrow> string \<Rightarrow> declCredentialField \<Rightarrow> compiler \<Rightarrow> err + uuid option \<times> compiler" where
  "serverCredRef env name f c =
     (if cf_Data f \<noteq> [] then
        (case registerCred env name (cf_Data f) c of
           Inl e \<Rightarrow> Inl (Wrapf (''server '' @ quoteGo name @ '': '') e [])
         | Inr (i, c1) \<Rightarrow> Inr (Some i, c1))
      else if TrimSpace (cf_Name f) \<noteq> [] then
        (case map_of (cp_creds c) (TrimSpace (cf_Name f)) of
           None \<Rightarrow> Inl (Errorf (''server '' @ quoteGo name @ '': unknown credential '' @ quoteGo (TrimSpace (cf_Name f))))
         | Some i \<Rightarrow> Inr (Some i, c))
      else Inr (None, c))"

definition compileServer :: "compileEnv \<Rightarrow> declServer \<Rightarrow> compiler \<Rightarrow> err + compiler" where
  "compileServer env s c =
     (let name = TrimSpace (fs_Name s)
      in if name = [] \<or> TrimSpace (fs_Protocol s) = [] then Inl (Errorf ''server requires name and protocol'')
         else (case serverCredRef env name (fs_Credential s) c of
                 Inl e \<Rightarrow> Inl e
               | Inr (credRef, c1) \<Rightarrow>
                   let i = Suc (cp_next c1);
                       out = cp_out c1;
                       r = \<lparr>svr_ID = i, svr_Name = name, svr_Protocol = TrimSpace (fs_Protocol s),
                            svr_Options = mapToNode (fs_Options s), svr_CredentialRef = credRef,
                            svr_Enabled = (case fs_Enabled s of Some b \<Rightarrow> b | None \<Rightarrow> True),
                            svr_UpdatedAt = ce_now env\<rparr>
                   in Inr (c1\<lparr>cp_servers := AList.update name i (cp_servers c1), cp_next := i,
                              cp_out := out\<lparr>sn_Servers := sn_Servers out @ [r]\<rparr>\<rparr>)))"

text \<open>The loop over a table's columns; \<open>i\<close> is the index of the first one.\<close>

fun compileColumns :: "uuid \<Rightarrow> nat \<Rightarrow> DeclColumn list \<Rightarrow> uuid \<Rightarrow> ColumnRecord list \<times> uuid" where
  "compileColumns tableID i [] next = ([], next)"
| "compileColumns tableID i (c # cs) next =
     (if TrimSpace (dcl_Name c) = [] then compileColumns tableID (Suc i) cs next
      else let r = \<lparr>clr_ID = Suc next, clr_TableID = tableID, clr_Name = dcl_Name c,
                    clr_DataType = (if TrimSpace (dcl_DataType c) = [] then ''text'' else TrimSpace (dcl_DataType c)),
                    clr_RemoteName = dcl_RemoteName c,
                    clr_Nullable = (case dcl_Nullable c of Some b \<Rightarrow> b | None \<Rightarrow> True),
                    clr_Position = (if dcl_Position c = 0 then int i else dcl_Position c)\<rparr>;
               (rs, next') = compileColumns tableID (Suc i) cs (Suc next)
           in (r # rs, next'))"

definition compileTable :: "DeclTable \<Rightarrow> compiler \<Rightarrow> err + compiler" where
  "compileTable t c =
     (let serverName = TrimSpace (dt_Server t); tableName = TrimSpace (dt_Name t)
      in if serverName = [] \<or> tableName = [] then Inl (Errorf ''table requires server and name'')
         else (case map_of (cp_servers c) serverName of
                 None \<Rightarrow> Inl (Errorf (''table '' @ quoteGo tableName @ '': unknown server '' @ quoteGo serverName))
               | Some srvID \<Rightarrow>
                   let i = Suc (cp_next c);
                       out = cp_out c;
                       r = \<lparr>tbr_ID = i, tbr_ServerID = srvID, tbr_SchemaName = schemaOr (dt_Schema t),
                            tbr_TableName = tableName, tbr_RemoteName = dt_RemoteName t,
                            tbr_KeyColumns = dt_KeyColumns t, tbr_Options = mapToNode (dt_Options t)\<rparr>;
                       (cols, next') = compileColumns i 0 (dt_Columns t) i
                   in Inr (c\<lparr>cp_next := next',
                             cp_out := out\<lparr>sn_Tables := sn_Tables out @ [r], sn_Columns := sn_Columns out @ cols\<rparr>\<rparr>)))"

definition compileFunction :: "DeclFunction \<Rightarrow> compiler \<Rightarrow> err + compiler" where
  "compileFunction f c =
     (let serverName = TrimSpace (df_Server f); name = TrimSpace (df_Name f)
      in if serverName = [] \<or> name = [] \<or> TrimSpace (df_Operation f) = [] then
           Inl (Errorf ''function requires server, name and operation'')
         else (case map_of (cp_servers c) serverName of
                 None \<Rightarrow> Inl (Errorf (''function '' @ quoteGo name @ '': unknown server '' @ quoteGo serverName))
               | Some srvID \<Rightarrow>
                   let i = Suc (cp_next c);
                       out = cp_out c;
                       r = \<lparr>fnr_ID = i, fnr_ServerID = srvID, fnr_SchemaName = schemaOr (df_Schema f),
                            fnr_Name = name, fnr_Operation = df_Operation f, fnr_RemotePath = df_RemotePath f,
                            fnr_Method = df_Method f, fnr_Options = mapToNode (df_Options f)\<rparr>
                   in Inr (c\<lparr>cp_next := i, cp_out := out\<lparr>sn_Functions := sn_Functions out @ [r]\<rparr>\<rparr>)))"

definition compileDeclarative :: "compileEnv \<Rightarrow> declarativeDoc \<Rightarrow> uuid \<Rightarrow> err + snapshot \<times> uuid" where
  "compileDeclarative env doc next =
     bindE (foldE (compileCredential env) (fd_Credentials doc)
              \<lparr>cp_out = emptySnapshot, cp_creds = [], cp_servers = [], cp_next = next\<rparr>) (\<lambda>c.
     bindE (foldE (compileServer env) (fd_Servers doc) c) (\<lambda>c.
     bindE (foldE compileTable (fd_Tables doc) c) (\<lambda>c.
     bindE (foldE compileFunction (fd_Functions doc) c) (\<lambda>c.
       Inr (cp_out c, cp_next c)))))"

section \<open>Decompilation\<close>

definition credentialNameForID :: "(uuid \<Rightarrow> string) \<Rightarrow> snapshot \<Rightarrow> uuid \<Rightarrow> string" where
  "credentialNameForID uuidText snap i =
     (case find (\<lambda>c. crr_ID c = i) (sn_Credentials snap) of
        Some c \<Rightarrow> crr_Name c
      | None \<Rightarrow> uuidText i)"

fun decryptAll :: "Vault option \<Rightarrow> CredentialRecord list \<Rightarrow> (uuid \<times> row) list \<Rightarrow> err + (uuid \<times> row) list" where
  "decryptAll vault [] m = Inr m"
| "decryptAll vault (c # cs) m =
     (case decodePayload (crr_Payload c) of
        Inl e \<Rightarrow> Inl e
      | Inr payload \<Rightarrow>
          (case Decrypt vault payload of
             Inl e \<Rightarrow> Inl e
           | Inr data \<Rightarrow> decryptAll vault cs (AList.update (crr_ID c) data m)))"

text \<open>\<open>refCount\<close>: how many servers refer to a credential.\<close>

definition addRef :: "(uuid \<times> nat) list \<Rightarrow> ServerRecord \<Rightarrow> (uuid \<times> nat) list" where
  "addRef m s =
     (case svr_CredentialRef s of
        None \<Rightarrow> m
      | Some i \<Rightarrow> AList.update i (Suc (case map_of m i of Some n \<Rightarrow> n | None \<Rightarrow> 0)) m)"

definition refCounts :: "ServerRecord list \<Rightarrow> (uuid \<times> nat) list" where
  "refCounts servers = foldl addRef [] servers"

definition refCountOf :: "(uuid \<times> nat) list \<Rightarrow> uuid \<Rightarrow> nat" where
  "refCountOf m i = (case map_of m i of Some n \<Rightarrow> n | None \<Rightarrow> 0)"

text \<open>The options of a record as a map; what is not an object reads as the empty map.\<close>

definition nodeOptions :: "val \<Rightarrow> row" where
  "nodeOptions node = valRow node"

definition serverCredField ::
  "(uuid \<Rightarrow> string) \<Rightarrow> snapshot \<Rightarrow> (uuid \<times> row) list \<Rightarrow> ServerRecord \<Rightarrow> declCredentialField"
where
  "serverCredField uuidText snap creds s =
     (case svr_CredentialRef s of
        None \<Rightarrow> \<lparr>cf_Name = [], cf_Data = []\<rparr>
      | Some i \<Rightarrow>
          (case map_of creds i of
             None \<Rightarrow> \<lparr>cf_Name = [], cf_Data = []\<rparr>
           | Some data \<Rightarrow>
               if refCountOf (refCounts (sn_Servers snap)) i = 1 then \<lparr>cf_Name = [], cf_Data = data\<rparr>
               else \<lparr>cf_Name = credentialNameForID uuidText snap i, cf_Data = []\<rparr>))"

definition serverNames :: "ServerRecord list \<Rightarrow> (uuid \<times> string) list" where
  "serverNames servers = foldl (\<lambda>m s. AList.update (svr_ID s) (svr_Name s) m) [] servers"

definition serverNameOf :: "(uuid \<times> string) list \<Rightarrow> uuid \<Rightarrow> string" where
  "serverNameOf m i = (case map_of m i of Some n \<Rightarrow> n | None \<Rightarrow> [])"

definition metaKey :: "string \<Rightarrow> string \<Rightarrow> string \<Rightarrow> string" where
  "metaKey schema name server = schema @ [nul] @ name @ [nul] @ server"

definition tableMeta :: "snapshot \<Rightarrow> (string \<times> uuid) list" where
  "tableMeta snap =
     foldl (\<lambda>m t. AList.update (metaKey (tbr_SchemaName t) (tbr_TableName t)
              (serverNameOf (serverNames (sn_Servers snap)) (tbr_ServerID t))) (tbr_ID t) m) [] (sn_Tables snap)"

definition declColumnOf :: "ColumnRecord \<Rightarrow> DeclColumn" where
  "declColumnOf c =
     \<lparr>dcl_Name = clr_Name c, dcl_DataType = clr_DataType c, dcl_RemoteName = clr_RemoteName c,
      dcl_Nullable = Some (clr_Nullable c), dcl_Position = clr_Position c\<rparr>"

definition columnsOf :: "snapshot \<Rightarrow> uuid \<Rightarrow> DeclColumn list" where
  "columnsOf snap i = map declColumnOf (filter (\<lambda>c. clr_TableID c = i) (sn_Columns snap))"

definition declTableOf :: "snapshot \<Rightarrow> TableRecord \<Rightarrow> DeclTable" where
  "declTableOf snap t =
     (let server = serverNameOf (serverNames (sn_Servers snap)) (tbr_ServerID t)
      in \<lparr>dt_Server = server, dt_Schema = tbr_SchemaName t, dt_Name = tbr_TableName t,
          dt_RemoteName = tbr_RemoteName t, dt_KeyColumns = tbr_KeyColumns t, dt_Options = nodeOptions (tbr_Options t),
          dt_Columns = (case map_of (tableMeta snap) (metaKey (tbr_SchemaName t) (tbr_TableName t) server) of
                          Some i \<Rightarrow> columnsOf snap i
                        | None \<Rightarrow> [])\<rparr>)"

definition decompileDeclarative ::
  "(uuid \<Rightarrow> string) \<Rightarrow> Vault option \<Rightarrow> snapshot \<Rightarrow> err + declarativeDoc"
where
  "decompileDeclarative uuidText vault snap =
     (case decryptAll vault (sn_Credentials snap) [] of
        Inl e \<Rightarrow> Inl e
      | Inr creds \<Rightarrow>
          let counts = refCounts (sn_Servers snap)
          in Inr \<lparr>fd_Credentials =
                    List.map_filter (\<lambda>(i, n).
                      if n > 1 then map_option (\<lambda>data. \<lparr>dc_Name = credentialNameForID uuidText snap i, dc_Data = data\<rparr>)
                                      (map_of creds i)
                      else None) counts,
                  fd_Servers = map (\<lambda>s.
                    \<lparr>fs_Name = svr_Name s, fs_Protocol = svr_Protocol s,
                     fs_Credential = serverCredField uuidText snap creds s,
                     fs_Enabled = Some (svr_Enabled s), fs_Options = nodeOptions (svr_Options s)\<rparr>) (sn_Servers snap),
                  fd_Tables = map (declTableOf snap) (sn_Tables snap),
                  fd_Functions = map (\<lambda>f.
                    \<lparr>df_Server = serverNameOf (serverNames (sn_Servers snap)) (fnr_ServerID f),
                     df_Schema = fnr_SchemaName f, df_Name = fnr_Name f, df_Operation = fnr_Operation f,
                     df_RemotePath = fnr_RemotePath f, df_Method = fnr_Method f,
                     df_Options = nodeOptions (fnr_Options f)\<rparr>) (sn_Functions snap)\<rparr>)"
end
