(* ===== verification/Query.thy ===== *)
theory Query
  imports HttpLib Models
begin

text \<open>
  The PostgREST query language of \<open>internal/postgrest\<close>: parsing of filters, orders,
  limits and \<open>or=\<close> groups (query.go), evaluation of filters on a row
  (filter_match.go), renaming of columns between local and remote names (query.go),
  the Content-Range header (range.go) and the Accept and Prefer headers (accept.go).
\<close>

section \<open>Operators, filters and queries\<close>

type_synonym Op = string

abbreviation (input) OpEq :: Op where "OpEq \<equiv> ''eq''"
abbreviation (input) OpNeq :: Op where "OpNeq \<equiv> ''neq''"
abbreviation (input) OpGt :: Op where "OpGt \<equiv> ''gt''"
abbreviation (input) OpGte :: Op where "OpGte \<equiv> ''gte''"
abbreviation (input) OpLt :: Op where "OpLt \<equiv> ''lt''"
abbreviation (input) OpLte :: Op where "OpLte \<equiv> ''lte''"
abbreviation (input) OpLike :: Op where "OpLike \<equiv> ''like''"
abbreviation (input) OpIn :: Op where "OpIn \<equiv> ''in''"
abbreviation (input) OpIs :: Op where "OpIs \<equiv> ''is''"

definition filterOps :: "Op list" where
  "filterOps = [OpEq, OpNeq, OpGt, OpGte, OpLt, OpLte, OpLike, OpIn, OpIs]"

record Filter =
  fl_Column :: string
  fl_Op :: Op
  fl_Value :: string

record OrderSpec =
  o_Column :: string
  o_Desc :: bool

record Query =
  q_Select :: "string list"
  q_Filters :: "Filter list"
  q_OrGroups :: "Filter list list"
  q_Order :: "OrderSpec list"
  q_Limit :: int
  q_Offset :: int

definition emptyQuery :: Query where
  "emptyQuery = \<lparr>q_Select = [], q_Filters = [], q_OrGroups = [], q_Order = [], q_Limit = 0, q_Offset = 0\<rparr>"

record Prefer =
  p_Representation :: bool
  p_Upsert :: bool
  p_CountExact :: bool

section \<open>Parsing\<close>

definition mkFilter :: "string \<Rightarrow> Op \<Rightarrow> string \<Rightarrow> Filter" where
  "mkFilter col op v = \<lparr>fl_Column = col, fl_Op = op, fl_Value = v\<rparr>"

definition parseFilter :: "string \<Rightarrow> string \<Rightarrow> Filter" where
  "parseFilter column r =
     (case Index r ''.'' of
        None \<Rightarrow> mkFilter column OpEq r
      | Some dot \<Rightarrow>
          if dot = 0 then mkFilter column OpEq r
          else let op = take dot r; v = drop (dot + 1) r
               in if op \<in> set filterOps then mkFilter column op v
                  else mkFilter column OpEq r)"

fun firstMarker :: "Op list \<Rightarrow> string \<Rightarrow> Filter option" where
  "firstMarker [] expr = None"
| "firstMarker (op # ops) expr =
     (let marker = ''.'' @ op @ ''.''
      in case Index expr marker of
           Some (Suc i) \<Rightarrow>
             Some (mkFilter (take (Suc i) expr) op (drop (Suc i + length marker) expr))
         | _ \<Rightarrow> firstMarker ops expr)"

definition parseFilterExpr :: "string \<Rightarrow> err + Filter" where
  "parseFilterExpr e =
     (let expr = TrimSpace e
      in case firstMarker filterOps expr of
           Some f \<Rightarrow> Inr f
         | None \<Rightarrow> Inl (Errorf (''invalid filter expression '' @ quoteGo expr)))"

fun splitTopLoop :: "nat \<Rightarrow> string \<Rightarrow> string \<Rightarrow> char \<Rightarrow> string list" where
  "splitTopLoop depth cur [] sep = [rev cur]"
| "splitTopLoop depth cur (r # s) sep =
     (if r = CHR ''('' then splitTopLoop (Suc depth) (r # cur) s sep
      else if r = CHR '')'' then splitTopLoop (depth - 1) (r # cur) s sep
      else if r = sep \<and> depth = 0 then rev cur # splitTopLoop depth [] s sep
      else splitTopLoop depth (r # cur) s sep)"

definition splitTopLevel :: "string \<Rightarrow> char \<Rightarrow> string list" where
  "splitTopLevel s sep = splitTopLoop 0 [] s sep"

fun parseGroups :: "string list \<Rightarrow> err + Filter list list" where
  "parseGroups [] = Inr []"
| "parseGroups (part # parts) =
     (if TrimSpace part = [] then parseGroups parts
      else (case parseFilterExpr (TrimSpace part) of
              Inl e \<Rightarrow> Inl e
            | Inr f \<Rightarrow>
                (case parseGroups parts of
                   Inl e \<Rightarrow> Inl e
                 | Inr gs \<Rightarrow> Inr ([f] # gs))))"

definition parseOrGroups :: "string \<Rightarrow> err + Filter list list" where
  "parseOrGroups r =
     (let r1 = TrimSpace r;
          r2 = (if HasPrefix r1 ''('' \<and> HasSuffix r1 '')''
                then TrimSpace (take (length r1 - 2) (drop 1 r1)) else r1)
      in if r2 = [] then Inr [] else parseGroups (splitTopLevel r2 (CHR '','')))"

definition parseSelect :: "string \<Rightarrow> string list" where
  "parseSelect sel =
     filter (\<lambda>p. p \<noteq> [] \<and> \<not> Contains p ''('') (map TrimSpace (Split sel (CHR '','')))"

definition parseOrderPart :: "string \<Rightarrow> OrderSpec option" where
  "parseOrderPart p =
     (let part = TrimSpace p
      in if part = [] then None
         else let desc = HasSuffix part ''.desc'';
                  col = (if desc then TrimSuffix part ''.desc''
                         else if HasSuffix part ''.asc'' then TrimSuffix part ''.asc'' else part);
                  col = TrimSpace col
              in if col \<noteq> [] then Some \<lparr>o_Column = col, o_Desc = desc\<rparr> else None)"

definition parseNonNeg :: "string \<Rightarrow> int" where
  "parseNonNeg s =
     (let t = TrimSpace s
      in if t = [] then 0
         else (case Atoi t of Some n \<Rightarrow> if n \<ge> 0 then n else 0 | None \<Rightarrow> 0))"

definition reservedParams :: "string list" where
  "reservedParams = [''select'', ''order'', ''limit'', ''offset'', ''or'', ''and'']"

fun parseFilters :: "Values \<Rightarrow> Filter list" where
  "parseFilters [] = []"
| "parseFilters ((key, vals) # q) =
     (if key \<in> set reservedParams \<or> vals = [] then parseFilters q
      else parseFilter key (hd vals) # parseFilters q)"

text \<open>The values are a Go map: the list that stands for it has the order in which this run visits it, so that the filters come in
  any order; a statement for all lists covers every order.\<close>

definition ParseQuery :: "Values \<Rightarrow> Query" where
  "ParseQuery values =
     \<lparr>q_Select = (let sel = TrimSpace (valuesGet values ''select'')
                  in if sel \<noteq> [] then parseSelect sel else []),
      q_Filters = parseFilters values,
      q_OrGroups = (let rawOr = TrimSpace (valuesGet values ''or'')
                    in if rawOr \<noteq> []
                       then (case parseOrGroups rawOr of Inr gs \<Rightarrow> gs | Inl _ \<Rightarrow> []) else []),
      q_Order = (let ord = TrimSpace (valuesGet values ''order'')
                 in if ord \<noteq> [] then List.map_filter parseOrderPart (Split ord (CHR '','')) else []),
      q_Limit = parseNonNeg (valuesGet values ''limit''),
      q_Offset = parseNonNeg (valuesGet values ''offset'')\<rparr>"

definition ValidateSelect :: "string list \<Rightarrow> string \<Rightarrow> APIError option" where
  "ValidateSelect selects rawSelect =
     (if Contains rawSelect ''('' then Some EmbedNotSupported
      else if list_ex (\<lambda>s. Contains s ''('') selects then Some EmbedNotSupported
      else None)"

definition preferPart :: "Prefer \<Rightarrow> string \<Rightarrow> Prefer" where
  "preferPart p part =
     (let part = TrimSpace (ToLower part)
      in if part = ''return=representation'' then p\<lparr>p_Representation := True\<rparr>
         else if part = ''resolution=merge-duplicates'' then p\<lparr>p_Upsert := True\<rparr>
         else if part = ''count=exact'' \<or> part = ''count=exact;'' then p\<lparr>p_CountExact := True\<rparr>
         else if HasPrefix part ''count=exact'' then p\<lparr>p_CountExact := True\<rparr>
         else p)"

definition noPrefer :: Prefer where
  "noPrefer = \<lparr>p_Representation = False, p_Upsert = False, p_CountExact = False\<rparr>"

definition ParsePrefer :: "Header \<Rightarrow> Prefer" where
  "ParsePrefer h = foldl preferPart noPrefer (Split (headerGet h ''Prefer'') (CHR '',''))"

text \<open>The result is a Go map as well, here in the order in which its keys were set.\<close>

definition FiltersToQueryValues :: "Filter list \<Rightarrow> Values" where
  "FiltersToQueryValues filters =
     foldl (\<lambda>q f. valuesSet (fl_Column f) (fl_Op f @ ''.'' @ fl_Value f) q) [] filters"

section \<open>Evaluating filters on a row (filter_match.go)\<close>

definition matchFilter :: "row \<Rightarrow> Filter \<Rightarrow> bool" where
  "matchFilter r f =
     (let val = getAny r (fl_Column f);
          ok = (map_of r (fl_Column f) \<noteq> None);
          sval = Sprint val;
          op = fl_Op f
      in if op = OpEq then ok \<and> sval = fl_Value f
         else if op = OpNeq then \<not> ok \<or> sval \<noteq> fl_Value f
         else if op = OpGt then ok \<and> sval > fl_Value f
         else if op = OpGte then ok \<and> sval \<ge> fl_Value f
         else if op = OpLt then ok \<and> sval < fl_Value f
         else if op = OpLte then ok \<and> sval \<le> fl_Value f
         else if op = OpLike then ok \<and> Contains sval (Trim (fl_Value f) ''%'')
         else if op = OpIn
           then list_ex (\<lambda>part. ok \<and> sval = TrimSpace part) (Split (fl_Value f) (CHR '',''))
         else if op = OpIs
           then (if fl_Value f = ''null'' then \<not> ok \<or> val = VNil else ok \<and> sval = fl_Value f)
         else ok \<and> sval = fl_Value f)"

fun MatchFilters :: "row \<Rightarrow> Filter list \<Rightarrow> bool" where
  "MatchFilters r [] = True"
| "MatchFilters r (f # fs) = (if \<not> matchFilter r f then False else MatchFilters r fs)"

fun matchAnyGroup :: "row \<Rightarrow> Filter list list \<Rightarrow> bool" where
  "matchAnyGroup r [] = False"
| "matchAnyGroup r (g # gs) = (if MatchFilters r g then True else matchAnyGroup r gs)"

definition MatchQuery :: "row \<Rightarrow> Filter list \<Rightarrow> Filter list list \<Rightarrow> bool" where
  "MatchQuery r filters orGroups =
     (if length orGroups > 0 then matchAnyGroup r orGroups else MatchFilters r filters)"

section \<open>Local and remote column names (query.go)\<close>

definition localToRemote :: "Column list \<Rightarrow> (string \<times> string) list" where
  "localToRemote cols = buildMap [] (map (\<lambda>c. (c_Name c, RemoteColumnName c)) cols)"

definition remoteToLocal :: "Column list \<Rightarrow> (string \<times> string) list" where
  "remoteToLocal cols = buildMap [] (map (\<lambda>c. (RemoteColumnName c, c_Name c)) cols)"

definition rename :: "(string \<times> string) list \<Rightarrow> string \<Rightarrow> string" where
  "rename m k = (case map_of m k of Some k' \<Rightarrow> k' | None \<Rightarrow> k)"

definition MapRowToRemote :: "row \<Rightarrow> Column list \<Rightarrow> row" where
  "MapRowToRemote r cols =
     buildMap [] (map (\<lambda>kv. (rename (localToRemote cols) (fst kv), snd kv)) r)"

definition MapFilters :: "Filter list \<Rightarrow> Column list \<Rightarrow> Filter list" where
  "MapFilters filters cols =
     (if filters = [] then filters
      else map (\<lambda>f. mkFilter (rename (localToRemote cols) (fl_Column f)) (fl_Op f) (fl_Value f)) filters)"

definition MapRowsFromRemote :: "row list \<Rightarrow> Column list \<Rightarrow> row list" where
  "MapRowsFromRemote rows cols =
     map (\<lambda>r. buildMap [] (map (\<lambda>kv. (rename (remoteToLocal cols) (fst kv), snd kv)) r)) rows"

text \<open>The helper \<open>mapOrGroups\<close>, which the file and postgres drivers each define.\<close>

definition mapOrGroups :: "Filter list list \<Rightarrow> Column list \<Rightarrow> Filter list list" where
  "mapOrGroups groups cols = (if groups = [] then [] else map (\<lambda>g. MapFilters g cols) groups)"

section \<open>Content-Range (range.go)\<close>

text \<open>
  An \<open>int\<close> has 64 bits, so negating the least one gives it back. The digits are
  written from the end of a buffer of 20 bytes; \<open>itoaLoop\<close> holds the bytes written.
\<close>

definition wrap64 :: "int \<Rightarrow> int" where
  "wrap64 i = (i + 2 ^ 63) mod 2 ^ 64 - 2 ^ 63"

function itoaLoop :: "int \<Rightarrow> string \<Rightarrow> string" where
  "itoaLoop n b = (if n > 0 then itoaLoop (n div 10) (digitChar (nat (n mod 10)) # b) else b)"
  by pat_completeness auto
termination
  by (relation "measure (\<lambda>(n, b). nat n)") auto

declare itoaLoop.simps [simp del]

definition itoa :: "int \<Rightarrow> string" where
  "itoa n =
     (if n = 0 then ''0''
      else let neg = n < 0;
               n = (if neg then wrap64 (- n) else n);
               b = itoaLoop n []
           in if neg then CHR ''-'' # b else b)"

definition FormatContentRange :: "int \<Rightarrow> int \<Rightarrow> int \<Rightarrow> string" where
  "FormatContentRange lo hi n = itoa lo @ ''-'' @ itoa hi @ ''/'' @ itoa n"

section \<open>Accept (accept.go)\<close>

datatype ObjectMode = ObjectModeArray | ObjectModeSingle | ObjectModeMaybeSingle

definition MediaObjectJSON :: string where
  "MediaObjectJSON = ''application/vnd.pgrst.object+json''"

definition MediaArrayJSON :: string where
  "MediaArrayJSON = ''application/json''"

definition ParseObjectMode :: "Header \<Rightarrow> ObjectMode" where
  "ParseObjectMode h =
     (let accept = ToLower (headerGet h ''Accept'')
      in if \<not> Contains accept MediaObjectJSON then ObjectModeArray
         else if Contains accept ''missing=return_null''
              \<or> Contains (ToLower (headerGet h ''Prefer'')) ''missing=return_null''
         then ObjectModeMaybeSingle
         else ObjectModeSingle)"

section \<open>Lemmas: filters\<close>

lemma mkFilter_sel [simp]:
  "fl_Column (mkFilter c o' v) = c" "fl_Op (mkFilter c o' v) = o'" "fl_Value (mkFilter c o' v) = v"
  by (simp_all add: mkFilter_def)

lemma mkFilter_self [simp]: "mkFilter (fl_Column f) (fl_Op f) (fl_Value f) = f"
  by (simp add: mkFilter_def)

lemma mkFilter_eq_iff [simp]: "mkFilter c o' v = mkFilter c2 o2 v2 \<longleftrightarrow> c = c2 \<and> o' = o2 \<and> v = v2"
  by (auto simp: mkFilter_def)

lemma filterOps_no_dot: "op \<in> set filterOps \<Longrightarrow> CHR ''.'' \<notin> set op \<and> op \<noteq> []"
  by (auto simp: filterOps_def)

lemma parseFilter_print:
  assumes "op \<in> set filterOps"
  shows "parseFilter col (op @ ''.'' @ v) = mkFilter col op v"
proof -
  from assms have op: "CHR ''.'' \<notin> set op" "op \<noteq> []" using filterOps_no_dot by blast+
  then have "Index (op @ ''.'' @ v) ''.'' = Some (length op)"
    using Index_char_append [of "CHR ''.''" op v] by simp
  with op assms show ?thesis by (simp add: parseFilter_def)
qed

lemma parseFilter_column [simp]: "fl_Column (parseFilter col r) = col"
  by (simp add: parseFilter_def Let_def split: option.splits)

lemma parseFilter_op: "fl_Op (parseFilter col r) \<in> set filterOps"
  by (auto simp: parseFilter_def Let_def filterOps_def split: option.splits)

lemma MatchFilters_iff: "MatchFilters r fs \<longleftrightarrow> (\<forall>f\<in>set fs. matchFilter r f)"
  by (induction fs) auto

lemma matchAnyGroup_iff: "matchAnyGroup r gs \<longleftrightarrow> (\<exists>g\<in>set gs. MatchFilters r g)"
  by (induction gs) auto

lemma MapFilters_map:
  "MapFilters fs cols = map (\<lambda>f. mkFilter (rename (localToRemote cols) (fl_Column f)) (fl_Op f) (fl_Value f)) fs"
  by (simp add: MapFilters_def)

lemma MapFilters_append: "MapFilters (fs @ gs) cols = MapFilters fs cols @ MapFilters gs cols"
  by (simp add: MapFilters_map)

lemma length_MapFilters [simp]: "length (MapFilters fs cols) = length fs"
  by (simp add: MapFilters_map)

lemma mapOrGroups_map: "mapOrGroups gs cols = map (\<lambda>g. MapFilters g cols) gs"
  by (simp add: mapOrGroups_def)

section \<open>Lemmas: splitting at the top level\<close>

lemma splitTopLoop_not_Nil [simp]: "splitTopLoop d cur s sep \<noteq> []"
  by (induction d cur s sep rule: splitTopLoop.induct) auto

lemma splitTopLoop_join: "Join (splitTopLoop d cur s sep) [sep] = rev cur @ s"
  by (induction d cur s sep rule: splitTopLoop.induct) (auto simp: Join_Cons)

text \<open>The nesting depth after reading \<open>s\<close>, and whether \<open>s\<close> holds a separator at depth 0.\<close>

fun depthAfter :: "nat \<Rightarrow> string \<Rightarrow> nat" where
  "depthAfter d [] = d"
| "depthAfter d (c # s) =
     depthAfter (if c = CHR ''('' then Suc d else if c = CHR '')'' then d - 1 else d) s"

fun topSepFree :: "nat \<Rightarrow> string \<Rightarrow> char \<Rightarrow> bool" where
  "topSepFree d [] sep = True"
| "topSepFree d (c # s) sep =
     (if c = CHR ''('' then topSepFree (Suc d) s sep
      else if c = CHR '')'' then topSepFree (d - 1) s sep
      else (c \<noteq> sep \<or> d \<noteq> 0) \<and> topSepFree d s sep)"

lemma topSepFree_snoc:
  "topSepFree d (s @ [c]) sep \<longleftrightarrow>
     topSepFree d s sep \<and> (c = CHR ''('' \<or> c = CHR '')'' \<or> c \<noteq> sep \<or> depthAfter d s \<noteq> 0)"
  by (induction d s sep rule: topSepFree.induct) auto

lemma depthAfter_snoc:
  "depthAfter d (s @ [c]) =
     (if c = CHR ''('' then Suc (depthAfter d s)
      else if c = CHR '')'' then depthAfter d s - 1 else depthAfter d s)"
  by (induction d s rule: depthAfter.induct) auto

lemma splitTopLoop_topSepFree:
  "topSepFree 0 (rev cur) sep \<Longrightarrow> d = depthAfter 0 (rev cur) \<Longrightarrow>
   \<forall>p\<in>set (splitTopLoop d cur s sep). topSepFree 0 p sep"
  by (induction d cur s sep rule: splitTopLoop.induct) (auto simp: topSepFree_snoc depthAfter_snoc)

lemma splitTopLoop_piece:
  "topSepFree d p sep \<Longrightarrow> sep \<noteq> CHR ''('' \<Longrightarrow> sep \<noteq> CHR '')'' \<Longrightarrow> depthAfter d p = 0 \<Longrightarrow>
   splitTopLoop d cur (p @ sep # s) sep = (rev cur @ p) # splitTopLoop 0 [] s sep"
  by (induction d p arbitrary: cur rule: depthAfter.induct) (auto split: if_splits)

lemma splitTopLoop_last:
  "topSepFree d p sep \<Longrightarrow> splitTopLoop d cur p sep = [rev cur @ p]"
  by (induction d p arbitrary: cur rule: depthAfter.induct) (auto split: if_splits)

lemma splitTopLevel_Join:
  assumes "sep \<noteq> CHR ''(''" "sep \<noteq> CHR '')''" "ps \<noteq> []"
    and "\<forall>p\<in>set ps. topSepFree 0 p sep \<and> depthAfter 0 p = 0"
  shows "splitTopLevel (Join ps [sep]) sep = ps"
  unfolding splitTopLevel_def using assms(3,4)
proof (induction ps)
  case (Cons p ps)
  show ?case
  proof (cases "ps = []")
    case True
    with Cons show ?thesis by (simp add: splitTopLoop_last)
  next
    case False
    with Cons assms(1,2) show ?thesis by (simp add: Join_Cons splitTopLoop_piece)
  qed
qed simp

lemma splitTopLoop_butlast:
  "d = depthAfter 0 (rev cur) \<Longrightarrow> p \<in> set (butlast (splitTopLoop d cur s sep)) \<Longrightarrow> depthAfter 0 p = 0"
  by (induction d cur s sep rule: splitTopLoop.induct) (auto simp: depthAfter_snoc split: if_splits)

section \<open>Lemmas: round trips\<close>

lemma FiltersToQueryValues_fold:
  assumes "distinct (map fl_Column fs)" "fl_Column ` set fs \<inter> fst ` set q = {}"
  shows "foldl (\<lambda>q f. valuesSet (fl_Column f) (fl_Op f @ ''.'' @ fl_Value f) q) q fs
       = q @ map (\<lambda>f. (fl_Column f, [fl_Op f @ ''.'' @ fl_Value f])) fs"
  using assms by (induction fs arbitrary: q) (auto simp: valuesSet_def update_new)

lemma parseFilters_print:
  assumes "\<forall>f\<in>set fs. fl_Op f \<in> set filterOps \<and> fl_Column f \<notin> set reservedParams"
  shows "parseFilters (map (\<lambda>f. (fl_Column f, [fl_Op f @ ''.'' @ fl_Value f])) fs) = fs"
  using assms
proof (induction fs)
  case (Cons f fs)
  then show ?case using parseFilter_print [of "fl_Op f" "fl_Column f" "fl_Value f"] by simp
qed simp

definition printFilter :: "Filter \<Rightarrow> string" where
  "printFilter f = fl_Column f @ ''.'' @ fl_Op f @ ''.'' @ fl_Value f"

text \<open>
  A filter that can be written inside \<open>or=(...)\<close> and read back: its column is a plain
  name, its value has no comma outside parentheses, and no other operator's marker
  occurs in the text.
\<close>

definition printable :: "Filter \<Rightarrow> bool" where
  "printable f \<longleftrightarrow>
     fl_Op f \<in> set filterOps \<and> fl_Column f \<noteq> [] \<and>
     list_all (\<lambda>c. \<not> isSpace c \<and> c \<notin> {CHR ''.'', CHR '','', CHR ''('', CHR '')''}) (fl_Column f) \<and>
     topSepFree 0 (fl_Value f) (CHR '','') \<and> depthAfter 0 (fl_Value f) = 0 \<and>
     (fl_Value f = [] \<or> \<not> isSpace (last (fl_Value f))) \<and>
     list_all (\<lambda>o'. o' = fl_Op f \<or> \<not> Contains (printFilter f) (''.'' @ o' @ ''.'')) filterOps"

lemma Index_marker:
  assumes "CHR ''.'' \<notin> set col"
  shows "Index (col @ ''.'' @ op @ ''.'' @ v) (''.'' @ op @ ''.'') = Some (length col)"
  using assms by (induction col) (auto simp: HasPrefix_iff)

lemma firstMarker_print:
  assumes "op \<in> set ops" "col \<noteq> []" "CHR ''.'' \<notin> set col"
    and "\<forall>o'\<in>set ops. o' = op \<or> \<not> Contains (col @ ''.'' @ op @ ''.'' @ v) (''.'' @ o' @ ''.'')"
  shows "firstMarker ops (col @ ''.'' @ op @ ''.'' @ v) = Some (mkFilter col op v)"
  using assms
proof (induction ops)
  case (Cons o' ops)
  obtain n where n: "length col = Suc n" using assms(2) by (cases col) auto
  show ?case
  proof (cases "o' = op")
    case True
    have "Index (col @ ''.'' @ op @ ''.'' @ v) (''.'' @ op @ ''.'') = Some (Suc n)"
      using Index_marker [OF assms(3), of op v] n by simp
    with True n show ?thesis by simp
  next
    case False
    with Cons.prems have "Index (col @ ''.'' @ op @ ''.'' @ v) (''.'' @ o' @ ''.'') = None"
      by (simp add: Contains_def)
    with False Cons show ?thesis by simp
  qed
qed simp

lemma printable_no_space_ends:
  assumes "printable f"
  shows "printFilter f \<noteq> []" "\<not> isSpace (hd (printFilter f))" "\<not> isSpace (last (printFilter f))"
    "hd (printFilter f) \<noteq> CHR ''(''"
proof -
  obtain c cs where c: "fl_Column f = c # cs" "\<not> isSpace c" "c \<noteq> CHR ''(''"
    using assms by (cases "fl_Column f") (auto simp: printable_def)
  then show "printFilter f \<noteq> []" "\<not> isSpace (hd (printFilter f))" "hd (printFilter f) \<noteq> CHR ''(''"
    by (simp_all add: printFilter_def)
  show "\<not> isSpace (last (printFilter f))"
  proof (cases "fl_Value f = []")
    case True
    then show ?thesis by (simp add: printFilter_def isSpace_def)
  next
    case False
    with assms show ?thesis by (simp add: printFilter_def printable_def)
  qed
qed

lemma parseFilterExpr_print: "printable f \<Longrightarrow> parseFilterExpr (printFilter f) = Inr f"
proof -
  assume p: "printable f"
  have "TrimSpace (printFilter f) = printFilter f"
    using printable_no_space_ends [OF p] by (simp add: TrimSpace_id)
  moreover have "firstMarker filterOps (printFilter f) = Some f"
    using p firstMarker_print [of "fl_Op f" filterOps "fl_Column f" "fl_Value f"]
    by (auto simp: printable_def printFilter_def list_all_iff)
  ultimately show ?thesis by (simp add: parseFilterExpr_def)
qed

lemma plain_top:
  assumes "list_all (\<lambda>c. c \<noteq> sep \<and> c \<noteq> CHR ''('' \<and> c \<noteq> CHR '')'') a"
  shows "topSepFree d (a @ b) sep = topSepFree d b sep" "depthAfter d (a @ b) = depthAfter d b"
  using assms by (induction a) auto

lemma filterOps_plain:
  "list_all (list_all (\<lambda>c. c \<noteq> CHR '','' \<and> c \<noteq> CHR ''('' \<and> c \<noteq> CHR '')'')) filterOps"
  by (simp add: filterOps_def)

lemma printable_top:
  assumes "printable f"
  shows "topSepFree 0 (printFilter f) (CHR '','')" "depthAfter 0 (printFilter f) = 0"
proof -
  let ?a = "fl_Column f @ ''.'' @ fl_Op f @ ''.''"
  have "list_all (\<lambda>c. c \<noteq> CHR '','' \<and> c \<noteq> CHR ''('' \<and> c \<noteq> CHR '')'') (fl_Column f)"
    using assms by (simp add: printable_def list_all_iff)
  moreover have "list_all (\<lambda>c. c \<noteq> CHR '','' \<and> c \<noteq> CHR ''('' \<and> c \<noteq> CHR '')'') (fl_Op f)"
    using assms filterOps_plain unfolding printable_def list_all_iff by blast
  ultimately have "list_all (\<lambda>c. c \<noteq> CHR '','' \<and> c \<noteq> CHR ''('' \<and> c \<noteq> CHR '')'') ?a"
    by simp
  note a = plain_top [OF this, of 0 "fl_Value f"]
  show "topSepFree 0 (printFilter f) (CHR '','')" "depthAfter 0 (printFilter f) = 0"
    using a assms by (simp_all add: printFilter_def printable_def)
qed

lemma parseGroups_print: "\<forall>f\<in>set fs. printable f \<Longrightarrow> parseGroups (map printFilter fs) = Inr (map (\<lambda>f. [f]) fs)"
proof (induction fs)
  case (Cons f fs)
  then have p: "printable f" by simp
  have "TrimSpace (printFilter f) = printFilter f"
    using printable_no_space_ends [OF p] by (simp add: TrimSpace_id)
  with Cons show ?case
    using printable_no_space_ends(1) [OF p] by (simp add: parseFilterExpr_print [OF p])
qed simp

lemma last_Join: "ps \<noteq> [] \<Longrightarrow> last ps \<noteq> [] \<Longrightarrow> Join ps sep \<noteq> [] \<and> last (Join ps sep) = last (last ps)"
  by (induction ps sep rule: Join.induct) auto

lemma hd_Join: "ps \<noteq> [] \<Longrightarrow> hd ps \<noteq> [] \<Longrightarrow> hd (Join ps sep) = hd (hd ps)"
  by (cases ps) (auto simp: Join_Cons)

section \<open>Well-formed queries\<close>

definition wellFormedOrder :: "OrderSpec \<Rightarrow> bool" where
  "wellFormedOrder o' \<longleftrightarrow> o_Column o' \<noteq> [] \<and> TrimSpace (o_Column o') = o_Column o'"

definition wellFormedQuery :: "Query \<Rightarrow> bool" where
  "wellFormedQuery q \<longleftrightarrow>
     list_all (\<lambda>s. s \<noteq> [] \<and> \<not> Contains s ''('' \<and> TrimSpace s = s) (q_Select q) \<and>
     list_all (\<lambda>f. fl_Op f \<in> set filterOps \<and> fl_Column f \<notin> set reservedParams) (q_Filters q) \<and>
     list_all (\<lambda>g. length g = 1 \<and> list_all (\<lambda>f. fl_Op f \<in> set filterOps \<and> fl_Column f \<noteq> []) g)
       (q_OrGroups q) \<and>
     list_all wellFormedOrder (q_Order q) \<and>
     0 \<le> q_Limit q \<and> q_Limit q < 2 ^ 63 \<and> 0 \<le> q_Offset q \<and> q_Offset q < 2 ^ 63"

lemma parseNonNeg_bounds: "0 \<le> parseNonNeg s \<and> parseNonNeg s < 2 ^ 63"
  using Atoi_range by (fastforce simp: parseNonNeg_def Let_def split: option.splits)

lemma firstMarker_wf:
  "firstMarker ops e = Some f \<Longrightarrow> fl_Op f \<in> set ops \<and> fl_Column f \<noteq> []"
proof (induction ops)
  case (Cons op ops)
  show ?case
  proof (cases "\<exists>i. Index e (''.'' @ op @ ''.'') = Some (Suc i)")
    case True
    then obtain i where i: "Index e (''.'' @ op @ ''.'') = Some (Suc i)" by blast
    then have "e \<noteq> []" by (cases e) (auto split: if_splits)
    with i Cons.prems show ?thesis by auto
  next
    case False
    with Cons.prems have "firstMarker ops e = Some f"
      by (auto simp: Let_def split: option.splits nat.splits)
    with Cons.IH show ?thesis by simp
  qed
qed simp

lemma parseGroups_wf:
  "parseGroups ps = Inr gs \<Longrightarrow>
   list_all (\<lambda>g. length g = 1 \<and> list_all (\<lambda>f. fl_Op f \<in> set filterOps \<and> fl_Column f \<noteq> []) g) gs"
  by (induction ps arbitrary: gs)
    (auto simp: parseFilterExpr_def Let_def firstMarker_wf split: if_splits sum.splits option.splits)

lemma parseFilters_wf:
  "list_all (\<lambda>f. fl_Op f \<in> set filterOps \<and> fl_Column f \<notin> set reservedParams) (parseFilters q)"
  by (induction q rule: parseFilters.induct) (auto simp: parseFilter_op)

lemma parseOrderPart_wf: "list_all wellFormedOrder (List.map_filter parseOrderPart ps)"
  by (induction ps)
    (auto simp: parseOrderPart_def wellFormedOrder_def Let_def TrimSpace_idem split: if_splits)

lemma parseSelect_wf:
  "list_all (\<lambda>s. s \<noteq> [] \<and> \<not> Contains s ''('' \<and> TrimSpace s = s) (parseSelect sel)"
  by (auto simp: parseSelect_def list_all_iff TrimSpace_idem)

section \<open>Properties of parsing\<close>

text \<open>C35: every query that \<open>ParseQuery\<close> returns is well formed, whatever parameters the
  client sends: each selected column is a trimmed non-empty name without a parenthesis, each
  filter has one of the nine operators and is not on a reserved parameter, each \<open>or\<close> group
  holds one such filter on a named column, each order names a column, and limit and offset are
  non-negative 64-bit integers.\<close>

theorem ParseQuery_wellFormed: "wellFormedQuery (ParseQuery vs)"
proof -
  have "list_all (\<lambda>g. length g = 1 \<and> list_all (\<lambda>f. fl_Op f \<in> set filterOps \<and> fl_Column f \<noteq> []) g)
      (case parseOrGroups r of Inr gs \<Rightarrow> gs | Inl _ \<Rightarrow> [])" for r
    using parseGroups_wf by (auto simp: parseOrGroups_def Let_def split: sum.splits)
  moreover have "parseNonNeg t < 2 ^ 63" for t using parseNonNeg_bounds by blast
  ultimately show ?thesis
    using parseSelect_wf [of "TrimSpace (valuesGet vs ''select'')"] parseFilters_wf [of vs]
    by (simp add: wellFormedQuery_def ParseQuery_def Let_def parseNonNeg_bounds parseOrderPart_wf)
qed

lemma splitTopLoop_Join:
  assumes "sep \<noteq> CHR ''(''" "sep \<noteq> CHR '')''" "ps \<noteq> []"
    and "\<forall>p\<in>set ps. topSepFree 0 p sep" "\<forall>p\<in>set (butlast ps). depthAfter 0 p = 0"
  shows "splitTopLoop 0 [] (Join ps [sep]) sep = ps"
  using assms(3-5)
proof (induction ps)
  case (Cons p ps)
  show ?case
  proof (cases "ps = []")
    case True
    with Cons show ?thesis by (simp add: splitTopLoop_last)
  next
    case False
    with Cons assms(1,2) show ?thesis by (simp add: Join_Cons splitTopLoop_piece)
  qed
qed simp

text \<open>\<open>splitTopLevel\<close> is characterised completely, as the only way to cut the text: its
  pieces, joined with the separator, give the text back; none of them has a separator outside
  parentheses; and every piece before a cut closes the parentheses it opens.\<close>

theorem splitTopLevel_spec:
  assumes "sep \<noteq> CHR ''(''" "sep \<noteq> CHR '')''"
  shows "splitTopLevel s sep = ps \<longleftrightarrow>
    ps \<noteq> [] \<and> Join ps [sep] = s \<and> list_all (\<lambda>p. topSepFree 0 p sep) ps \<and>
    list_all (\<lambda>p. depthAfter 0 p = 0) (butlast ps)"
  using splitTopLoop_Join [OF assms, of ps] splitTopLoop_join [of 0 "[]" s sep]
    splitTopLoop_topSepFree [of "[]" sep 0 s] splitTopLoop_butlast [of 0 "[]" _ s sep]
  by (auto simp: splitTopLevel_def list_all_iff)

theorem splitTopLevel_spec_witness:
  "splitTopLevel ''a,f(x,y),b'' (CHR '','') = [''a'', ''f(x,y)'', ''b'']"
  by (subst splitTopLevel_spec) (simp_all)

text \<open>Printed filters: the values they are printed to, which set no reserved parameter and parse back.\<close>

lemma printed_filters:
  assumes "distinct (map fl_Column fs)"
    and "list_all (\<lambda>f. fl_Op f \<in> set filterOps \<and> fl_Column f \<notin> set reservedParams) fs"
  shows "parseFilters (FiltersToQueryValues fs) = fs"
    and "k \<in> set reservedParams \<Longrightarrow> map_of (FiltersToQueryValues fs) k = None"
proof -
  let ?q = "map (\<lambda>f. (fl_Column f, [fl_Op f @ ''.'' @ fl_Value f])) fs"
  have q: "FiltersToQueryValues fs = ?q"
    using FiltersToQueryValues_fold [of fs "[]"] assms(1) by (simp add: FiltersToQueryValues_def)
  show "parseFilters (FiltersToQueryValues fs) = fs"
    using parseFilters_print assms(2) by (simp add: list_all_iff q)
  show "map_of (FiltersToQueryValues fs) k = None" if "k \<in> set reservedParams"
    using that assms(2) by (auto simp: q map_of_eq_None_iff list_all_iff)
qed

text \<open>Setting a reserved parameter leaves the filters alone.\<close>

lemma parseFilters_reserved:
  "k \<in> set reservedParams \<Longrightarrow> parseFilters (AList.update k vs q) = parseFilters q"
  by (induction q) auto

lemma reserved_names:
  "''select'' \<in> set reservedParams" "''order'' \<in> set reservedParams" "''limit'' \<in> set reservedParams"
  "''offset'' \<in> set reservedParams" "''or'' \<in> set reservedParams"
  by (simp_all add: reservedParams_def)

text \<open>The order in which the values are visited only matters for the order of the filters.\<close>

lemma parseFilters_map:
  "parseFilters vs = map (\<lambda>kv. parseFilter (fst kv) (hd (snd kv)))
     (filter (\<lambda>kv. fst kv \<notin> set reservedParams \<and> snd kv \<noteq> []) vs)"
  by (induction vs rule: parseFilters.induct) simp_all

lemma parseFilters_columns:
  assumes "distinct (map fst vs)" shows "distinct (map fl_Column (parseFilters vs))"
proof -
  have "map fl_Column (parseFilters vs) = map fst (filter (\<lambda>kv. fst kv \<notin> set reservedParams \<and> snd kv \<noteq> []) vs)"
    by (simp add: parseFilters_map comp_def)
  then show ?thesis using distinct_map_filter [OF assms] by simp
qed

lemma ParseQuery_any_order:
  assumes "distinct (map fst vs)" "distinct (map fst vs')" "set vs = set vs'"
  shows "ParseQuery vs = (ParseQuery vs')\<lparr>q_Filters := q_Filters (ParseQuery vs)\<rparr>"
    "set (q_Filters (ParseQuery vs)) = set (q_Filters (ParseQuery vs'))"
proof -
  have "map_of vs = map_of vs'" using assms by (intro map_of_inject_set [THEN iffD2]) simp_all
  then show "ParseQuery vs = (ParseQuery vs')\<lparr>q_Filters := q_Filters (ParseQuery vs)\<rparr>"
    by (simp add: ParseQuery_def valuesGet_def)
  show "set (q_Filters (ParseQuery vs)) = set (q_Filters (ParseQuery vs'))"
    by (simp add: ParseQuery_def parseFilters_map assms(3))
qed

lemma distinct_FiltersToQueryValues: "distinct (map fst (FiltersToQueryValues fs))"
proof -
  have "distinct (map fst q) \<Longrightarrow> distinct (map fst (foldl (\<lambda>q f. valuesSet (fl_Column f) (fl_Op f @ ''.'' @ fl_Value f) q) q fs))" for q
    by (induction fs arbitrary: q) (simp_all add: valuesSet_def distinct_update)
  then show ?thesis by (simp add: FiltersToQueryValues_def)
qed

text \<open>C23: filters survive being written as query parameters and read back. Let the values hold what \<open>FiltersToQueryValues\<close>
  writes (the parameters the HTTP driver sends upstream), in any order, since they are a Go map. Then \<open>ParseQuery\<close> reads from
  them the same filters, each once, in some order, and nothing else; as all filters must match, the query selects the same rows.
  Every column has one filter and none is called like a reserved parameter. The escaping of the parameters in the text of a URL
  is left to \<open>net/url\<close>.\<close>

theorem ParseQuery_FiltersToQueryValues:
  assumes "distinct (map fl_Column fs)"
    and "list_all (\<lambda>f. fl_Op f \<in> set filterOps \<and> fl_Column f \<notin> set reservedParams) fs"
    and "set vs = set (FiltersToQueryValues fs)" "distinct (map fst vs)"
  shows "\<exists>fs'. ParseQuery vs = emptyQuery\<lparr>q_Filters := fs'\<rparr> \<and> distinct fs' \<and> set fs' = set fs \<and>
    (\<forall>r. MatchQuery r fs' (q_OrGroups (ParseQuery vs)) = MatchFilters r fs)"
proof -
  have "ParseQuery (FiltersToQueryValues fs) = emptyQuery\<lparr>q_Filters := fs\<rparr>"
    using printed_filters [OF assms(1,2)] reserved_names
    by (simp add: ParseQuery_def emptyQuery_def parseNonNeg_def valuesGet_def TrimSpace_no_space)
  with ParseQuery_any_order [OF assms(4) distinct_FiltersToQueryValues assms(3)]
  have q: "ParseQuery vs = emptyQuery\<lparr>q_Filters := q_Filters (ParseQuery vs)\<rparr>" "set (q_Filters (ParseQuery vs)) = set fs"
    by (simp_all add: emptyQuery_def)
  moreover have "distinct (q_Filters (ParseQuery vs))"
    using parseFilters_columns [OF assms(4)] by (simp add: ParseQuery_def distinct_map)
  moreover have "MatchQuery r (q_Filters (ParseQuery vs)) (q_OrGroups (ParseQuery vs)) = MatchFilters r fs" for r
  proof -
    have "q_OrGroups (ParseQuery vs) = []" by (subst q(1)) (simp add: emptyQuery_def)
    then show ?thesis by (simp add: MatchQuery_def MatchFilters_iff q(2))
  qed
  ultimately show ?thesis by blast
qed

theorem ParseQuery_FiltersToQueryValues_witness:
  "\<exists>fs'. ParseQuery [(''name'', [''eq.a.b'']), (''age'', [''gte.1.5''])] = emptyQuery\<lparr>q_Filters := fs'\<rparr> \<and> distinct fs' \<and>
     set fs' = set [mkFilter ''age'' OpGte ''1.5'', mkFilter ''name'' OpEq ''a.b'']"
  using ParseQuery_FiltersToQueryValues [of "[mkFilter ''age'' OpGte ''1.5'', mkFilter ''name'' OpEq ''a.b'']"
      "[(''name'', [''eq.a.b'']), (''age'', [''gte.1.5''])]"]
  by (fastforce simp: filterOps_def reservedParams_def FiltersToQueryValues_def valuesSet_def)

text \<open>The hypothesis of the round trip on distinct columns is needed: a second filter on
  the same column is lost, both when a query string is written (the last one wins) and when one
  is read (the first one wins), so a client that asks for a range \<open>age=gte.18&age=lt.65\<close> gets
  only the first bound.\<close>

theorem repeated_filter_lost:
  "FiltersToQueryValues [mkFilter col o1 v1, mkFilter col o2 v2] = [(col, [o2 @ ''.'' @ v2])] \<and>
   q_Filters (ParseQuery ((''age'', [r1, r2]) # rest)) = parseFilter ''age'' r1 # q_Filters (ParseQuery rest)"
  by (simp add: FiltersToQueryValues_def valuesSet_def ParseQuery_def reservedParams_def)

text \<open>C25: an \<open>or=(...)\<close> list of filters parses to one group per filter, in order, with column,
  operator and value kept, for every non-empty list of filters that can be printed (plain column
  names, balanced values, no other operator's marker in the text).\<close>

theorem parseOrGroups_print:
  assumes "fs \<noteq> []" "list_all printable fs"
  shows "parseOrGroups (''('' @ Join (map printFilter fs) '','' @ '')'') = Inr (map (\<lambda>f. [f]) fs)"
proof -
  let ?ps = "map printFilter fs"
  let ?s = "Join ?ps '',''"
  have ps: "?ps \<noteq> []" "hd ?ps \<noteq> []" "last ?ps \<noteq> []" "\<not> isSpace (hd (hd ?ps))" "\<not> isSpace (last (last ?ps))"
    using assms printable_no_space_ends by (auto simp: list_all_iff hd_map last_map)
  have s: "?s \<noteq> []" "\<not> isSpace (hd ?s)" "\<not> isSpace (last ?s)"
    using ps last_Join [of ?ps "'',''"] hd_Join [of ?ps "'',''"] by auto
  have trim: "TrimSpace ?s = ?s" using s by (simp add: TrimSpace_id)
  have trim2: "TrimSpace (''('' @ ?s @ '')'') = ''('' @ ?s @ '')''"
    by (rule TrimSpace_id) (simp_all add: isSpace_def)
  have "splitTopLevel ?s (CHR '','') = ?ps"
    using assms printable_top by (intro splitTopLevel_Join) (auto simp: list_all_iff)
  moreover have "parseGroups ?ps = Inr (map (\<lambda>f. [f]) fs)"
    using assms(2) by (intro parseGroups_print) (simp add: list_all_iff)
  ultimately show ?thesis
    using s trim trim2 by (simp add: parseOrGroups_def HasSuffix_iff Let_def)
qed


theorem parseOrGroups_print_witness:
  "parseOrGroups ''(age.gte.18,name.eq.f(x,y))'' =
     Inr [[mkFilter ''age'' OpGte ''18''], [mkFilter ''name'' OpEq ''f(x,y)'']]"
  using parseOrGroups_print [of "[mkFilter ''age'' OpGte ''18'', mkFilter ''name'' OpEq ''f(x,y)'']"]
  by (simp add: printable_def printFilter_def filterOps_def isSpace_def Contains_def)

section \<open>Properties of matching and mapping\<close>

text \<open>With \<open>or\<close> groups the top-level filters play no part at all; the comment of \<open>MatchQuery\<close> promises
  \<open>AND filters and any OR group\<close>, and the postgres driver combines the two.\<close>

lemma MatchQuery_or_ignores_filters:
  "gs \<noteq> [] \<Longrightarrow> MatchQuery r fs gs = MatchQuery r fs' gs"
  by (simp add: MatchQuery_def)

definition cmpFilters :: "string \<Rightarrow> string \<Rightarrow> (Op \<Rightarrow> Filter)" where
  "cmpFilters col v = (\<lambda>op. mkFilter col op v)"

text \<open>The comparison operators of \<open>matchFilter\<close> are consistent on every row, column and value:
  \<open>neq\<close> is the complement of \<open>eq\<close>; \<open>gte\<close> and \<open>lte\<close> are \<open>gt\<close> and \<open>lt\<close> or \<open>eq\<close>; on a column that is
  present exactly one of \<open>lt\<close>, \<open>eq\<close>, \<open>gt\<close> holds, and on a missing column none of them does
  while \<open>is.null\<close> does.\<close>

theorem matchFilter_comparisons:
  "let m = (\<lambda>op. matchFilter r (cmpFilters col v op));
       present = (map_of r col \<noteq> None)
   in (m OpNeq \<longleftrightarrow> \<not> m OpEq) \<and>
      (m OpGte \<longleftrightarrow> m OpGt \<or> m OpEq) \<and> (m OpLte \<longleftrightarrow> m OpLt \<or> m OpEq) \<and>
      \<not> (m OpLt \<and> m OpGt) \<and> \<not> (m OpLt \<and> m OpEq) \<and> \<not> (m OpGt \<and> m OpEq) \<and>
      (present \<longleftrightarrow> m OpLt \<or> m OpEq \<or> m OpGt) \<and>
      (present \<or> matchFilter r (cmpFilters col ''null'' OpIs))"
  by (auto simp: matchFilter_def cmpFilters_def Let_def)

lemma map_of_localToRemote:
  assumes "distinct (map c_Name cols)" "c \<in> set cols"
  shows "map_of (localToRemote cols) (c_Name c) = Some (RemoteColumnName c)"
proof -
  have "distinct (map fst (map (\<lambda>c. (c_Name c, RemoteColumnName c)) cols))"
    using assms(1) by (simp add: comp_def)
  with assms(2) show ?thesis
    by (simp add: localToRemote_def map_of_buildMap_distinct map_of_eq_Some_iff del: map_map)
qed

lemma map_of_remoteToLocal:
  assumes "distinct (map RemoteColumnName cols)" "c \<in> set cols"
  shows "map_of (remoteToLocal cols) (RemoteColumnName c) = Some (c_Name c)"
proof -
  have "distinct (map fst (map (\<lambda>c. (RemoteColumnName c, c_Name c)) cols))"
    using assms(1) by (simp add: comp_def)
  with assms(2) show ?thesis
    by (simp add: remoteToLocal_def map_of_buildMap_distinct map_of_eq_Some_iff del: map_map)
qed


lemma rename_round:
  assumes "distinct (map c_Name cols)" "distinct (map RemoteColumnName cols)"
    and "k \<in> c_Name ` set cols \<or> k \<notin> RemoteColumnName ` set cols"
  shows "rename (remoteToLocal cols) (rename (localToRemote cols) k) = k"
proof (cases "k \<in> c_Name ` set cols")
  case True
  then show ?thesis
    using assms(1,2) by (auto simp: rename_def map_of_localToRemote map_of_remoteToLocal)
next
  case False
  have "map_of (localToRemote cols) k = None" "map_of (remoteToLocal cols) k = None"
    using False assms(3) by (auto simp: localToRemote_def remoteToLocal_def map_of_eq_None_iff
        keys_buildMap image_image)
  then show ?thesis by (simp add: rename_def)
qed

text \<open>C31: Renaming a row to the remote column names and back is the identity, for a table whose
  local names are distinct and whose remote names are distinct, on every row whose keys are local
  names or are not remote names (so no two keys collide on the way).\<close>

theorem MapRowsFromRemote_MapRowToRemote:
  assumes "distinct (map c_Name cols)" "distinct (map RemoteColumnName cols)"
    and "list_all (\<lambda>r. distinct (map fst r) \<and>
           list_all (\<lambda>k. k \<in> c_Name ` set cols \<or> k \<notin> RemoteColumnName ` set cols) (map fst r)) rows"
  shows "MapRowsFromRemote (map (\<lambda>r. MapRowToRemote r cols) rows) cols = rows"
proof -
  have "buildMap [] (map (\<lambda>kv. (rename (remoteToLocal cols) (fst kv), snd kv)) (MapRowToRemote r cols)) = r"
    if "r \<in> set rows" for r
  proof -
    let ?l = "rename (localToRemote cols)" and ?m = "rename (remoteToLocal cols)"
    have d: "distinct (map fst r)" using that assms(3) by (auto simp: list_all_iff)
    have round: "?m (?l k) = k" if "k \<in> fst ` set r" for k
      using that \<open>r \<in> set rows\<close> assms by (intro rename_round) (auto simp: list_all_iff)
    then have "inj_on ?l (fst ` set r)" by (intro inj_on_inverseI [of _ ?m]) simp
    then have "distinct (map fst (map (\<lambda>kv. (?l (fst kv), snd kv)) r))"
      using d by (simp add: comp_def distinct_map) (auto simp: inj_on_def)
    then have "MapRowToRemote r cols = map (\<lambda>kv. (?l (fst kv), snd kv)) r"
      by (simp add: MapRowToRemote_def buildMap_distinct_id)
    moreover have "map ((\<lambda>kv. (?m (fst kv), snd kv)) \<circ> (\<lambda>kv. (?l (fst kv), snd kv))) r = r"
      using round by (intro map_idI) simp
    ultimately show ?thesis using d by (simp add: buildMap_distinct_id)
  qed
  then show ?thesis by (simp add: MapRowsFromRemote_def map_idI)
qed

definition exampleColumns :: "Column list" where
  "exampleColumns =
     [\<lparr>c_ID = 1, c_TableID = 1, c_Name = ''id'', c_DataType = ''text'', c_RemoteName = '''',
       c_Nullable = True, c_Position = 0\<rparr>,
      \<lparr>c_ID = 2, c_TableID = 1, c_Name = ''name'', c_DataType = ''text'', c_RemoteName = ''full_name'',
       c_Nullable = True, c_Position = 1\<rparr>]"

theorem MapRowsFromRemote_MapRowToRemote_witness:
  "MapRowsFromRemote (map (\<lambda>r. MapRowToRemote r exampleColumns)
      [[(''name'', VStr ''bo''), (''x'', VNil)]]) exampleColumns = [[(''name'', VStr ''bo''), (''x'', VNil)]]"
  by (rule MapRowsFromRemote_MapRowToRemote) (simp_all add: exampleColumns_def RemoteColumnName_def)

section \<open>Properties of Content-Range\<close>

lemma itoaLoop_decNat: "n > 0 \<Longrightarrow> itoaLoop (int n) b = decNat n @ b"
proof (induction n arbitrary: b rule: less_induct)
  case (less n)
  show ?case
  proof (cases "n < 10")
    case True
    then show ?thesis
      using less.prems by (simp add: itoaLoop.simps [of "int n"] itoaLoop.simps [of 0] decNat.simps)
  next
    case False
    have "itoaLoop (int n) b = itoaLoop (int (n div 10)) (digitChar (n mod 10) # b)"
      using less.prems by (subst itoaLoop.simps) (simp add: zdiv_int nat_mod_distrib flip: of_nat_mod)
    with False less show ?thesis by (simp add: decNat.simps [of n])
  qed
qed


lemma length_decNat: "n < 10 ^ k \<Longrightarrow> k > 0 \<Longrightarrow> length (decNat n) \<le> k"
proof (induction k arbitrary: n)
  case (Suc k)
  show ?case
  proof (cases "n < 10")
    case True
    then show ?thesis by (simp add: decNat.simps)
  next
    case False
    with Suc.prems have "n div 10 < 10 ^ k" "k > 0"
      by (auto simp: less_mult_imp_div_less mult.commute intro: gr0I)
    with Suc.IH have "length (decNat (n div 10)) \<le> k" by blast
    with False show ?thesis by (simp add: decNat.simps [of n])
  qed
qed simp

lemma decNat_zero: "decNat 0 = ''0''"
  by code_simp

lemma itoa_decInt: "- (2 ^ 63) < n \<Longrightarrow> n < 2 ^ 63 \<Longrightarrow> itoa n = decInt n"
  using itoaLoop_decNat [of "nat n" "[]"] itoaLoop_decNat [of "nat (- n)" "[]"]
  by (auto simp: itoa_def decInt_def wrap64_def Let_def decNat_zero)

text \<open>C37: the hand-written decimal conversion of the Content-Range header agrees with \<open>%d\<close> and
  fits the 20 bytes of its buffer for every 64-bit integer but one: the least integer, whose
  negation wraps around to itself, prints as a bare minus sign.\<close>

theorem itoa_spec:
  assumes "- (2 ^ 63) \<le> n" "n < 2 ^ 63"
  shows "itoa n = (if n = - (2 ^ 63) then ''-'' else decInt n) \<and> length (itoa n) \<le> 20"
proof (cases "n = - (2 ^ 63)")
  case True
  have "itoaLoop (- (2 ^ 63)) [] = []" by (subst itoaLoop.simps) simp
  then have "itoa (- (2 ^ 63)) = ''-''" by (simp add: itoa_def wrap64_def)
  with True show ?thesis by simp
next
  case False
  with assms have "nat \<bar>n\<bar> < 10 ^ 19" by simp
  then have "length (decNat (nat \<bar>n\<bar>)) \<le> 19" by (rule length_decNat) simp
  then have "length (decInt n) \<le> 20" by (cases "n < 0") (simp_all add: decInt_def)
  with False assms itoa_decInt [of n] show ?thesis by simp
qed

theorem itoa_spec_witness: "itoa (- 9223372036854775808) = ''-'' \<and> length (itoa (- 9223372036854775808)) \<le> 20"
  using itoa_spec [of "- 9223372036854775808"] by simp

end
