(* ===== verification/DriverApi.thy ===== *)
theory DriverApi
  imports Query
begin

text \<open>
  The driver interface of \<open>internal/driver\<close> (driver.go, count.go, registry.go, closer.go).
  A driver is a record of operations on a world \<open>'w\<close> (the remote system and the
  process's own clients); an optional interface of Go (\<open>Counter\<close>) is an optional field.
  The locale \<open>read_only_driver\<close> is the contract of the drivers that load all rows and
  filter, project and page them in memory.
\<close>

section \<open>Requests and drivers\<close>

record SelectRequest =
  sr_Resolved :: ResolvedTable
  sr_Select :: "string list"
  sr_Filters :: "Filter list"
  sr_OrGroups :: "Filter list list"
  sr_Order :: "OrderSpec list"
  sr_Limit :: int
  sr_Offset :: int

record RowRequest =
  rr_Resolved :: ResolvedTable
  rr_Row :: row
  rr_Filters :: "Filter list"
  rr_OrGroups :: "Filter list list"
  rr_PreferRepresentation :: bool
  rr_PreferUpsert :: bool
  rr_Returning :: "string list"

record DeleteRequest =
  dr_Resolved :: ResolvedTable
  dr_Filters :: "Filter list"
  dr_OrGroups :: "Filter list list"

record InvokeRequest =
  ir_Resolved :: ResolvedFunction
  ir_Body :: "row option"
  ir_Query :: "(string \<times> string) list"

text \<open>A returned row of \<open>None\<close> is a nil map; \<open>d_count\<close> is \<open>None\<close> for a driver without \<open>Count\<close>.\<close>

record 'w driver =
  d_select :: "SelectRequest \<Rightarrow> ('w, err, row list) comp"
  d_insert :: "RowRequest \<Rightarrow> ('w, err, row option) comp"
  d_update :: "RowRequest \<Rightarrow> ('w, err, int) comp"
  d_upsert :: "RowRequest \<Rightarrow> ('w, err, bool \<times> row option) comp"
  d_delete :: "DeleteRequest \<Rightarrow> ('w, err, int) comp"
  d_invoke :: "InvokeRequest \<Rightarrow> ('w, err, val) comp"
  d_count :: "(SelectRequest \<Rightarrow> ('w, err, int) comp) option"

text \<open>\<open>driver.Count\<close>: the native count, or the length of an unlimited select.\<close>

definition Count :: "'w driver \<Rightarrow> SelectRequest \<Rightarrow> ('w, err, int) comp" where
  "Count drv req =
     (case d_count drv of
        Some c \<Rightarrow> c req
      | None \<Rightarrow>
          bindC (d_select drv (req\<lparr>sr_Limit := 0, sr_Offset := 0, sr_Select := []\<rparr>))
            (\<lambda>rows. retC (int (length rows))))"

section \<open>The registry\<close>

text \<open>A credential of \<open>None\<close> is the nil map of a server without one.\<close>

type_synonym 'w Factory = "Server \<Rightarrow> row option \<Rightarrow> ('w, err, 'w driver) comp"
type_synonym 'w factories = "(Protocol \<times> 'w Factory) list"

definition Register :: "Protocol \<Rightarrow> 'w Factory \<Rightarrow> 'w factories \<Rightarrow> 'w factories" where
  "Register protocol factory fs = AList.update protocol factory fs"

definition New :: "'w factories \<Rightarrow> 'w Factory" where
  "New fs srv cred =
     (case map_of fs (s_Protocol srv) of
        None \<Rightarrow> failC (Errorf (''unsupported protocol '' @ quoteGo (s_Protocol srv)))
      | Some factory \<Rightarrow> factory srv cred)"

section \<open>Projection and paging in memory\<close>

text \<open>
  \<open>applySelect\<close> of the file driver (\<open>applySelectCols\<close> of the s3 driver), and the offset and limit
  steps at the end of both drivers' \<open>Select\<close>.
\<close>

definition applySelect :: "row list \<Rightarrow> string list \<Rightarrow> row list" where
  "applySelect rows cols =
     (if cols = [] then rows
      else map (\<lambda>r. buildMap [] (List.map_filter
             (\<lambda>c. map_option (\<lambda>v. (c, v)) (map_of r c)) cols)) rows)"

definition pageRows :: "int \<Rightarrow> int \<Rightarrow> 'a list \<Rightarrow> 'a list" where
  "pageRows off lim rows =
     (let rows1 = (if off > 0 \<and> off < int (length rows) then drop (nat off) rows
                   else if off \<ge> int (length rows) then [] else rows)
      in if lim > 0 \<and> int (length rows1) > lim then take (nat lim) rows1 else rows1)"

text \<open>The rows of a CSV file: its first record names the columns.\<close>

definition csvRow :: "string list \<Rightarrow> string list \<Rightarrow> row" where
  "csvRow hdr rec = buildMap [] (zip hdr (map VStr rec))"

definition csvRows :: "string list list \<Rightarrow> row list" where
  "csvRows records = (case records of [] \<Rightarrow> [] | hdr # recs \<Rightarrow> map (csvRow hdr) recs)"

text \<open>\<open>readNDJSONFile\<close> and \<open>parseNDJSON\<close>: one object per non-empty line.\<close>

fun ndjsonRows :: "(string \<Rightarrow> raw) \<Rightarrow> string list \<Rightarrow> err + row list" where
  "ndjsonRows json [] = Inr []"
| "ndjsonRows json (line # rest) =
     (if TrimSpace line = [] then ndjsonRows json rest
      else (case unmarshalRow (json (TrimSpace line)) of
              Inl e \<Rightarrow> Inl e
            | Inr r \<Rightarrow> (case ndjsonRows json rest of Inl e \<Rightarrow> Inl e | Inr rs \<Rightarrow> Inr (r # rs))))"

text \<open>An array of objects, or a single object as one row.\<close>

definition rowsOrRow :: "raw \<Rightarrow> err + row list" where
  "rowsOrRow r =
     (case unmarshalRows r of
        Inr rows \<Rightarrow> Inr rows
      | Inl _ \<Rightarrow> (case unmarshalRow r of Inl e \<Rightarrow> Inl e | Inr one \<Rightarrow> Inr [one]))"

lemma pageRows_drop_take:
  "off \<ge> 0 \<Longrightarrow> pageRows off lim rows =
     (if lim > 0 then take (nat lim) (drop (nat off) rows) else drop (nat off) rows)"
  by (cases "off = 0") (auto simp: pageRows_def Let_def)

lemma length_pageRows: "off \<ge> 0 \<Longrightarrow> lim > 0 \<Longrightarrow> length (pageRows off lim rows) \<le> nat lim"
  by (simp add: pageRows_drop_take)

lemma set_pageRows: "off \<ge> 0 \<Longrightarrow> set (pageRows off lim rows) \<subseteq> set rows"
  by (auto simp: pageRows_drop_take dest: in_set_takeD in_set_dropD)

lemma length_applySelect [simp]: "length (applySelect rows cols) = length rows"
  by (simp add: applySelect_def)

lemma pageRows_map: "pageRows off lim (map f rows) = map f (pageRows off lim rows)"
  by (simp add: pageRows_def Let_def drop_map take_map)

lemma applySelect_map:
  "applySelect rows cols = map (\<lambda>r. hd (applySelect [r] cols)) rows"
  by (simp add: applySelect_def)

text \<open>Consecutive pages of one size cover the rows exactly once, in order.\<close>

lemma pages_concat:
  assumes "n > 0"
  shows "concat (map (\<lambda>k. pageRows (int (k * n)) (int n) rows) [0..<m]) = take (m * n) rows"
proof (induction m)
  case (Suc m)
  have "take (Suc m * n) rows = take (m * n) rows @ take n (drop (m * n) rows)"
    using take_add [of "m * n" n rows] by (simp add: add.commute nat_mult_distrib)
  with Suc assms show ?case by (simp add: pageRows_drop_take nat_mult_distrib)
qed simp


section \<open>Read-only drivers\<close>

text \<open>
  A driver that loads the rows of a table, keeps those that satisfy the request, projects and
  pages them and renames their columns, and that supports no other operation.
\<close>

locale read_only_driver =
  fixes drv :: "'w driver"
    and load :: "ResolvedTable \<Rightarrow> ('w, err, row list) comp"
    and keep :: "SelectRequest \<Rightarrow> row \<Rightarrow> bool"
  assumes select_eq:
      "d_select drv req = bindC (load (sr_Resolved req))
         (\<lambda>rows. retC (MapRowsFromRemote (pageRows (sr_Offset req) (sr_Limit req)
             (applySelect (filter (keep req) rows) (sr_Select req))) (rt_Columns (sr_Resolved req))))"
    and keep_cong:
      "sr_Resolved req = sr_Resolved req' \<Longrightarrow> sr_Filters req = sr_Filters req' \<Longrightarrow>
       sr_OrGroups req = sr_OrGroups req' \<Longrightarrow> keep req = keep req'"
    and no_insert: "d_insert drv rr = failC ErrNotSupported"
    and no_update: "d_update drv rr = failC ErrNotSupported"
    and no_upsert: "d_upsert drv rr = failC ErrNotSupported"
    and no_delete: "d_delete drv dr = failC ErrNotSupported"
    and no_invoke: "d_invoke drv ir = failC ErrNotSupported"
    and no_count: "d_count drv = None"
begin

lemma select_ok_iff:
  "d_select drv req w = (Inr rows, w') \<longleftrightarrow>
     (\<exists>all. load (sr_Resolved req) w = (Inr all, w') \<and>
        rows = MapRowsFromRemote (pageRows (sr_Offset req) (sr_Limit req)
          (applySelect (filter (keep req) all) (sr_Select req))) (rt_Columns (sr_Resolved req)))"
  by (auto simp: select_eq comp_defs split: prod.splits sum.splits)

lemma select_order_irrelevant: "d_select drv (req\<lparr>sr_Order := ord\<rparr>) = d_select drv req"
proof -
  have "keep (req\<lparr>sr_Order := ord\<rparr>) = keep req" by (rule keep_cong) simp_all
  then show ?thesis by (simp add: select_eq)
qed

lemma count_eq:
  "Count drv req = bindC (load (sr_Resolved req)) (\<lambda>rows. retC (int (length (filter (keep req) rows))))"
proof -
  have "keep (req\<lparr>sr_Limit := 0, sr_Offset := 0, sr_Select := []\<rparr>) = keep req"
    by (rule keep_cong) simp_all
  then show ?thesis
    by (intro ext) (simp add: Count_def no_count select_eq comp_defs MapRowsFromRemote_def
        pageRows_drop_take split: prod.split sum.split)
qed

text \<open>Pages of one size, in order, are the unpaged result cut after that many rows.\<close>

lemma select_pages:
  assumes "load (sr_Resolved req) w = (Inr all, w)" "n > 0"
    and "d_select drv (req\<lparr>sr_Limit := 0, sr_Offset := 0\<rparr>) w = (Inr rows, w)"
    and "\<And>k. k < m \<Longrightarrow>
      d_select drv (req\<lparr>sr_Limit := int n, sr_Offset := int (k * n)\<rparr>) w = (Inr (page k), w)"
  shows "concat (map page [0..<m]) = take (m * n) rows"
proof -
  have keep: "keep (req\<lparr>sr_Limit := l, sr_Offset := o'\<rparr>) = keep req" for l o'
    by (rule keep_cong) simp_all
  let ?f = "\<lambda>rs. MapRowsFromRemote rs (rt_Columns (sr_Resolved req))"
  let ?all = "applySelect (filter (keep req) all) (sr_Select req)"
  have f: "?f rs = map (\<lambda>r. hd (?f [r])) rs" for rs by (simp add: MapRowsFromRemote_def)
  have rows: "rows = ?f ?all"
    using assms(1,3) by (simp add: select_ok_iff keep pageRows_drop_take)
  have page: "page k = ?f (pageRows (int (k * n)) (int n) ?all)" if "k < m" for k
    using assms(1) assms(4) [OF that] by (simp add: select_ok_iff keep)
  have "concat (map page [0..<m]) = concat (map (\<lambda>k. ?f (pageRows (int (k * n)) (int n) ?all)) [0..<m])"
    by (intro arg_cong [of _ _ concat] map_cong) (simp_all add: page)
  also have "\<dots> = concat (map (\<lambda>k. pageRows (int (k * n)) (int n) (?f ?all)) [0..<m])"
    by (subst (1 2) f) (simp only: pageRows_map)
  also have "\<dots> = take (m * n) rows"
    unfolding rows using assms(2) by (rule pages_concat)
  finally show ?thesis .
qed

end

section \<open>Example data\<close>

definition exampleServer :: "Protocol \<Rightarrow> raw \<Rightarrow> Server" where
  "exampleServer protocol opts =
     \<lparr>s_ID = 1, s_Name = ''srv'', s_Protocol = protocol, s_Options = opts, s_CredentialRef = None,
      s_Enabled = True, s_UpdatedAt = 0\<rparr>"

definition exampleResolved :: "Protocol \<Rightarrow> string \<Rightarrow> ResolvedTable" where
  "exampleResolved protocol name =
     \<lparr>rt_Table = \<lparr>t_ID = 1, t_ServerID = 1, t_SchemaName = ''public'', t_TableName = name,
                  t_RemoteName = '''', t_KeyColumns = [''id''], t_Options = RawEmpty, t_ServerName = ''srv''\<rparr>,
      rt_Server = exampleServer protocol RawEmpty,
      rt_Columns = exampleColumns\<rparr>"

end
