(* ===== verification/DriverPool.thy ===== *)
theory DriverPool
  imports DriverApi "HOL-Library.Multiset"
begin

text \<open>
  The pool of drivers (\<open>internal/engine/driver_pool.go\<close>): one driver per server, replaced
  when the server's configuration version changes. \<open>Get\<close> holds the lock in two sections,
  modelled as \<open>poolLookup\<close> and \<open>poolInstall\<close>; the driver is created between them without the
  lock. The sequential \<open>poolGet\<close> composes them as one caller sees them; the step relation
  \<open>poolStep\<close> interleaves them for any number of callers.
\<close>

section \<open>The pool\<close>

record 'h pooledDriver =
  pd_version :: string
  pd_drv :: 'h

type_synonym 'h pool = "(uuid \<times> 'h pooledDriver) list"

definition newDriverPool :: "'h pool" where
  "newDriverPool = []"

text \<open>The first locked section of \<open>Get\<close>: a driver of the wanted version.\<close>

definition poolLookup :: "'h pool \<Rightarrow> uuid \<Rightarrow> string \<Rightarrow> 'h option" where
  "poolLookup p sid version =
     (case map_of p sid of
        Some item \<Rightarrow> if pd_version item = version then Some (pd_drv item) else None
      | None \<Rightarrow> None)"

text \<open>
  The second locked section: the driver to return, whether it is the new one, the drivers to
  close, and the pool after it.
\<close>

definition poolInstall :: "'h pool \<Rightarrow> uuid \<Rightarrow> string \<Rightarrow> 'h \<Rightarrow> ('h \<times> bool) \<times> 'h list \<times> 'h pool" where
  "poolInstall p sid version drv =
     (let new = AList.update sid \<lparr>pd_version = version, pd_drv = drv\<rparr> p
      in case map_of p sid of
           Some item \<Rightarrow>
             if pd_version item = version then ((pd_drv item, False), [drv], p)
             else ((drv, True), [pd_drv item], new)
         | None \<Rightarrow> ((drv, True), [], new))"

text \<open>\<open>Close\<close>: the drivers to close; the pool is empty afterwards.\<close>

definition poolClose :: "'h pool \<Rightarrow> 'h list \<times> 'h pool" where
  "poolClose p = (map (\<lambda>kv. pd_drv (snd kv)) p, [])"

text \<open>
  \<open>Get\<close> without interference: \<open>close\<close> is \<open>driver.Close\<close> and \<open>create\<close> the function the
  engine passes.
\<close>

definition poolGet ::
  "('h \<Rightarrow> 'w \<Rightarrow> 'w) \<Rightarrow> uuid \<Rightarrow> string \<Rightarrow> ('w, err, 'h) comp \<Rightarrow> 'h pool \<times> 'w \<Rightarrow> (err + 'h \<times> bool) \<times> 'h pool \<times> 'w"
where
  "poolGet close sid version create pw =
     (case pw of (p, w) \<Rightarrow>
        (case poolLookup p sid version of
           Some drv \<Rightarrow> (Inr (drv, False), p, w)
         | None \<Rightarrow>
             (case create w of
                (Inl e, w1) \<Rightarrow> (Inl e, p, w1)
              | (Inr drv, w1) \<Rightarrow>
                  (case poolInstall p sid version drv of
                     (r, closes, p') \<Rightarrow> (Inr r, p', fold close closes w1)))))"

section \<open>The version of a configuration\<close>

text \<open>
  What the hash is computed from. The texts of a time, of raw JSON and of a UUID, and the hash
  itself, are parameters.
\<close>

record hashing =
  hv_time :: "time \<Rightarrow> string"
  hv_raw :: "raw \<Rightarrow> string"
  hv_uuid :: "uuid \<Rightarrow> string"
  hv_sum :: "string \<Rightarrow> string"

definition hashCredential :: "row option \<Rightarrow> string" where
  "hashCredential cred =
     (case cred of
        None \<Rightarrow> []
      | Some c \<Rightarrow> concat (map (\<lambda>k. k @ Sprint (getAny c k)) (sort (map fst c))))"

definition driverConfigVersion :: "hashing \<Rightarrow> Server \<Rightarrow> row option \<Rightarrow> string" where
  "driverConfigVersion hv srv cred =
     hv_sum hv (hv_time hv (s_UpdatedAt srv) @ s_Protocol srv @ hv_raw hv (s_Options srv) @
       (case s_CredentialRef srv of None \<Rightarrow> [] | Some ref \<Rightarrow> hv_uuid hv ref) @ hashCredential cred)"

section \<open>Interleaved callers\<close>

text \<open>
  A caller looks up, creates a driver when there is none (the \<open>n\<close>-th creation gives the handle
  \<open>n\<close>) or fails to, installs it, and then uses the driver it got. \<open>ps_closed\<close> lists the
  closes, latest first.
\<close>

datatype caller =
    Start uuid string
  | Creating uuid string
  | Installing uuid string nat
  | Using nat
  | Failed

record poolState =
  ps_items :: "nat pool"
  ps_next :: nat
  ps_closed :: "nat list"
  ps_callers :: "caller list"

inductive poolStep :: "poolState \<Rightarrow> poolState \<Rightarrow> bool" where
  lookup_hit:
    "i < length (ps_callers s) \<Longrightarrow> ps_callers s ! i = Start sid v \<Longrightarrow>
     poolLookup (ps_items s) sid v = Some h \<Longrightarrow>
     poolStep s (s\<lparr>ps_callers := (ps_callers s)[i := Using h]\<rparr>)"
| lookup_miss:
    "i < length (ps_callers s) \<Longrightarrow> ps_callers s ! i = Start sid v \<Longrightarrow>
     poolLookup (ps_items s) sid v = None \<Longrightarrow>
     poolStep s (s\<lparr>ps_callers := (ps_callers s)[i := Creating sid v]\<rparr>)"
| create_ok:
    "i < length (ps_callers s) \<Longrightarrow> ps_callers s ! i = Creating sid v \<Longrightarrow>
     poolStep s (s\<lparr>ps_next := Suc (ps_next s),
       ps_callers := (ps_callers s)[i := Installing sid v (ps_next s)]\<rparr>)"
| create_fails:
    "i < length (ps_callers s) \<Longrightarrow> ps_callers s ! i = Creating sid v \<Longrightarrow>
     poolStep s (s\<lparr>ps_callers := (ps_callers s)[i := Failed]\<rparr>)"
| install:
    "i < length (ps_callers s) \<Longrightarrow> ps_callers s ! i = Installing sid v h \<Longrightarrow>
     poolInstall (ps_items s) sid v h = ((h', new), closes, items') \<Longrightarrow>
     poolStep s (s\<lparr>ps_items := items', ps_closed := rev closes @ ps_closed s,
       ps_callers := (ps_callers s)[i := Using h']\<rparr>)"
| close_all:
    "poolClose (ps_items s) = (closes, items') \<Longrightarrow>
     poolStep s (s\<lparr>ps_items := items', ps_closed := rev closes @ ps_closed s\<rparr>)"

inductive poolReach :: "poolState \<Rightarrow> bool" where
  initially: "list_all (\<lambda>c. \<exists>sid v. c = Start sid v) cs \<Longrightarrow>
     poolReach \<lparr>ps_items = newDriverPool, ps_next = 0, ps_closed = [], ps_callers = cs\<rparr>"
| step: "poolReach s \<Longrightarrow> poolStep s s' \<Longrightarrow> poolReach s'"

text \<open>The handles in the pool and those created but not installed yet.\<close>

definition pooledHandles :: "'h pool \<Rightarrow> 'h list" where
  "pooledHandles p = map (\<lambda>kv. pd_drv (snd kv)) p"

fun pendingOf :: "caller \<Rightarrow> nat list" where
  "pendingOf (Installing sid v h) = [h]"
| "pendingOf _ = []"

definition pending :: "caller list \<Rightarrow> nat list" where
  "pending cs = concat (map pendingOf cs)"

text \<open>Every handle ever created is in exactly one place, exactly once: pooled, pending or closed.\<close>

definition poolInv :: "poolState \<Rightarrow> bool" where
  "poolInv s \<longleftrightarrow>
     distinct (map fst (ps_items s)) \<and>
     mset (pooledHandles (ps_items s)) + mset (pending (ps_callers s)) + mset (ps_closed s) =
       mset [0..<ps_next s]"

section \<open>Lemmas\<close>

lemma mset_pending_update:
  assumes "i < length cs"
  shows "mset (pending (cs[i := c])) + mset (pendingOf (cs ! i)) = mset (pending cs) + mset (pendingOf c)"
  using assms
proof (induction cs arbitrary: i)
  case (Cons d cs)
  then show ?case by (cases i) (auto simp: pending_def ac_simps)
qed simp

lemma mset_pooled_update:
  assumes "distinct (map fst p)"
  shows "mset (pooledHandles (AList.update k item p)) + mset (case map_of p k of Some i' \<Rightarrow> [pd_drv i'] | None \<Rightarrow> []) =
         mset (pooledHandles p) + {#pd_drv item#}"
  using assms
proof (induction p)
  case (Cons kv p)
  have "map_of p (fst kv) = None" using Cons.prems by (simp add: map_of_eq_None_iff)
  with Cons show ?case by (cases kv) (auto simp: pooledHandles_def)
qed (simp add: pooledHandles_def)

lemma poolInstall_mset:
  assumes "distinct (map fst p)" "poolInstall p sid v h = ((h', new), closes, p')"
  shows "mset (pooledHandles p') + mset closes = mset (pooledHandles p) + {#h#} \<and> distinct (map fst p')"
  using assms mset_pooled_update [OF assms(1), of sid "\<lparr>pd_version = v, pd_drv = h\<rparr>"]
  by (auto simp: poolInstall_def Let_def distinct_update split: option.splits if_splits)

lemma poolClose_mset: "poolClose p = (closes, p') \<Longrightarrow> mset closes = mset (pooledHandles p) \<and> p' = []"
  by (auto simp: poolClose_def pooledHandles_def)

lemma poolInv_initially:
  "list_all (\<lambda>c. \<exists>sid v. c = Start sid v) cs \<Longrightarrow>
   poolInv \<lparr>ps_items = newDriverPool, ps_next = 0, ps_closed = [], ps_callers = cs\<rparr>"
  by (induction cs) (auto simp: poolInv_def newDriverPool_def pooledHandles_def pending_def)

lemma mset_move:
  assumes "A' + C = A + H" "P' + H = P" "A + P + K = (N :: 'a multiset)"
  shows "A' + P' + (C + K) = N"
proof -
  have "A' + P' + (C + K) + H = (A' + C) + (P' + H) + K" by (simp only: ac_simps)
  also have "\<dots> = N + H" unfolding assms(1,2) assms(3) [symmetric] by (simp only: ac_simps)
  finally show ?thesis by (simp only: add_right_cancel)
qed

lemma poolInv_step: "poolStep s s' \<Longrightarrow> poolInv s \<Longrightarrow> poolInv s'"
proof (induction rule: poolStep.induct)
  case (install i s sid v h h' new closes items')
  have d: "distinct (map fst (ps_items s))" using install.prems by (simp add: poolInv_def)
  note inst = poolInstall_mset [OF d install.hyps(3)]
  have p: "mset (pending ((ps_callers s)[i := Using h'])) + {#h#} = mset (pending (ps_callers s))"
    using mset_pending_update [OF install.hyps(1), of "Using h'"] install.hyps(2) by simp
  have "mset (pooledHandles (ps_items s)) + mset (pending (ps_callers s)) + mset (ps_closed s) =
      mset [0..<ps_next s]"
    using install.prems by (simp add: poolInv_def)
  from mset_move [OF inst [THEN conjunct1] p this] inst show ?case
    by (simp add: poolInv_def)
next
  case (close_all s closes items')
  then show ?case using poolClose_mset [OF close_all.hyps] by (simp add: poolInv_def pooledHandles_def ac_simps)
next
  case (create_ok i s sid v)
  then show ?case
    using mset_pending_update [OF create_ok.hyps(1), of "Installing sid v (ps_next s)"]
    by (simp add: poolInv_def ac_simps)
next
  case (lookup_hit i s sid v h)
  then show ?case
    using mset_pending_update [OF lookup_hit.hyps(1), of "Using h"] by (simp add: poolInv_def)
next
  case (lookup_miss i s sid v)
  then show ?case
    using mset_pending_update [OF lookup_miss.hyps(1), of "Creating sid v"] by (simp add: poolInv_def)
next
  case (create_fails i s sid v)
  then show ?case
    using mset_pending_update [OF create_fails.hyps(1), of Failed] by (simp add: poolInv_def)
qed

lemma poolReach_inv: "poolReach s \<Longrightarrow> poolInv s"
  by (induction rule: poolReach.induct) (auto intro: poolInv_initially poolInv_step)

section \<open>Properties\<close>

text \<open>C13: in every interleaving of any number of \<open>Get\<close> and \<open>Close\<close> calls each driver ever created
  is in exactly one place: in the pool, held by the caller about to install it, or closed. So no driver
  leaks, none is closed twice, and the pool never hands out a driver that is already closed.\<close>

theorem pool_no_leak_no_double_close:
  assumes "poolReach s"
  shows "distinct (ps_closed s) \<and> distinct (pooledHandles (ps_items s)) \<and> distinct (map fst (ps_items s)) \<and>
    set (ps_closed s) \<inter> set (pooledHandles (ps_items s)) = {} \<and>
    set (ps_closed s) \<inter> set (pending (ps_callers s)) = {} \<and>
    set (pooledHandles (ps_items s)) \<union> set (pending (ps_callers s)) \<union> set (ps_closed s) = {0..<ps_next s}"
proof -
  have inv: "poolInv s" using assms by (rule poolReach_inv)
  let ?all = "pooledHandles (ps_items s) @ pending (ps_callers s) @ ps_closed s"
  have m: "mset ?all = mset [0..<ps_next s]" using inv by (simp add: poolInv_def ac_simps)
  have "distinct ?all" using m by (metis distinct_upt mset_eq_imp_distinct_iff)
  moreover have "set ?all = {0..<ps_next s}" using m by (metis atLeastLessThan_upt mset_eq_setD)
  ultimately show ?thesis using inv by (auto simp: poolInv_def)
qed

text \<open>Two callers that want different versions of the same server.\<close>

definition twoCallers :: poolState where
  "twoCallers = \<lparr>ps_items = newDriverPool, ps_next = 0, ps_closed = [], ps_callers = [Start 1 ''a'', Start 1 ''b'']\<rparr>"

definition afterFirst :: poolState where
  "afterFirst = \<lparr>ps_items = [(1, \<lparr>pd_version = ''a'', pd_drv = 0\<rparr>)], ps_next = 1, ps_closed = [],
     ps_callers = [Using 0, Start 1 ''b'']\<rparr>"

definition afterSecond :: poolState where
  "afterSecond = \<lparr>ps_items = [(1, \<lparr>pd_version = ''b'', pd_drv = 1\<rparr>)], ps_next = 2, ps_closed = [0],
     ps_callers = [Using 0, Using 1]\<rparr>"

lemma reach_twoCallers: "poolReach twoCallers"
  unfolding twoCallers_def by (rule poolReach.initially) simp

lemma reach_afterFirst: "poolReach afterFirst"
proof -
  let ?s1 = "twoCallers\<lparr>ps_callers := [Creating 1 ''a'', Start 1 ''b'']\<rparr>"
  let ?s2 = "?s1\<lparr>ps_next := 1, ps_callers := [Installing 1 ''a'' 0, Start 1 ''b'']\<rparr>"
  have "poolStep twoCallers ?s1"
    using poolStep.lookup_miss [of 0 twoCallers 1 "''a''"]
    by (simp add: twoCallers_def poolLookup_def newDriverPool_def)
  moreover have "poolStep ?s1 ?s2"
    using poolStep.create_ok [of 0 ?s1 1 "''a''"] by (simp add: twoCallers_def)
  moreover have "poolStep ?s2 afterFirst"
    using poolStep.install [of 0 ?s2 1 "''a''" 0]
    by (simp add: twoCallers_def afterFirst_def poolInstall_def newDriverPool_def)
  ultimately show ?thesis using reach_twoCallers by (meson poolReach.step)
qed

lemma reach_afterSecond: "poolReach afterSecond"
proof -
  let ?s1 = "afterFirst\<lparr>ps_callers := [Using 0, Creating 1 ''b'']\<rparr>"
  let ?s2 = "?s1\<lparr>ps_next := 2, ps_callers := [Using 0, Installing 1 ''b'' 1]\<rparr>"
  have "poolStep afterFirst ?s1"
    using poolStep.lookup_miss [of 1 afterFirst 1 "''b''"] by (simp add: afterFirst_def poolLookup_def)
  moreover have "poolStep ?s1 ?s2"
    using poolStep.create_ok [of 1 ?s1 1 "''b''"] by (simp add: afterFirst_def numeral_2_eq_2)
  moreover have "poolStep ?s2 afterSecond"
    using poolStep.install [of 1 ?s2 1 "''b''" 1]
    by (simp add: afterFirst_def afterSecond_def poolInstall_def)
  ultimately show ?thesis using reach_afterFirst by (meson poolReach.step)
qed

theorem pool_no_leak_no_double_close_witness:
  "distinct (ps_closed afterSecond) \<and> set (ps_closed afterSecond) \<union> set (pooledHandles (ps_items afterSecond)) = {0, 1}"
  using pool_no_leak_no_double_close [OF reach_afterSecond]
  by (auto simp: afterSecond_def pending_def pooledHandles_def)

text \<open>C36: closing the pool when no caller holds a driver it has yet to install closes every driver
  ever created, each exactly once, and leaves the pool empty.\<close>

theorem pool_close_releases_all:
  assumes "poolReach s" "list_all (\<lambda>c. pendingOf c = []) (ps_callers s)"
    and "poolClose (ps_items s) = (closes, items')"
  shows "items' = [] \<and> mset (closes @ ps_closed s) = mset [0..<ps_next s]"
proof -
  have "poolInv s" using assms(1) by (rule poolReach_inv)
  moreover have "pending (ps_callers s) = []" using assms(2) by (simp add: pending_def list_all_iff)
  ultimately show ?thesis using poolClose_mset [OF assms(3)] by (simp add: poolInv_def)
qed

theorem pool_close_releases_all_witness:
  "snd (poolClose (ps_items afterSecond)) = [] \<and>
   mset (fst (poolClose (ps_items afterSecond)) @ [0]) = mset [0, 1]"
  using pool_close_releases_all [OF reach_afterSecond, of "[1]" "[]"]
  by (simp add: afterSecond_def poolClose_def numeral_2_eq_2)

text \<open>A driver can be closed while a caller still uses it: the pool keeps no count of users, so
  when the configuration changes between two calls, installing the new driver closes the one the
  first caller was given.\<close>

theorem pool_use_after_close:
  "\<exists>s h. poolReach s \<and> Using h \<in> set (ps_callers s) \<and> h \<in> set (ps_closed s)"
  by (rule exI [of _ afterSecond], rule exI [of _ 0], use reach_afterSecond in \<open>simp add: afterSecond_def\<close>)

text \<open>For one caller at a time \<open>Get\<close> is a cache keyed by server and version: on a hit it returns the
  pooled driver and touches nothing; on a miss it creates one, closes the one of another version if there
  is one, and a second \<open>Get\<close> of the same version then returns the same driver without creating.\<close>

theorem poolGet_spec:
  "poolGet close sid v create (p, w) =
     (case map_of p sid of
        Some item \<Rightarrow>
          if pd_version item = v then (Inr (pd_drv item, False), p, w)
          else (case create w of
                  (Inl e, w1) \<Rightarrow> (Inl e, p, w1)
                | (Inr h, w1) \<Rightarrow> (Inr (h, True), AList.update sid \<lparr>pd_version = v, pd_drv = h\<rparr> p, close (pd_drv item) w1))
      | None \<Rightarrow>
          (case create w of
             (Inl e, w1) \<Rightarrow> (Inl e, p, w1)
           | (Inr h, w1) \<Rightarrow> (Inr (h, True), AList.update sid \<lparr>pd_version = v, pd_drv = h\<rparr> p, w1))) \<and>
   (case poolGet close sid v create (p, w) of
      (Inl e, p', w') \<Rightarrow> p' = p
    | (Inr (h, new), p', w') \<Rightarrow> poolGet close sid v create' (p', w') = (Inr (h, False), p', w'))"
  by (auto simp: poolGet_def poolLookup_def poolInstall_def Let_def update_conv'
      split: option.splits prod.splits sum.splits if_splits)

text \<open>The version does not separate a credential's keys from its values, nor the entries from each
  other: two different credentials can have one version, and then \<open>Get\<close> returns the driver made with the
  old credential and never calls \<open>create\<close>.\<close>

theorem credential_version_collision:
  "let old = Some [(''password'', VStr ''1''), (''port'', VStr ''3306'')];
       new = Some [(''password'', VStr ''1port3306'')];
       v = driverConfigVersion hv srv old
   in driverConfigVersion hv srv new = v \<and> old \<noteq> new \<and>
      poolGet close (s_ID srv) (driverConfigVersion hv srv new) create
        ([(s_ID srv, \<lparr>pd_version = v, pd_drv = h\<rparr>)], w) =
        (Inr (h, False), [(s_ID srv, \<lparr>pd_version = v, pd_drv = h\<rparr>)], w)"
proof -
  have "hashCredential (Some [(''password'', VStr ''1''), (''port'', VStr ''3306'')]) =
        hashCredential (Some [(''password'', VStr ''1port3306'')])"
    by code_simp
  then show ?thesis by (simp add: Let_def driverConfigVersion_def poolGet_def poolLookup_def)
qed
end
