(* ===== verification/Breaker.thy ===== *)
theory Breaker
  imports Errors
begin

text \<open>
  The circuit breaker of \<open>internal/observability/middleware.go\<close>, which the engine puts in front
  of the creation of drivers. The clock is an argument of the operations that read it.
\<close>

type_synonym duration = int

record Breaker =
  br_failures :: int
  br_open :: bool
  br_until :: int
  br_maxFails :: int
  br_cooldown :: duration

definition NewBreaker :: "int \<Rightarrow> duration \<Rightarrow> Breaker" where
  "NewBreaker maxFails cooldown =
     \<lparr>br_failures = 0, br_open = False, br_until = 0,
      br_maxFails = (if maxFails \<le> 0 then 5 else maxFails),
      br_cooldown = (if cooldown \<le> 0 then 30 * 1000000000 else cooldown)\<rparr>"

definition Allow :: "int \<Rightarrow> Breaker \<Rightarrow> err option \<times> Breaker" where
  "Allow now b =
     (if \<not> br_open b then (None, b)
      else if now > br_until b then (None, b\<lparr>br_open := False, br_failures := 0\<rparr>)
      else (Some ErrBreakerOpen, b))"

definition Success :: "Breaker \<Rightarrow> Breaker" where
  "Success b = b\<lparr>br_failures := 0, br_open := False\<rparr>"

definition Fail :: "int \<Rightarrow> Breaker \<Rightarrow> Breaker" where
  "Fail now b =
     (let b1 = b\<lparr>br_failures := br_failures b + 1\<rparr>
      in if br_failures b1 \<ge> br_maxFails b1
         then b1\<lparr>br_open := True, br_until := now + br_cooldown b1\<rparr> else b1)"

section \<open>Histories\<close>

text \<open>A history of calls, oldest first, each with the time it reads.\<close>

datatype breakerCall = CallAllow int | CallSuccess | CallFail int

fun breakerStep :: "breakerCall \<Rightarrow> Breaker \<Rightarrow> Breaker" where
  "breakerStep (CallAllow t) b = snd (Allow t b)"
| "breakerStep CallSuccess b = Success b"
| "breakerStep (CallFail t) b = Fail t b"

definition breakerRun :: "breakerCall list \<Rightarrow> Breaker \<Rightarrow> Breaker" where
  "breakerRun calls b = fold breakerStep calls b"

definition isFail :: "breakerCall \<Rightarrow> bool" where
  "isFail c = (case c of CallFail t \<Rightarrow> True | _ \<Rightarrow> False)"

text \<open>The failures at the end of the history that no success follows.\<close>

definition recentFails :: "breakerCall list \<Rightarrow> breakerCall list" where
  "recentFails calls = filter isFail (takeWhile (\<lambda>c. c \<noteq> CallSuccess) (rev calls))"

lemma recentFails_snoc:
  "recentFails (calls @ [c]) =
     (if c = CallSuccess then [] else (if isFail c then [c] else []) @ recentFails calls)"
  by (simp add: recentFails_def)

lemma Allow_config: "br_maxFails (snd (Allow t b)) = br_maxFails b" "br_cooldown (snd (Allow t b)) = br_cooldown b"
  by (simp_all add: Allow_def)

lemma Fail_config: "br_maxFails (Fail t b) = br_maxFails b" "br_cooldown (Fail t b) = br_cooldown b"
  by (simp_all add: Fail_def Let_def)

lemma breakerStep_config:
  "br_maxFails (breakerStep c b) = br_maxFails b" "br_cooldown (breakerStep c b) = br_cooldown b"
  by (cases c; simp add: Allow_config Fail_config Success_def)+

lemma breakerRun_config:
  "br_maxFails (breakerRun calls b) = br_maxFails b" "br_cooldown (breakerRun calls b) = br_cooldown b"
  by (induction calls arbitrary: b) (simp_all add: breakerRun_def breakerStep_config)

lemma NewBreaker_pos: "br_maxFails (NewBreaker m c) > 0" "br_cooldown (NewBreaker m c) > 0"
  by (simp_all add: NewBreaker_def)

text \<open>The counter never exceeds the recent failures, and an open breaker dates from the last of them.\<close>

definition breakerInv :: "breakerCall list \<Rightarrow> Breaker \<Rightarrow> bool" where
  "breakerInv calls b \<longleftrightarrow>
     0 \<le> br_failures b \<and> br_failures b \<le> int (length (recentFails calls)) \<and>
     (br_open b \<longrightarrow> br_maxFails b \<le> br_failures b \<and>
        (\<exists>t rest. recentFails calls = CallFail t # rest \<and> br_until b = t + br_cooldown b))"

lemma breakerInv_run: "breakerInv calls (breakerRun calls (NewBreaker m c))"
proof (induction calls rule: rev_induct)
  case Nil
  then show ?case by (simp add: breakerInv_def breakerRun_def NewBreaker_def)
next
  case (snoc call calls)
  let ?b = "breakerRun calls (NewBreaker m c)"
  have pos: "br_maxFails ?b > 0" by (simp add: breakerRun_config NewBreaker_pos)
  have run: "breakerRun (calls @ [call]) (NewBreaker m c) = breakerStep call ?b"
    by (simp add: breakerRun_def)
  show ?case
    using snoc pos unfolding run
    by (cases call) (auto simp: breakerInv_def recentFails_snoc isFail_def Allow_def Success_def Fail_def Let_def)
qed

lemma breakerRun_fails:
  "br_failures (breakerRun (map CallFail ts) b) = br_failures b + int (length ts) \<and>
   (ts \<noteq> [] \<longrightarrow> br_maxFails b \<le> br_failures b + int (length ts) \<longrightarrow>
      br_open (breakerRun (map CallFail ts) b) \<and>
      br_until (breakerRun (map CallFail ts) b) = last ts + br_cooldown b)"
proof (induction ts rule: rev_induct)
  case (snoc t ts)
  have "breakerRun (map CallFail (ts @ [t])) b = Fail t (breakerRun (map CallFail ts) b)"
    by (simp add: breakerRun_def)
  with snoc show ?case by (simp add: Fail_def Let_def breakerRun_config)
qed (simp add: breakerRun_def)

section \<open>Properties\<close>

text \<open>A breaker only rejects with cause, after any history of calls: when \<open>Allow\<close> rejects at
  time \<open>t\<close>, at least \<open>maxFails\<close> failures have happened since the last success, and \<open>t\<close> is no later
  than the cooldown after the most recent of them. Once the cooldown is over, or after a success,
  \<open>Allow\<close> lets the call through.\<close>

theorem breaker_rejects_with_cause:
  "case Allow t (breakerRun calls (NewBreaker maxFails cooldown)) of
     (None, b) \<Rightarrow> \<not> br_open b
   | (Some e, b) \<Rightarrow> e = ErrBreakerOpen \<and>
       (\<exists>t0 rest. recentFails calls = CallFail t0 # rest \<and> t \<le> t0 + br_cooldown (NewBreaker maxFails cooldown)) \<and>
       br_maxFails (NewBreaker maxFails cooldown) \<le> int (length (recentFails calls))"
proof -
  let ?b = "breakerRun calls (NewBreaker maxFails cooldown)"
  have "breakerInv calls ?b" by (rule breakerInv_run)
  then show ?thesis
    by (auto simp: Allow_def breakerInv_def breakerRun_config)
qed

text \<open>The breaker opens: \<open>maxFails\<close> failures in a row make it reject every call until the
  cooldown after the last of them, from any state.\<close>

theorem breaker_opens:
  assumes "ts \<noteq> []" "br_failures b \<ge> 0" "br_maxFails b \<le> int (length ts)" "t \<le> last ts + br_cooldown b"
  shows "fst (Allow t (breakerRun (map CallFail ts) b)) = Some ErrBreakerOpen"
  using breakerRun_fails [of ts b] assms by (simp add: Allow_def)

theorem breaker_opens_witness:
  "fst (Allow 100 (breakerRun (map CallFail [1, 2, 3]) (NewBreaker 3 100))) = Some ErrBreakerOpen"
  by (rule breaker_opens) (simp_all add: NewBreaker_def)
end
