(* ===== verification/Engine.thy ===== *)
theory Engine
  imports DriverPool Breaker
begin

text \<open>
  The engine (\<open>internal/engine/engine.go\<close>, \<open>meta_cache.go\<close>): it resolves a table or function
  through an optional cache, gets a driver for its server from the pool, guarded by the circuit
  breaker, and runs one operation on it. A computation of the engine works on the state
  \<open>eng\<close>: breaker, pool, cache and the world outside.
\<close>

section \<open>The store as the engine sees it\<close>

record 'w store =
  st_ListServers :: "('w, err, Server list) comp"
  st_ListTables :: "('w, err, Table list) comp"
  st_ListFunctions :: "('w, err, Function list) comp"
  st_ListColumns :: "string \<Rightarrow> string \<Rightarrow> ('w, err, Column list) comp"
  st_ResolveTable :: "string \<Rightarrow> string \<Rightarrow> ('w, err, ResolvedTable) comp"
  st_ResolveFunction :: "string \<Rightarrow> string \<Rightarrow> ('w, err, ResolvedFunction) comp"
  st_ServerCredential :: "Server \<Rightarrow> ('w, err, row option) comp"

section \<open>The metadata cache\<close>

record 'a metaCacheEntry =
  me_value :: 'a
  me_expires :: int

record metaCache =
  mc_ttl :: int
  mc_rev :: string
  mc_tables :: "(string \<times> ResolvedTable metaCacheEntry) list"
  mc_funcs :: "(string \<times> ResolvedFunction metaCacheEntry) list"

definition newMetaCache :: "int \<Rightarrow> metaCache option" where
  "newMetaCache ttl =
     (if ttl \<le> 0 then None else Some \<lparr>mc_ttl = ttl, mc_rev = [], mc_tables = [], mc_funcs = []\<rparr>)"

definition metaCacheKey :: "string \<Rightarrow> string \<Rightarrow> string" where
  "metaCacheKey schema name = schema @ [char_of (0 :: nat)] @ name"

definition storeRevision :: "hashing \<Rightarrow> 'w store \<Rightarrow> ('w, err, string) comp" where
  "storeRevision hv st =
     bindC (st_ListServers st) (\<lambda>servers.
     bindC (st_ListTables st) (\<lambda>tables.
     bindC (st_ListFunctions st) (\<lambda>functions.
       retC (hv_sum hv
         (''s:'' @ decInt (int (length servers)) @ ''|'' @
          concat (map (\<lambda>s. hv_uuid hv (s_ID s) @ hv_time hv (s_UpdatedAt s)) servers) @
          ''t:'' @ decInt (int (length tables)) @ ''|'' @ concat (map (\<lambda>t. hv_uuid hv (t_ID t)) tables) @
          ''f:'' @ decInt (int (length functions)) @ ''|'' @ concat (map (\<lambda>f. hv_uuid hv (f_ID f)) functions))))))"

definition setRevision :: "string \<Rightarrow> metaCache \<Rightarrow> metaCache" where
  "setRevision rv c =
     (if mc_rev c \<noteq> rv then c\<lparr>mc_rev := rv, mc_tables := [], mc_funcs := []\<rparr> else c)"

definition cacheGet :: "(string \<times> 'a metaCacheEntry) list \<Rightarrow> int \<Rightarrow> string \<Rightarrow> string \<Rightarrow> 'a option" where
  "cacheGet m now schema name =
     (case map_of m (metaCacheKey schema name) of
        None \<Rightarrow> None
      | Some e \<Rightarrow> if now > me_expires e then None else Some (me_value e))"

definition cachePut ::
  "int \<Rightarrow> int \<Rightarrow> string \<Rightarrow> string \<Rightarrow> 'a \<Rightarrow> (string \<times> 'a metaCacheEntry) list \<Rightarrow> (string \<times> 'a metaCacheEntry) list"
where
  "cachePut ttl now schema name v m =
     AList.update (metaCacheKey schema name) \<lparr>me_value = v, me_expires = now + ttl\<rparr> m"

definition getTable :: "metaCache \<Rightarrow> int \<Rightarrow> string \<Rightarrow> string \<Rightarrow> ResolvedTable option" where
  "getTable c now schema table = cacheGet (mc_tables c) now schema table"

definition putTable :: "int \<Rightarrow> string \<Rightarrow> string \<Rightarrow> ResolvedTable \<Rightarrow> metaCache \<Rightarrow> metaCache" where
  "putTable now schema table rt c =
     c\<lparr>mc_tables := cachePut (mc_ttl c) now schema table rt (mc_tables c)\<rparr>"

definition getFunction :: "metaCache \<Rightarrow> int \<Rightarrow> string \<Rightarrow> string \<Rightarrow> ResolvedFunction option" where
  "getFunction c now schema name = cacheGet (mc_funcs c) now schema name"

definition putFunction :: "int \<Rightarrow> string \<Rightarrow> string \<Rightarrow> ResolvedFunction \<Rightarrow> metaCache \<Rightarrow> metaCache" where
  "putFunction now schema name rf c =
     c\<lparr>mc_funcs := cachePut (mc_ttl c) now schema name rf (mc_funcs c)\<rparr>"

section \<open>The engine's state\<close>

record 'w eng =
  eg_breaker :: Breaker
  eg_pool :: "'w driver pool"
  eg_meta :: "metaCache option"
  eg_world :: 'w

text \<open>What the engine is built from: the store, the registered drivers, \<open>driver.Close\<close>, the clock.\<close>

record 'w engineEnv =
  ee_store :: "'w store"
  ee_factories :: "'w factories"
  ee_close :: "'w driver \<Rightarrow> 'w \<Rightarrow> 'w"
  ee_now :: "'w \<Rightarrow> int"
  ee_hash :: hashing

type_synonym ('w, 'a) engC = "('w eng, err, 'a) comp"

definition inWorld :: "('w, err, 'a) comp \<Rightarrow> ('w, 'a) engC" where
  "inWorld m s = (case m (eg_world s) of (r, w) \<Rightarrow> (r, s\<lparr>eg_world := w\<rparr>))"

definition NewEngine :: "int \<Rightarrow> duration \<Rightarrow> int \<Rightarrow> 'w \<Rightarrow> 'w eng" where
  "NewEngine maxFails cooldown ttl w =
     \<lparr>eg_breaker = NewBreaker maxFails cooldown, eg_pool = newDriverPool, eg_meta = newMetaCache ttl,
      eg_world = w\<rparr>"

definition closeEngine :: "'w engineEnv \<Rightarrow> 'w eng \<Rightarrow> 'w eng" where
  "closeEngine env s =
     (case poolClose (eg_pool s) of
        (closes, p) \<Rightarrow> s\<lparr>eg_pool := p, eg_world := fold (ee_close env) closes (eg_world s)\<rparr>)"

section \<open>Resolving\<close>

definition syncRevision :: "'w engineEnv \<Rightarrow> ('w, unit) engC" where
  "syncRevision env =
     bindC (inWorld (storeRevision (ee_hash env) (ee_store env)))
       (\<lambda>rv s. (Inr (), s\<lparr>eg_meta := map_option (setRevision rv) (eg_meta s)\<rparr>))"

text \<open>
  \<open>resolveTable\<close> and \<open>resolveFunction\<close> differ in the cache they use and the store's function only;
  \<open>resolveVia\<close> is their common text.
\<close>

definition resolveVia ::
  "'w engineEnv \<Rightarrow> (metaCache \<Rightarrow> int \<Rightarrow> 'a option) \<Rightarrow> (int \<Rightarrow> 'a \<Rightarrow> metaCache \<Rightarrow> metaCache) \<Rightarrow>
   ('w, err, 'a) comp \<Rightarrow> ('w, 'a) engC"
where
  "resolveVia env get put fetch s =
     (case eg_meta s of
        None \<Rightarrow> inWorld fetch s
      | Some _ \<Rightarrow>
          (case syncRevision env s of
             (Inl e, s1) \<Rightarrow> (Inl e, s1)
           | (Inr _, s1) \<Rightarrow>
               (case Option.bind (eg_meta s1) (\<lambda>c. get c (ee_now env (eg_world s1))) of
                  Some v \<Rightarrow> (Inr v, s1)
                | None \<Rightarrow>
                    (case inWorld fetch s1 of
                       (Inl e, s2) \<Rightarrow> (Inl e, s2)
                     | (Inr v, s2) \<Rightarrow>
                         (Inr v, s2\<lparr>eg_meta := map_option (put (ee_now env (eg_world s2)) v) (eg_meta s2)\<rparr>)))))"

definition resolveTable :: "'w engineEnv \<Rightarrow> string \<Rightarrow> string \<Rightarrow> ('w, ResolvedTable) engC" where
  "resolveTable env schema table =
     resolveVia env (\<lambda>c now. getTable c now schema table) (\<lambda>now. putTable now schema table)
       (st_ResolveTable (ee_store env) schema table)"

definition resolveFunction :: "'w engineEnv \<Rightarrow> string \<Rightarrow> string \<Rightarrow> ('w, ResolvedFunction) engC" where
  "resolveFunction env schema name =
     resolveVia env (\<lambda>c now. getFunction c now schema name) (\<lambda>now. putFunction now schema name)
       (st_ResolveFunction (ee_store env) schema name)"

section \<open>Drivers\<close>

text \<open>The function that \<open>DriverFor\<close> passes to the pool: the breaker guards \<open>driver.New\<close>.\<close>

definition createDriver ::
  "'w engineEnv \<Rightarrow> Server \<Rightarrow> row option \<Rightarrow> (Breaker \<times> 'w, err, 'w driver) comp" where
  "createDriver env srv cred bw =
     (case bw of (b, w) \<Rightarrow>
        (case Allow (ee_now env w) b of
           (Some e, b1) \<Rightarrow> (Inl e, b1, w)
         | (None, b1) \<Rightarrow>
             (case New (ee_factories env) srv cred w of
                (Inl e, w1) \<Rightarrow> (Inl e, Fail (ee_now env w1) b1, w1)
              | (Inr d, w1) \<Rightarrow> (Inr d, Success b1, w1))))"

definition DriverFor :: "'w engineEnv \<Rightarrow> Server \<Rightarrow> ('w, 'w driver) engC" where
  "DriverFor env srv =
     bindC (inWorld (st_ServerCredential (ee_store env) srv)) (\<lambda>cred s.
       (case poolGet (\<lambda>d (b, w). (b, ee_close env d w)) (s_ID srv)
               (driverConfigVersion (ee_hash env) srv cred) (createDriver env srv cred)
               (eg_pool s, eg_breaker s, eg_world s) of
          (r, p, b, w) \<Rightarrow>
            (map_sum id fst r, s\<lparr>eg_pool := p, eg_breaker := b, eg_world := w\<rparr>)))"

text \<open>The steps every data operation starts with.\<close>

definition withTable ::
  "'w engineEnv \<Rightarrow> string \<Rightarrow> string \<Rightarrow> (ResolvedTable \<Rightarrow> 'w driver \<Rightarrow> ('w, err, 'a) comp) \<Rightarrow> ('w, 'a) engC"
where
  "withTable env schema table k =
     bindC (resolveTable env schema table) (\<lambda>rt.
     bindC (DriverFor env (rt_Server rt)) (\<lambda>drv. inWorld (k rt drv)))"

text \<open>An error of the driver passes through \<open>WrapNotSupported\<close>.\<close>

definition wrapErr :: "string \<Rightarrow> Protocol \<Rightarrow> ('w, err, 'a) comp \<Rightarrow> ('w, err, 'a) comp" where
  "wrapErr op protocol m w =
     (case m w of
        (Inl e, w1) \<Rightarrow> (case WrapNotSupported op protocol (Some e) of Some e' \<Rightarrow> (Inl e', w1) | None \<Rightarrow> (Inl e, w1))
      | (Inr x, w1) \<Rightarrow> (Inr x, w1))"

section \<open>Operations\<close>

definition Select :: "'w engineEnv \<Rightarrow> string \<Rightarrow> string \<Rightarrow> Query \<Rightarrow> ('w, row list) engC" where
  "Select env schema table q =
     withTable env schema table (\<lambda>rt drv. d_select drv
       \<lparr>sr_Resolved = rt, sr_Select = q_Select q, sr_Filters = q_Filters q, sr_OrGroups = q_OrGroups q,
        sr_Order = q_Order q, sr_Limit = q_Limit q, sr_Offset = q_Offset q\<rparr>)"

definition countOp :: "'w engineEnv \<Rightarrow> string \<Rightarrow> string \<Rightarrow> Query \<Rightarrow> ('w, int) engC" where
  "countOp env schema table q =
     withTable env schema table (\<lambda>rt drv. Count drv
       \<lparr>sr_Resolved = rt, sr_Select = [], sr_Filters = q_Filters q, sr_OrGroups = q_OrGroups q,
        sr_Order = [], sr_Limit = 0, sr_Offset = 0\<rparr>)"

definition insertRequest :: "ResolvedTable \<Rightarrow> row \<Rightarrow> Prefer \<Rightarrow> RowRequest" where
  "insertRequest rt r prefer =
     \<lparr>rr_Resolved = rt, rr_Row = r, rr_Filters = [], rr_OrGroups = [],
      rr_PreferRepresentation = p_Representation prefer, rr_PreferUpsert = p_Upsert prefer, rr_Returning = []\<rparr>"

definition insertOp :: "'w engineEnv \<Rightarrow> string \<Rightarrow> string \<Rightarrow> row \<Rightarrow> Prefer \<Rightarrow> ('w, row option) engC" where
  "insertOp env schema table r prefer =
     withTable env schema table (\<lambda>rt drv.
       let req = insertRequest rt r prefer; protocol = s_Protocol (rt_Server rt)
       in if p_Upsert prefer
          then bindC (wrapErr ''upsert'' protocol (d_upsert drv req)) (\<lambda>(created, ret). retC ret)
          else wrapErr ''insert'' protocol (d_insert drv req))"

fun insertMany :: "'w engineEnv \<Rightarrow> string \<Rightarrow> string \<Rightarrow> row list \<Rightarrow> Prefer \<Rightarrow> ('w, row list) engC" where
  "insertMany env schema table [] prefer = retC []"
| "insertMany env schema table (r # rows) prefer =
     bindC (insertOp env schema table r prefer) (\<lambda>ret.
     bindC (insertMany env schema table rows prefer) (\<lambda>out.
       retC (case ret of Some x \<Rightarrow> if p_Representation prefer then x # out else out | None \<Rightarrow> out)))"

definition updateOp :: "'w engineEnv \<Rightarrow> string \<Rightarrow> string \<Rightarrow> Query \<Rightarrow> row \<Rightarrow> ('w, int) engC" where
  "updateOp env schema table q r =
     withTable env schema table (\<lambda>rt drv. wrapErr ''update'' (s_Protocol (rt_Server rt)) (d_update drv
       \<lparr>rr_Resolved = rt, rr_Row = r, rr_Filters = q_Filters q, rr_OrGroups = q_OrGroups q,
        rr_PreferRepresentation = False, rr_PreferUpsert = False, rr_Returning = []\<rparr>))"

definition deleteOp :: "'w engineEnv \<Rightarrow> string \<Rightarrow> string \<Rightarrow> Query \<Rightarrow> ('w, int) engC" where
  "deleteOp env schema table q =
     withTable env schema table (\<lambda>rt drv. wrapErr ''delete'' (s_Protocol (rt_Server rt)) (d_delete drv
       \<lparr>dr_Resolved = rt, dr_Filters = q_Filters q, dr_OrGroups = q_OrGroups q\<rparr>))"

section \<open>Functions\<close>

definition tableOpFields :: "(string \<times> fkind) list" where
  "tableOpFields = [(''tableSchema'', FStr), (''tableName'', FStr)]"

definition rowsVal :: "row list \<Rightarrow> val" where
  "rowsVal rows = VArr (map VObj rows)"

definition rowVal :: "row option \<Rightarrow> val" where
  "rowVal r = (case r of None \<Rightarrow> VNil | Some x \<Rightarrow> VObj x)"

definition affected :: "int \<Rightarrow> val" where
  "affected n = VObj [(''affected'', VInt n)]"

definition invokeTableOp ::
  "'w engineEnv \<Rightarrow> ResolvedFunction \<Rightarrow> row \<Rightarrow> (string \<times> string) list \<Rightarrow> ('w, val) engC"
where
  "invokeTableOp env rf rbody query =
     (case ParseServerOptions tableOpFields (f_Options (rf_Function rf)) of
        (_, Some e) \<Rightarrow> failC e
      | (opts, None) \<Rightarrow>
          let schema = (if strField opts ''tableSchema'' = [] then f_SchemaName (rf_Function rf)
                        else strField opts ''tableSchema'');
              table = strField opts ''tableName'';
              op = f_Operation (rf_Function rf);
              q = emptyQuery\<lparr>q_Filters := map (\<lambda>(k, v). mkFilter k OpEq v) query\<rparr>;
              rep = noPrefer\<lparr>p_Representation := True\<rparr>
          in if table = [] then
               failC (Errorf (''function options.tableName required for operation '' @ quoteGo op))
             else if op = ''select'' then bindC (Select env schema table q) (\<lambda>rows. retC (rowsVal rows))
             else if op = ''insert'' then bindC (insertOp env schema table rbody rep) (\<lambda>r. retC (rowVal r))
             else if op = ''update'' then bindC (updateOp env schema table q rbody) (\<lambda>n. retC (affected n))
             else if op = ''delete'' then bindC (deleteOp env schema table q) (\<lambda>n. retC (affected n))
             else if op = ''upsert'' then
               bindC (insertOp env schema table rbody (rep\<lparr>p_Upsert := True\<rparr>)) (\<lambda>r. retC (rowVal r))
             else failC (Errorf (''unsupported table operation '' @ quoteGo op)))"

definition InvokeRPC ::
  "'w engineEnv \<Rightarrow> string \<Rightarrow> string \<Rightarrow> row option \<Rightarrow> (string \<times> string) list \<Rightarrow> ('w, val) engC" where
  "InvokeRPC env schema name rbody query =
     bindC (resolveFunction env schema name) (\<lambda>rf.
     bindC (DriverFor env (rf_Server rf)) (\<lambda>drv.
       let op = f_Operation (rf_Function rf)
       in if op = ''invoke'' then
            inWorld (wrapErr ''invoke'' (s_Protocol (rf_Server rf))
              (d_invoke drv \<lparr>ir_Resolved = rf, ir_Body = rbody, ir_Query = query\<rparr>))
          else if op \<in> {''select'', ''insert'', ''update'', ''upsert'', ''delete''}
          then invokeTableOp env rf (case rbody of Some b \<Rightarrow> b | None \<Rightarrow> []) query
          else failC (Errorf (''unknown function operation '' @ quoteGo op))))"

section \<open>Lemmas\<close>

lemma inWorld_simps [simp]:
  "inWorld (retC x) s = (Inr x, s)" "inWorld (failC e) s = (Inl e, s)"
  by (simp_all add: inWorld_def comp_defs)

lemma wrapErr_not_supported: "wrapErr op p (failC ErrNotSupported) = failC (OpNotSupported op p)"
  by (simp add: wrapErr_def WrapNotSupported_def comp_defs fun_eq_iff)

lemma wrapErr_Inr: "m w = (Inr x, w1) \<Longrightarrow> wrapErr op p m w = (Inr x, w1)"
  by (simp add: wrapErr_def)

lemma cacheGet_cachePut:
  "cacheGet (cachePut ttl now schema name v m) now' schema' name' =
     (if metaCacheKey schema' name' = metaCacheKey schema name
      then (if now' > now + ttl then None else Some v) else cacheGet m now' schema' name')"
  by (simp add: cacheGet_def cachePut_def update_conv')

lemma metaCacheKey_inj:
  assumes "char_of (0 :: nat) \<notin> set schema" "char_of (0 :: nat) \<notin> set schema'"
    and "metaCacheKey schema name = metaCacheKey schema' name'"
  shows "schema = schema' \<and> name = name'"
proof -
  let ?z = "char_of (0 :: nat) :: char"
  have "takeWhile (\<lambda>c. c \<noteq> ?z) (metaCacheKey s n) = s" if "?z \<notin> set s" for s n
  proof -
    have "takeWhile (\<lambda>c. c \<noteq> ?z) (s @ ?z # n) = s @ takeWhile (\<lambda>c. c \<noteq> ?z) (?z # n)"
      using that by (intro takeWhile_append2) auto
    then show ?thesis by (simp add: metaCacheKey_def)
  qed
  with assms(1,2) have "schema = schema'" by (metis assms(3))
  with assms(3) show ?thesis by (simp add: metaCacheKey_def)
qed

section \<open>Properties of the cache\<close>

lemma syncRevision_simps:
  assumes "storeRevision (ee_hash env) (ee_store env) (eg_world s) = (Inr v, eg_world s)"
  shows "syncRevision env s = (Inr (), s\<lparr>eg_meta := map_option (setRevision v) (eg_meta s)\<rparr>)"
  using assms by (cases s) (simp add: syncRevision_def inWorld_def bindC_def)

text \<open>A cached table is served until its entry expires however the store has changed, as long as the
  revision stays the same; the revision covers the ids of servers, tables and functions and the servers'
  update times only, so a changed column or table option does not show.\<close>

theorem resolveTable_stale:
  assumes "eg_meta s = Some c" "mc_tables c = []"
    and "storeRevision (ee_hash env) (ee_store env) (eg_world s) = (Inr v, eg_world s)"
    and "storeRevision (ee_hash env) (ee_store env) w' = (Inr v, w')"
    and "st_ResolveTable (ee_store env) schema table (eg_world s) = (Inr rt, eg_world s)"
    and "ee_now env w' \<le> ee_now env (eg_world s) + mc_ttl c"
  shows "\<exists>s1. resolveTable env schema table s = (Inr rt, s1) \<and>
           resolveTable env schema table (s1\<lparr>eg_world := w'\<rparr>) = (Inr rt, s1\<lparr>eg_world := w'\<rparr>)"
proof -
  let ?c = "setRevision v c"
  let ?c1 = "putTable (ee_now env (eg_world s)) schema table rt ?c"
  let ?s1 = "s\<lparr>eg_meta := Some ?c1\<rparr>"
  let ?s2 = "?s1\<lparr>eg_world := w'\<rparr>"
  have c: "mc_tables ?c = []" "mc_ttl ?c = mc_ttl c" "mc_rev ?c1 = v"
    using assms(2) by (auto simp: setRevision_def putTable_def)
  have "resolveTable env schema table s = (Inr rt, ?s1)"
    using syncRevision_simps [of env s v] assms(1,3,5) c
    by (simp add: resolveTable_def resolveVia_def inWorld_def getTable_def cacheGet_def)
  moreover have "syncRevision env ?s2 = (Inr (), ?s2)"
    using syncRevision_simps [of env ?s2 v] assms(4) c(3) by (simp add: setRevision_def)
  moreover have "getTable ?c1 (ee_now env w') schema table = Some rt"
    using assms(6) c(2) by (simp add: getTable_def putTable_def cacheGet_cachePut)
  ultimately show ?thesis
    by (intro exI [of _ ?s1]) (simp add: resolveTable_def resolveVia_def)
qed

section \<open>Properties of drivers and operations\<close>

lemma DriverFor_eq:
  assumes "st_ServerCredential (ee_store env) srv (eg_world s) = (Inr cred, w)"
  shows "DriverFor env srv s =
    (case poolGet (\<lambda>d (b, w). (b, ee_close env d w)) (s_ID srv)
            (driverConfigVersion (ee_hash env) srv cred) (createDriver env srv cred)
            (eg_pool s, eg_breaker s, w) of
       (r, p, b, w') \<Rightarrow> (map_sum id fst r, s\<lparr>eg_pool := p, eg_breaker := b, eg_world := w'\<rparr>))"
  using assms by (simp add: DriverFor_def inWorld_def bindC_def)

text \<open>C33: what \<open>DriverFor\<close> does around the breaker: a pooled driver of the current version is returned
  whatever the breaker says; otherwise, while the breaker is open, no driver is created and the call fails
  with \<open>circuit breaker open\<close>, and the breaker is the engine's, so it was opened by failures of any server.\<close>

theorem DriverFor_breaker:
  assumes "st_ServerCredential (ee_store env) srv (eg_world s) = (Inr cred, w)"
  shows "(poolLookup (eg_pool s) (s_ID srv) (driverConfigVersion (ee_hash env) srv cred) = Some drv \<longrightarrow>
            DriverFor env srv s = (Inr drv, s\<lparr>eg_world := w\<rparr>)) \<and>
         (poolLookup (eg_pool s) (s_ID srv) (driverConfigVersion (ee_hash env) srv cred) = None \<longrightarrow>
          fst (Allow (ee_now env w) (eg_breaker s)) = Some e \<longrightarrow>
            DriverFor env srv s = (Inl e, s\<lparr>eg_world := w\<rparr>) \<and> e = ErrBreakerOpen)"
proof -
  have "Allow t b = (Some ErrBreakerOpen, b)" if "fst (Allow t b) = Some e" for t b
    using that by (auto simp: Allow_def split: if_splits)
  from this [of "ee_now env w" "eg_breaker s"] show ?thesis
    using DriverFor_eq [OF assms]
    by (cases s) (auto simp: poolGet_def createDriver_def)
qed

text \<open>Failures of one server block the others: \<open>maxFails\<close> failing driver creations for a server
  open the engine's single breaker, so the next call for any other server that has no pooled driver
  yet is refused until the cooldown ends, although nothing is wrong with that server.\<close>

theorem breaker_shared_by_servers:
  assumes "eg_breaker s = breakerRun (map CallFail ts) (NewBreaker maxFails cooldown)" "ts \<noteq> []"
    and "br_maxFails (NewBreaker maxFails cooldown) \<le> int (length ts)"
    and "st_ServerCredential (ee_store env) other (eg_world s) = (Inr cred, w)"
    and "poolLookup (eg_pool s) (s_ID other) (driverConfigVersion (ee_hash env) other cred) = None"
    and "ee_now env w \<le> last ts + br_cooldown (NewBreaker maxFails cooldown)"
  shows "DriverFor env other s = (Inl ErrBreakerOpen, s\<lparr>eg_world := w\<rparr>)"
proof -
  let ?b = "NewBreaker maxFails cooldown"
  have "br_failures (breakerRun (map CallFail ts) b) = br_failures b + int (length ts) \<and>
        (ts \<noteq> [] \<longrightarrow> br_maxFails b \<le> br_failures b + int (length ts) \<longrightarrow>
           br_open (breakerRun (map CallFail ts) b) \<and>
           br_until (breakerRun (map CallFail ts) b) = last ts + br_cooldown b)" for b
    by (rule breakerRun_fails)
  with assms(1-3,6) have "Allow (ee_now env w) (eg_breaker s) = (Some ErrBreakerOpen, eg_breaker s)"
    by (simp add: Allow_def NewBreaker_def)
  with assms(5) DriverFor_eq [OF assms(4)] show ?thesis
    by (cases s) (simp add: poolGet_def createDriver_def)
qed

text \<open>A bulk insert stops at the first failing row and does not undo the rows before it: their
  effects stay, the rows after it are never tried, and the client gets only the error.\<close>

theorem insertMany_not_atomic:
  assumes "insertMany env schema table rows1 prefer s = (Inr out, s1)"
    and "insertOp env schema table r prefer s1 = (Inl e, s2)"
  shows "insertMany env schema table (rows1 @ r # rows2) prefer s = (Inl e, s2)"
  using assms(1)
proof (induction rows1 arbitrary: s out)
  case Nil
  with assms(2) show ?case by (simp add: comp_defs)
next
  case (Cons x xs)
  then obtain ret s0 out' where x: "insertOp env schema table x prefer s = (Inr ret, s0)"
    "insertMany env schema table xs prefer s0 = (Inr out', s1)"
    by (auto simp: comp_defs split: prod.splits sum.splits)
  with Cons.IH [OF x(2)] show ?case by (simp add: comp_defs)
qed

section \<open>Examples\<close>

text \<open>
  An engine over a world that counts inserted rows (and serves as the clock), with one file table
  \<open>t\<close> whose driver accepts every row but the empty one.
\<close>

definition exampleStore :: "int store" where
  "exampleStore =
     \<lparr>st_ListServers = retC [], st_ListTables = retC [], st_ListFunctions = retC [],
      st_ListColumns = (\<lambda>_ _. retC []),
      st_ResolveTable = (\<lambda>sc t. if t = ''t'' then retC (exampleResolved ProtocolFile t) else failC ErrNotFound),
      st_ResolveFunction = (\<lambda>_ _. failC ErrNotFound), st_ServerCredential = (\<lambda>_. retC None)\<rparr>"

definition exampleDriver :: "int driver" where
  "exampleDriver =
     \<lparr>d_select = (\<lambda>_. retC []),
      d_insert = (\<lambda>req n. if rr_Row req = [] then (Inl (Errorf ''empty row''), n) else (Inr None, n + 1)),
      d_update = (\<lambda>_. retC 0), d_upsert = (\<lambda>_. retC (True, None)), d_delete = (\<lambda>_. retC 0),
      d_invoke = (\<lambda>_. retC VNil), d_count = None\<rparr>"

definition exampleHash :: hashing where
  "exampleHash = \<lparr>hv_time = (\<lambda>t. decInt t), hv_raw = (\<lambda>_. []), hv_uuid = decNat, hv_sum = (\<lambda>s. s)\<rparr>"

definition exampleEnv :: "int engineEnv" where
  "exampleEnv =
     \<lparr>ee_store = exampleStore, ee_factories = [(''file'', \<lambda>_ _. retC exampleDriver)],
      ee_close = (\<lambda>_ w. w), ee_now = (\<lambda>w. w), ee_hash = exampleHash\<rparr>"

lemmas example_env_defs = exampleStore_def exampleEnv_def exampleHash_def comp_defs

lemma exampleRevision: "storeRevision (ee_hash exampleEnv) (ee_store exampleEnv) w = (Inr ''s:0|t:0|f:0|'', w)"
  by (simp add: example_env_defs storeRevision_def decInt_def decNat_zero)

theorem resolveTable_stale_witness:
  "\<exists>s1. resolveTable exampleEnv ''public'' ''t'' (NewEngine 5 60 100 0) = (Inr (exampleResolved ProtocolFile ''t''), s1) \<and>
        resolveTable exampleEnv ''public'' ''t'' (s1\<lparr>eg_world := 99\<rparr>) =
          (Inr (exampleResolved ProtocolFile ''t''), s1\<lparr>eg_world := 99\<rparr>)"
  by (rule resolveTable_stale [where v = "''s:0|t:0|f:0|''" and
        c = "\<lparr>mc_ttl = 100, mc_rev = [], mc_tables = [], mc_funcs = []\<rparr>"])
    (simp_all add: exampleRevision, simp_all add: example_env_defs NewEngine_def newMetaCache_def)

theorem DriverFor_breaker_witness:
  "let s = (NewEngine 1 60 0 (0 :: int))\<lparr>eg_breaker := Fail 0 (NewBreaker 1 60)\<rparr>
   in DriverFor exampleEnv (exampleServer ProtocolFile RawEmpty) s = (Inl ErrBreakerOpen, s)"
proof -
  let ?s = "(NewEngine 1 60 0 (0 :: int))\<lparr>eg_breaker := Fail 0 (NewBreaker 1 60)\<rparr>"
  have "fst (Allow (ee_now exampleEnv 0) (eg_breaker ?s)) = Some ErrBreakerOpen"
    by (simp add: Allow_def Fail_def NewBreaker_def exampleEnv_def)
  with DriverFor_breaker [of exampleEnv "exampleServer ProtocolFile RawEmpty" ?s None 0 undefined ErrBreakerOpen]
  show ?thesis
    by (simp add: NewEngine_def poolLookup_def newDriverPool_def exampleEnv_def exampleStore_def comp_defs)
qed

theorem breaker_shared_by_servers_witness:
  "let s = (NewEngine 2 60 0 (5 :: int))\<lparr>eg_breaker := breakerRun (map CallFail [1, 2]) (NewBreaker 2 60)\<rparr>
   in DriverFor exampleEnv (exampleServer ProtocolFile RawEmpty) s = (Inl ErrBreakerOpen, s)"
  using breaker_shared_by_servers [of "(NewEngine 2 60 0 5)\<lparr>eg_breaker := breakerRun (map CallFail [1, 2]) (NewBreaker 2 60)\<rparr>"
      "[1, 2]" 2 60 exampleEnv "exampleServer ProtocolFile RawEmpty" None 5]
  by (simp add: NewEngine_def NewBreaker_def poolLookup_def newDriverPool_def example_env_defs)

theorem insertMany_not_atomic_witness:
  "fst (insertMany exampleEnv ''public'' ''t'' [[(''id'', VInt 1)], [], [(''id'', VInt 2)]] noPrefer (NewEngine 5 60 0 0))
     = Inl (Errorf ''empty row'') \<and>
   eg_world (snd (insertMany exampleEnv ''public'' ''t'' [[(''id'', VInt 1)], [], [(''id'', VInt 2)]] noPrefer (NewEngine 5 60 0 0)))
     = 1"
proof -
  let ?s = "NewEngine 5 60 0 0"
  let ?r = "insertMany exampleEnv ''public'' ''t'' [[(''id'', VInt 1)]] noPrefer ?s"
  have "insertMany exampleEnv ''public'' ''t'' ([[(''id'', VInt 1)]] @ [] # [[(''id'', VInt 2)]]) noPrefer ?s =
      (Inl (Errorf ''empty row''), snd (insertOp exampleEnv ''public'' ''t'' [] noPrefer (snd ?r)))"
    by (rule insertMany_not_atomic [where out = "[]" and ?s1.0 = "snd ?r"])
      (rule prod_eqI, code_simp, simp)+
  moreover have "eg_world (snd (insertOp exampleEnv ''public'' ''t'' [] noPrefer (snd ?r))) = 1" by code_simp
  ultimately show ?thesis by simp
qed
end
