(* ===== verification/FileStore.thy ===== *)
theory FileStore
  imports Declarative Engine
begin

text \<open>
  The file store (\<open>internal/store/file\<close>: store.go, crud.go, import.go): a snapshot in memory, guarded by a
  mutex and written to drivers.yaml after every change. The methods lock the mutex around their bodies, so
  they run one after the other, and a method is a computation on \<open>fileStore\<close>; only \<open>ImportDeclarative\<close> reads
  the data before it takes the lock, and is split there. The file system and the YAML library are parameters: what a source file reads as, and the outcome of writing a document
  through a temporary file.
\<close>

section \<open>State\<close>

record 'w fileEnv =
  fe_vault :: "Vault option"
  fe_nonce :: "uuid \<Rightarrow> err + string"
  fe_now :: "'w \<Rightarrow> time"
  fe_getenv :: "string \<Rightarrow> string"
  fe_uuidText :: "uuid \<Rightarrow> string"
  fe_write :: "declarativeDoc \<Rightarrow> ('w, err, unit) comp"

record 'w fileStore =
  st_data :: snapshot
  st_next :: uuid
  st_world :: 'w

type_synonym ('w, 'a) storeC = "('w fileStore, err, 'a) comp"

text \<open>\<open>persistLocked\<close> and \<open>withLock\<close>: a change is kept in memory even when writing it fails.\<close>

definition persistLocked :: "'w fileEnv \<Rightarrow> ('w, unit) storeC" where
  "persistLocked env s =
     (case decompileDeclarative (fe_uuidText env) (fe_vault env) (st_data s) of
        Inl e \<Rightarrow> (Inl (Wrapf ''serialize drivers yaml: '' e []), s)
      | Inr doc \<Rightarrow> (case fe_write env doc (st_world s) of (r, w) \<Rightarrow> (r, s\<lparr>st_world := w\<rparr>)))"

definition withLock :: "'w fileEnv \<Rightarrow> ('w, 'a) storeC \<Rightarrow> ('w, 'a) storeC" where
  "withLock env fn = bindC fn (\<lambda>x. bindC (persistLocked env) (\<lambda>_. retC x))"

definition newUUID :: "('w, uuid) storeC" where
  "newUUID s = (Inr (Suc (st_next s)), s\<lparr>st_next := Suc (st_next s)\<rparr>)"

text \<open>Reading the snapshot, and writing one of its lists.\<close>

definition readData :: "(snapshot \<Rightarrow> err + 'a) \<Rightarrow> ('w, 'a) storeC" where
  "readData f s = (f (st_data s), s)"

definition setData :: "(snapshot \<Rightarrow> snapshot) \<Rightarrow> ('w, unit) storeC" where
  "setData f s = (Inr (), s\<lparr>st_data := f (st_data s)\<rparr>)"

definition orNotFound :: "'a option \<Rightarrow> err + 'a" where
  "orNotFound x = (case x of None \<Rightarrow> Inl ErrNotFound | Some y \<Rightarrow> Inr y)"

section \<open>Credentials\<close>

definition CreateCredential :: "'w fileEnv \<Rightarrow> string \<Rightarrow> row \<Rightarrow> ('w, Credential) storeC" where
  "CreateCredential env name data s =
     (if name = [] then failC (Errorf ''name is required'') s
      else (case Encrypt (fe_vault env) (fe_nonce env (Suc (st_next s))) data of
              Inl e \<Rightarrow> failC e s
            | Inr payload \<Rightarrow>
                bindC newUUID (\<lambda>i s1.
                  let now = fe_now env (st_world s1)
                  in withLock env
                       (bindC (readData (\<lambda>d.
                          if list_ex (\<lambda>c. crr_Name c = name) (sn_Credentials d)
                          then Inl (Errorf (''credential '' @ quoteGo name @ '' already exists'')) else Inr ())) (\<lambda>_.
                        bindC (setData (\<lambda>d. d\<lparr>sn_Credentials := sn_Credentials d @
                          [\<lparr>crr_ID = i, crr_Name = name, crr_Payload = encodePayload payload, crr_CreatedAt = now\<rparr>]\<rparr>)) (\<lambda>_.
                        retC \<lparr>cr_ID = i, cr_Name = name, cr_CreatedAt = now\<rparr>))) s1) s))"

definition DeleteCredential :: "'w fileEnv \<Rightarrow> uuid \<Rightarrow> ('w, unit) storeC" where
  "DeleteCredential env i =
     withLock env
       (bindC (readData (\<lambda>d.
          case indexOf (\<lambda>c. crr_ID c = i) (sn_Credentials d) of
            None \<Rightarrow> Inl ErrNotFound
          | Some idx \<Rightarrow>
              (case find (\<lambda>srv. svr_CredentialRef srv = Some i) (sn_Servers d) of
                 Some srv \<Rightarrow> Inl (Errorf (''credential is referenced by server '' @ quoteGo (svr_Name srv)))
               | None \<Rightarrow> Inr idx))) (\<lambda>idx.
        setData (\<lambda>d. d\<lparr>sn_Credentials := removeAt idx (sn_Credentials d)\<rparr>)))"

definition ResolveCredential :: "'w fileEnv \<Rightarrow> uuid \<Rightarrow> ('w, row) storeC" where
  "ResolveCredential env ref =
     readData (\<lambda>d.
       case find (\<lambda>c. crr_ID c = ref) (sn_Credentials d) of
         None \<Rightarrow> Inl ErrNotFound
       | Some c \<Rightarrow> bindE (decodePayload (crr_Payload c)) (Decrypt (fe_vault env)))"

section \<open>Servers\<close>

definition objectOr :: "raw \<Rightarrow> raw" where
  "objectOr opts = (if opts = RawEmpty then RawJSON (VObj []) else opts)"

text \<open>The inline credential of a request: stored first, and then \<open>CredentialRef\<close> points to it.\<close>

definition inlineCredential :: "'w fileEnv \<Rightarrow> CreateServerRequest \<Rightarrow> ('w, CreateServerRequest) storeC" where
  "inlineCredential env req =
     (if csr_CredentialRef req = None \<and> csr_Credential req \<noteq> [] then
        (let credName = TrimSpace (csr_CredentialName req);
             credName = (if credName = [] then csr_Name req @ ''-credential'' else credName)
         in bindC (CreateCredential env credName (csr_Credential req)) (\<lambda>cred.
              retC (req\<lparr>csr_CredentialRef := Some (cr_ID cred)\<rparr>)))
      else retC req)"

definition CreateServer :: "'w fileEnv \<Rightarrow> CreateServerRequest \<Rightarrow> ('w, Server) storeC" where
  "CreateServer env req0 =
     (if csr_Name req0 = [] \<or> csr_Protocol req0 = [] then failC (Errorf ''name and protocol are required'')
      else bindC (inlineCredential env req0) (\<lambda>req.
        if csr_CredentialRef req \<noteq> None \<and> csr_Credential req \<noteq> [] then
          failC (Errorf ''provide either credentialRef or inline credential, not both'')
        else bindC newUUID (\<lambda>i s1.
          let opts = objectOr (csr_Options req);
              srv = \<lparr>s_ID = i, s_Name = csr_Name req, s_Protocol = csr_Protocol req, s_Options = opts,
                     s_CredentialRef = csr_CredentialRef req,
                     s_Enabled = (case csr_Enabled req of Some b \<Rightarrow> b | None \<Rightarrow> True),
                     s_UpdatedAt = fe_now env (st_world s1)\<rparr>;
              r = \<lparr>svr_ID = i, svr_Name = s_Name srv, svr_Protocol = s_Protocol srv, svr_Options = rawToNode opts,
                   svr_CredentialRef = s_CredentialRef srv, svr_Enabled = s_Enabled srv, svr_UpdatedAt = s_UpdatedAt srv\<rparr>
          in withLock env
               (bindC (readData (\<lambda>d.
                  if list_ex (\<lambda>x. svr_Name x = csr_Name req) (sn_Servers d)
                  then Inl (Errorf (''server '' @ quoteGo (csr_Name req) @ '' already exists'')) else Inr ())) (\<lambda>_.
                bindC (setData (\<lambda>d. d\<lparr>sn_Servers := sn_Servers d @ [r]\<rparr>)) (\<lambda>_. retC srv))) s1)))"

text \<open>\<open>sort.Slice\<close> by one or two keys; equal keys keep their order here, in Go their order is not specified.\<close>

definition ListServers :: "('w, Server list) storeC" where
  "ListServers = readData (\<lambda>d. Inr (sort_key s_Name (map serverModel (sn_Servers d))))"

definition GetServerByID :: "uuid \<Rightarrow> ('w, Server) storeC" where
  "GetServerByID i =
     readData (\<lambda>d. orNotFound (map_option serverModel (find (\<lambda>r. svr_ID r = i) (sn_Servers d))))"

definition GetServerByName :: "string \<Rightarrow> ('w, Server) storeC" where
  "GetServerByName name =
     readData (\<lambda>d. orNotFound (map_option serverModel (find (\<lambda>r. svr_Name r = name) (sn_Servers d))))"

definition UpdateServer :: "'w fileEnv \<Rightarrow> uuid \<Rightarrow> UpdateServerRequest \<Rightarrow> ('w, Server) storeC" where
  "UpdateServer env i req =
     withLock env
       (bindC (readData (\<lambda>d. orNotFound (indexOf (\<lambda>r. svr_ID r = i) (sn_Servers d)))) (\<lambda>idx s.
          let r = sn_Servers (st_data s) ! idx;
              r = (if usr_Options req \<noteq> RawEmpty then r\<lparr>svr_Options := rawToNode (usr_Options req)\<rparr> else r);
              r = (if usr_CredentialRef req \<noteq> None then r\<lparr>svr_CredentialRef := usr_CredentialRef req\<rparr> else r);
              r = (case usr_Enabled req of Some b \<Rightarrow> r\<lparr>svr_Enabled := b\<rparr> | None \<Rightarrow> r);
              r = r\<lparr>svr_UpdatedAt := fe_now env (st_world s)\<rparr>
          in bindC (setData (\<lambda>d. d\<lparr>sn_Servers := (sn_Servers d)[idx := r]\<rparr>)) (\<lambda>_. retC (serverModel r)) s))"

definition filterColumnsByTableIDs :: "uuid list \<Rightarrow> ColumnRecord list \<Rightarrow> ColumnRecord list" where
  "filterColumnsByTableIDs ids cols = filter (\<lambda>c. clr_TableID c \<notin> set ids) cols"

definition filterTables :: "uuid \<Rightarrow> TableRecord list \<Rightarrow> TableRecord list" where
  "filterTables serverID ts = filter (\<lambda>t. tbr_ServerID t \<noteq> serverID) ts"

definition filterFunctions :: "uuid \<Rightarrow> FunctionRecord list \<Rightarrow> FunctionRecord list" where
  "filterFunctions serverID fs = filter (\<lambda>f. fnr_ServerID f \<noteq> serverID) fs"

definition deleteServerData :: "uuid \<Rightarrow> nat \<Rightarrow> snapshot \<Rightarrow> snapshot" where
  "deleteServerData i idx d =
     (let tableIDs = map tbr_ID (filter (\<lambda>t. tbr_ServerID t = i) (sn_Tables d))
      in d\<lparr>sn_Servers := removeAt idx (sn_Servers d),
           sn_Tables := filterTables i (sn_Tables d),
           sn_Functions := filterFunctions i (sn_Functions d),
           sn_Columns := filterColumnsByTableIDs tableIDs (sn_Columns d)\<rparr>)"

definition DeleteServer :: "'w fileEnv \<Rightarrow> uuid \<Rightarrow> ('w, unit) storeC" where
  "DeleteServer env i =
     withLock env
       (bindC (readData (\<lambda>d. orNotFound (indexOf (\<lambda>r. svr_ID r = i) (sn_Servers d)))) (\<lambda>idx.
          setData (deleteServerData i idx)))"

section \<open>Tables and columns\<close>

definition orPublic :: "string \<Rightarrow> string" where
  "orPublic schema = (if schema = [] then ''public'' else schema)"

definition columnOfInput :: "uuid \<Rightarrow> uuid \<Rightarrow> int \<Rightarrow> ColumnInput \<Rightarrow> ColumnRecord" where
  "columnOfInput i tableID pos c =
     \<lparr>clr_ID = i, clr_TableID = tableID, clr_Name = ci_Name c,
      clr_DataType = (if ci_DataType c = [] then ''text'' else ci_DataType c),
      clr_RemoteName = ci_RemoteName c,
      clr_Nullable = (case ci_Nullable c of Some b \<Rightarrow> b | None \<Rightarrow> True),
      clr_Position = pos\<rparr>"

text \<open>The loop over the columns of a request: unnamed ones are skipped, a zero position is the index.\<close>

fun newColumns :: "uuid \<Rightarrow> nat \<Rightarrow> ColumnInput list \<Rightarrow> uuid \<Rightarrow> ColumnRecord list \<times> uuid" where
  "newColumns tableID k [] next = ([], next)"
| "newColumns tableID k (c # cs) next =
     (if ci_Name c = [] then newColumns tableID (Suc k) cs next
      else (case newColumns tableID (Suc k) cs (Suc next) of
              (rs, next') \<Rightarrow>
                (columnOfInput (Suc next) tableID (if ci_Position c = 0 then int k else ci_Position c) c # rs, next')))"

definition checkNewTable :: "CreateTableRequest \<Rightarrow> snapshot \<Rightarrow> err + ServerRecord" where
  "checkNewTable req d =
     (case find (\<lambda>r. svr_Name r = ctr_ServerName req) (sn_Servers d) of
        None \<Rightarrow> Inl ErrNotFound
      | Some srv \<Rightarrow>
          if list_ex (\<lambda>t. tbr_SchemaName t = orPublic (ctr_SchemaName req) \<and> tbr_TableName t = ctr_TableName req) (sn_Tables d)
          then Inl (Errorf (''table '' @ orPublic (ctr_SchemaName req) @ ''.'' @ ctr_TableName req @ '' already exists''))
          else Inr srv)"

definition CreateTable :: "'w fileEnv \<Rightarrow> CreateTableRequest \<Rightarrow> ('w, Table \<times> Column list) storeC" where
  "CreateTable env req =
     (if ctr_ServerName req = [] \<or> ctr_TableName req = [] then
        failC (Errorf ''serverName and tableName are required'')
      else withLock env
        (bindC (readData (checkNewTable req)) (\<lambda>srv.
         bindC newUUID (\<lambda>i s.
           let opts = objectOr (ctr_Options req);
               keys = (case ctr_KeyColumns req of Some ks \<Rightarrow> ks | None \<Rightarrow> []);
               schema = orPublic (ctr_SchemaName req);
               tbl = \<lparr>t_ID = i, t_ServerID = svr_ID srv, t_SchemaName = schema, t_TableName = ctr_TableName req,
                      t_RemoteName = ctr_RemoteName req, t_KeyColumns = keys, t_Options = opts,
                      t_ServerName = svr_Name srv\<rparr>;
               r = \<lparr>tbr_ID = i, tbr_ServerID = svr_ID srv, tbr_SchemaName = schema, tbr_TableName = ctr_TableName req,
                    tbr_RemoteName = ctr_RemoteName req, tbr_KeyColumns = keys, tbr_Options = rawToNode opts\<rparr>;
               (cols, next') = newColumns i 0 (ctr_Columns req) (st_next s)
           in (Inr (tbl, map columnModel cols),
               s\<lparr>st_next := next',
                 st_data := (st_data s)\<lparr>sn_Tables := sn_Tables (st_data s) @ [r],
                                        sn_Columns := sn_Columns (st_data s) @ cols\<rparr>\<rparr>)))))"

definition serverNameLocked :: "snapshot \<Rightarrow> uuid \<Rightarrow> string" where
  "serverNameLocked d i = (case find (\<lambda>s. svr_ID s = i) (sn_Servers d) of Some s \<Rightarrow> svr_Name s | None \<Rightarrow> [])"

text \<open>Lists are sorted by two keys: position and name, or schema and name.\<close>

definition sortColumns :: "Column list \<Rightarrow> Column list" where
  "sortColumns cs = sort_key c_Position (sort_key c_Name cs)"

definition ListTables :: "('w, Table list) storeC" where
  "ListTables = readData (\<lambda>d.
     Inr (sort_key t_SchemaName (sort_key t_TableName
       (map (\<lambda>r. (tableModel r)\<lparr>t_ServerName := serverNameOf (serverNames (sn_Servers d)) (tbr_ServerID r)\<rparr>)
         (sn_Tables d)))))"

definition GetTableByID :: "uuid \<Rightarrow> ('w, Table) storeC" where
  "GetTableByID i = readData (\<lambda>d.
     orNotFound (map_option (\<lambda>r. (tableModel r)\<lparr>t_ServerName := serverNameLocked d (tbr_ServerID r)\<rparr>)
       (find (\<lambda>r. tbr_ID r = i) (sn_Tables d))))"

definition tableIndexLocked :: "snapshot \<Rightarrow> uuid \<Rightarrow> nat option" where
  "tableIndexLocked d i = indexOf (\<lambda>r. tbr_ID r = i) (sn_Tables d)"

definition UpdateTable :: "'w fileEnv \<Rightarrow> uuid \<Rightarrow> UpdateTableRequest \<Rightarrow> ('w, Table) storeC" where
  "UpdateTable env i req =
     withLock env
       (bindC (readData (\<lambda>d. orNotFound (tableIndexLocked d i))) (\<lambda>idx s.
          let r = sn_Tables (st_data s) ! idx;
              r = (case utr_RemoteName req of Some n \<Rightarrow> r\<lparr>tbr_RemoteName := n\<rparr> | None \<Rightarrow> r);
              r = (case utr_KeyColumns req of Some ks \<Rightarrow> r\<lparr>tbr_KeyColumns := ks\<rparr> | None \<Rightarrow> r);
              r = (if utr_Options req \<noteq> RawEmpty then r\<lparr>tbr_Options := rawToNode (utr_Options req)\<rparr> else r)
          in bindC (setData (\<lambda>d. d\<lparr>sn_Tables := (sn_Tables d)[idx := r]\<rparr>)) (\<lambda>_.
               retC ((tableModel r)\<lparr>t_ServerName := serverNameLocked (st_data s) (tbr_ServerID r)\<rparr>)) s))"

definition DeleteTable :: "'w fileEnv \<Rightarrow> uuid \<Rightarrow> ('w, unit) storeC" where
  "DeleteTable env i =
     withLock env
       (bindC (readData (\<lambda>d. orNotFound (tableIndexLocked d i))) (\<lambda>idx.
          setData (\<lambda>d. d\<lparr>sn_Tables := removeAt idx (sn_Tables d),
                         sn_Columns := filterColumnsByTableIDs [i] (sn_Columns d)\<rparr>)))"

definition columnsForTableLocked :: "snapshot \<Rightarrow> uuid \<Rightarrow> Column list" where
  "columnsForTableLocked d i = sortColumns (map columnModel (filter (\<lambda>c. clr_TableID c = i) (sn_Columns d)))"

definition findTable :: "snapshot \<Rightarrow> string \<Rightarrow> string \<Rightarrow> TableRecord option" where
  "findTable d schema table =
     find (\<lambda>r. tbr_SchemaName r = schema \<and> tbr_TableName r = table) (sn_Tables d)"

definition ListColumns :: "string \<Rightarrow> string \<Rightarrow> ('w, Column list) storeC" where
  "ListColumns schema table = readData (\<lambda>d.
     orNotFound (map_option (\<lambda>t. columnsForTableLocked d (tbr_ID t)) (findTable d schema table)))"

definition ListColumnsByTableID :: "uuid \<Rightarrow> ('w, Column list) storeC" where
  "ListColumnsByTableID i = readData (\<lambda>d.
     if tableIndexLocked d i = None then Inl ErrNotFound else Inr (columnsForTableLocked d i))"

definition GetColumnByID :: "uuid \<Rightarrow> ('w, Column) storeC" where
  "GetColumnByID i =
     readData (\<lambda>d. orNotFound (map_option columnModel (find (\<lambda>r. clr_ID r = i) (sn_Columns d))))"

definition CreateColumn :: "'w fileEnv \<Rightarrow> uuid \<Rightarrow> ColumnInput \<Rightarrow> ('w, Column) storeC" where
  "CreateColumn env tableID req =
     (if ci_Name req = [] then failC (Errorf ''name is required'')
      else withLock env
        (bindC (readData (\<lambda>d.
           if tableIndexLocked d tableID = None then Inl ErrNotFound
           else if list_ex (\<lambda>c. clr_TableID c = tableID \<and> clr_Name c = ci_Name req) (sn_Columns d)
           then Inl (Errorf (''column '' @ quoteGo (ci_Name req) @ '' already exists'')) else Inr ())) (\<lambda>_.
         bindC newUUID (\<lambda>i.
           let r = columnOfInput i tableID (ci_Position req) req
           in bindC (setData (\<lambda>d. d\<lparr>sn_Columns := sn_Columns d @ [r]\<rparr>)) (\<lambda>_. retC (columnModel r))))))"

definition UpdateColumn :: "'w fileEnv \<Rightarrow> uuid \<Rightarrow> UpdateColumnRequest \<Rightarrow> ('w, Column) storeC" where
  "UpdateColumn env i req =
     withLock env
       (bindC (readData (\<lambda>d. orNotFound (indexOf (\<lambda>r. clr_ID r = i) (sn_Columns d)))) (\<lambda>idx s.
          let r = sn_Columns (st_data s) ! idx;
              r = (case ucr_DataType req of Some x \<Rightarrow> r\<lparr>clr_DataType := x\<rparr> | None \<Rightarrow> r);
              r = (case ucr_RemoteName req of Some x \<Rightarrow> r\<lparr>clr_RemoteName := x\<rparr> | None \<Rightarrow> r);
              r = (case ucr_Nullable req of Some x \<Rightarrow> r\<lparr>clr_Nullable := x\<rparr> | None \<Rightarrow> r);
              r = (case ucr_Position req of Some x \<Rightarrow> r\<lparr>clr_Position := x\<rparr> | None \<Rightarrow> r)
          in bindC (setData (\<lambda>d. d\<lparr>sn_Columns := (sn_Columns d)[idx := r]\<rparr>)) (\<lambda>_. retC (columnModel r)) s))"

definition DeleteColumn :: "'w fileEnv \<Rightarrow> uuid \<Rightarrow> ('w, unit) storeC" where
  "DeleteColumn env i =
     withLock env
       (bindC (readData (\<lambda>d. orNotFound (indexOf (\<lambda>r. clr_ID r = i) (sn_Columns d)))) (\<lambda>idx.
          setData (\<lambda>d. d\<lparr>sn_Columns := removeAt idx (sn_Columns d)\<rparr>)))"

text \<open>The server of a table or function to be resolved: it must exist and be enabled.\<close>

definition enabledServer :: "snapshot \<Rightarrow> uuid \<Rightarrow> err + Server" where
  "enabledServer d i =
     (case find (\<lambda>s. svr_ID s = i) (sn_Servers d) of
        None \<Rightarrow> Inl ErrNotFound
      | Some s \<Rightarrow> if svr_Enabled s then Inr (serverModel s)
                  else Inl (Errorf (''server '' @ quoteGo (svr_Name s) @ '' is disabled'')))"

definition ResolveTable :: "string \<Rightarrow> string \<Rightarrow> ('w, ResolvedTable) storeC" where
  "ResolveTable schema table = readData (\<lambda>d.
     bindE (orNotFound (findTable d schema table)) (\<lambda>t.
     bindE (enabledServer d (tbr_ServerID t)) (\<lambda>srv.
       Inr \<lparr>rt_Table = (tableModel t)\<lparr>t_ServerName := s_Name srv\<rparr>, rt_Server = srv,
            rt_Columns = columnsForTableLocked d (tbr_ID t)\<rparr>)))"

section \<open>Functions\<close>

definition checkNewFunction :: "CreateFunctionRequest \<Rightarrow> snapshot \<Rightarrow> err + ServerRecord" where
  "checkNewFunction req d =
     (case find (\<lambda>r. svr_Name r = cfr_ServerName req) (sn_Servers d) of
        None \<Rightarrow> Inl ErrNotFound
      | Some srv \<Rightarrow>
          if list_ex (\<lambda>f. fnr_SchemaName f = orPublic (cfr_SchemaName req) \<and> fnr_Name f = cfr_Name req) (sn_Functions d)
          then Inl (Errorf (''function '' @ orPublic (cfr_SchemaName req) @ ''.'' @ cfr_Name req @ '' already exists''))
          else Inr srv)"

definition CreateFunction :: "'w fileEnv \<Rightarrow> CreateFunctionRequest \<Rightarrow> ('w, Function) storeC" where
  "CreateFunction env req =
     (if cfr_ServerName req = [] \<or> cfr_Name req = [] \<or> cfr_Operation req = [] then
        failC (Errorf ''serverName, name and operation are required'')
      else withLock env
        (bindC (readData (checkNewFunction req)) (\<lambda>srv.
         bindC newUUID (\<lambda>i.
           let opts = objectOr (cfr_Options req);
               schema = orPublic (cfr_SchemaName req);
               fn = \<lparr>f_ID = i, f_ServerID = svr_ID srv, f_SchemaName = schema, f_Name = cfr_Name req,
                     f_Operation = cfr_Operation req, f_RemotePath = cfr_RemotePath req, f_Method = cfr_Method req,
                     f_Options = opts, f_ServerName = cfr_ServerName req\<rparr>;
               r = \<lparr>fnr_ID = i, fnr_ServerID = svr_ID srv, fnr_SchemaName = schema, fnr_Name = cfr_Name req,
                    fnr_Operation = cfr_Operation req, fnr_RemotePath = cfr_RemotePath req, fnr_Method = cfr_Method req,
                    fnr_Options = rawToNode opts\<rparr>
           in bindC (setData (\<lambda>d. d\<lparr>sn_Functions := sn_Functions d @ [r]\<rparr>)) (\<lambda>_. retC fn)))))"

definition ListFunctions :: "('w, Function list) storeC" where
  "ListFunctions = readData (\<lambda>d.
     Inr (sort_key f_SchemaName (sort_key f_Name
       (map (\<lambda>r. (functionModel r)\<lparr>f_ServerName := serverNameOf (serverNames (sn_Servers d)) (fnr_ServerID r)\<rparr>)
         (sn_Functions d)))))"

definition GetFunctionByID :: "uuid \<Rightarrow> ('w, Function) storeC" where
  "GetFunctionByID i = readData (\<lambda>d.
     orNotFound (map_option (\<lambda>r. (functionModel r)\<lparr>f_ServerName := serverNameLocked d (fnr_ServerID r)\<rparr>)
       (find (\<lambda>r. fnr_ID r = i) (sn_Functions d))))"

definition UpdateFunction :: "'w fileEnv \<Rightarrow> uuid \<Rightarrow> UpdateFunctionRequest \<Rightarrow> ('w, Function) storeC" where
  "UpdateFunction env i req =
     withLock env
       (bindC (readData (\<lambda>d. orNotFound (indexOf (\<lambda>r. fnr_ID r = i) (sn_Functions d)))) (\<lambda>idx s.
          let r = sn_Functions (st_data s) ! idx;
              r = (case ufr_Operation req of Some x \<Rightarrow> r\<lparr>fnr_Operation := x\<rparr> | None \<Rightarrow> r);
              r = (case ufr_RemotePath req of Some x \<Rightarrow> r\<lparr>fnr_RemotePath := x\<rparr> | None \<Rightarrow> r);
              r = (case ufr_Method req of Some x \<Rightarrow> r\<lparr>fnr_Method := x\<rparr> | None \<Rightarrow> r);
              r = (if ufr_Options req \<noteq> RawEmpty then r\<lparr>fnr_Options := rawToNode (ufr_Options req)\<rparr> else r)
          in bindC (setData (\<lambda>d. d\<lparr>sn_Functions := (sn_Functions d)[idx := r]\<rparr>)) (\<lambda>_.
               retC ((functionModel r)\<lparr>f_ServerName := serverNameLocked (st_data s) (fnr_ServerID r)\<rparr>)) s))"

definition DeleteFunction :: "'w fileEnv \<Rightarrow> uuid \<Rightarrow> ('w, unit) storeC" where
  "DeleteFunction env i =
     withLock env
       (bindC (readData (\<lambda>d. orNotFound (indexOf (\<lambda>r. fnr_ID r = i) (sn_Functions d)))) (\<lambda>idx.
          setData (\<lambda>d. d\<lparr>sn_Functions := removeAt idx (sn_Functions d)\<rparr>)))"

definition ResolveFunction :: "string \<Rightarrow> string \<Rightarrow> ('w, ResolvedFunction) storeC" where
  "ResolveFunction schema name = readData (\<lambda>d.
     bindE (orNotFound (find (\<lambda>r. fnr_SchemaName r = schema \<and> fnr_Name r = name) (sn_Functions d))) (\<lambda>f.
     bindE (enabledServer d (fnr_ServerID f)) (\<lambda>srv.
       Inr \<lparr>rf_Function = (functionModel f)\<lparr>f_ServerName := s_Name srv\<rparr>, rf_Server = srv\<rparr>)))"

definition ServerCredential :: "'w fileEnv \<Rightarrow> Server \<Rightarrow> ('w, row option) storeC" where
  "ServerCredential env srv =
     (case s_CredentialRef srv of
        None \<Rightarrow> retC None
      | Some ref \<Rightarrow> bindC (ResolveCredential env ref) (\<lambda>data. retC (Some data)))"

section \<open>Import and loading\<close>

definition compileEnvOf :: "'w fileEnv \<Rightarrow> 'w \<Rightarrow> compileEnv" where
  "compileEnvOf env w =
     \<lparr>ce_vault = fe_vault env, ce_nonce = fe_nonce env, ce_now = fe_now env w, ce_getenv = fe_getenv env\<rparr>"

definition compileIn :: "'w fileEnv \<Rightarrow> declarativeDoc \<Rightarrow> ('w, snapshot) storeC" where
  "compileIn env doc s =
     (case compileDeclarative (compileEnvOf env (st_world s)) doc (st_next s) of
        Inl e \<Rightarrow> (Inl e, s)
      | Inr (snap, next') \<Rightarrow> (Inr snap, s\<lparr>st_next := next'\<rparr>))"

text \<open>The document an import compiles: the new one, or the current one merged with it.\<close>

definition importDoc :: "'w fileEnv \<Rightarrow> DeclarativeDoc \<Rightarrow> string \<Rightarrow> snapshot \<Rightarrow> err + DeclarativeDoc" where
  "importDoc env doc mode d =
     (let mode = (if mode = [] then ''replace'' else mode)
      in if mode = ''replace'' then Inr doc
         else if mode = ''merge'' then
           bindE (decompileDeclarative (fe_uuidText env) (fe_vault env) d)
             (\<lambda>current. MergeDeclarativeDocs [declarativeToImporter current, doc])
         else Inl (Errorf (''unsupported import mode '' @ quoteGo mode)))"

text \<open>
  \<open>ImportDeclarative\<close> reads and compiles before it takes the lock, and replaces the data in the locked part.
\<close>

definition importPrepare :: "'w fileEnv \<Rightarrow> DeclarativeDoc \<Rightarrow> string \<Rightarrow> ('w, DeclarativeDoc \<times> snapshot) storeC" where
  "importPrepare env doc mode =
     bindC (readData (importDoc env doc mode)) (\<lambda>merged.
     bindC (compileIn env (declarativeFromImporter merged)) (\<lambda>snap. retC (merged, snap)))"

definition importCommit :: "'w fileEnv \<Rightarrow> DeclarativeDoc \<times> snapshot \<Rightarrow> ('w, Result) storeC" where
  "importCommit env = (\<lambda>(merged, snap).
     bindC (withLock env (setData (\<lambda>_. snap))) (\<lambda>_. retC (CountResult merged)))"

definition ImportDeclarative :: "'w fileEnv \<Rightarrow> DeclarativeDoc \<Rightarrow> string \<Rightarrow> ('w, Result) storeC" where
  "ImportDeclarative env doc mode = bindC (importPrepare env doc mode) (importCommit env)"

text \<open>
  What \<open>isDeclarativeYAML\<close> decodes from a source file: whether a credential has data and its payload; the id,
  protocol and credential node of a server; server name and id of a table; server name of a function.
\<close>

datatype credNode = NoNode | MappingNode | ScalarNode string | OtherNode

record yamlProbe =
  yp_Credentials :: "(bool \<times> string) list"
  yp_Servers :: "(uuid \<times> string \<times> credNode) list"
  yp_Tables :: "(string \<times> uuid) list"
  yp_Functions :: "string list"

definition isDeclarativeYAML :: "err + yamlProbe \<Rightarrow> bool" where
  "isDeclarativeYAML r =
     (case r of
        Inl e \<Rightarrow> False
      | Inr p \<Rightarrow>
          list_ex (\<lambda>(hasData, payload). hasData \<and> payload = []) (yp_Credentials p) \<or>
          list_ex (\<lambda>(i, protocol, node).
             TrimSpace protocol \<noteq> [] \<and> i = uuidNil \<or> node = MappingNode \<or>
             (case node of ScalarNode v \<Rightarrow> v \<noteq> [] | _ \<Rightarrow> False)) (yp_Servers p) \<or>
          list_ex (\<lambda>(server, i). server \<noteq> [] \<and> i = uuidNil) (yp_Tables p) \<or>
          list_ex (\<lambda>server. TrimSpace server \<noteq> []) (yp_Functions p))"

text \<open>A source file: blank, or the outcomes of decoding it as a probe, as a document and as a snapshot.\<close>

record yamlFile =
  yf_blank :: bool
  yf_probe :: "err + yamlProbe"
  yf_doc :: "err + declarativeDoc"
  yf_snapshot :: "err + snapshot"

text \<open>The loop of \<open>load\<close>: the documents found so far, or a snapshot that ends the loop.\<close>

fun loadFiles :: "yamlFile list \<Rightarrow> DeclarativeDoc list \<Rightarrow> err + snapshot + DeclarativeDoc list" where
  "loadFiles [] docs = Inr (Inr docs)"
| "loadFiles (f # fs) docs =
     (if yf_blank f then loadFiles fs docs
      else if isDeclarativeYAML (yf_probe f) then
        (case yf_doc f of
           Inl e \<Rightarrow> Inl (Wrapf ''parse drivers yaml: '' e [])
         | Inr doc \<Rightarrow> loadFiles fs (docs @ [declarativeToImporter doc]))
      else (case yf_snapshot f of
              Inl e \<Rightarrow> Inl (Wrapf ''parse drivers file: '' e [])
            | Inr snap \<Rightarrow> Inr (Inl snap)))"

definition loadStore :: "'w fileEnv \<Rightarrow> yamlFile list \<Rightarrow> ('w, unit) storeC" where
  "loadStore env files =
     (if files = [] then persistLocked env
      else (case loadFiles files [] of
              Inl e \<Rightarrow> failC e
            | Inr (Inl snap) \<Rightarrow> setData (\<lambda>_. snap)
            | Inr (Inr []) \<Rightarrow> retC ()
            | Inr (Inr docs) \<Rightarrow>
                bindC (liftC (MergeDeclarativeDocs docs)) (\<lambda>merged.
                bindC (compileIn env (declarativeFromImporter merged)) (\<lambda>snap. setData (\<lambda>_. snap)))))"

text \<open>The store as the engine uses it.\<close>

definition fileMetaStore :: "'w fileEnv \<Rightarrow> 'w fileStore store" where
  "fileMetaStore env =
     \<lparr>st_ListServers = ListServers, st_ListTables = ListTables, st_ListFunctions = ListFunctions,
      st_ListColumns = ListColumns, st_ResolveTable = ResolveTable, st_ResolveFunction = ResolveFunction,
      st_ServerCredential = ServerCredential env\<rparr>"

end
