(* ===== verification/CompileFacts.thy ===== *)
theory CompileFacts
  imports Declarative
begin

text \<open>
  What compilation of a declarative document guarantees: the snapshot's references resolve, its identifiers
  are new, and its names are unique exactly when the document's are.
\<close>

section \<open>Loops that may fail\<close>

lemma foldE_inv:
  assumes "\<And>x s s'. x \<in> set xs \<Longrightarrow> P s \<Longrightarrow> f x s = Inr s' \<Longrightarrow> P s'"
  shows "P s \<Longrightarrow> foldE f xs s = Inr s' \<Longrightarrow> P s'"
  using assms by (induction f xs s rule: foldE.induct) (auto split: sum.splits)

text \<open>A loop each of whose steps appends one element to \<open>g\<close> of the state.\<close>

lemma foldE_map:
  assumes "\<And>x s s'. f x s = Inr s' \<Longrightarrow> g s' = g s @ [h x]"
  shows "foldE f xs s = Inr s' \<Longrightarrow> g s' = g s @ map h xs"
  using assms by (induction f xs s rule: foldE.induct) (auto split: sum.splits)

lemma foldE_same:
  assumes "\<And>x s s'. f x s = Inr s' \<Longrightarrow> g s' = g s"
  shows "foldE f xs s = Inr s' \<Longrightarrow> g s' = g s"
  using assms by (induction f xs s rule: foldE.induct) (auto split: sum.splits)

section \<open>References\<close>

definition knows :: "(string \<times> uuid) list \<Rightarrow> ServerRecord list \<Rightarrow> bool" where
  "knows m servers \<longleftrightarrow> snd ` set m \<subseteq> svr_ID ` set servers"

lemma knows_map_of: "knows m servers \<Longrightarrow> map_of m k = Some v \<Longrightarrow> v \<in> svr_ID ` set servers"
  by (force simp: knows_def dest: map_of_SomeD)

lemma snd_update: "snd ` set (AList.update k v m) \<subseteq> insert v (snd ` set m)"
  by (induction m) auto

lemma knows_update: "knows m servers \<Longrightarrow> svr_ID r = i \<Longrightarrow> knows (AList.update k i m) (servers @ [r])"
  using snd_update [of k i m] by (force simp: knows_def)

definition cpInv :: "compiler \<Rightarrow> bool" where
  "cpInv c \<longleftrightarrow>
     storeOk False (cp_out c) (cp_next c) \<and>
     knows (cp_servers c) (sn_Servers (cp_out c)) \<and>
     map crr_Name (sn_Credentials (cp_out c)) = map fst (cp_creds c) \<and> distinct (map fst (cp_creds c))"

lemma registerCred_inv:
  "registerCred env name data c = Inr (i, c') \<Longrightarrow> cpInv c \<Longrightarrow> cpInv c'"
  by (auto simp: registerCred_def cpInv_def update_new map_of_eq_None_iff Let_def intro!: storeOk_add_credential
      split: if_splits option.splits sum.splits)

lemma compileCredential_inv: "compileCredential env x c = Inr c' \<Longrightarrow> cpInv c \<Longrightarrow> cpInv c'"
  by (auto simp: compileCredential_def split: if_splits sum.splits dest: registerCred_inv)

lemma serverCredRef_inv: "serverCredRef env name f c = Inr (r, c') \<Longrightarrow> cpInv c \<Longrightarrow> cpInv c'"
  by (auto simp: serverCredRef_def split: if_splits sum.splits option.splits dest: registerCred_inv)

lemma compileServer_inv: "compileServer env x c = Inr c' \<Longrightarrow> cpInv c \<Longrightarrow> cpInv c'"
proof -
  assume s: "compileServer env x c = Inr c'" and c: "cpInv c"
  then obtain r c1 where r: "serverCredRef env (TrimSpace (fs_Name x)) (fs_Credential x) c = Inr (r, c1)"
    by (auto simp: compileServer_def Let_def split: if_splits sum.splits)
  from serverCredRef_inv [OF this c] have "cpInv c1" .
  with s r show ?thesis
    by (fastforce simp: compileServer_def Let_def cpInv_def intro!: storeOk_add_server knows_update split: if_splits)
qed

lemma compileColumns_spec:
  "compileColumns tableID k cs n = (rs, m) \<Longrightarrow>
   n \<le> m \<and> distinct (map clr_ID rs) \<and> (\<forall>r\<in>set rs. n < clr_ID r \<and> clr_ID r \<le> m \<and> clr_TableID r = tableID)"
proof (induction tableID k cs n arbitrary: rs m rule: compileColumns.induct)
  case (2 tableID k c cs n)
  show ?case
  proof (cases "TrimSpace (dcl_Name c) = []")
    case False
    obtain rs' m' where nc: "compileColumns tableID (Suc k) cs (Suc n) = (rs', m')" by fastforce
    from 2(2) [OF False refl nc] 2(3) False nc show ?thesis by (fastforce simp: Let_def)
  qed (use 2 in simp)
qed simp

lemma compileTable_inv:
  assumes "compileTable x c = Inr c'" "cpInv c"
  shows "cpInv c'"
proof -
  obtain i cols m where i: "map_of (cp_servers c) (TrimSpace (dt_Server x)) = Some i"
    and cols: "compileColumns (Suc (cp_next c)) 0 (dt_Columns x) (Suc (cp_next c)) = (cols, m)"
    using assms(1) by (auto simp: compileTable_def Let_def split: if_splits option.splits prod.splits)
  have "i \<in> svr_ID ` set (sn_Servers (cp_out c))"
    using knows_map_of [OF _ i] assms(2) by (simp add: cpInv_def)
  moreover have "\<forall>r\<in>set cols. cp_next c < clr_ID r" using compileColumns_spec [OF cols] by fastforce
  ultimately show ?thesis
    using assms i cols compileColumns_spec [OF cols]
    by (auto simp: compileTable_def cpInv_def Let_def intro!: storeOk_add_table [where n = "cp_next c"]
        dest: bspec split: if_splits)
qed

lemma compileFunction_inv:
  assumes "compileFunction x c = Inr c'" "cpInv c"
  shows "cpInv c'"
proof -
  obtain i where i: "map_of (cp_servers c) (TrimSpace (df_Server x)) = Some i"
    using assms(1) by (auto simp: compileFunction_def Let_def split: if_splits option.splits)
  have "i \<in> svr_ID ` set (sn_Servers (cp_out c))"
    using knows_map_of [OF _ i] assms(2) by (simp add: cpInv_def)
  then show ?thesis
    using assms i
    by (auto simp: compileFunction_def cpInv_def Let_def intro!: storeOk_add_function split: if_splits)
qed

section \<open>Names\<close>

text \<open>The lists a compiled document consists of.\<close>

lemma registerCred_lists:
  assumes "registerCred env name data c = Inr (i, c')"
  shows "sn_Servers (cp_out c') = sn_Servers (cp_out c)" "sn_Tables (cp_out c') = sn_Tables (cp_out c)"
    "sn_Columns (cp_out c') = sn_Columns (cp_out c)" "sn_Functions (cp_out c') = sn_Functions (cp_out c)"
    "cp_servers c' = cp_servers c"
  using assms by (auto simp: registerCred_def Let_def split: if_splits option.splits sum.splits)

lemma serverCredRef_lists:
  assumes "serverCredRef env name f c = Inr (r, c')"
  shows "sn_Servers (cp_out c') = sn_Servers (cp_out c)" "sn_Tables (cp_out c') = sn_Tables (cp_out c)"
    "sn_Columns (cp_out c') = sn_Columns (cp_out c)" "sn_Functions (cp_out c') = sn_Functions (cp_out c)"
    "cp_servers c' = cp_servers c"
  using assms by (auto simp: serverCredRef_def registerCred_lists split: if_splits sum.splits option.splits)

lemma compileCredential_lists:
  assumes "compileCredential env x c = Inr c'"
  shows "sn_Servers (cp_out c') = sn_Servers (cp_out c)" "sn_Tables (cp_out c') = sn_Tables (cp_out c)"
    "sn_Columns (cp_out c') = sn_Columns (cp_out c)" "sn_Functions (cp_out c') = sn_Functions (cp_out c)"
    "cp_servers c' = cp_servers c"
  using assms by (auto simp: compileCredential_def registerCred_lists split: if_splits sum.splits)

lemma compileServer_lists:
  assumes "compileServer env x c = Inr c'"
  shows "map svr_Name (sn_Servers (cp_out c')) = map svr_Name (sn_Servers (cp_out c)) @ [TrimSpace (fs_Name x)]"
    "sn_Tables (cp_out c') = sn_Tables (cp_out c)"
    "sn_Columns (cp_out c') = sn_Columns (cp_out c)" "sn_Functions (cp_out c') = sn_Functions (cp_out c)"
  using assms by (auto simp: compileServer_def Let_def serverCredRef_lists split: if_splits sum.splits)

lemma compileTable_lists:
  assumes "compileTable x c = Inr c'"
  shows "map (\<lambda>t. (tbr_SchemaName t, tbr_TableName t)) (sn_Tables (cp_out c')) =
      map (\<lambda>t. (tbr_SchemaName t, tbr_TableName t)) (sn_Tables (cp_out c)) @ [(schemaOr (dt_Schema x), TrimSpace (dt_Name x))]"
    "sn_Servers (cp_out c') = sn_Servers (cp_out c)" "sn_Functions (cp_out c') = sn_Functions (cp_out c)"
    "sn_Credentials (cp_out c') = sn_Credentials (cp_out c)" "cp_servers c' = cp_servers c"
  using assms by (auto simp: compileTable_def Let_def split: if_splits option.splits prod.splits)

lemma compileFunction_lists:
  assumes "compileFunction x c = Inr c'"
  shows "map (\<lambda>f. (fnr_SchemaName f, fnr_Name f)) (sn_Functions (cp_out c')) =
      map (\<lambda>f. (fnr_SchemaName f, fnr_Name f)) (sn_Functions (cp_out c)) @ [(schemaOr (df_Schema x), TrimSpace (df_Name x))]"
    "sn_Servers (cp_out c') = sn_Servers (cp_out c)" "sn_Tables (cp_out c') = sn_Tables (cp_out c)"
    "sn_Credentials (cp_out c') = sn_Credentials (cp_out c)"
    "sn_Columns (cp_out c') = sn_Columns (cp_out c)" "cp_servers c' = cp_servers c"
  using assms by (auto simp: compileFunction_def Let_def split: if_splits option.splits)

definition uniqueDoc :: "declarativeDoc \<Rightarrow> bool" where
  "uniqueDoc doc \<longleftrightarrow>
     distinct (map (\<lambda>s. TrimSpace (fs_Name s)) (fd_Servers doc)) \<and>
     distinct (map (\<lambda>t. (schemaOr (dt_Schema t), TrimSpace (dt_Name t))) (fd_Tables doc)) \<and>
     distinct (map (\<lambda>f. (schemaOr (df_Schema f), TrimSpace (df_Name f))) (fd_Functions doc))"

definition startCompiler :: "uuid \<Rightarrow> compiler" where
  "startCompiler n = \<lparr>cp_out = emptySnapshot, cp_creds = [], cp_servers = [], cp_next = n\<rparr>"

lemma cpInv_start: "cpInv (startCompiler n)"
  by (simp add: cpInv_def startCompiler_def emptySnapshot_def storeOk_defs idsOk_def knows_def)

text \<open>The four loops of a successful compilation.\<close>

lemma compileDeclarative_steps:
  assumes "compileDeclarative env doc n = Inr (snap, m)"
  obtains c1 c2 c3 c4 where
    "foldE (compileCredential env) (fd_Credentials doc) (startCompiler n) = Inr c1"
    "foldE (compileServer env) (fd_Servers doc) c1 = Inr c2"
    "foldE compileTable (fd_Tables doc) c2 = Inr c3"
    "foldE compileFunction (fd_Functions doc) c3 = Inr c4"
    "snap = cp_out c4" "m = cp_next c4"
  using assms by (auto simp: compileDeclarative_def bindE_def startCompiler_def split: sum.splits)

theorem compile_storeOk:
  assumes "compileDeclarative env doc n = Inr (snap, m)"
  shows "storeRefs snap m \<and> (storeNames snap \<longleftrightarrow> uniqueDoc doc)"
proof -
  from assms obtain c1 c2 c3 c4 where
    c1: "foldE (compileCredential env) (fd_Credentials doc) (startCompiler n) = Inr c1" and
    c2: "foldE (compileServer env) (fd_Servers doc) c1 = Inr c2" and
    c3: "foldE compileTable (fd_Tables doc) c2 = Inr c3" and
    c4: "foldE compileFunction (fd_Functions doc) c3 = Inr c4" and
    snap: "snap = cp_out c4" "m = cp_next c4"
    by (rule compileDeclarative_steps)
  have "cpInv c1"
    by (rule foldE_inv [where P = cpInv, OF _ cpInv_start c1]) (rule compileCredential_inv)
  then have "cpInv c2" by (rule foldE_inv [where P = cpInv, OF _ _ c2, rotated]) (rule compileServer_inv)
  then have "cpInv c3" by (rule foldE_inv [where P = cpInv, OF _ _ c3, rotated]) (rule compileTable_inv)
  then have inv: "cpInv c4" by (rule foldE_inv [where P = cpInv, OF _ _ c4, rotated]) (rule compileFunction_inv)
  have servers: "map svr_Name (sn_Servers (cp_out c2)) =
      map svr_Name (sn_Servers (cp_out c1)) @ map (\<lambda>s. TrimSpace (fs_Name s)) (fd_Servers doc)"
    by (rule foldE_map [OF _ c2]) (rule compileServer_lists(1))
  have tables: "map (\<lambda>t. (tbr_SchemaName t, tbr_TableName t)) (sn_Tables (cp_out c3)) =
      map (\<lambda>t. (tbr_SchemaName t, tbr_TableName t)) (sn_Tables (cp_out c2)) @
      map (\<lambda>t. (schemaOr (dt_Schema t), TrimSpace (dt_Name t))) (fd_Tables doc)"
    by (rule foldE_map [OF _ c3]) (rule compileTable_lists(1))
  have funcs: "map (\<lambda>f. (fnr_SchemaName f, fnr_Name f)) (sn_Functions (cp_out c4)) =
      map (\<lambda>f. (fnr_SchemaName f, fnr_Name f)) (sn_Functions (cp_out c3)) @
      map (\<lambda>f. (schemaOr (df_Schema f), TrimSpace (df_Name f))) (fd_Functions doc)"
    by (rule foldE_map [OF _ c4]) (rule compileFunction_lists(1))
  note empty = startCompiler_def emptySnapshot_def
  have "map svr_Name (sn_Servers (cp_out c4)) = map (\<lambda>s. TrimSpace (fs_Name s)) (fd_Servers doc)"
    using foldE_same [OF _ c1, of "\<lambda>c. sn_Servers (cp_out c)"] servers
      foldE_same [OF _ c3, of "\<lambda>c. sn_Servers (cp_out c)"] foldE_same [OF _ c4, of "\<lambda>c. sn_Servers (cp_out c)"]
    by (simp add: compileCredential_lists compileTable_lists compileFunction_lists empty)
  moreover have "map (\<lambda>t. (tbr_SchemaName t, tbr_TableName t)) (sn_Tables (cp_out c4)) =
      map (\<lambda>t. (schemaOr (dt_Schema t), TrimSpace (dt_Name t))) (fd_Tables doc)"
    using foldE_same [OF _ c1, of "\<lambda>c. sn_Tables (cp_out c)"] foldE_same [OF _ c2, of "\<lambda>c. sn_Tables (cp_out c)"]
      tables foldE_same [OF _ c4, of "\<lambda>c. sn_Tables (cp_out c)"]
    by (simp add: compileCredential_lists compileServer_lists compileFunction_lists empty)
  moreover have "map (\<lambda>f. (fnr_SchemaName f, fnr_Name f)) (sn_Functions (cp_out c4)) =
      map (\<lambda>f. (schemaOr (df_Schema f), TrimSpace (df_Name f))) (fd_Functions doc)"
    using foldE_same [OF _ c1, of "\<lambda>c. sn_Functions (cp_out c)"] foldE_same [OF _ c2, of "\<lambda>c. sn_Functions (cp_out c)"]
      foldE_same [OF _ c3, of "\<lambda>c. sn_Functions (cp_out c)"] funcs
    by (simp add: compileCredential_lists compileServer_lists compileTable_lists empty)
  ultimately show ?thesis
    using inv by (simp add: snap cpInv_def storeOk_def storeNames_def uniqueDoc_def)
qed

text \<open>Identifiers are only given out.\<close>

lemma registerCred_next: "registerCred env name data c = Inr (i, c') \<Longrightarrow> cp_next c \<le> cp_next c'"
  by (auto simp: registerCred_def Let_def split: if_splits option.splits sum.splits)

lemma compileCredential_next: "compileCredential env x c = Inr c' \<Longrightarrow> cp_next c \<le> cp_next c'"
  by (auto simp: compileCredential_def split: if_splits sum.splits dest: registerCred_next)

lemma compileServer_next: "compileServer env x c = Inr c' \<Longrightarrow> cp_next c \<le> cp_next c'"
proof -
  assume s: "compileServer env x c = Inr c'"
  then obtain r c1 where r: "serverCredRef env (TrimSpace (fs_Name x)) (fs_Credential x) c = Inr (r, c1)"
    by (auto simp: compileServer_def Let_def split: if_splits sum.splits)
  then have "cp_next c \<le> cp_next c1"
    by (auto simp: serverCredRef_def split: if_splits sum.splits option.splits dest: registerCred_next)
  with s r show ?thesis by (auto simp: compileServer_def Let_def split: if_splits)
qed

lemma compileTable_next: "compileTable x c = Inr c' \<Longrightarrow> cp_next c \<le> cp_next c'"
  by (auto simp: compileTable_def Let_def split: if_splits option.splits prod.splits dest!: compileColumns_spec)

lemma compileFunction_next: "compileFunction x c = Inr c' \<Longrightarrow> cp_next c \<le> cp_next c'"
  by (auto simp: compileFunction_def Let_def split: if_splits option.splits)

lemma foldE_next:
  assumes "\<And>x c c'. f x c = Inr c' \<Longrightarrow> cp_next c \<le> cp_next c'"
  shows "foldE f xs c = Inr c' \<Longrightarrow> cp_next c \<le> cp_next c'"
  using assms by (induction f xs c rule: foldE.induct) (fastforce split: sum.splits)+

lemma compileDeclarative_next: "compileDeclarative env doc n = Inr (snap, m) \<Longrightarrow> n \<le> m"
proof (elim compileDeclarative_steps)
  fix c1 c2 c3 c4
  assume c1: "foldE (compileCredential env) (fd_Credentials doc) (startCompiler n) = Inr c1"
    and c2: "foldE (compileServer env) (fd_Servers doc) c1 = Inr c2"
    and c3: "foldE compileTable (fd_Tables doc) c2 = Inr c3"
    and c4: "foldE compileFunction (fd_Functions doc) c3 = Inr c4" and m: "m = cp_next c4"
  have "cp_next (startCompiler n) \<le> cp_next c1" by (rule foldE_next [OF compileCredential_next c1])
  also have "\<dots> \<le> cp_next c2" by (rule foldE_next [OF compileServer_next c2])
  also have "\<dots> \<le> cp_next c3" by (rule foldE_next [OF compileTable_next c3])
  also have "\<dots> \<le> m" unfolding m by (rule foldE_next [OF compileFunction_next c4])
  finally show "n \<le> m" by (simp add: startCompiler_def)
qed

end
