(* ===== verification/StoreInvariants.thy ===== *)
theory StoreInvariants
  imports FileStore CompileFacts
begin

text \<open>
  The invariants of the file store: identifiers are unique, references resolve and names are unique. Every
  operation keeps them, whether it succeeds or fails, and so does every sequence of operations.
\<close>

section \<open>Locking\<close>

text \<open>The locking and persisting around a change does not touch the snapshot.\<close>

lemma persistLocked_state [simp]:
  "st_data (snd (persistLocked env s)) = st_data s" "st_next (snd (persistLocked env s)) = st_next s"
  by (simp_all add: persistLocked_def split: sum.split prod.split)

lemma withLock_state [simp]:
  "st_data (snd (withLock env fn s)) = st_data (snd (fn s))"
  "st_next (snd (withLock env fn s)) = st_next (snd (fn s))"
  by (auto simp: withLock_def bindC_def retC_def split: sum.split prod.split)
     (metis persistLocked_state snd_conv)+

lemma readData_bind: "bindC (readData f) g s = (case f (st_data s) of Inl e \<Rightarrow> (Inl e, s) | Inr x \<Rightarrow> g x s)"
  by (simp add: readData_def bindC_def)

lemma setData_bind: "bindC (setData f) g s = g () (s\<lparr>st_data := f (st_data s)\<rparr>)"
  by (simp add: setData_def bindC_def)

lemma newUUID_bind: "bindC newUUID g s = g (Suc (st_next s)) (s\<lparr>st_next := Suc (st_next s)\<rparr>)"
  by (simp add: newUUID_def bindC_def)

lemmas store_comp = readData_bind setData_bind newUUID_bind orNotFound_def

lemma setData_snd [simp]: "snd (setData f s) = s\<lparr>st_data := f (st_data s)\<rparr>"
  by (simp add: setData_def)

lemma retC_snd [simp]: "snd (retC x s) = s" "snd (failC e s) = s"
  by (simp_all add: retC_def failC_def)

section \<open>Preservation\<close>

abbreviation stateOk :: "bool \<Rightarrow> 'w fileStore \<Rightarrow> bool" where
  "stateOk u s \<equiv> storeOk u (st_data s) (st_next s)"

lemma storeOk_remove_credential:
  "storeOk u d n \<Longrightarrow> storeOk u (d\<lparr>sn_Credentials := removeAt i (sn_Credentials d)\<rparr>) n"
  by (auto simp: storeOk_defs idsOk_removeAt distinct_removeAt)

lemma storeOk_update_server:
  "storeOk u d n \<Longrightarrow> i < length (sn_Servers d) \<Longrightarrow> svr_ID r = svr_ID (sn_Servers d ! i) \<Longrightarrow>
   svr_Name r = svr_Name (sn_Servers d ! i) \<Longrightarrow> storeOk u (d\<lparr>sn_Servers := (sn_Servers d)[i := r]\<rparr>) n"
  by (simp add: storeOk_defs idsOk_update image_update_same map_update_same)

lemma storeOk_delete_server:
  assumes "storeOk u d n" "indexOf (\<lambda>r. svr_ID r = k) (sn_Servers d) = Some i"
  shows "storeOk u (deleteServerData k i d) n"
proof -
  have "removeAt i (sn_Servers d) = filter (\<lambda>x. svr_ID x \<noteq> k) (sn_Servers d)"
    using assms by (intro removeAt_indexOf) (auto simp: storeOk_defs idsOk_def)
  moreover have "clr_TableID ` set (sn_Columns (deleteServerData k i d)) \<subseteq> tbr_ID ` set (sn_Tables (deleteServerData k i d))"
  proof
    fix x assume "x \<in> clr_TableID ` set (sn_Columns (deleteServerData k i d))"
    then obtain c where c: "c \<in> set (sn_Columns d)" "x = clr_TableID c"
      "\<forall>t\<in>set (sn_Tables d). tbr_ServerID t = k \<longrightarrow> tbr_ID t \<noteq> x"
      by (force simp: deleteServerData_def filterColumnsByTableIDs_def)
    then have "x \<in> tbr_ID ` set (sn_Tables d)" using assms(1) by (auto simp: storeOk_defs)
    with c show "x \<in> tbr_ID ` set (sn_Tables (deleteServerData k i d))"
      by (auto simp: deleteServerData_def filterTables_def)
  qed
  ultimately show ?thesis
    using assms(1)
    by (auto simp: storeOk_defs deleteServerData_def filterTables_def filterFunctions_def
        filterColumnsByTableIDs_def idsOk_filter distinct_map_filter image_iff)
qed

lemma storeOk_update_table:
  "storeOk u d n \<Longrightarrow> i < length (sn_Tables d) \<Longrightarrow> tbr_ID r = tbr_ID (sn_Tables d ! i) \<Longrightarrow>
   tbr_ServerID r = tbr_ServerID (sn_Tables d ! i) \<Longrightarrow> tbr_SchemaName r = tbr_SchemaName (sn_Tables d ! i) \<Longrightarrow>
   tbr_TableName r = tbr_TableName (sn_Tables d ! i) \<Longrightarrow> storeOk u (d\<lparr>sn_Tables := (sn_Tables d)[i := r]\<rparr>) n"
  by (simp add: storeOk_defs idsOk_update image_update_same map_update_same)

lemma storeOk_delete_table:
  assumes "storeOk u d n" "tableIndexLocked d k = Some i"
  shows "storeOk u (d\<lparr>sn_Tables := removeAt i (sn_Tables d), sn_Columns := filterColumnsByTableIDs [k] (sn_Columns d)\<rparr>) n"
proof -
  have "removeAt i (sn_Tables d) = filter (\<lambda>x. tbr_ID x \<noteq> k) (sn_Tables d)"
    using assms by (intro removeAt_indexOf) (auto simp: storeOk_defs idsOk_def tableIndexLocked_def)
  then show ?thesis
    using assms(1)
    by (auto simp: storeOk_defs filterColumnsByTableIDs_def idsOk_filter distinct_map_filter image_iff)
qed

lemma storeOk_add_column:
  "storeOk u d n \<Longrightarrow> clr_ID r = Suc n \<Longrightarrow> clr_TableID r \<in> tbr_ID ` set (sn_Tables d) \<Longrightarrow>
   storeOk u (d\<lparr>sn_Columns := sn_Columns d @ [r]\<rparr>) (Suc n)"
  using storeOk_mono [of u d n "Suc n"] by (auto simp: storeOk_defs idsOk_one)

lemma storeOk_update_column:
  "storeOk u d n \<Longrightarrow> i < length (sn_Columns d) \<Longrightarrow> clr_ID r = clr_ID (sn_Columns d ! i) \<Longrightarrow>
   clr_TableID r = clr_TableID (sn_Columns d ! i) \<Longrightarrow> storeOk u (d\<lparr>sn_Columns := (sn_Columns d)[i := r]\<rparr>) n"
  by (simp add: storeOk_defs idsOk_update image_update_same)

lemma storeOk_delete_column:
  "storeOk u d n \<Longrightarrow> storeOk u (d\<lparr>sn_Columns := removeAt i (sn_Columns d)\<rparr>) n"
  by (simp add: storeOk_defs idsOk_removeAt image_removeAt)

lemma storeOk_update_function:
  "storeOk u d n \<Longrightarrow> i < length (sn_Functions d) \<Longrightarrow> fnr_ID r = fnr_ID (sn_Functions d ! i) \<Longrightarrow>
   fnr_ServerID r = fnr_ServerID (sn_Functions d ! i) \<Longrightarrow> fnr_SchemaName r = fnr_SchemaName (sn_Functions d ! i) \<Longrightarrow>
   fnr_Name r = fnr_Name (sn_Functions d ! i) \<Longrightarrow> storeOk u (d\<lparr>sn_Functions := (sn_Functions d)[i := r]\<rparr>) n"
  by (simp add: storeOk_defs idsOk_update image_update_same map_update_same)

lemma storeOk_delete_function:
  "storeOk u d n \<Longrightarrow> storeOk u (d\<lparr>sn_Functions := removeAt i (sn_Functions d)\<rparr>) n"
  by (simp add: storeOk_defs idsOk_removeAt distinct_removeAt image_removeAt)

lemma newColumns_spec:
  "newColumns tableID k cs n = (rs, m) \<Longrightarrow>
   n \<le> m \<and> distinct (map clr_ID rs) \<and> (\<forall>r\<in>set rs. n < clr_ID r \<and> clr_ID r \<le> m \<and> clr_TableID r = tableID)"
proof (induction tableID k cs n arbitrary: rs m rule: newColumns.induct)
  case (2 tableID k c cs n)
  show ?case
  proof (cases "ci_Name c = []")
    case False
    obtain rs' m' where nc: "newColumns tableID (Suc k) cs (Suc n) = (rs', m')" by fastforce
    from 2(2) [OF False nc] 2(3) False nc show ?thesis by (fastforce simp: columnOfInput_def)
  qed (use 2 in simp)
qed simp

text \<open>The operations.\<close>

lemma CreateCredential_ok: "stateOk u s \<Longrightarrow> stateOk u (snd (CreateCredential env name data s))"
  using storeOk_mono [of u "st_data s" "st_next s" "Suc (st_next s)"]
  by (auto simp: CreateCredential_def store_comp Let_def storeOk_add_credential split: sum.split)

lemma DeleteCredential_ok: "stateOk u s \<Longrightarrow> stateOk u (snd (DeleteCredential env i s))"
  by (auto simp: DeleteCredential_def store_comp storeOk_remove_credential split: sum.split option.split)

lemma inlineCredential_ok: "stateOk u s \<Longrightarrow> stateOk u (snd (inlineCredential env req s))"
  using CreateCredential_ok [of u s env]
  by (auto simp: inlineCredential_def bindC_def Let_def split: sum.split prod.split) (metis snd_conv)+

lemma CreateServer_ok: "stateOk u s \<Longrightarrow> stateOk u (snd (CreateServer env req s))"
proof -
  assume s: "stateOk u s"
  obtain r s1 where i: "inlineCredential env req s = (r, s1)" by fastforce
  with inlineCredential_ok [OF s, of env req] have "stateOk u s1" by simp
  then show ?thesis
    using s storeOk_mono [of u "st_data s1" "st_next s1" "Suc (st_next s1)"]
    by (auto simp: CreateServer_def i bindC_def [of "inlineCredential env req"] store_comp Let_def
        storeOk_add_server split: sum.split)
qed

lemma UpdateServer_ok: "stateOk u s \<Longrightarrow> stateOk u (snd (UpdateServer env i req s))"
  by (auto simp: UpdateServer_def store_comp Let_def dest!: indexOf_Some split: sum.split option.split
      intro!: storeOk_update_server)

lemma DeleteServer_ok: "stateOk u s \<Longrightarrow> stateOk u (snd (DeleteServer env i s))"
  by (auto simp: DeleteServer_def store_comp split: sum.split option.split intro!: storeOk_delete_server)

lemma CreateTable_ok: "stateOk u s \<Longrightarrow> stateOk u (snd (CreateTable env req s))"
  by (auto simp: CreateTable_def store_comp Let_def checkNewTable_def find_Some_iff
      dest!: newColumns_spec split: sum.splits option.splits prod.splits if_splits intro!: storeOk_add_table)

lemma UpdateTable_ok: "stateOk u s \<Longrightarrow> stateOk u (snd (UpdateTable env i req s))"
  by (auto simp: UpdateTable_def store_comp Let_def tableIndexLocked_def dest!: indexOf_Some
      split: sum.split option.split intro!: storeOk_update_table)

lemma DeleteTable_ok: "stateOk u s \<Longrightarrow> stateOk u (snd (DeleteTable env i s))"
  by (auto simp: DeleteTable_def store_comp split: sum.split option.split intro!: storeOk_delete_table)

lemma CreateColumn_ok: "stateOk u s \<Longrightarrow> stateOk u (snd (CreateColumn env i req s))"
  by (auto simp: CreateColumn_def store_comp Let_def columnOfInput_def tableIndexLocked_def
      dest!: indexOf_Some split: sum.split option.split intro!: storeOk_add_column)

lemma UpdateColumn_ok: "stateOk u s \<Longrightarrow> stateOk u (snd (UpdateColumn env i req s))"
  by (auto simp: UpdateColumn_def store_comp Let_def dest!: indexOf_Some split: sum.split option.split
      intro!: storeOk_update_column)

lemma DeleteColumn_ok: "stateOk u s \<Longrightarrow> stateOk u (snd (DeleteColumn env i s))"
  by (auto simp: DeleteColumn_def store_comp split: sum.split option.split intro!: storeOk_delete_column)

lemma CreateFunction_ok: "stateOk u s \<Longrightarrow> stateOk u (snd (CreateFunction env req s))"
  by (auto simp: CreateFunction_def store_comp Let_def checkNewFunction_def find_Some_iff
      split: sum.splits option.splits if_splits intro!: storeOk_add_function)

lemma UpdateFunction_ok: "stateOk u s \<Longrightarrow> stateOk u (snd (UpdateFunction env i req s))"
  by (auto simp: UpdateFunction_def store_comp Let_def dest!: indexOf_Some split: sum.split option.split
      intro!: storeOk_update_function)

lemma DeleteFunction_ok: "stateOk u s \<Longrightarrow> stateOk u (snd (DeleteFunction env i s))"
  by (auto simp: DeleteFunction_def store_comp split: sum.split option.split intro!: storeOk_delete_function)


lemma compileIn_cases:
  obtains (err) e where "compileIn env doc s = (Inl e, s)"
  | (ok) snap m where "compileDeclarative (compileEnvOf env (st_world s)) doc (st_next s) = Inr (snap, m)"
      "compileIn env doc s = (Inr snap, s\<lparr>st_next := m\<rparr>)"
proof (cases "compileDeclarative (compileEnvOf env (st_world s)) doc (st_next s)")
  case (Inl e)
  then show ?thesis using err by (simp add: compileIn_def)
next
  case (Inr p)
  then show ?thesis using ok [of "fst p" "snd p"] by (cases p) (simp add: compileIn_def)
qed

lemma compiled_ok:
  "compileDeclarative env doc n = Inr (snap, m) \<Longrightarrow> (u \<Longrightarrow> uniqueDoc doc) \<Longrightarrow> storeOk u snap m"
  using compile_storeOk by (auto simp: storeOk_def)

lemma importPrepare_ok:
  assumes "stateOk u s"
  shows "stateOk u (snd (importPrepare env doc mode s))"
proof (cases "importDoc env doc mode (st_data s)")
  case (Inl e)
  then show ?thesis using assms by (simp add: importPrepare_def readData_def bindC_def)
next
  case (Inr merged)
  show ?thesis
  proof (cases rule: compileIn_cases [of env "declarativeFromImporter merged" s])
    case (err e)
    then show ?thesis using assms Inr by (simp add: importPrepare_def readData_def bindC_def)
  next
    case (ok snap m)
    from ok(1) have "st_next s \<le> m" by (rule compileDeclarative_next)
    then show ?thesis using assms Inr ok by (simp add: importPrepare_def readData_def bindC_def retC_def storeOk_mono)
  qed
qed

lemma importCommit_ok:
  assumes "storeOk u snap (st_next s)"
  shows "stateOk u (snd (importCommit env (merged, snap) s))"
proof -
  obtain r s2 where w: "withLock env (setData (\<lambda>_. snap)) s = (r, s2)"
    by (cases "withLock env (setData (\<lambda>_. snap)) s")
  have "stateOk u (snd (withLock env (setData (\<lambda>_. snap)) s))" using assms by simp
  then show ?thesis using w by (cases r) (simp_all add: importCommit_def bindC_def retC_def)
qed

section \<open>Histories of the store\<close>

text \<open>
  One step is one exported operation, successful or not, or a change of the world outside (the clock, the
  file). An import is two steps, with any others between them: it prepares a snapshot, and commits one that
  was compiled earlier. \<open>ok\<close> restricts the documents that are compiled (for an import in merge mode and for a load of several
  files that is the merged one) and the snapshot files that are loaded.
\<close>

inductive storeStep ::
  "'w fileEnv \<Rightarrow> (DeclarativeDoc + snapshot \<Rightarrow> bool) \<Rightarrow> 'w fileStore \<Rightarrow> 'w fileStore \<Rightarrow> bool"
  for env ok
where
  step_world: "storeStep env ok s (s\<lparr>st_world := w\<rparr>)"
| step_CreateCredential: "storeStep env ok s (snd (CreateCredential env name data s))"
| step_DeleteCredential: "storeStep env ok s (snd (DeleteCredential env i s))"
| step_CreateServer: "storeStep env ok s (snd (CreateServer env csr s))"
| step_UpdateServer: "storeStep env ok s (snd (UpdateServer env i usr s))"
| step_DeleteServer: "storeStep env ok s (snd (DeleteServer env i s))"
| step_CreateTable: "storeStep env ok s (snd (CreateTable env ctr s))"
| step_UpdateTable: "storeStep env ok s (snd (UpdateTable env i utr s))"
| step_DeleteTable: "storeStep env ok s (snd (DeleteTable env i s))"
| step_CreateColumn: "storeStep env ok s (snd (CreateColumn env i ci s))"
| step_UpdateColumn: "storeStep env ok s (snd (UpdateColumn env i ucr s))"
| step_DeleteColumn: "storeStep env ok s (snd (DeleteColumn env i s))"
| step_CreateFunction: "storeStep env ok s (snd (CreateFunction env cfr s))"
| step_UpdateFunction: "storeStep env ok s (snd (UpdateFunction env i ufr s))"
| step_DeleteFunction: "storeStep env ok s (snd (DeleteFunction env i s))"
| step_prepare: "storeStep env ok s (snd (importPrepare env doc mode s))"
| step_commit: "compileDeclarative cenv (declarativeFromImporter merged) n = Inr (snap, m) \<Longrightarrow> m \<le> st_next s \<Longrightarrow>
    ok (Inl merged) \<Longrightarrow> storeStep env ok s (snd (importCommit env (merged, snap) s))"

definition emptyStore :: "uuid \<Rightarrow> 'w \<Rightarrow> 'w fileStore" where
  "emptyStore n w = \<lparr>st_data = emptySnapshot, st_next = n, st_world = w\<rparr>"

text \<open>
  A store starts empty, with the documents of its files, or with the snapshot in an old-style file, which the code takes as it
  is. Such a snapshot is only considered here when its own references resolve (\<open>storeRefs\<close>, which also says that no new
  identifier repeats one of the file).
\<close>

inductive storeReach :: "'w fileEnv \<Rightarrow> (DeclarativeDoc + snapshot \<Rightarrow> bool) \<Rightarrow> 'w fileStore \<Rightarrow> bool" for env ok where
  reach_start: "storeReach env ok (emptyStore n w)"
| reach_load: "loadFiles files [] = Inr (Inr docs) \<Longrightarrow> MergeDeclarativeDocs docs = Inr merged \<Longrightarrow> ok (Inl merged) \<Longrightarrow>
    storeReach env ok (snd (loadStore env files (emptyStore n w)))"
| reach_snapshot: "loadFiles files [] = Inr (Inl snap) \<Longrightarrow> storeRefs snap n \<Longrightarrow> ok (Inr snap) \<Longrightarrow>
    storeReach env ok (snd (loadStore env files (emptyStore n w)))"
| reach_step: "storeReach env ok s \<Longrightarrow> storeStep env ok s s' \<Longrightarrow> storeReach env ok s'"

lemma storeOk_empty: "storeOk u emptySnapshot n"
  by (simp add: storeOk_defs emptySnapshot_def idsOk_def)

lemma loadStore_ok:
  assumes "loadFiles files [] = Inr (Inr docs)" "MergeDeclarativeDocs docs = Inr merged"
    and "u \<Longrightarrow> uniqueDoc (declarativeFromImporter merged)"
  shows "stateOk u (snd (loadStore env files (emptyStore n w)))"
proof (cases "files = [] \<or> docs = []")
  case True
  then show ?thesis using assms(1) by (auto simp: loadStore_def emptyStore_def storeOk_empty)
next
  case False
  then obtain d ds where "docs = d # ds" by (cases docs) auto
  then have l: "loadStore env files = bindC (compileIn env (declarativeFromImporter merged)) (\<lambda>snap. setData (\<lambda>_. snap))"
    using assms(1,2) False by (simp add: loadStore_def liftC_def bindC_def fun_eq_iff)
  show ?thesis
  proof (cases rule: compileIn_cases [of env "declarativeFromImporter merged" "emptyStore n w"])
    case (err e)
    then show ?thesis by (simp add: l bindC_Inl emptyStore_def storeOk_empty)
  next
    case (ok snap m)
    then show ?thesis using compiled_ok [OF ok(1) assms(3)] by (simp add: l bindC_Inr)
  qed
qed

lemma storeStep_ok:
  assumes "storeStep env ok s s'" "stateOk u s"
    and "\<And>d. u \<Longrightarrow> ok (Inl d) \<Longrightarrow> uniqueDoc (declarativeFromImporter d)"
  shows "stateOk u s'"
  using assms(1)
proof cases
  case (step_commit cenv merged n snap m)
  have "storeOk u snap m" using compiled_ok [OF step_commit(2) assms(3) [OF _ step_commit(4)]] .
  then show ?thesis unfolding step_commit(1) by (intro importCommit_ok storeOk_mono [OF _ step_commit(3)])
next
  case step_prepare
  then show ?thesis using importPrepare_ok [OF assms(2)] by (simp only:)
next
  case step_world
  then show ?thesis using assms(2) by simp
next
  case step_CreateCredential
  then show ?thesis using CreateCredential_ok [OF assms(2)] by (simp only:)
next
  case step_DeleteCredential
  then show ?thesis using DeleteCredential_ok [OF assms(2)] by (simp only:)
next
  case step_CreateServer
  then show ?thesis using CreateServer_ok [OF assms(2)] by (simp only:)
next
  case step_UpdateServer
  then show ?thesis using UpdateServer_ok [OF assms(2)] by (simp only:)
next
  case step_DeleteServer
  then show ?thesis using DeleteServer_ok [OF assms(2)] by (simp only:)
next
  case step_CreateTable
  then show ?thesis using CreateTable_ok [OF assms(2)] by (simp only:)
next
  case step_UpdateTable
  then show ?thesis using UpdateTable_ok [OF assms(2)] by (simp only:)
next
  case step_DeleteTable
  then show ?thesis using DeleteTable_ok [OF assms(2)] by (simp only:)
next
  case step_CreateColumn
  then show ?thesis using CreateColumn_ok [OF assms(2)] by (simp only:)
next
  case step_UpdateColumn
  then show ?thesis using UpdateColumn_ok [OF assms(2)] by (simp only:)
next
  case step_DeleteColumn
  then show ?thesis using DeleteColumn_ok [OF assms(2)] by (simp only:)
next
  case step_CreateFunction
  then show ?thesis using CreateFunction_ok [OF assms(2)] by (simp only:)
next
  case step_UpdateFunction
  then show ?thesis using UpdateFunction_ok [OF assms(2)] by (simp only:)
next
  case step_DeleteFunction
  then show ?thesis using DeleteFunction_ok [OF assms(2)] by (simp only:)
qed

lemma storeReach_ok:
  assumes "storeReach env ok s" "\<And>d. u \<Longrightarrow> ok (Inl d) \<Longrightarrow> uniqueDoc (declarativeFromImporter d)"
    and "\<And>d. u \<Longrightarrow> ok (Inr d) \<Longrightarrow> storeNames d"
  shows "stateOk u s"
  using assms(1)
proof induction
  case (reach_start n w)
  show ?case by (simp add: emptyStore_def storeOk_empty)
next
  case (reach_load files docs merged n w)
  show ?case by (rule loadStore_ok [OF reach_load.hyps(1,2) assms(2) [OF _ reach_load.hyps(3)]])
next
  case (reach_snapshot files snap n w)
  have "files \<noteq> []" using reach_snapshot.hyps(1) by auto
  then have "snd (loadStore env files (emptyStore n w)) = (emptyStore n w)\<lparr>st_data := snap\<rparr>"
    using reach_snapshot.hyps(1) by (simp add: loadStore_def)
  then show ?case using reach_snapshot.hyps(2,3) assms(3) by (simp add: storeOk_def emptyStore_def)
next
  case (reach_step s s')
  show ?case by (rule storeStep_ok [OF reach_step.hyps(2) reach_step.IH assms(2)])
qed

text \<open>The references of a snapshot file are not checked: one with a table of no server is loaded as it is.\<close>

definition danglingSnapshot :: snapshot where
  "danglingSnapshot = emptySnapshot\<lparr>sn_Tables := [\<lparr>tbr_ID = 1, tbr_ServerID = 2, tbr_SchemaName = ''public'', tbr_TableName = ''t'',
     tbr_RemoteName = [], tbr_KeyColumns = [], tbr_Options = VNil\<rparr>]\<rparr>"

lemma snapshot_load_unchecked:
  assumes "\<not> yf_blank f" "\<not> isDeclarativeYAML (yf_probe f)" "yf_snapshot f = Inr danglingSnapshot"
  shows "loadStore env [f] s = (Inr (), s\<lparr>st_data := danglingSnapshot\<rparr>) \<and> \<not> storeRefs danglingSnapshot n"
  using assms by (simp add: loadStore_def setData_def danglingSnapshot_def storeRefs_def emptySnapshot_def)

text \<open>Merging does not keep names unique: the key of a table has its server's name in it, so the tables of one name that two
  documents give to different servers are both kept.\<close>

definition oneTableDoc :: "string \<Rightarrow> DeclarativeDoc" where
  "oneTableDoc server =
     \<lparr>dd_Credentials = [], dd_Servers = [\<lparr>ds_Name = server, ds_Protocol = ''file'', ds_Credential = [], ds_Enabled = None, ds_Options = []\<rparr>],
      dd_Tables = [\<lparr>dt_Server = server, dt_Schema = ''public'', dt_Name = ''users'', dt_RemoteName = [], dt_KeyColumns = [], dt_Options = [],
        dt_Columns = []\<rparr>], dd_Functions = []\<rparr>"

lemma merge_repeats_names:
  "uniqueDoc (declarativeFromImporter (oneTableDoc ''a'')) \<and> uniqueDoc (declarativeFromImporter (oneTableDoc ''b'')) \<and>
   (case MergeDeclarativeDocs [oneTableDoc ''a'', oneTableDoc ''b''] of
      Inl e \<Rightarrow> False | Inr merged \<Rightarrow> \<not> uniqueDoc (declarativeFromImporter merged))"
  by code_simp

section \<open>Properties\<close>

text \<open>C14: In every state the file store can reach from an empty store, from declarative files, or from a snapshot file whose own
  references resolve, whatever operations were tried and failed and whether or not writing drivers.yaml succeeded,
  identifiers are unique within each kind, every table and every function belongs to an existing server and every column to an
  existing table.\<close>

theorem store_references:
  assumes "storeReach env ok s"
  shows "storeRefs (st_data s) (st_next s)"
  using storeReach_ok [of env ok s False] assms by (simp add: storeOk_def)

text \<open>C15: Names stay unique (servers, credentials, tables and functions in their schema) in every such state, if every
  document that is compiled names no server, schema-qualified table or function twice after trimming and every snapshot file
  that is loaded has unique names. The document that is compiled is the merged one when an import merges or when several files
  are loaded; that each of the merged documents has unique names is not enough (\<open>merge_repeats_names\<close>).\<close>

theorem store_names_unique:
  assumes "storeReach env ok s" "\<And>d. ok (Inl d) \<Longrightarrow> uniqueDoc (declarativeFromImporter d)" "\<And>d. ok (Inr d) \<Longrightarrow> storeNames d"
  shows "storeNames (st_data s)"
  using storeReach_ok [of env ok s True] assms by (simp add: storeOk_def)
end
