(* ===== verification/StoreProperties.thy ===== *)
theory StoreProperties
  imports StoreInvariants
begin

text \<open>
  What the operations of the file store do: creation followed by lookup, deletion, the errors, what remains of
  a change whose writing failed, and what an import overlapping with another change does.
\<close>

section \<open>Lookups\<close>

lemma withLock_Inr:
  assumes "withLock env fn s = (Inr x, s')"
  obtains s1 where "fn s = (Inr x, s1)" "st_data s' = st_data s1" "st_next s' = st_next s1"
proof -
  obtain r s1 where f: "fn s = (r, s1)" by (cases "fn s")
  with assms have "r = Inr x"
    by (cases r) (auto simp: withLock_def bindC_def retC_def split: sum.splits prod.splits)
  then show ?thesis
    using that f withLock_state [of env fn s] assms by simp
qed

text \<open>The shape of an operation that succeeded, and the invariants it may rest on.\<close>

lemma reach_refs: "storeReach env ok s \<Longrightarrow> storeRefs (st_data s) (st_next s)"
  using storeReach_ok [of env ok s False] by (simp add: storeOk_def)

lemma CreateCredential_Inr:
  assumes "CreateCredential env name data s = (Inr c, s')"
  obtains p where "Encrypt (fe_vault env) (fe_nonce env (Suc (st_next s))) data = Inr p" "cr_ID c = Suc (st_next s)"
    "st_data s' = (st_data s)\<lparr>sn_Credentials := sn_Credentials (st_data s) @
       [\<lparr>crr_ID = Suc (st_next s), crr_Name = name, crr_Payload = encodePayload p, crr_CreatedAt = fe_now env (st_world s)\<rparr>]\<rparr>"
  using assms
  by (auto simp: CreateCredential_def store_comp failC_def retC_def Let_def split: if_splits sum.splits
      elim!: withLock_Inr)

lemma CreateServer_Inr:
  assumes "CreateServer env req s = (Inr srv, s')" "csr_Credential req = []"
  shows "s_ID srv = Suc (st_next s)" "s_Name srv = csr_Name req" "svr_ID ` set (sn_Servers (st_data s')) =
    insert (Suc (st_next s)) (svr_ID ` set (sn_Servers (st_data s)))"
  using assms
  by (auto simp: CreateServer_def inlineCredential_def store_comp failC_def retC_def Let_def split: if_splits
      elim!: withLock_Inr)

section \<open>Credentials\<close>

text \<open>A credential that was created resolves to the data it was created with, if the vault decrypts what
  it encrypts with the nonces it reads.\<close>

theorem CreateCredential_ResolveCredential:
  assumes "storeReach env ok s" "CreateCredential env name data s = (Inr c, s')"
    and "\<And>i p. Encrypt (fe_vault env) (fe_nonce env i) data = Inr p \<Longrightarrow> Decrypt (fe_vault env) p = Inr data"
  shows "fst (ResolveCredential env (cr_ID c) s') = Inr data"
proof -
  from reach_refs [OF assms(1)] have "find (\<lambda>x. crr_ID x = Suc (st_next s)) (sn_Credentials (st_data s)) = None"
    by (auto simp: find_None_iff storeRefs_def idsOk_def dest!: bspec)
  with assms(2,3) show ?thesis
    by (auto simp: ResolveCredential_def readData_def find_append elim!: CreateCredential_Inr)
qed

lemma CreateCredential_servers:
  "sn_Servers (st_data (snd (CreateCredential env name data s))) = sn_Servers (st_data s)"
  by (simp add: CreateCredential_def store_comp failC_def Let_def split: sum.split)


section \<open>Deletion\<close>

text \<open>Deleting a server removes it, its tables with their columns, and its functions, and nothing else,
  also when writing the file fails.\<close>

theorem DeleteServer_cascade:
  assumes "storeReach env ok s" "i \<in> svr_ID ` set (sn_Servers (st_data s))"
  shows "st_data (snd (DeleteServer env i s)) =
    (let d = st_data s
     in d\<lparr>sn_Servers := filter (\<lambda>x. svr_ID x \<noteq> i) (sn_Servers d),
          sn_Tables := filter (\<lambda>t. tbr_ServerID t \<noteq> i) (sn_Tables d),
          sn_Functions := filter (\<lambda>f. fnr_ServerID f \<noteq> i) (sn_Functions d),
          sn_Columns := filter (\<lambda>c. \<exists>t\<in>set (sn_Tables d). tbr_ID t = clr_TableID c \<and> tbr_ServerID t \<noteq> i) (sn_Columns d)\<rparr>)"
proof -
  let ?d = "st_data s"
  note refs = reach_refs [OF assms(1)]
  from assms(2) obtain k where k: "indexOf (\<lambda>r. svr_ID r = i) (sn_Servers ?d) = Some k"
    by (cases "indexOf (\<lambda>r. svr_ID r = i) (sn_Servers ?d)") (auto simp: indexOf_None)
  have "removeAt k (sn_Servers ?d) = filter (\<lambda>x. svr_ID x \<noteq> i) (sn_Servers ?d)"
    using refs k by (intro removeAt_indexOf) (auto simp: storeRefs_def idsOk_def)
  moreover have "filterColumnsByTableIDs (map tbr_ID (filter (\<lambda>t. tbr_ServerID t = i) (sn_Tables ?d))) (sn_Columns ?d) =
      filter (\<lambda>c. \<exists>t\<in>set (sn_Tables ?d). tbr_ID t = clr_TableID c \<and> tbr_ServerID t \<noteq> i) (sn_Columns ?d)"
    unfolding filterColumnsByTableIDs_def
  proof (rule filter_cong [OF refl])
    fix c assume "c \<in> set (sn_Columns ?d)"
    with refs obtain t where t: "t \<in> set (sn_Tables ?d)" "tbr_ID t = clr_TableID c"
      by (force simp: storeRefs_def)
    have u: "x = t" if "x \<in> set (sn_Tables ?d)" "tbr_ID x = clr_TableID c" for x
      using refs that t by (auto simp: storeRefs_def idsOk_def distinct_map inj_on_def)
    have "(\<exists>x\<in>set (sn_Tables ?d). tbr_ID x = clr_TableID c \<and> tbr_ServerID x \<noteq> i) \<longleftrightarrow> tbr_ServerID t \<noteq> i"
      using t u by blast
    moreover have "clr_TableID c \<in> set (map tbr_ID (filter (\<lambda>t. tbr_ServerID t = i) (sn_Tables ?d))) \<longleftrightarrow> tbr_ServerID t = i"
    proof
      assume "clr_TableID c \<in> set (map tbr_ID (filter (\<lambda>t. tbr_ServerID t = i) (sn_Tables ?d)))"
      then obtain x where "x \<in> set (sn_Tables ?d)" "tbr_ServerID x = i" "tbr_ID x = clr_TableID c" by auto
      then show "tbr_ServerID t = i" using u by blast
    qed (use t in \<open>auto simp flip: t(2)\<close>)
    ultimately show "clr_TableID c \<notin> set (map tbr_ID (filter (\<lambda>t. tbr_ServerID t = i) (sn_Tables ?d))) \<longleftrightarrow>
      (\<exists>t\<in>set (sn_Tables ?d). tbr_ID t = clr_TableID c \<and> tbr_ServerID t \<noteq> i)" by blast
  qed
  ultimately show ?thesis
    using k by (simp add: DeleteServer_def store_comp deleteServerData_def filterTables_def filterFunctions_def Let_def)
qed

text \<open>A credential can be deleted exactly when it exists and no server refers to it.\<close>

theorem DeleteCredential_iff:
  "st_data (snd (DeleteCredential env i s)) \<noteq> st_data s \<longleftrightarrow>
    i \<in> crr_ID ` set (sn_Credentials (st_data s)) \<and> Some i \<notin> svr_CredentialRef ` set (sn_Servers (st_data s))"
proof (cases "indexOf (\<lambda>c. crr_ID c = i) (sn_Credentials (st_data s))")
  case None
  then have "i \<notin> crr_ID ` set (sn_Credentials (st_data s))" by (auto simp: indexOf_None)
  with None show ?thesis by (simp add: DeleteCredential_def store_comp)
next
  case (Some k)
  then have k: "k < length (sn_Credentials (st_data s))" "crr_ID (sn_Credentials (st_data s) ! k) = i"
    using indexOf_Some by fastforce+
  then have mem: "i \<in> crr_ID ` set (sn_Credentials (st_data s))" by (metis image_eqI nth_mem)
  have "length (removeAt k (sn_Credentials (st_data s))) \<noteq> length (sn_Credentials (st_data s))"
    using k(1) by (simp add: removeAt_def)
  then have ne: "(st_data s)\<lparr>sn_Credentials := removeAt k (sn_Credentials (st_data s))\<rparr> \<noteq> st_data s"
    by (auto dest: arg_cong [where f = sn_Credentials])
  show ?thesis
  proof (cases "find (\<lambda>x. svr_CredentialRef x = Some i) (sn_Servers (st_data s))")
    case None
    then have "Some i \<notin> svr_CredentialRef ` set (sn_Servers (st_data s))" by (auto simp: find_None_iff)
    with None Some ne mem show ?thesis by (simp add: DeleteCredential_def store_comp)
  next
    case (Some x)
    then have "x \<in> set (sn_Servers (st_data s)) \<and> svr_CredentialRef x = Some i" by (auto simp: find_Some_iff)
    then have "Some i \<in> svr_CredentialRef ` set (sn_Servers (st_data s))" by force
    with Some \<open>indexOf _ _ = Some k\<close> show ?thesis by (simp add: DeleteCredential_def store_comp)
  qed
qed

section \<open>Tables\<close>

text \<open>C17: a table that was created is what its name resolves to: its server, provided that is enabled, the
  table as it was returned with its options as an object, and its columns by position and name.\<close>

theorem CreateTable_ResolveTable:
  assumes "storeReach env ok s" "CreateTable env req s = (Inr (tbl, cols), s')"
    and "find (\<lambda>r. svr_Name r = ctr_ServerName req) (sn_Servers (st_data s)) = Some srv" "svr_Enabled srv"
  shows "fst (ResolveTable (orPublic (ctr_SchemaName req)) (ctr_TableName req) s') =
    Inr \<lparr>rt_Table = tbl\<lparr>t_Options := nodeToRaw (rawToNode (t_Options tbl))\<rparr>, rt_Server = serverModel srv,
         rt_Columns = sortColumns cols\<rparr>"
proof -
  let ?d = "st_data s" and ?schema = "orPublic (ctr_SchemaName req)" and ?i = "Suc (st_next s)"
  let ?p = "\<lambda>r. tbr_SchemaName r = ?schema \<and> tbr_TableName r = ctr_TableName req"
  note refs = reach_refs [OF assms(1)]
  obtain rs m where rs: "newColumns ?i 0 (ctr_Columns req) ?i = (rs, m)" by fastforce
  from assms(2,3) rs have new: "find ?p (sn_Tables ?d) = None" and cols: "cols = map columnModel rs"
    and tbl: "tbl = \<lparr>t_ID = ?i, t_ServerID = svr_ID srv, t_SchemaName = ?schema, t_TableName = ctr_TableName req,
      t_RemoteName = ctr_RemoteName req, t_KeyColumns = (case ctr_KeyColumns req of Some ks \<Rightarrow> ks | None \<Rightarrow> []),
      t_Options = objectOr (ctr_Options req), t_ServerName = svr_Name srv\<rparr>"
    and d': "st_data s' = ?d\<lparr>sn_Tables := sn_Tables ?d @
      [\<lparr>tbr_ID = ?i, tbr_ServerID = svr_ID srv, tbr_SchemaName = ?schema, tbr_TableName = ctr_TableName req,
        tbr_RemoteName = ctr_RemoteName req, tbr_KeyColumns = (case ctr_KeyColumns req of Some ks \<Rightarrow> ks | None \<Rightarrow> []),
        tbr_Options = rawToNode (objectOr (ctr_Options req))\<rparr>], sn_Columns := sn_Columns ?d @ rs\<rparr>"
    by (auto simp: CreateTable_def store_comp failC_def checkNewTable_def find_None_iff list_ex_iff Let_def
        split: if_splits elim!: withLock_Inr)
  have "srv \<in> set (sn_Servers ?d)" using assms(3) by (auto simp: find_Some_iff)
  then have "find (\<lambda>x. svr_ID x = svr_ID srv) (sn_Servers ?d) = Some srv"
    using refs by (intro find_unique) (simp_all add: storeRefs_def idsOk_def)
  moreover have "clr_TableID c \<noteq> ?i" if "c \<in> set (sn_Columns ?d)" for c
    using refs that by (fastforce simp: storeRefs_def idsOk_def)
  then have "filter (\<lambda>c. clr_TableID c = ?i) (sn_Columns ?d) = []" by (simp add: filter_empty_conv)
  moreover have "filter (\<lambda>c. clr_TableID c = ?i) rs = rs" using newColumns_spec [OF rs] by (simp add: filter_id_conv)
  ultimately show ?thesis
    using assms(4) new
    by (simp add: ResolveTable_def readData_def findTable_def find_append d' orNotFound_def enabledServer_def
        columnsForTableLocked_def cols tbl tableModel_def serverModel_def)
qed

section \<open>Writing the file\<close>

text \<open>A change whose writing fails is reported as an error and stays in memory.\<close>

theorem withLock_write_fails:
  assumes "fn s = (Inr x, s1)" "persistLocked env s1 = (Inl e, s2)"
  shows "withLock env fn s = (Inl e, s2) \<and> st_data s2 = st_data s1"
  using assms persistLocked_state(1) [of env s1] by (simp add: withLock_def bindC_def)

section \<open>Imports\<close>

lemma importCommit_data: "st_data (snd (importCommit env (merged, snap) s)) = snap"
proof -
  obtain r s2 where w: "withLock env (setData (\<lambda>_. snap)) s = (r, s2)"
    by (cases "withLock env (setData (\<lambda>_. snap)) s")
  have "st_data s2 = snap" using withLock_state(1) [of env "setData (\<lambda>_. snap)" s] by (simp add: w)
  with w show ?thesis by (cases r) (simp_all add: importCommit_def bindC_def retC_def)
qed

lemma importPrepare_Inr:
  assumes "importPrepare env doc mode s = (Inr (merged, snap), s1)"
  shows "storeRefs snap (st_next s1)"
proof -
  from assms have "compileDeclarative (compileEnvOf env (st_world s)) (declarativeFromImporter merged) (st_next s) =
      Inr (snap, st_next s1)"
    by (auto simp: importPrepare_def readData_def compileIn_def bindC_def retC_def split: sum.splits prod.splits)
  then show ?thesis using compile_storeOk by blast
qed

text \<open>An import reads and compiles outside the lock, so a server that is created after that and before the
  import replaces the data is lost, although its creation succeeded, in merge mode as well.\<close>

theorem import_forgets_concurrent_server:
  assumes "importPrepare env doc mode s = (Inr p, s1)"
    and "CreateServer env req s1 = (Inr srv, s2)" "csr_Credential req = []"
  shows "s_ID srv \<in> svr_ID ` set (sn_Servers (st_data s2)) \<and>
    s_ID srv \<notin> svr_ID ` set (sn_Servers (st_data (snd (importCommit env p s2))))"
proof -
  obtain merged snap where p: "p = (merged, snap)" by (cases p)
  have "\<forall>x\<in>set (sn_Servers snap). svr_ID x \<le> st_next s1"
    using importPrepare_Inr [OF assms(1) [unfolded p]] by (simp add: storeRefs_def idsOk_def)
  then show ?thesis
    using CreateServer_Inr [OF assms(2,3)] by (auto simp: p importCommit_data)
qed

section \<open>Examples\<close>

text \<open>A store with one server, that has one table with two columns.\<close>

definition storeEnv :: "unit fileEnv" where
  "storeEnv =
     \<lparr>fe_vault = Some exampleVault, fe_nonce = (\<lambda>_. Inr ''ab''), fe_now = (\<lambda>_. 0), fe_getenv = (\<lambda>_. []),
      fe_uuidText = (\<lambda>_. ''id''), fe_write = (\<lambda>_ w. (Inr (), w))\<rparr>"

definition emptyDoc :: DeclarativeDoc where
  "emptyDoc = \<lparr>dd_Credentials = [], dd_Servers = [], dd_Tables = [], dd_Functions = []\<rparr>"

definition serverRequest :: CreateServerRequest where
  "serverRequest =
     \<lparr>csr_Name = ''pg'', csr_Protocol = ''postgres'', csr_Options = RawEmpty, csr_CredentialRef = None,
      csr_Credential = [], csr_CredentialName = [], csr_Enabled = None\<rparr>"

definition tableRequest :: CreateTableRequest where
  "tableRequest =
     \<lparr>ctr_ServerName = ''pg'', ctr_SchemaName = [], ctr_TableName = ''users'', ctr_RemoteName = [],
      ctr_KeyColumns = Some [''id''], ctr_Options = RawEmpty,
      ctr_Columns = [\<lparr>ci_Name = ''id'', ci_DataType = ''integer'', ci_RemoteName = [], ci_Nullable = Some False, ci_Position = 2\<rparr>,
                     \<lparr>ci_Name = ''name'', ci_DataType = [], ci_RemoteName = [], ci_Nullable = None, ci_Position = 0\<rparr>]\<rparr>"

definition storeWithServer :: "unit fileStore" where
  "storeWithServer = snd (CreateServer storeEnv serverRequest (emptyStore 0 ()))"

definition storeWithTable :: "unit fileStore" where
  "storeWithTable = snd (CreateTable storeEnv tableRequest storeWithServer)"

lemma reach_storeWithServer: "storeReach storeEnv ok storeWithServer"
  unfolding storeWithServer_def by (rule reach_step [OF reach_start step_CreateServer])

lemma reach_storeWithTable: "storeReach storeEnv ok storeWithTable"
  unfolding storeWithTable_def by (rule reach_step [OF reach_storeWithServer step_CreateTable])

lemma storeWithServer_data: "sn_Servers (st_data storeWithServer) =
    [\<lparr>svr_ID = 1, svr_Name = ''pg'', svr_Protocol = ''postgres'', svr_Options = VObj [], svr_CredentialRef = None,
      svr_Enabled = True, svr_UpdatedAt = 0\<rparr>]"
  by code_simp

lemma storeWithTable_data: "sn_Servers (st_data storeWithTable) = sn_Servers (st_data storeWithServer)"
  "map tbr_ID (sn_Tables (st_data storeWithTable)) = [2]" "map clr_ID (sn_Columns (st_data storeWithTable)) = [3, 4]"
  by code_simp+

theorem store_references_witness: "storeRefs (st_data storeWithTable) (st_next storeWithTable)"
  by (rule store_references [OF reach_storeWithTable])

theorem store_names_unique_witness: "storeNames (st_data storeWithTable)"
  by (rule store_names_unique [OF reach_storeWithTable [of "case_sum (\<lambda>d. uniqueDoc (declarativeFromImporter d)) storeNames"]]) simp_all

theorem DeleteServer_cascade_witness:
  "sn_Columns (st_data (snd (DeleteServer storeEnv 1 storeWithTable))) =
     filter (\<lambda>c. \<exists>t\<in>set (sn_Tables (st_data storeWithTable)). tbr_ID t = clr_TableID c \<and> tbr_ServerID t \<noteq> 1)
       (sn_Columns (st_data storeWithTable))"
  using DeleteServer_cascade [OF reach_storeWithTable, of 1] by (simp add: Let_def storeWithTable_data storeWithServer_data)

theorem CreateTable_ResolveTable_witness:
  "map_sum id (\<lambda>rt. map c_Name (rt_Columns rt)) (fst (ResolveTable ''public'' ''users'' storeWithTable)) = Inr [''name'', ''id'']"
proof -
  obtain tbl cols where c: "CreateTable storeEnv tableRequest storeWithServer = (Inr (tbl, cols), storeWithTable)"
    "map (\<lambda>c. (c_Name c, c_Position c)) cols = [(''id'', 2), (''name'', 1)]"
  proof -
    have "map_sum id (\<lambda>(tbl, cols). map (\<lambda>c. (c_Name c, c_Position c)) cols) (fst (CreateTable storeEnv tableRequest storeWithServer)) =
      Inr [(''id'', 2), (''name'', 1)]" by code_simp
    then show ?thesis
      using that unfolding storeWithTable_def
      by (cases "CreateTable storeEnv tableRequest storeWithServer"; cases "fst (CreateTable storeEnv tableRequest storeWithServer)") auto
  qed
  then have "map c_Name (sortColumns cols) = [''name'', ''id'']"
    by (auto simp: sortColumns_def map_eq_Cons_conv)
  then show ?thesis
    using CreateTable_ResolveTable [OF reach_storeWithServer c(1)]
    by (simp add: storeWithServer_data tableRequest_def orPublic_def)
qed

theorem CreateCredential_ResolveCredential_witness:
  "fst (ResolveCredential storeEnv 1 (snd (CreateCredential storeEnv ''c'' [(''dsn'', VStr ''x'')] (emptyStore 0 ())))) =
     Inr [(''dsn'', VStr ''x'')]"
proof -
  obtain r s' where c: "CreateCredential storeEnv ''c'' [(''dsn'', VStr ''x'')] (emptyStore 0 ()) = (r, s')"
    by (cases "CreateCredential storeEnv ''c'' [(''dsn'', VStr ''x'')] (emptyStore 0 ())")
  have "map_sum id cr_ID (fst (CreateCredential storeEnv ''c'' [(''dsn'', VStr ''x'')] (emptyStore 0 ()))) = Inr 1"
    by code_simp
  then obtain k where k: "r = Inr k" "cr_ID k = 1" by (cases r) (auto simp: c)
  have "fst (ResolveCredential storeEnv (cr_ID k) s') = Inr [(''dsn'', VStr ''x'')]"
    by (rule CreateCredential_ResolveCredential [OF reach_start [of storeEnv "\<lambda>_. True"] c [unfolded k]]) 
      (auto simp: storeEnv_def exampleVault_def Encrypt_def Decrypt_def bindE_def unmarshalRow_def unmarshalErr_def
        valRow_def baseKindOk_def Let_def buildMap_distinct_id)
  then show ?thesis by (simp add: c k)
qed


theorem withLock_write_fails_witness:
  "fst (withLock (storeEnv\<lparr>fe_write := \<lambda>_ w. (Inl (Errorf ''disk full''), w)\<rparr>)
     (setData (\<lambda>_. st_data storeWithTable)) (emptyStore 0 ())) = Inl (Errorf ''disk full'')"
proof -
  have "persistLocked (storeEnv\<lparr>fe_write := \<lambda>_ w. (Inl (Errorf ''disk full''), w)\<rparr>)
      ((emptyStore 0 ())\<lparr>st_data := st_data storeWithTable\<rparr>) =
    (Inl (Errorf ''disk full''), (emptyStore 0 ())\<lparr>st_data := st_data storeWithTable\<rparr>)"
    by code_simp
  then have "withLock (storeEnv\<lparr>fe_write := \<lambda>_ w. (Inl (Errorf ''disk full''), w)\<rparr>) (setData (\<lambda>_. st_data storeWithTable))
      (emptyStore 0 ()) = (Inl (Errorf ''disk full''), (emptyStore 0 ())\<lparr>st_data := st_data storeWithTable\<rparr>) \<and>
    st_data ((emptyStore 0 ())\<lparr>st_data := st_data storeWithTable\<rparr>) = st_data ((emptyStore 0 ())\<lparr>st_data := st_data storeWithTable\<rparr>)"
    by (intro withLock_write_fails) (simp_all add: setData_def)
  then show ?thesis by simp
qed

theorem import_forgets_concurrent_server_witness:
  "\<exists>p s1 srv s2. importPrepare storeEnv emptyDoc ''merge'' storeWithServer = (Inr p, s1) \<and>
     CreateServer storeEnv (serverRequest\<lparr>csr_Name := ''other''\<rparr>) s1 = (Inr srv, s2) \<and>
     s_ID srv \<notin> svr_ID ` set (sn_Servers (st_data (snd (importCommit storeEnv p s2))))"
proof -
  let ?req = "serverRequest\<lparr>csr_Name := ''other''\<rparr>"
  obtain r s1 where p: "importPrepare storeEnv emptyDoc ''merge'' storeWithServer = (r, s1)"
    by (cases "importPrepare storeEnv emptyDoc ''merge'' storeWithServer")
  obtain q s2 where c: "CreateServer storeEnv ?req s1 = (q, s2)"
    by (cases "CreateServer storeEnv ?req s1")
  have "isOk (fst (importPrepare storeEnv emptyDoc ''merge'' storeWithServer))" by code_simp
  moreover have "isOk (fst (CreateServer storeEnv ?req (snd (importPrepare storeEnv emptyDoc ''merge'' storeWithServer))))"
    by code_simp
  ultimately obtain x srv where "r = Inr x" "q = Inr srv" using p c by (auto simp: isOk_def split: sum.splits)
  then show ?thesis
    using import_forgets_concurrent_server [of storeEnv emptyDoc "''merge''" storeWithServer x s1 ?req srv s2] p c
    by (simp add: serverRequest_def)
qed

end
