(* ===== verification/Reload.thy ===== *)
theory Reload
  imports StoreProperties
begin

text \<open>
  What the file store writes to drivers.yaml is what it reads at the next start: the metadata without its
  identifiers survives decompiling, merging and compiling, for the snapshots described by \<open>durable\<close>.
\<close>

section \<open>The metadata without identifiers\<close>

definition credOf :: "Vault option \<Rightarrow> CredentialRecord list \<Rightarrow> uuid \<Rightarrow> row option" where
  "credOf vault cs i =
     (case find (\<lambda>c. crr_ID c = i) cs of
        None \<Rightarrow> None
      | Some c \<Rightarrow> (case bindE (decodePayload (crr_Payload c)) (Decrypt vault) of Inl e \<Rightarrow> None | Inr data \<Rightarrow> Some data))"

definition serverCred :: "Vault option \<Rightarrow> CredentialRecord list \<Rightarrow> ServerRecord \<Rightarrow> row option" where
  "serverCred vault cs s = Option.bind (svr_CredentialRef s) (credOf vault cs)"

definition serverView :: "Vault option \<Rightarrow> CredentialRecord list \<Rightarrow> ServerRecord \<Rightarrow>
    string \<times> string \<times> row \<times> bool \<times> row option" where
  "serverView vault cs s =
     (svr_Name s, svr_Protocol s, nodeOptions (svr_Options s), svr_Enabled s, serverCred vault cs s)"

definition columnView :: "ColumnRecord \<Rightarrow> string \<times> string \<times> string \<times> bool \<times> int" where
  "columnView c = (clr_Name c, clr_DataType c, clr_RemoteName c, clr_Nullable c, clr_Position c)"

definition tableColumns :: "snapshot \<Rightarrow> uuid \<Rightarrow> ColumnRecord list" where
  "tableColumns d i = filter (\<lambda>c. clr_TableID c = i) (sn_Columns d)"

definition tableView :: "snapshot \<Rightarrow> TableRecord \<Rightarrow>
    string \<times> string \<times> string \<times> string \<times> string list \<times> row \<times> (string \<times> string \<times> string \<times> bool \<times> int) list" where
  "tableView d t =
     (serverNameLocked d (tbr_ServerID t), tbr_SchemaName t, tbr_TableName t, tbr_RemoteName t, tbr_KeyColumns t,
      nodeOptions (tbr_Options t), map columnView (tableColumns d (tbr_ID t)))"

definition functionView :: "snapshot \<Rightarrow> FunctionRecord \<Rightarrow>
    string \<times> string \<times> string \<times> string \<times> string \<times> string \<times> row" where
  "functionView d f =
     (serverNameLocked d (fnr_ServerID f), fnr_SchemaName f, fnr_Name f, fnr_Operation f, fnr_RemotePath f,
      fnr_Method f, nodeOptions (fnr_Options f))"

definition storeView where
  "storeView vault d =
     (map (serverView vault (sn_Credentials d)) (sn_Servers d), map (tableView d) (sn_Tables d),
      map (functionView d) (sn_Functions d))"

text \<open>
  What survives: names have no space around them and no NUL character, no credential has two servers or an
  environment reference in it, and of the columns of a table only the first has position 0.
\<close>

definition trimmed :: "string \<Rightarrow> bool" where
  "trimmed s \<longleftrightarrow> TrimSpace s = s \<and> s \<noteq> [] \<and> nul \<notin> set s"

definition columnsDurable :: "ColumnRecord list \<Rightarrow> bool" where
  "columnsDurable cs \<longleftrightarrow>
     list_all (\<lambda>c. TrimSpace (clr_Name c) \<noteq> [] \<and> trimmed (clr_DataType c)) cs \<and>
     list_all (\<lambda>c. clr_Position c \<noteq> 0) (tl cs)"

definition durable :: "Vault option \<Rightarrow> (string \<Rightarrow> string) \<Rightarrow> snapshot \<Rightarrow> bool" where
  "durable vault getenv d \<longleftrightarrow>
     list_all (\<lambda>s. trimmed (svr_Name s) \<and> trimmed (svr_Protocol s) \<and>
       (case serverCred vault (sn_Credentials d) s of None \<Rightarrow> True
        | Some data \<Rightarrow> data \<noteq> [] \<and> expandEnvMap getenv data = data)) (sn_Servers d) \<and>
     distinct (List.map_filter svr_CredentialRef (sn_Servers d)) \<and>
     list_all (\<lambda>t. trimmed (tbr_SchemaName t) \<and> trimmed (tbr_TableName t) \<and>
       columnsDurable (tableColumns d (tbr_ID t))) (sn_Tables d) \<and>
     list_all (\<lambda>f. trimmed (fnr_SchemaName f) \<and> trimmed (fnr_Name f) \<and> TrimSpace (fnr_Operation f) \<noteq> []) (sn_Functions d)"

section \<open>Lookups in built maps\<close>

lemma map_of_foldl_update:
  "map_of (foldl (\<lambda>m x. AList.update (k x) (v x) m) m xs) = map_of m ++ map_of (rev (map (\<lambda>x. (k x, v x)) xs))"
  by (induction xs arbitrary: m) (auto simp: update_conv' map_add_def fun_eq_iff split: option.splits)

lemma lookup_foldl_update:
  assumes "distinct (map k xs)" "x \<in> set xs"
  shows "map_of (foldl (\<lambda>m x. AList.update (k x) (v x) m) m xs) (k x) = Some (v x)"
proof -
  have "map_of (rev (map (\<lambda>x. (k x, v x)) xs)) (k x) = Some (v x)"
    using assms by (intro map_of_is_SomeI) (auto simp: comp_def simp flip: rev_map)
  then show ?thesis by (simp add: map_of_foldl_update map_add_def)
qed

lemma mergeBy_id:
  assumes "distinct (map key xs)" "[] \<notin> key ` set xs"
  shows "mergeBy key xs = xs"
proof -
  have "foldl (\<lambda>m x. if key x = [] then m else AList.update (key x) x m) m xs = m @ map (\<lambda>x. (key x, x)) xs"
    if "distinct (map fst m @ map key xs)" for m
    using that assms(2)
  proof (induction xs arbitrary: m)
    case (Cons x xs)
    then have "AList.update (key x) x m = m @ [(key x, x)]" by (intro update_new) auto
    with Cons show ?case by (auto simp: Cons.IH)
  qed simp
  from this [of "[]"] assms(1) show ?thesis by (simp add: mergeBy_def comp_def)
qed

lemma takeWhile_nul: "nul \<notin> set a \<Longrightarrow> takeWhile (\<lambda>c. c \<noteq> nul) (a @ nul # r) = a"
  by (induction a) auto

lemma metaKey_inj:
  assumes "metaKey a b c = metaKey a' b' c'" "nul \<notin> set a" "nul \<notin> set b" "nul \<notin> set a'" "nul \<notin> set b'"
  shows "a = a'" "b = b'" "c = c'"
proof -
  from assms(1) have e: "a @ nul # b @ nul # c = a' @ nul # b' @ nul # c'" by (simp add: metaKey_def)
  then show "a = a'" using assms(2,4) takeWhile_nul by metis
  with e have "b @ nul # c = b' @ nul # c'" by simp
  moreover from this show "b = b'" using assms(3,5) takeWhile_nul by metis
  ultimately show "c = c'" by simp
qed

lemma refCountOf_foldl:
  "refCountOf (foldl addRef m xs) i = refCountOf m i + length (filter (\<lambda>s. svr_CredentialRef s = Some i) xs)"
  by (induction xs arbitrary: m) (auto simp: addRef_def refCountOf_def update_conv' split: option.splits)

lemma distinct_addRef: "distinct (map fst m) \<Longrightarrow> distinct (map fst (foldl addRef m xs))"
  by (induction xs arbitrary: m) (auto simp: addRef_def distinct_update split: option.splits)

lemma decryptAll_lookup:
  "decryptAll vault cs m = Inr creds \<Longrightarrow> distinct (map crr_ID cs) \<Longrightarrow>
   map_of creds i = (case find (\<lambda>c. crr_ID c = i) cs of None \<Rightarrow> map_of m i | Some c \<Rightarrow> credOf vault cs i)"
proof (induction cs arbitrary: m)
  case (Cons c cs)
  then obtain data where data: "bindE (decodePayload (crr_Payload c)) (Decrypt vault) = Inr data"
    and rest: "decryptAll vault cs (AList.update (crr_ID c) data m) = Inr creds"
    by (auto split: sum.splits)
  have "find (\<lambda>x. crr_ID x = crr_ID c) cs = None" using Cons.prems(2) by (auto simp: find_None_iff image_iff)
  with Cons.IH [OF rest] Cons.prems(2) data show ?case
    by (auto simp: credOf_def update_conv' split: option.splits)
qed simp

section \<open>The document that is written\<close>

definition declServerOf :: "Vault option \<Rightarrow> CredentialRecord list \<Rightarrow> ServerRecord \<Rightarrow> declServer" where
  "declServerOf vault cs s =
     \<lparr>fs_Name = svr_Name s, fs_Protocol = svr_Protocol s,
      fs_Credential = \<lparr>cf_Name = [], cf_Data = (case serverCred vault cs s of None \<Rightarrow> [] | Some data \<Rightarrow> data)\<rparr>,
      fs_Enabled = Some (svr_Enabled s), fs_Options = nodeOptions (svr_Options s)\<rparr>"

definition plainTable :: "snapshot \<Rightarrow> TableRecord \<Rightarrow> DeclTable" where
  "plainTable d t =
     \<lparr>dt_Server = serverNameLocked d (tbr_ServerID t), dt_Schema = tbr_SchemaName t, dt_Name = tbr_TableName t,
      dt_RemoteName = tbr_RemoteName t, dt_KeyColumns = tbr_KeyColumns t, dt_Options = nodeOptions (tbr_Options t),
      dt_Columns = map declColumnOf (tableColumns d (tbr_ID t))\<rparr>"

definition plainFunction :: "snapshot \<Rightarrow> FunctionRecord \<Rightarrow> DeclFunction" where
  "plainFunction d f =
     \<lparr>df_Server = serverNameLocked d (fnr_ServerID f), df_Schema = fnr_SchemaName f, df_Name = fnr_Name f,
      df_Operation = fnr_Operation f, df_RemotePath = fnr_RemotePath f, df_Method = fnr_Method f,
      df_Options = nodeOptions (fnr_Options f)\<rparr>"

lemma serverNameOf_locked:
  assumes "distinct (map svr_ID (sn_Servers d))" "i \<in> svr_ID ` set (sn_Servers d)"
  shows "serverNameOf (serverNames (sn_Servers d)) i = serverNameLocked d i"
proof -
  obtain s where s: "s \<in> set (sn_Servers d)" "i = svr_ID s" using assms(2) by auto
  have "find (\<lambda>x. svr_ID x = svr_ID s) (sn_Servers d) = Some s"
    using assms(1) s(1) by (rule find_unique)
  with s lookup_foldl_update [OF assms(1) s(1), of svr_Name "[]"] show ?thesis
    by (simp add: serverNameOf_def serverNames_def serverNameLocked_def)
qed

lemma durable_refCount:
  assumes "distinct (List.map_filter svr_CredentialRef xs)"
  shows "length (filter (\<lambda>s. svr_CredentialRef s = Some i) xs) \<le> 1"
  using assms
proof (induction xs)
  case (Cons x xs)
  have "i \<notin> set (List.map_filter svr_CredentialRef xs) \<Longrightarrow> filter (\<lambda>s. svr_CredentialRef s = Some i) xs = []"
    by (force simp: filter_empty_conv List.map_filter_def)
  with Cons show ?case by (auto simp: List.map_filter_simps split: option.splits)
qed simp

lemma refCounts_le_1:
  assumes "distinct (List.map_filter svr_CredentialRef xs)" "(i, n) \<in> set (refCounts xs)"
  shows "n \<le> 1"
proof -
  have "map_of (refCounts xs) i = Some n"
    using assms(2) distinct_addRef [of "[]" xs] by (simp add: refCounts_def)
  then have "n = length (filter (\<lambda>s. svr_CredentialRef s = Some i) xs)"
    using refCountOf_foldl [of "[]" xs i] by (simp add: refCounts_def refCountOf_def)
  with durable_refCount [OF assms(1)] show ?thesis by simp
qed

lemma refCountOf_1:
  assumes "distinct (List.map_filter svr_CredentialRef xs)" "s \<in> set xs" "svr_CredentialRef s = Some i"
  shows "refCountOf (refCounts xs) i = 1"
proof -
  have "refCountOf (refCounts xs) i = length (filter (\<lambda>s. svr_CredentialRef s = Some i) xs)"
    using refCountOf_foldl [of "[]" xs i] by (simp add: refCounts_def refCountOf_def)
  moreover have "filter (\<lambda>s. svr_CredentialRef s = Some i) xs \<noteq> []" using assms(2,3) by (auto simp: filter_empty_conv)
  ultimately show ?thesis using durable_refCount [OF assms(1), of i]
    by (cases "filter (\<lambda>s. svr_CredentialRef s = Some i) xs") auto
qed

lemma distinct_triple: "distinct (map (\<lambda>x. (f x, g x)) xs) \<Longrightarrow> x \<in> set xs \<Longrightarrow> y \<in> set xs \<Longrightarrow> f x = f y \<Longrightarrow> g x = g y \<Longrightarrow> x = y"
  by (auto simp: distinct_map inj_on_def)

lemma tableMeta_lookup:
  assumes "distinct (map (\<lambda>t. (tbr_SchemaName t, tbr_TableName t)) (sn_Tables d))" "t \<in> set (sn_Tables d)"
    and "\<And>t. t \<in> set (sn_Tables d) \<Longrightarrow> nul \<notin> set (tbr_SchemaName t) \<and> nul \<notin> set (tbr_TableName t)"
  shows "map_of (tableMeta d) (metaKey (tbr_SchemaName t) (tbr_TableName t)
    (serverNameOf (serverNames (sn_Servers d)) (tbr_ServerID t))) = Some (tbr_ID t)"
  unfolding tableMeta_def
proof (rule lookup_foldl_update [where k = "\<lambda>t. metaKey (tbr_SchemaName t) (tbr_TableName t)
    (serverNameOf (serverNames (sn_Servers d)) (tbr_ServerID t))", OF _ assms(2)])
  have "inj_on (\<lambda>t. metaKey (tbr_SchemaName t) (tbr_TableName t)
      (serverNameOf (serverNames (sn_Servers d)) (tbr_ServerID t))) (set (sn_Tables d))"
  proof (rule inj_onI)
    fix x y
    assume xy: "x \<in> set (sn_Tables d)" "y \<in> set (sn_Tables d)"
      and "metaKey (tbr_SchemaName x) (tbr_TableName x) (serverNameOf (serverNames (sn_Servers d)) (tbr_ServerID x)) =
        metaKey (tbr_SchemaName y) (tbr_TableName y) (serverNameOf (serverNames (sn_Servers d)) (tbr_ServerID y))"
    from metaKey_inj(1,2) [OF this(3)] assms(3) [OF xy(1)] assms(3) [OF xy(2)] distinct_triple [OF assms(1) xy]
    show "x = y" by blast
  qed
  then show "distinct (map (\<lambda>t. metaKey (tbr_SchemaName t) (tbr_TableName t)
      (serverNameOf (serverNames (sn_Servers d)) (tbr_ServerID t))) (sn_Tables d))"
    using assms(1) by (simp add: distinct_map)
qed

lemma decompile_durable:
  assumes "storeRefs d n" "storeNames d" "durable vault getenv d" "decompileDeclarative txt vault d = Inr doc"
  shows "doc = \<lparr>fd_Credentials = [], fd_Servers = map (declServerOf vault (sn_Credentials d)) (sn_Servers d),
    fd_Tables = map (plainTable d) (sn_Tables d), fd_Functions = map (plainFunction d) (sn_Functions d)\<rparr>"
proof -
  note r = assms(1) [unfolded storeRefs_def idsOk_def] and nm = assms(2) [unfolded storeNames_def]
    and du = assms(3) [unfolded durable_def list_all_iff]
  from assms(4) obtain creds where creds: "decryptAll vault (sn_Credentials d) [] = Inr creds"
    by (auto simp: decompileDeclarative_def split: sum.splits)
  have lookup: "map_of creds i = credOf vault (sn_Credentials d) i" for i
    using decryptAll_lookup [OF creds] r by (auto simp: credOf_def split: option.splits)
  have "serverCredField txt d creds s = fs_Credential (declServerOf vault (sn_Credentials d) s)" if "s \<in> set (sn_Servers d)" for s
    using du that refCountOf_1 [OF _ that]
    by (auto simp: serverCredField_def declServerOf_def serverCred_def lookup split: option.splits)
  then have servers: "fd_Servers doc = map (declServerOf vault (sn_Credentials d)) (sn_Servers d)"
    using assms(4) creds by (auto simp: decompileDeclarative_def declServerOf_def)
  have "List.map_filter (\<lambda>(i, n). if n > 1 then f i else None) (refCounts (sn_Servers d)) = []" for f
    using refCounts_le_1 [of "sn_Servers d"] du by (fastforce simp: List.map_filter_def filter_empty_conv)
  then have "fd_Credentials doc = []"
    using assms(4) creds by (auto simp: decompileDeclarative_def Let_def)
  moreover have "declTableOf d t = plainTable d t" if "t \<in> set (sn_Tables d)" for t
  proof -
    have "map_of (tableMeta d) (metaKey (tbr_SchemaName t) (tbr_TableName t)
      (serverNameOf (serverNames (sn_Servers d)) (tbr_ServerID t))) = Some (tbr_ID t)"
      using nm du that by (intro tableMeta_lookup) (auto simp: trimmed_def)
    moreover have "serverNameOf (serverNames (sn_Servers d)) (tbr_ServerID t) = serverNameLocked d (tbr_ServerID t)"
      using r that by (intro serverNameOf_locked) auto
    ultimately show ?thesis by (simp add: declTableOf_def plainTable_def columnsOf_def tableColumns_def Let_def)
  qed
  then have "fd_Tables doc = map (plainTable d) (sn_Tables d)"
    using assms(4) creds by (auto simp: decompileDeclarative_def Let_def)
  moreover have "serverNameOf (serverNames (sn_Servers d)) (fnr_ServerID f) = serverNameLocked d (fnr_ServerID f)"
    if "f \<in> set (sn_Functions d)" for f
    using r that by (intro serverNameOf_locked) auto
  then have "fd_Functions doc = map (plainFunction d) (sn_Functions d)"
    using assms(4) creds by (auto simp: decompileDeclarative_def plainFunction_def Let_def)
  ultimately show ?thesis using servers by simp
qed

section \<open>Compiling it again\<close>

lemma trimmedD: "trimmed s \<Longrightarrow> TrimSpace s = s" "trimmed s \<Longrightarrow> s \<noteq> []" "trimmed s \<Longrightarrow> nul \<notin> set s"
  by (auto simp: trimmed_def)

lemma schemaOr_trimmed: "trimmed s \<Longrightarrow> schemaOr s = s"
  by (simp add: schemaOr_def trimmed_def)

lemma nodeOptions_mapToNode [simp]: "nodeOptions (mapToNode (nodeOptions v)) = nodeOptions v"
  by (cases v) (simp_all add: nodeOptions_def mapToNode_def rawToNode_def valRow_def buildMap_distinct_id distinct_buildMap)

text \<open>The vault reads back what it encrypts of the given data.\<close>

definition encOk :: "compileEnv \<Rightarrow> row \<Rightarrow> bool" where
  "encOk env data \<longleftrightarrow>
     (\<forall>i. \<exists>p. Encrypt (ce_vault env) (ce_nonce env i) data = Inr p \<and> Decrypt (ce_vault env) p = Inr data)"

definition credDurable :: "compileEnv \<Rightarrow> row option \<Rightarrow> bool" where
  "credDurable env cred = (case cred of None \<Rightarrow> True
     | Some data \<Rightarrow> data \<noteq> [] \<and> expandEnvMap (ce_getenv env) data = data \<and> encOk env data)"

text \<open>The credential references of the compiled servers were given out, and the server names lead to the servers.\<close>

definition linked :: "compiler \<Rightarrow> bool" where
  "linked c \<longleftrightarrow>
     (\<forall>s\<in>set (sn_Servers (cp_out c)). \<forall>i. svr_CredentialRef s = Some i \<longrightarrow> i \<le> cp_next c) \<and>
     (\<forall>k i. map_of (cp_servers c) k = Some i \<longrightarrow>
        map_option svr_Name (find (\<lambda>s. svr_ID s = i) (sn_Servers (cp_out c))) = Some k)"

lemma credOf_append:
  "(\<forall>c\<in>set cs. crr_ID c \<le> n) \<Longrightarrow> n < crr_ID r \<Longrightarrow> i \<le> n \<Longrightarrow> credOf vault (cs @ [r]) i = credOf vault cs i"
  by (auto simp: credOf_def find_append split: option.splits)

lemma serverCredRef_durable:
  assumes "cpInv c" "trimmed name" "name \<notin> fst ` set (cp_creds c)" "credDurable env cred"
  shows "\<exists>r c1. serverCredRef env name \<lparr>cf_Name = [], cf_Data = (case cred of None \<Rightarrow> [] | Some data \<Rightarrow> data)\<rparr> c = Inr (r, c1) \<and>
    Option.bind r (credOf (ce_vault env) (sn_Credentials (cp_out c1))) = cred \<and> (\<forall>i. r = Some i \<longrightarrow> i \<le> cp_next c1) \<and>
    cp_next c \<le> cp_next c1 \<and> fst ` set (cp_creds c1) \<subseteq> insert name (fst ` set (cp_creds c)) \<and>
    (\<forall>i\<le>cp_next c. credOf (ce_vault env) (sn_Credentials (cp_out c1)) i = credOf (ce_vault env) (sn_Credentials (cp_out c)) i)"
proof (cases cred)
  case None
  then show ?thesis by (auto simp: serverCredRef_def)
next
  case (Some data)
  with assms(4) obtain p where p: "Encrypt (ce_vault env) (ce_nonce env (Suc (cp_next c))) data = Inr p"
    "Decrypt (ce_vault env) p = Inr data" and data: "data \<noteq> []" "expandEnvMap (ce_getenv env) data = data"
    by (auto simp: credDurable_def encOk_def)
  have "map_of (cp_creds c) name = None" using assms(3) by (simp add: map_of_eq_None_iff)
  moreover have ids: "\<forall>x\<in>set (sn_Credentials (cp_out c)). crr_ID x \<le> cp_next c"
    using assms(1) by (simp add: cpInv_def storeOk_defs idsOk_def)
  moreover from ids have "find (\<lambda>x. crr_ID x = Suc (cp_next c)) (sn_Credentials (cp_out c)) = None"
    by (auto simp: find_None_iff)
  ultimately show ?thesis
    using Some p data trimmedD [OF assms(2)]
    by (auto simp: serverCredRef_def registerCred_def Let_def credOf_append dom_update)
      (simp add: credOf_def find_append)
qed

lemma compileServer_durable:
  assumes "cpInv c" "linked c" "trimmed (svr_Name s)" "trimmed (svr_Protocol s)" "svr_Name s \<notin> fst ` set (cp_creds c)"
    and "credDurable env (serverCred (ce_vault env) cs s)"
  shows "\<exists>c1. compileServer env (declServerOf (ce_vault env) cs s) c = Inr c1 \<and> cpInv c1 \<and> linked c1 \<and>
    map (serverView (ce_vault env) (sn_Credentials (cp_out c1))) (sn_Servers (cp_out c1)) =
      map (serverView (ce_vault env) (sn_Credentials (cp_out c))) (sn_Servers (cp_out c)) @ [serverView (ce_vault env) cs s] \<and>
    fst ` set (cp_creds c1) \<subseteq> insert (svr_Name s) (fst ` set (cp_creds c)) \<and>
    fst ` set (cp_servers c1) = insert (svr_Name s) (fst ` set (cp_servers c))"
proof -
  let ?o = "serverCred (ce_vault env) cs s"
  obtain r c1 where r: "serverCredRef env (svr_Name s) \<lparr>cf_Name = [], cf_Data = (case ?o of None \<Rightarrow> [] | Some data \<Rightarrow> data)\<rparr> c = Inr (r, c1)"
    "Option.bind r (credOf (ce_vault env) (sn_Credentials (cp_out c1))) = ?o" "\<forall>i. r = Some i \<longrightarrow> i \<le> cp_next c1"
    "cp_next c \<le> cp_next c1" "fst ` set (cp_creds c1) \<subseteq> insert (svr_Name s) (fst ` set (cp_creds c))"
    "\<forall>i\<le>cp_next c. credOf (ce_vault env) (sn_Credentials (cp_out c1)) i = credOf (ce_vault env) (sn_Credentials (cp_out c)) i"
    using serverCredRef_durable [OF assms(1,3,5,6)] by blast
  note l = serverCredRef_lists [OF r(1)]
  let ?r = "\<lparr>svr_ID = Suc (cp_next c1), svr_Name = svr_Name s, svr_Protocol = svr_Protocol s,
    svr_Options = mapToNode (nodeOptions (svr_Options s)), svr_CredentialRef = r, svr_Enabled = svr_Enabled s,
    svr_UpdatedAt = ce_now env\<rparr>"
  let ?c2 = "c1\<lparr>cp_servers := AList.update (svr_Name s) (Suc (cp_next c1)) (cp_servers c1), cp_next := Suc (cp_next c1),
    cp_out := (cp_out c1)\<lparr>sn_Servers := sn_Servers (cp_out c1) @ [?r]\<rparr>\<rparr>"
  have c2: "compileServer env (declServerOf (ce_vault env) cs s) c = Inr ?c2"
    using r(1) trimmedD [OF assms(3)] trimmedD [OF assms(4)] by (simp add: compileServer_def declServerOf_def Let_def)
  moreover have "serverCred (ce_vault env) (sn_Credentials (cp_out c1)) x = serverCred (ce_vault env) (sn_Credentials (cp_out c)) x"
    if "x \<in> set (sn_Servers (cp_out c))" for x
    using assms(2) r(6) that by (cases "svr_CredentialRef x") (auto simp: serverCred_def linked_def)
  then have "map (serverView (ce_vault env) (sn_Credentials (cp_out ?c2))) (sn_Servers (cp_out ?c2)) =
    map (serverView (ce_vault env) (sn_Credentials (cp_out c))) (sn_Servers (cp_out c)) @ [serverView (ce_vault env) cs s]"
    using r(2) l by (auto simp: serverView_def serverCred_def)
  moreover have "find (\<lambda>x. svr_ID x = Suc (cp_next c1)) (sn_Servers (cp_out c1)) = None"
    using assms(1) r(4) l by (fastforce simp: find_None_iff cpInv_def storeOk_defs idsOk_def)
  then have "linked ?c2"
    using assms(2) r(3,4) l
    by (fastforce simp: linked_def find_append update_conv' split: option.splits)
  ultimately show ?thesis
    using compileServer_inv [OF c2 assms(1)] r(5) l by (auto simp: dom_update)
qed


text \<open>A loop each of whose steps succeeds and appends one element.\<close>

lemma foldE_collect:
  assumes "\<And>x c. x \<in> set xs \<Longrightarrow> P c \<Longrightarrow> \<exists>c1. f (g x) c = Inr c1 \<and> P c1 \<and> v c1 = v c @ [h x]"
  shows "P c \<Longrightarrow> \<exists>c1. foldE f (map g xs) c = Inr c1 \<and> P c1 \<and> v c1 = v c @ map h xs"
  using assms
proof (induction xs arbitrary: c)
  case (Cons x xs)
  from Cons.prems(2) [OF _ Cons.prems(1), of x] obtain c1 where c1: "f (g x) c = Inr c1" "P c1" "v c1 = v c @ [h x]"
    by auto
  with Cons.IH [OF c1(2)] Cons.prems(2) show ?case by simp
qed simp

lemma servers_durable:
  assumes "cpInv c" "linked c" "distinct (map svr_Name xs)" "svr_Name ` set xs \<inter> fst ` set (cp_creds c) = {}"
    and "\<forall>s\<in>set xs. trimmed (svr_Name s) \<and> trimmed (svr_Protocol s) \<and> credDurable env (serverCred (ce_vault env) cs s)"
  shows "\<exists>c1. foldE (compileServer env) (map (declServerOf (ce_vault env) cs) xs) c = Inr c1 \<and> cpInv c1 \<and> linked c1 \<and>
    map (serverView (ce_vault env) (sn_Credentials (cp_out c1))) (sn_Servers (cp_out c1)) =
      map (serverView (ce_vault env) (sn_Credentials (cp_out c))) (sn_Servers (cp_out c)) @ map (serverView (ce_vault env) cs) xs \<and>
    fst ` set (cp_servers c1) = fst ` set (cp_servers c) \<union> svr_Name ` set xs"
  using assms
proof (induction xs arbitrary: c)
  case (Cons s xs)
  then obtain c1 where c1: "compileServer env (declServerOf (ce_vault env) cs s) c = Inr c1" "cpInv c1" "linked c1"
    "map (serverView (ce_vault env) (sn_Credentials (cp_out c1))) (sn_Servers (cp_out c1)) =
      map (serverView (ce_vault env) (sn_Credentials (cp_out c))) (sn_Servers (cp_out c)) @ [serverView (ce_vault env) cs s]"
    "fst ` set (cp_creds c1) \<subseteq> insert (svr_Name s) (fst ` set (cp_creds c))"
    "fst ` set (cp_servers c1) = insert (svr_Name s) (fst ` set (cp_servers c))"
    using compileServer_durable [of c s env cs] by auto
  have "svr_Name ` set xs \<inter> insert (svr_Name s) (fst ` set (cp_creds c)) = {}" using Cons.prems(3,4) by auto
  with c1(5) have "svr_Name ` set xs \<inter> fst ` set (cp_creds c1) = {}" by blast
  with Cons.IH [OF c1(2,3)] Cons.prems(3,5) c1 show ?case by auto
qed simp

lemma declColumnOf_simps [simp]:
  "dcl_Name (declColumnOf c) = clr_Name c" "dcl_DataType (declColumnOf c) = clr_DataType c"
  "dcl_RemoteName (declColumnOf c) = clr_RemoteName c" "dcl_Nullable (declColumnOf c) = Some (clr_Nullable c)"
  "dcl_Position (declColumnOf c) = clr_Position c"
  by (simp_all add: declColumnOf_def)

lemma columnView_eq: "columnView c = columnView c' \<longleftrightarrow>
    clr_Name c = clr_Name c' \<and> clr_DataType c = clr_DataType c' \<and> clr_RemoteName c = clr_RemoteName c' \<and>
    clr_Nullable c = clr_Nullable c' \<and> clr_Position c = clr_Position c'"
  by (simp add: columnView_def)

lemma compileColumns_durable:
  "list_all (\<lambda>c. TrimSpace (clr_Name c) \<noteq> [] \<and> trimmed (clr_DataType c)) cs \<Longrightarrow>
   list_all (\<lambda>c. clr_Position c \<noteq> 0) (if k = 0 then tl cs else cs) \<Longrightarrow>
   map columnView (fst (compileColumns i k (map declColumnOf cs) n)) = map columnView cs"
proof (induction cs arbitrary: k n)
  case (Cons c cs)
  then have "map columnView (fst (compileColumns i (Suc k) (map declColumnOf cs) (Suc n))) = map columnView cs"
    by (intro Cons.IH) (auto split: if_splits)
  with Cons.prems show ?case
    by (auto simp: columnView_eq trimmedD case_prod_beta Let_def split: if_splits)
qed simp

text \<open>What the loops over tables and functions leave as it is.\<close>

definition settled :: "string set \<Rightarrow> ServerRecord list \<Rightarrow> CredentialRecord list \<Rightarrow> compiler \<Rightarrow> bool" where
  "settled names servers creds c \<longleftrightarrow>
     cpInv c \<and> linked c \<and> fst ` set (cp_servers c) = names \<and> sn_Servers (cp_out c) = servers \<and> sn_Credentials (cp_out c) = creds"

lemma settled_server:
  assumes "settled names servers creds c" "name \<in> names"
  obtains i where "map_of (cp_servers c) name = Some i" "serverNameLocked (cp_out c) i = name"
proof -
  from assms obtain i where i: "map_of (cp_servers c) name = Some i"
    by (metis (no_types, lifting) map_of_eq_None_iff not_Some_eq settled_def)
  with assms(1) have "map_option svr_Name (find (\<lambda>s. svr_ID s = i) (sn_Servers (cp_out c))) = Some name"
    by (auto simp: settled_def linked_def)
  then have "serverNameLocked (cp_out c) i = name" by (auto simp: serverNameLocked_def)
  with i that show ?thesis by blast
qed

lemma compileTable_durable:
  assumes "settled names servers creds c" "trimmed (serverNameLocked d (tbr_ServerID t))"
    and "serverNameLocked d (tbr_ServerID t) \<in> names"
    and "trimmed (tbr_SchemaName t)" "trimmed (tbr_TableName t)" "columnsDurable (tableColumns d (tbr_ID t))"
  shows "\<exists>c1. compileTable (plainTable d t) c = Inr c1 \<and> settled names servers creds c1 \<and>
    map (tableView (cp_out c1)) (sn_Tables (cp_out c1)) = map (tableView (cp_out c)) (sn_Tables (cp_out c)) @ [tableView d t]"
proof -
  let ?i = "Suc (cp_next c)"
  obtain i where i: "map_of (cp_servers c) (serverNameLocked d (tbr_ServerID t)) = Some i"
    "serverNameLocked (cp_out c) i = serverNameLocked d (tbr_ServerID t)"
    using settled_server [OF assms(1,3)] by blast
  obtain rs m where rs: "compileColumns ?i 0 (map declColumnOf (tableColumns d (tbr_ID t))) ?i = (rs, m)" by fastforce
  note rsp = compileColumns_spec [OF rs]
  have view: "map columnView rs = map columnView (tableColumns d (tbr_ID t))"
    using compileColumns_durable [of "tableColumns d (tbr_ID t)" 0 ?i ?i] assms(6) rs by (simp add: columnsDurable_def)
  let ?r = "\<lparr>tbr_ID = ?i, tbr_ServerID = i, tbr_SchemaName = tbr_SchemaName t, tbr_TableName = tbr_TableName t,
    tbr_RemoteName = tbr_RemoteName t, tbr_KeyColumns = tbr_KeyColumns t, tbr_Options = mapToNode (nodeOptions (tbr_Options t))\<rparr>"
  let ?out = "(cp_out c)\<lparr>sn_Tables := sn_Tables (cp_out c) @ [?r], sn_Columns := sn_Columns (cp_out c) @ rs\<rparr>"
  have c1: "compileTable (plainTable d t) c = Inr (c\<lparr>cp_next := m, cp_out := ?out\<rparr>)"
    using i rs assms(2,4,5) by (simp add: compileTable_def plainTable_def trimmedD schemaOr_trimmed Let_def)
  have inv: "cpInv c" using assms(1) by (simp add: settled_def)
  have "settled names servers creds (c\<lparr>cp_next := m, cp_out := ?out\<rparr>)"
    using assms(1) compileTable_inv [OF c1 inv] rsp by (fastforce simp: settled_def linked_def)
  moreover have "tableColumns ?out (tbr_ID x) = tableColumns (cp_out c) (tbr_ID x)" if "x \<in> set (sn_Tables (cp_out c))" for x
  proof -
    have "tbr_ID x \<noteq> ?i" using inv that by (fastforce simp: cpInv_def storeOk_defs idsOk_def)
    then show ?thesis using rsp by (auto simp: tableColumns_def filter_empty_conv)
  qed
  moreover have "filter (\<lambda>x. clr_TableID x = ?i) (sn_Columns (cp_out c)) = []"
  proof -
    have "clr_TableID x \<noteq> ?i" if "x \<in> set (sn_Columns (cp_out c))" for x
      using inv that by (fastforce simp: cpInv_def storeOk_defs idsOk_def)
    then show ?thesis by (simp add: filter_empty_conv)
  qed
  moreover have "filter (\<lambda>x. clr_TableID x = ?i) rs = rs" using rsp by (simp add: filter_id_conv)
  ultimately show ?thesis
    using c1 i(2) view by (simp add: tableView_def serverNameLocked_def tableColumns_def)
qed


lemma compileFunction_durable:
  assumes "settled names servers creds c" "trimmed (serverNameLocked d (fnr_ServerID f))"
    and "serverNameLocked d (fnr_ServerID f) \<in> names"
    and "trimmed (fnr_SchemaName f)" "trimmed (fnr_Name f)" "TrimSpace (fnr_Operation f) \<noteq> []"
  shows "\<exists>c1. compileFunction (plainFunction d f) c = Inr c1 \<and> settled names servers creds c1 \<and>
    sn_Tables (cp_out c1) = sn_Tables (cp_out c) \<and> sn_Columns (cp_out c1) = sn_Columns (cp_out c) \<and>
    map (functionView (cp_out c1)) (sn_Functions (cp_out c1)) =
      map (functionView (cp_out c)) (sn_Functions (cp_out c)) @ [functionView d f]"
proof -
  obtain i where i: "map_of (cp_servers c) (serverNameLocked d (fnr_ServerID f)) = Some i"
    "serverNameLocked (cp_out c) i = serverNameLocked d (fnr_ServerID f)"
    using settled_server [OF assms(1,3)] by blast
  let ?r = "\<lparr>fnr_ID = Suc (cp_next c), fnr_ServerID = i, fnr_SchemaName = fnr_SchemaName f, fnr_Name = fnr_Name f,
    fnr_Operation = fnr_Operation f, fnr_RemotePath = fnr_RemotePath f, fnr_Method = fnr_Method f,
    fnr_Options = mapToNode (nodeOptions (fnr_Options f))\<rparr>"
  let ?c1 = "c\<lparr>cp_next := Suc (cp_next c), cp_out := (cp_out c)\<lparr>sn_Functions := sn_Functions (cp_out c) @ [?r]\<rparr>\<rparr>"
  have c1: "compileFunction (plainFunction d f) c = Inr ?c1"
    using i assms(2,4,5,6) by (simp add: compileFunction_def plainFunction_def trimmedD schemaOr_trimmed Let_def)
  moreover have "cpInv c" using assms(1) by (simp add: settled_def)
  with c1 have "cpInv ?c1" by (rule compileFunction_inv)
  then have "settled names servers creds ?c1"
    using assms(1) by (fastforce simp: settled_def linked_def)
  ultimately show ?thesis
    using i(2) by (simp add: functionView_def serverNameLocked_def)
qed

text \<open>The document without identifiers compiles to a snapshot with the same view.\<close>

lemma compile_durable:
  assumes d: "storeRefs d n" "storeNames d" "durable (ce_vault env) (ce_getenv env) d"
    and enc: "\<And>s data. s \<in> set (sn_Servers d) \<Longrightarrow> serverCred (ce_vault env) (sn_Credentials d) s = Some data \<Longrightarrow> encOk env data"
  shows "\<exists>snap m. compileDeclarative env \<lparr>fd_Credentials = [],
      fd_Servers = map (declServerOf (ce_vault env) (sn_Credentials d)) (sn_Servers d),
      fd_Tables = map (plainTable d) (sn_Tables d), fd_Functions = map (plainFunction d) (sn_Functions d)\<rparr> k = Inr (snap, m) \<and>
    storeView (ce_vault env) snap = storeView (ce_vault env) d"
proof -
  note du = d(3) [unfolded durable_def list_all_iff] and r = d(1) [unfolded storeRefs_def idsOk_def]
  let ?names = "svr_Name ` set (sn_Servers d)"
  have named: "serverNameLocked d i \<in> ?names \<and> trimmed (serverNameLocked d i)" if i: "i \<in> svr_ID ` set (sn_Servers d)" for i
  proof -
    from i obtain s where s: "s \<in> set (sn_Servers d)" "i = svr_ID s" by auto
    then have "find (\<lambda>x. svr_ID x = i) (sn_Servers d) = Some s"
      using find_unique [of svr_ID "sn_Servers d" s] r by simp
    with s du show ?thesis by (simp add: serverNameLocked_def)
  qed
  have "\<exists>c1. foldE (compileServer env) (map (declServerOf (ce_vault env) (sn_Credentials d)) (sn_Servers d)) (startCompiler k) = Inr c1 \<and>
    cpInv c1 \<and> linked c1 \<and>
    map (serverView (ce_vault env) (sn_Credentials (cp_out c1))) (sn_Servers (cp_out c1)) =
      map (serverView (ce_vault env) (sn_Credentials (cp_out (startCompiler k)))) (sn_Servers (cp_out (startCompiler k))) @
      map (serverView (ce_vault env) (sn_Credentials d)) (sn_Servers d) \<and>
    fst ` set (cp_servers c1) = fst ` set (cp_servers (startCompiler k)) \<union> ?names"
  proof (rule servers_durable [OF cpInv_start])
    show "\<forall>s\<in>set (sn_Servers d). trimmed (svr_Name s) \<and> trimmed (svr_Protocol s) \<and>
        credDurable env (serverCred (ce_vault env) (sn_Credentials d) s)"
      using du enc by (auto simp: credDurable_def split: option.splits)
  qed (use d(2) in \<open>auto simp: storeNames_def linked_def startCompiler_def emptySnapshot_def\<close>)
  then obtain c1 where c1: "foldE (compileServer env) (map (declServerOf (ce_vault env) (sn_Credentials d)) (sn_Servers d)) (startCompiler k) = Inr c1"
    "cpInv c1" "linked c1" "fst ` set (cp_servers c1) = ?names"
    "map (serverView (ce_vault env) (sn_Credentials (cp_out c1))) (sn_Servers (cp_out c1)) =
      map (serverView (ce_vault env) (sn_Credentials d)) (sn_Servers d)"
    by (auto simp: startCompiler_def emptySnapshot_def)
  let ?S = "settled ?names (sn_Servers (cp_out c1)) (sn_Credentials (cp_out c1))"
  have same: "sn_Tables (cp_out c1) = []" "sn_Functions (cp_out c1) = []"
    using foldE_same [OF _ c1(1), of "\<lambda>c. sn_Tables (cp_out c)"] foldE_same [OF _ c1(1), of "\<lambda>c. sn_Functions (cp_out c)"]
    by (simp_all add: compileServer_lists startCompiler_def emptySnapshot_def)
  have "\<exists>c2. foldE compileTable (map (plainTable d) (sn_Tables d)) c1 = Inr c2 \<and> ?S c2 \<and>
    map (tableView (cp_out c2)) (sn_Tables (cp_out c2)) = map (tableView (cp_out c1)) (sn_Tables (cp_out c1)) @
      map (tableView d) (sn_Tables d)"
  proof (rule foldE_collect)
    fix t c assume "t \<in> set (sn_Tables d)" "?S c"
    moreover from this(1) have "tbr_ServerID t \<in> svr_ID ` set (sn_Servers d)" using r by auto
    ultimately show "\<exists>c2. compileTable (plainTable d t) c = Inr c2 \<and> ?S c2 \<and>
        map (tableView (cp_out c2)) (sn_Tables (cp_out c2)) = map (tableView (cp_out c)) (sn_Tables (cp_out c)) @ [tableView d t]"
      using du named by (intro compileTable_durable) auto
  qed (use c1 in \<open>simp add: settled_def\<close>)
  then obtain c2 where c2: "foldE compileTable (map (plainTable d) (sn_Tables d)) c1 = Inr c2" "?S c2"
    "map (tableView (cp_out c2)) (sn_Tables (cp_out c2)) = map (tableView d) (sn_Tables d)"
    using same by auto
  let ?T = "\<lambda>c. ?S c \<and> sn_Tables (cp_out c) = sn_Tables (cp_out c2) \<and> sn_Columns (cp_out c) = sn_Columns (cp_out c2)"
  have "\<exists>c3. foldE compileFunction (map (plainFunction d) (sn_Functions d)) c2 = Inr c3 \<and> ?T c3 \<and>
    map (functionView (cp_out c3)) (sn_Functions (cp_out c3)) = map (functionView (cp_out c2)) (sn_Functions (cp_out c2)) @
      map (functionView d) (sn_Functions d)"
  proof (rule foldE_collect)
    fix f c assume f: "f \<in> set (sn_Functions d)" and c: "?T c"
    from f have "fnr_ServerID f \<in> svr_ID ` set (sn_Servers d)" using r by auto
    then show "\<exists>c3. compileFunction (plainFunction d f) c = Inr c3 \<and> ?T c3 \<and>
        map (functionView (cp_out c3)) (sn_Functions (cp_out c3)) = map (functionView (cp_out c)) (sn_Functions (cp_out c)) @ [functionView d f]"
      using compileFunction_durable [of ?names "sn_Servers (cp_out c1)" "sn_Credentials (cp_out c1)" c d f] c f du named
      by auto
  qed (use c2 in simp)
  then obtain c3 where c3: "foldE compileFunction (map (plainFunction d) (sn_Functions d)) c2 = Inr c3" "?T c3"
    "map (functionView (cp_out c3)) (sn_Functions (cp_out c3)) = map (functionView d) (sn_Functions d)"
    using same foldE_same [OF _ c2(1), of "\<lambda>c. sn_Functions (cp_out c)"] by (auto simp: compileTable_lists)
  have "map (tableView (cp_out c3)) (sn_Tables (cp_out c3)) = map (tableView (cp_out c2)) (sn_Tables (cp_out c2))"
    using c3(2) c2(2) by (auto simp: tableView_def tableColumns_def serverNameLocked_def settled_def)
  then show ?thesis
    using c1 c2 c3 by (auto simp: compileDeclarative_def startCompiler_def [symmetric] storeView_def settled_def)
qed


section \<open>Reading it back\<close>

lemma bridge_id:
  "\<forall>s\<in>set (fd_Servers doc). cf_Name (fs_Credential s) = [] \<Longrightarrow> declarativeFromImporter (declarativeToImporter doc) = doc"
  by (cases doc) (auto simp: declarativeFromImporter_def declarativeToImporter_def intro!: map_idI)

lemma merge_one:
  assumes "\<forall>s\<in>set (dd_Servers doc). TrimSpace (ds_Name s) \<noteq> []" "distinct (map (\<lambda>s. TrimSpace (ds_Name s)) (dd_Servers doc))"
    and "dd_Credentials doc = []"
    and "distinct (map tableKey (dd_Tables doc))" "[] \<notin> tableKey ` set (dd_Tables doc)"
    and "distinct (map functionKey (dd_Functions doc))" "[] \<notin> functionKey ` set (dd_Functions doc)"
  shows "MergeDeclarativeDocs [doc] = Inr doc"
proof -
  have "mergeBy (\<lambda>s. TrimSpace (ds_Name s)) (dd_Servers doc) = dd_Servers doc"
    using assms(1,2) by (intro mergeBy_id) auto
  then show ?thesis
    using assms mergeBy_id [OF assms(4,5)] mergeBy_id [OF assms(6,7)] mergeBy_id [of "\<lambda>c. TrimSpace (dc_Name c)" "[]"]
    by (cases doc) (auto simp: MergeDeclarativeDocs_def list_ex_iff)
qed

lemma declKey_trimmed: "trimmed a \<Longrightarrow> trimmed b \<Longrightarrow> trimmed c \<Longrightarrow> declKey c a b = metaKey a b c"
  by (simp add: declKey_def metaKey_def schemaOr_trimmed trimmedD)

lemma distinct_declKeys:
  assumes "distinct (map (\<lambda>x. (f x, g x)) xs)" "\<And>x. x \<in> set xs \<Longrightarrow> trimmed (f x) \<and> trimmed (g x) \<and> trimmed (h x)"
  shows "distinct (map (\<lambda>x. declKey (h x) (f x) (g x)) xs) \<and> [] \<notin> (\<lambda>x. declKey (h x) (f x) (g x)) ` set xs"
proof
  have "inj_on (\<lambda>x. declKey (h x) (f x) (g x)) (set xs)"
  proof (rule inj_onI)
    fix x y assume xy: "x \<in> set xs" "y \<in> set xs" and k: "declKey (h x) (f x) (g x) = declKey (h y) (f y) (g y)"
    then have "metaKey (f x) (g x) (h x) = metaKey (f y) (g y) (h y)" using assms(2) declKey_trimmed by metis
    from metaKey_inj(1,2) [OF this] assms(2) [OF xy(1)] assms(2) [OF xy(2)] have "f x = f y \<and> g x = g y"
      by (auto simp: trimmed_def)
    then show "x = y" using distinct_triple [OF assms(1) xy] by blast
  qed
  then show "distinct (map (\<lambda>x. declKey (h x) (f x) (g x)) xs)" using assms(1) by (simp add: distinct_map)
  show "[] \<notin> (\<lambda>x. declKey (h x) (f x) (g x)) ` set xs"
    using assms(2) by (auto simp: declKey_trimmed metaKey_def dest!: sym [of "[]"])
qed

lemma merge_durable:
  assumes "storeRefs d n" "storeNames d" "durable vault getenv d" "decompileDeclarative txt vault d = Inr doc"
  shows "MergeDeclarativeDocs [declarativeToImporter doc] = Inr (declarativeToImporter doc) \<and>
    declarativeFromImporter (declarativeToImporter doc) = doc"
proof -
  note doc = decompile_durable [OF assms] and du = assms(3) [unfolded durable_def list_all_iff]
    and r = assms(1) [unfolded storeRefs_def idsOk_def]
  have named: "trimmed (serverNameLocked d i)" if i: "i \<in> svr_ID ` set (sn_Servers d)" for i
  proof -
    from i obtain s where s: "s \<in> set (sn_Servers d)" "i = svr_ID s" by auto
    then have "find (\<lambda>x. svr_ID x = i) (sn_Servers d) = Some s"
      using find_unique [of svr_ID "sn_Servers d" s] r by simp
    with s du show ?thesis by (simp add: serverNameLocked_def)
  qed
  have tables: "distinct (map (\<lambda>t. declKey (serverNameLocked d (tbr_ServerID t)) (tbr_SchemaName t) (tbr_TableName t)) (sn_Tables d)) \<and>
    [] \<notin> (\<lambda>t. declKey (serverNameLocked d (tbr_ServerID t)) (tbr_SchemaName t) (tbr_TableName t)) ` set (sn_Tables d)"
    using assms(2) du r named by (intro distinct_declKeys) (auto simp: storeNames_def)
  have funs: "distinct (map (\<lambda>f. declKey (serverNameLocked d (fnr_ServerID f)) (fnr_SchemaName f) (fnr_Name f)) (sn_Functions d)) \<and>
    [] \<notin> (\<lambda>f. declKey (serverNameLocked d (fnr_ServerID f)) (fnr_SchemaName f) (fnr_Name f)) ` set (sn_Functions d)"
    using assms(2) du r named by (intro distinct_declKeys) (auto simp: storeNames_def)
  have "map (\<lambda>s. TrimSpace (svr_Name s)) (sn_Servers d) = map svr_Name (sn_Servers d)"
    using du by (simp add: trimmed_def)
  then have names: "distinct (map (\<lambda>s. TrimSpace (svr_Name s)) (sn_Servers d))"
    using assms(2) by (simp only: storeNames_def)
  have "MergeDeclarativeDocs [declarativeToImporter doc] = Inr (declarativeToImporter doc)"
  proof (rule merge_one)
    show "\<forall>s\<in>set (dd_Servers (declarativeToImporter doc)). TrimSpace (ds_Name s) \<noteq> []"
      using du by (auto simp: doc declarativeToImporter_def declServerOf_def trimmed_def)
  qed (use names tables funs in \<open>simp_all add: doc declarativeToImporter_def declServerOf_def plainTable_def
    plainFunction_def tableKey_def functionKey_def comp_def image_image\<close>)
  moreover have "declarativeFromImporter (declarativeToImporter doc) = doc"
    by (rule bridge_id) (simp add: doc declServerOf_def)
  ultimately show ?thesis by blast
qed



text \<open>A store with a server that has a credential, and a table of that server.\<close>

definition storeWithSecret :: "unit fileStore" where
  "storeWithSecret =
     snd (CreateTable storeEnv tableRequest (snd (CreateServer storeEnv (serverRequest\<lparr>csr_CredentialRef := Some 1\<rparr>)
       (snd (CreateCredential storeEnv ''c'' [(''dsn'', VStr ''x'')] (emptyStore 0 ()))))))"

definition writtenFile :: "declarativeDoc \<Rightarrow> yamlFile" where
  "writtenFile doc =
     \<lparr>yf_blank = False,
      yf_probe = Inr \<lparr>yp_Credentials = [], yp_Servers = [(uuidNil, ''postgres'', MappingNode)], yp_Tables = [(''pg'', uuidNil)],
        yp_Functions = []\<rparr>,
      yf_doc = Inr doc, yf_snapshot = Inl (Errorf ''not a snapshot'')\<rparr>"

lemma reach_storeWithSecret: "storeReach storeEnv ok storeWithSecret"
  unfolding storeWithSecret_def
  by (intro reach_step [OF _ step_CreateTable] reach_step [OF _ step_CreateServer] reach_step [OF _ step_CreateCredential] reach_start)

lemma storeWithSecret_cred:
  "map (serverCred (fe_vault storeEnv) (sn_Credentials (st_data storeWithSecret))) (sn_Servers (st_data storeWithSecret)) =
     [Some [(''dsn'', VStr ''x'')]]"
  by code_simp


text \<open>
  A credential that two servers share does not survive: it is written at the top of the document and
  referred to by name, and the names are dropped on the way to the importer's form.
\<close>

definition storeWithShared :: "unit fileStore" where
  "storeWithShared =
     snd (CreateServer storeEnv (serverRequest\<lparr>csr_Name := ''pg2'', csr_CredentialRef := Some 1\<rparr>) storeWithSecret)"

lemma shared_credential_lost:
  "map svr_CredentialRef (sn_Servers (st_data storeWithShared)) = [Some 1, Some 1]"
  "(case decompileDeclarative (fe_uuidText storeEnv) (fe_vault storeEnv) (st_data storeWithShared) of
      Inl e \<Rightarrow> False
    | Inr doc \<Rightarrow> map svr_CredentialRef (sn_Servers (st_data (snd (loadStore storeEnv [writtenFile doc] (emptyStore 7 ()))))) = [None, None])"
  by code_simp+

end
