(* ===== verification/CacheFacts.thy ===== *)
theory CacheFacts
  imports StoreProperties
begin

text \<open>
  The metadata cache of the engine over any history of calls: what \<open>resolveTable\<close> answers is what the store answers
  now, or what it answered to an earlier call with the same revision that is no older than the time to live. The revision
  covers neither columns nor the contents of tables, so no more than that holds (\<open>resolveTable_stale\<close> in \<open>Engine\<close>).
\<close>

section \<open>Stores that can be read\<close>

text \<open>Reading leaves the world alone.\<close>

definition reads :: "('w, err, 'a) comp \<Rightarrow> bool" where
  "reads m \<longleftrightarrow> (\<forall>w. snd (m w) = w)"

definition storeReads :: "'w store \<Rightarrow> bool" where
  "storeReads st \<longleftrightarrow>
     reads (st_ListServers st) \<and> reads (st_ListTables st) \<and> reads (st_ListFunctions st) \<and>
     (\<forall>schema table. reads (st_ResolveTable st schema table))"

lemma reads_D: "reads m \<Longrightarrow> m w = (r, w') \<Longrightarrow> w' = w"
  unfolding reads_def by (metis snd_conv)

lemma reads_bind [intro]:
  assumes "reads m" "\<And>x. reads (f x)" shows "reads (bindC m f)"
  unfolding reads_def
proof
  fix w
  obtain r w1 where m: "m w = (r, w1)" by fastforce
  with reads_D [OF assms(1)] have "w1 = w" by simp
  with m assms(2) show "snd (bindC m f w) = w" by (cases r) (simp_all add: bindC_def reads_def)
qed

lemma reads_ret [simp]: "reads (retC x)"
  by (simp add: reads_def retC_def)

lemma reads_readData [simp]: "reads (readData f)"
  by (simp add: reads_def readData_def)

lemma storeRevision_reads: "storeReads st \<Longrightarrow> reads (storeRevision hv st)"
  unfolding storeReads_def storeRevision_def by (intro reads_bind reads_ret) simp_all

text \<open>The file store reads what it holds in memory.\<close>

lemma fileStore_reads: "storeReads (fileMetaStore env)"
  by (simp add: storeReads_def fileMetaStore_def ListServers_def ListTables_def ListFunctions_def ResolveTable_def)

section \<open>Histories\<close>

text \<open>
  An engine after some calls. The log has for every call of \<open>resolveTable\<close>, the last one first, the world it was made in,
  the names and the answer. Calls of \<open>resolveFunction\<close> come in between, and anything that leaves the cache alone: the
  admin API, the clock, other processes, and drivers.
\<close>

inductive cacheRun ::
  "'w engineEnv \<Rightarrow> int \<Rightarrow> ('w \<times> string \<times> string \<times> (err + ResolvedTable)) list \<Rightarrow> 'w eng \<Rightarrow> bool"
  for env ttl
where
  run_start: "eg_meta s = newMetaCache ttl \<Longrightarrow> cacheRun env ttl [] s"
| run_outside: "cacheRun env ttl log s \<Longrightarrow> eg_meta s' = eg_meta s \<Longrightarrow> cacheRun env ttl log s'"
| run_table: "cacheRun env ttl log s \<Longrightarrow> resolveTable env schema table s = (r, s') \<Longrightarrow>
    cacheRun env ttl ((eg_world s, schema, table, r) # log) s'"
| run_function: "cacheRun env ttl log s \<Longrightarrow> resolveFunction env schema name s = (r, s') \<Longrightarrow> cacheRun env ttl log s'"

text \<open>An entry of the cache is the answer to a call of the log.\<close>

definition entryFrom ::
  "'w engineEnv \<Rightarrow> ('w \<times> string \<times> string \<times> (err + ResolvedTable)) list \<Rightarrow> metaCache \<Rightarrow> string \<Rightarrow> ResolvedTable metaCacheEntry \<Rightarrow> bool"
where
  "entryFrom env log c k e \<longleftrightarrow>
     (\<exists>w schema table. k = metaCacheKey schema table \<and> (w, schema, table, Inr (me_value e)) \<in> set log \<and>
        fst (st_ResolveTable (ee_store env) schema table w) = Inr (me_value e) \<and>
        fst (storeRevision (ee_hash env) (ee_store env) w) = Inr (mc_rev c) \<and> me_expires e = ee_now env w + mc_ttl c)"

definition cacheFrom :: "'w engineEnv \<Rightarrow> int \<Rightarrow> ('w \<times> string \<times> string \<times> (err + ResolvedTable)) list \<Rightarrow> metaCache option \<Rightarrow> bool" where
  "cacheFrom env ttl log m \<longleftrightarrow>
     (case m of
        None \<Rightarrow> ttl \<le> 0
      | Some c \<Rightarrow> 0 < ttl \<and> mc_ttl c = ttl \<and> (\<forall>k e. map_of (mc_tables c) k = Some e \<longrightarrow> entryFrom env log c k e))"

lemma entryFrom_more: "entryFrom env log c k e \<Longrightarrow> entryFrom env (x # log) c k e"
  unfolding entryFrom_def by (metis list.set_intros(2))

lemma cacheFrom_more: "cacheFrom env ttl log m \<Longrightarrow> cacheFrom env ttl (x # log) m"
  by (auto simp: cacheFrom_def entryFrom_more split: option.splits)

lemma cacheFrom_revision: "cacheFrom env ttl log m \<Longrightarrow> cacheFrom env ttl log (map_option (setRevision v) m)"
  by (auto simp: cacheFrom_def setRevision_def split: option.splits)

lemma cacheFrom_function:
  "cacheFrom env ttl log m \<Longrightarrow> cacheFrom env ttl log (map_option (putFunction now schema name rf) m)"
  by (auto simp: cacheFrom_def putFunction_def entryFrom_def split: option.splits)

lemma cacheFrom_put:
  assumes "cacheFrom env ttl log (Some c)" "fst (st_ResolveTable (ee_store env) schema table w) = Inr rt"
    and "fst (storeRevision (ee_hash env) (ee_store env) w) = Inr (mc_rev c)"
  shows "cacheFrom env ttl ((w, schema, table, Inr rt) # log) (Some (putTable (ee_now env w) schema table rt c))"
proof -
  let ?c = "putTable (ee_now env w) schema table rt c" and ?log = "(w, schema, table, Inr rt) # log"
  have c: "mc_rev ?c = mc_rev c" "mc_ttl ?c = mc_ttl c" by (simp_all add: putTable_def)
  have "entryFrom env ?log ?c (metaCacheKey schema table) \<lparr>me_value = rt, me_expires = ee_now env w + mc_ttl c\<rparr>"
    unfolding entryFrom_def c using assms(2,3) by (intro exI [of _ w] exI [of _ schema] exI [of _ table]) simp
  moreover have "entryFrom env ?log ?c k e" if "map_of (mc_tables c) k = Some e" for k e
  proof -
    from assms(1) that have "entryFrom env log c k e" by (simp add: cacheFrom_def)
    from entryFrom_more [OF this] show ?thesis unfolding entryFrom_def c .
  qed
  ultimately show ?thesis
    using assms(1) by (auto simp: cacheFrom_def putTable_def cachePut_def update_conv' split: if_splits)
qed

text \<open>What syncing does in a store that can be read.\<close>

lemma syncRevision_reads:
  assumes "storeReads (ee_store env)" "syncRevision env s = (r, s1)"
  shows "eg_world s1 = eg_world s \<and>
    (r = Inr () \<and> (\<exists>v. fst (storeRevision (ee_hash env) (ee_store env) (eg_world s)) = Inr v \<and>
        eg_meta s1 = map_option (setRevision v) (eg_meta s)) \<or>
     (\<exists>e. r = Inl e \<and> fst (storeRevision (ee_hash env) (ee_store env) (eg_world s)) = Inl e \<and> eg_meta s1 = eg_meta s))"
proof -
  obtain q w where q: "storeRevision (ee_hash env) (ee_store env) (eg_world s) = (q, w)" by fastforce
  with reads_D [OF storeRevision_reads [OF assms(1)]] have "w = eg_world s" by blast
  with q assms(2) show ?thesis by (cases q) (auto simp: syncRevision_def bindC_def inWorld_def)
qed

lemma cacheFrom_sync:
  assumes "storeReads (ee_store env)" "syncRevision env s = (r, s1)" "cacheFrom env ttl log (eg_meta s)"
  shows "cacheFrom env ttl log (eg_meta s1)"
  using syncRevision_reads [OF assms(1,2)] assms(3) cacheFrom_revision by metis

text \<open>A call resolves in the cache or in the store; either way its answer is justified and the invariant goes on.\<close>

definition justified ::
  "'w engineEnv \<Rightarrow> int \<Rightarrow> ('w \<times> string \<times> string \<times> (err + ResolvedTable)) list \<Rightarrow> string \<Rightarrow> string \<Rightarrow> 'w \<Rightarrow> err + ResolvedTable \<Rightarrow> bool"
where
  "justified env ttl log schema table now r \<longleftrightarrow>
     (case r of
        Inl e \<Rightarrow> fst (st_ResolveTable (ee_store env) schema table now) = Inl e \<or>
                 fst (storeRevision (ee_hash env) (ee_store env) now) = Inl e
      | Inr rt \<Rightarrow>
          fst (st_ResolveTable (ee_store env) schema table now) = Inr rt \<or>
          (\<exists>w. (w, schema, table, Inr rt) \<in> set log \<and> fst (st_ResolveTable (ee_store env) schema table w) = Inr rt \<and>
             fst (storeRevision (ee_hash env) (ee_store env) w) = fst (storeRevision (ee_hash env) (ee_store env) now) \<and>
             ee_now env now \<le> ee_now env w + ttl))"

definition noNul :: "('w \<times> string \<times> string \<times> (err + ResolvedTable)) list \<Rightarrow> bool" where
  "noNul log \<longleftrightarrow> (\<forall>(w, schema, table, r) \<in> set log. char_of (0 :: nat) \<notin> set schema)"

lemma cache_hit:
  assumes "cacheFrom env ttl log (Some c)" "getTable c (ee_now env w) schema table = Some rt"
    and "fst (storeRevision (ee_hash env) (ee_store env) w) = Inr (mc_rev c)"
    and "noNul log" "char_of (0 :: nat) \<notin> set schema"
  shows "justified env ttl log schema table w (Inr rt)"
proof -
  obtain e where e: "map_of (mc_tables c) (metaCacheKey schema table) = Some e" "rt = me_value e" "ee_now env w \<le> me_expires e"
    using assms(2) by (auto simp: getTable_def cacheGet_def split: option.splits if_splits)
  with assms(1) have "entryFrom env log c (metaCacheKey schema table) e" "mc_ttl c = ttl" by (auto simp: cacheFrom_def)
  then obtain w' schema' table' where w': "metaCacheKey schema table = metaCacheKey schema' table'"
    "(w', schema', table', Inr rt) \<in> set log" "fst (st_ResolveTable (ee_store env) schema' table' w') = Inr rt"
    "fst (storeRevision (ee_hash env) (ee_store env) w') = Inr (mc_rev c)" "me_expires e = ee_now env w' + ttl"
    using e(2) unfolding entryFrom_def by auto
  have "char_of (0 :: nat) \<notin> set schema'" using assms(4) w'(2) by (auto simp: noNul_def)
  with metaCacheKey_inj [OF assms(5) _ w'(1)] have "schema' = schema" "table' = table" by simp_all
  with w' e(3) assms(3) show ?thesis by (auto simp: justified_def)
qed

lemma resolveTable_step:
  assumes "storeReads (ee_store env)" "cacheFrom env ttl log (eg_meta s)" "resolveTable env schema table s = (r, s')"
    and "noNul log" "char_of (0 :: nat) \<notin> set schema"
  shows "eg_world s' = eg_world s" "cacheFrom env ttl ((eg_world s, schema, table, r) # log) (eg_meta s')"
    "justified env ttl log schema table (eg_world s) r"
proof -
  let ?w = "eg_world s"
  obtain q w1 where q: "st_ResolveTable (ee_store env) schema table ?w = (q, w1)" by fastforce
  have "reads (st_ResolveTable (ee_store env) schema table)" using assms(1) by (simp add: storeReads_def)
  from reads_D [OF this q] have w1: "w1 = ?w" .
  have "eg_world s' = ?w \<and> cacheFrom env ttl ((?w, schema, table, r) # log) (eg_meta s') \<and> justified env ttl log schema table ?w r"
  proof (cases "eg_meta s")
    case None
    with assms(2,3) q w1 show ?thesis
      by (auto simp: resolveTable_def resolveVia_def inWorld_def justified_def cacheFrom_more split: sum.split)
  next
    case (Some c)
    obtain p s1 where p: "syncRevision env s = (p, s1)" by fastforce
    note sync = syncRevision_reads [OF assms(1) p]
    note inv = cacheFrom_sync [OF assms(1) p assms(2)]
    show ?thesis
    proof (cases p)
      case (Inl e)
      with assms(3) Some p have "r = Inl e" "s' = s1" by (simp_all add: resolveTable_def resolveVia_def)
      with sync Inl inv show ?thesis by (auto simp: justified_def intro: cacheFrom_more)
    next
      case (Inr u)
      with sync obtain v where v: "fst (storeRevision (ee_hash env) (ee_store env) ?w) = Inr v"
        "eg_meta s1 = Some (setRevision v c)" "eg_world s1 = ?w" using Some by auto
      have rv: "mc_rev (setRevision v c) = v" by (simp add: setRevision_def)
      show ?thesis
      proof (cases "getTable (setRevision v c) (ee_now env ?w) schema table")
        case hit: (Some rt)
        with assms(3) Some p Inr v have "r = Inr rt" "s' = s1" by (simp_all add: resolveTable_def resolveVia_def)
        with cache_hit [OF inv [unfolded v(2)] hit _ assms(4,5)] v rv inv show ?thesis by (simp add: cacheFrom_more)
      next
        case miss: None
        show ?thesis
        proof (cases q)
          case (Inl e)
          with assms(3) Some p Inr v miss q w1 have "r = Inl e" "s' = s1\<lparr>eg_world := ?w\<rparr>"
            by (simp_all add: resolveTable_def resolveVia_def inWorld_def)
          with inv Inl q v(3) show ?thesis by (simp add: justified_def cacheFrom_more)
        next
          case (Inr rt)
          let ?c = "putTable (ee_now env ?w) schema table rt (setRevision v c)"
          from assms(3) Some p \<open>p = Inr u\<close> v miss q w1 Inr have r: "r = Inr rt" "s' = s1\<lparr>eg_world := ?w, eg_meta := Some ?c\<rparr>"
            by (simp_all add: resolveTable_def resolveVia_def inWorld_def)
          have "cacheFrom env ttl ((?w, schema, table, Inr rt) # log) (Some ?c)"
            using cacheFrom_put [OF inv [unfolded v(2)], of schema table ?w rt] v(1) q rv Inr by simp
          with r q v(3) Inr show ?thesis by (simp add: justified_def)
        qed
      qed
    qed
  qed
  then show "eg_world s' = ?w" "cacheFrom env ttl ((?w, schema, table, r) # log) (eg_meta s')"
    "justified env ttl log schema table ?w r" by simp_all
qed

lemma resolveFunction_step:
  assumes "storeReads (ee_store env)" "cacheFrom env ttl log (eg_meta s)" "resolveFunction env schema name s = (r, s')"
  shows "cacheFrom env ttl log (eg_meta s')"
proof (cases "eg_meta s")
  case None
  with assms(2,3) show ?thesis by (auto simp: resolveFunction_def resolveVia_def inWorld_def split: prod.splits)
next
  case (Some c)
  obtain p s1 where p: "syncRevision env s = (p, s1)" by fastforce
  note sync = cacheFrom_sync [OF assms(1) p assms(2)]
  with cacheFrom_function [OF sync] show ?thesis
    using assms(3) Some p
    by (auto simp: resolveFunction_def resolveVia_def inWorld_def split: sum.splits option.splits prod.splits)
qed

lemma cacheRun_inv: "cacheRun env ttl log s \<Longrightarrow> storeReads (ee_store env) \<Longrightarrow> noNul log \<Longrightarrow> cacheFrom env ttl log (eg_meta s)"
proof (induction rule: cacheRun.induct)
  case (run_start s)
  then show ?case by (simp add: newMetaCache_def cacheFrom_def)
next
  case (run_table log s schema table r s')
  then have "noNul log" "char_of (0 :: nat) \<notin> set schema" by (simp_all add: noNul_def)
  with run_table resolveTable_step(2) show ?case by blast
next
  case (run_function log s schema name r s')
  with resolveFunction_step show ?case by blast
qed simp

section \<open>Properties\<close>


text \<open>An engine over the file store that has resolved a table, after which the columns of the table are deleted.\<close>

definition cachedEnv :: "unit fileStore engineEnv" where
  "cachedEnv =
     \<lparr>ee_store = fileMetaStore storeEnv, ee_factories = [], ee_close = (\<lambda>_ w. w), ee_now = (\<lambda>_. 0),
      ee_hash = \<lparr>hv_time = decInt, hv_raw = (\<lambda>_. []), hv_uuid = decNat, hv_sum = (\<lambda>s. s)\<rparr>\<rparr>"

definition afterCall :: "unit fileStore eng" where
  "afterCall = snd (resolveTable cachedEnv ''public'' ''users'' (NewEngine 5 60 100 storeWithTable))"

definition withoutColumns :: "unit fileStore" where
  "withoutColumns = storeWithTable\<lparr>st_data := (st_data storeWithTable)\<lparr>sn_Columns := []\<rparr>\<rparr>"


end
