(* ===== verification/SqlImport.thy ===== *)
theory SqlImport
  imports Declarative
begin

text \<open>
  The import of SQL schemas (\<open>internal/importer/sql.go\<close>): a scanner that finds \<open>CREATE TABLE\<close> statements and
  turns their column lists into a declarative document. The regular expression that finds a statement is
  written out as a matcher; the scanning loops keep the source's three quote flags and its depth counter,
  which may become negative.
\<close>

datatype SQLDialect = DialectNone | DialectPG | DialectMy | DialectLite

definition ParseSQLDialect :: "string \<Rightarrow> err + SQLDialect" where
  "ParseSQLDialect s =
     (let d = ToLower (TrimSpace s)
      in if d \<in> {''postgres'', ''pg'', ''postgresql''} then Inr DialectPG
         else if d \<in> {''mysql'', ''maria'', ''mariadb''} then Inr DialectMy
         else if d \<in> {''sqlite'', ''sqlite3''} then Inr DialectLite
         else Inl (Errorf (''unsupported sql dialect '' @ quoteGo s @ '' (use postgres, mysql, or sqlite)'')))"

record SQLOptions =
  so_ServerName :: string
  so_Schema :: string
  so_Dialect :: SQLDialect

record parsedColumn =
  pc_Name :: string
  pc_DataType :: string
  pc_Nullable :: bool
  pc_Primary :: bool

record parsedTable =
  pt_Schema :: string
  pt_Name :: string
  pt_KeyColumns :: "string list"
  pt_Columns :: "parsedColumn list"

section \<open>Finding a statement\<close>

text \<open>The pieces of \<open>(?is)CREATE\s+TABLE\s+(?:IF\s+NOT\s+EXISTS\s+)?\<close>: a word up to case, and one or more spaces.\<close>

definition isReSpace :: "char \<Rightarrow> bool" where
  "isReSpace c \<longleftrightarrow> c \<in> {CHR 0x09, CHR 0x0A, CHR 0x0C, CHR 0x0D, CHR 0x20}"

definition matchWord :: "string \<Rightarrow> string \<Rightarrow> string option" where
  "matchWord w s = (if HasPrefix (ToUpper s) w then Some (drop (length w) s) else None)"

definition matchSpaces :: "string \<Rightarrow> string option" where
  "matchSpaces s = (case s of c # r \<Rightarrow> if isReSpace c then Some (dropWhile isReSpace r) else None | [] \<Rightarrow> None)"

definition matchWordSpaces :: "string \<Rightarrow> string \<Rightarrow> string option" where
  "matchWordSpaces w s = Option.bind (matchWord w s) matchSpaces"

definition matchCreate :: "string \<Rightarrow> string option" where
  "matchCreate s =
     Option.bind (matchWordSpaces ''CREATE'' s) (\<lambda>s1.
     Option.bind (matchWordSpaces ''TABLE'' s1) (\<lambda>s2.
       Some (case Option.bind (matchWordSpaces ''IF'' s2) (\<lambda>s3.
                    Option.bind (matchWordSpaces ''NOT'' s3) (matchWordSpaces ''EXISTS'')) of
               Some s5 \<Rightarrow> s5
             | None \<Rightarrow> s2)))"

text \<open>What follows the first match, \<open>None\<close> when there is none.\<close>

fun findCreate :: "string \<Rightarrow> string option" where
  "findCreate [] = None"
| "findCreate (c # s) = (case matchCreate (c # s) of Some r \<Rightarrow> Some r | None \<Rightarrow> findCreate s)"

section \<open>Quotes\<close>

record quotes =
  inSingle :: bool
  inDouble :: bool
  inBacktick :: bool

definition noQuotes :: quotes where
  "noQuotes = \<lparr>inSingle = False, inDouble = False, inBacktick = False\<rparr>"

text \<open>A quote character that is not itself quoted switches its flag.\<close>

definition toggle :: "char \<Rightarrow> quotes \<Rightarrow> quotes option" where
  "toggle ch q =
     (if ch = CHR 0x27 \<and> \<not> inDouble q \<and> \<not> inBacktick q then Some (q\<lparr>inSingle := \<not> inSingle q\<rparr>)
      else if ch = CHR 0x22 \<and> \<not> inSingle q \<and> \<not> inBacktick q then Some (q\<lparr>inDouble := \<not> inDouble q\<rparr>)
      else if ch = CHR 0x60 \<and> \<not> inSingle q \<and> \<not> inDouble q then Some (q\<lparr>inBacktick := \<not> inBacktick q\<rparr>)
      else None)"

definition unquoted :: "quotes \<Rightarrow> bool" where
  "unquoted q \<longleftrightarrow> \<not> inSingle q \<and> \<not> inDouble q \<and> \<not> inBacktick q"

section \<open>Statements\<close>

text \<open>The loop of \<open>extractStatement\<close>; \<open>seen\<close> is what was read, last byte first.\<close>

fun extractLoop :: "int \<Rightarrow> quotes \<Rightarrow> string \<Rightarrow> string \<Rightarrow> (string \<times> string) option" where
  "extractLoop depth q seen [] = (if depth = 0 then Some (TrimSpace (rev seen), []) else None)"
| "extractLoop depth q seen (ch # s) =
     (case toggle ch q of
        Some q' \<Rightarrow> extractLoop depth q' (ch # seen) s
      | None \<Rightarrow>
          if unquoted q then
            (if ch = CHR ''('' then extractLoop (depth + 1) q (ch # seen) s
             else if ch = CHR '')'' then extractLoop (depth - 1) q (ch # seen) s
             else if ch = CHR '';'' \<and> depth = 0 then Some (TrimSpace (rev seen), TrimSpace s)
             else extractLoop depth q (ch # seen) s)
          else extractLoop depth q (ch # seen) s)"

definition extractStatement :: "string \<Rightarrow> (string \<times> string) option" where
  "extractStatement s = extractLoop 0 noQuotes [] s"

section \<open>Columns\<close>

fun chunkLoop :: "int \<Rightarrow> quotes \<Rightarrow> string \<Rightarrow> string \<Rightarrow> string list" where
  "chunkLoop depth q cur [] = (let tl = TrimSpace (rev cur) in if tl \<noteq> [] then [tl] else [])"
| "chunkLoop depth q cur (ch # s) =
     (case toggle ch q of
        Some q' \<Rightarrow> chunkLoop depth q' (ch # cur) s
      | None \<Rightarrow>
          if unquoted q then
            (if ch = CHR ''('' then chunkLoop (depth + 1) q (ch # cur) s
             else if ch = CHR '')'' then chunkLoop (depth - 1) q (ch # cur) s
             else if ch = CHR '','' \<and> depth = 0 then rev cur # chunkLoop depth q [] s
             else chunkLoop depth q (ch # cur) s)
          else chunkLoop depth q (ch # cur) s)"

definition splitColumnChunks :: "string \<Rightarrow> string list" where
  "splitColumnChunks body = chunkLoop 0 noQuotes [] body"

definition extractFirstIdentifier :: "string \<Rightarrow> string" where
  "extractFirstIdentifier s0 =
     (let s = TrimSpace s0
      in case s of
           [] \<Rightarrow> []
         | c # r \<Rightarrow>
             if c = CHR 0x60 \<or> c = CHR 0x22 then
               (case Index r [c] of Some e \<Rightarrow> take (e + 2) s | None \<Rightarrow> s)
             else (case Fields s of [] \<Rightarrow> [] | f # _ \<Rightarrow> f))"

definition extractDataType :: "string \<Rightarrow> string" where
  "extractDataType rest =
     (case Fields (TrimSpace rest) of
        [] \<Rightarrow> ''text''
      | typ # fs \<Rightarrow>
          if (case fs of f # _ \<Rightarrow> EqualFold typ ''character'' \<and> EqualFold f ''varying'' | [] \<Rightarrow> False) then ''varchar''
          else if Contains typ ''('' then hd (Split typ (CHR ''('')) else typ)"

definition normalizeDataType :: "string \<Rightarrow> string" where
  "normalizeDataType t0 =
     (let t = ToLower (TrimSpace t0)
      in if t \<in> {''int'', ''integer'', ''int4'', ''serial'', ''bigserial'', ''smallint'', ''mediumint'', ''tinyint'',
            ''bigint'', ''int8'', ''int2''} then ''integer''
         else if t \<in> {''bool'', ''boolean''} then ''boolean''
         else if t \<in> {''float'', ''float4'', ''float8'', ''double'', ''real'', ''decimal'', ''numeric''} then ''numeric''
         else if t \<in> {''timestamp'', ''timestamptz'', ''datetime'', ''date'', ''time''} then ''timestamp''
         else if t = ''uuid'' then ''uuid''
         else if t \<in> {''json'', ''jsonb''} then ''json''
         else if t \<in> {''bytea'', ''blob'', ''binary''} then ''binary''
         else ''text'')"

definition quoteMarks :: string where
  "quoteMarks = [CHR 0x60, CHR 0x22]"

definition emptyColumn :: parsedColumn where
  "emptyColumn = \<lparr>pc_Name = [], pc_DataType = [], pc_Nullable = False, pc_Primary = False\<rparr>"

definition parseColumnLine :: "string \<Rightarrow> parsedColumn" where
  "parseColumnLine line0 =
     (let line = TrimSpace line0
      in if line = [] then emptyColumn
         else let name = extractFirstIdentifier line
              in if name = [] then emptyColumn
                 else let rest = TrimSpace (drop (length name) line);
                          name = (if HasPrefix name [CHR 0x60] \<or> HasPrefix name [CHR 0x22] then Trim name quoteMarks else name);
                          upper = ToUpper rest;
                          dataType = extractDataType rest;
                          primary = (Contains upper ''PRIMARY KEY'' \<or> EqualFold dataType ''serial'' \<or> EqualFold dataType ''bigserial'')
                      in \<lparr>pc_Name = name, pc_DataType = normalizeDataType dataType,
                          pc_Nullable = (\<not> Contains upper ''NOT NULL'' \<and> \<not> primary), pc_Primary = primary\<rparr>)"

definition extractKeyColumns :: "string \<Rightarrow> string list" where
  "extractKeyColumns line =
     (case (Index line ''('', LastIndex line '')'') of
        (Some start, Some e) \<Rightarrow>
          if e \<le> start then []
          else filter (\<lambda>p. p \<noteq> [])
                 (map (\<lambda>p. Trim (TrimSpace p) quoteMarks)
                   (Split (take (e - start - 1) (drop (start + 1) line)) (CHR '','')))
      | _ \<Rightarrow> [])"

definition constraintWords :: "string list" where
  "constraintWords = [''UNIQUE'', ''CONSTRAINT'', ''FOREIGN KEY'', ''CHECK'', ''INDEX'', ''KEY '']"

text \<open>The loop over the chunks: columns, and the keys of the last \<open>PRIMARY KEY\<close> clause.\<close>

fun columnLoop :: "string list \<Rightarrow> parsedColumn list \<Rightarrow> string list \<Rightarrow> parsedColumn list \<times> string list" where
  "columnLoop [] cols keys = (cols, keys)"
| "columnLoop (chunk0 # chunks) cols keys =
     (let chunk = TrimSpace chunk0; upper = ToUpper chunk
      in if chunk = [] then columnLoop chunks cols keys
         else if HasPrefix upper ''PRIMARY KEY'' then columnLoop chunks cols (extractKeyColumns chunk)
         else if list_ex (HasPrefix upper) constraintWords then columnLoop chunks cols keys
         else let col = parseColumnLine chunk
              in columnLoop chunks (if pc_Name col \<noteq> [] then cols @ [col] else cols) keys)"

definition parseColumnDefinitions :: "string \<Rightarrow> parsedColumn list \<times> string list" where
  "parseColumnDefinitions body = columnLoop (splitColumnChunks body) [] []"

section \<open>Tables\<close>

definition splitQualifiedName :: "string \<Rightarrow> SQLDialect \<Rightarrow> string \<Rightarrow> string \<times> string" where
  "splitQualifiedName raw0 dialect defaultSchema =
     (let raw = Trim (TrimSpace raw0) quoteMarks
      in if dialect = DialectMy then
           (case LastIndex raw ''.'' of
              Some i \<Rightarrow> (Trim (take i raw) quoteMarks, Trim (drop (i + 1) raw) quoteMarks)
            | None \<Rightarrow> (defaultSchema, raw))
         else (case Index raw ''.'' of
                 Some i \<Rightarrow> (Trim (take i raw) [CHR 0x22], Trim (drop (i + 1) raw) [CHR 0x22])
               | None \<Rightarrow> (defaultSchema, Trim raw [CHR 0x22])))"

text \<open>A table without a name stands for a statement that is skipped.\<close>

definition noTable :: parsedTable where
  "noTable = \<lparr>pt_Schema = [], pt_Name = [], pt_KeyColumns = [], pt_Columns = []\<rparr>"

definition parseOneCreateTable :: "string \<Rightarrow> SQLDialect \<Rightarrow> string \<Rightarrow> err + parsedTable" where
  "parseOneCreateTable stmt0 dialect defaultSchema =
     (let stmt = TrimSpace stmt0; parts = Fields stmt
      in if length parts < 3 then Inr noTable
         else (case Index stmt ''('' of
                 None \<Rightarrow> Inr noTable
               | Some bodyStart \<Rightarrow>
                   let (schema, name) = splitQualifiedName (hd parts) dialect defaultSchema;
                       body = drop (bodyStart + 1) stmt
                   in case LastIndex body '')'' of
                        None \<Rightarrow> Inl (Errorf (''sql: unclosed column list for table '' @ quoteGo name))
                      | Some bodyEnd \<Rightarrow>
                          let (cols, tableKeys) = parseColumnDefinitions (take bodyEnd body)
                          in Inr \<lparr>pt_Schema = schema, pt_Name = name,
                                  pt_KeyColumns = (if tableKeys = [] then map pc_Name (filter pc_Primary cols) else tableKeys),
                                  pt_Columns = cols\<rparr>))"

text \<open>The loop of \<open>parseCreateTables\<close>, which ends when no statement is left or the last one is not closed.\<close>

partial_function (option) createLoop ::
  "SQLDialect \<Rightarrow> string \<Rightarrow> parsedTable list \<Rightarrow> string \<Rightarrow> (err + parsedTable list) option"
where
  [code]: "createLoop dialect defaultSchema out rest =
     (case findCreate rest of
        None \<Rightarrow> Some (Inr out)
      | Some rest1 \<Rightarrow>
          (case extractStatement rest1 of
             None \<Rightarrow> Some (Inr out)
           | Some (stmt, remainder) \<Rightarrow>
               (case parseOneCreateTable stmt dialect defaultSchema of
                  Inl e \<Rightarrow> Some (Inl e)
                | Inr tbl \<Rightarrow>
                    createLoop dialect defaultSchema (if pt_Name tbl \<noteq> [] then out @ [tbl] else out) remainder)))"

definition parseCreateTables :: "string \<Rightarrow> SQLDialect \<Rightarrow> string \<Rightarrow> (err + parsedTable list) option" where
  "parseCreateTables content dialect defaultSchema = createLoop dialect defaultSchema [] content"

section \<open>Documents\<close>

definition serverTemplate :: "SQLDialect \<Rightarrow> string \<Rightarrow> string \<times> row \<times> row" where
  "serverTemplate d schema =
     (let opts = [(''schema'', VStr schema)];
          fields = [(''host'', VStr ''${DB_HOST}''), (''port'', VStr ''${DB_PORT}''), (''username'', VStr ''${DB_USER}''),
                    (''password'', VStr ''${DB_PASSWORD}''), (''database'', VStr ''${DB_NAME}'')]
      in case d of
           DialectPG \<Rightarrow> (''postgres'', fields, opts)
         | DialectMy \<Rightarrow> (''mysql'', fields, opts)
         | DialectLite \<Rightarrow> (''sqlite'', [(''dsn'', VStr ''${SQLITE_DSN}'')], opts)
         | DialectNone \<Rightarrow> (''postgres'', [], opts))"

definition sqlColumn :: "nat \<Rightarrow> parsedColumn \<Rightarrow> DeclColumn" where
  "sqlColumn i c =
     \<lparr>dcl_Name = pc_Name c, dcl_DataType = pc_DataType c, dcl_RemoteName = [], dcl_Nullable = Some (pc_Nullable c),
      dcl_Position = int i\<rparr>"

definition sqlTable :: "string \<Rightarrow> parsedTable \<Rightarrow> DeclTable" where
  "sqlTable serverName tbl =
     \<lparr>dt_Server = serverName, dt_Schema = pt_Schema tbl, dt_Name = pt_Name tbl, dt_RemoteName = pt_Name tbl,
      dt_KeyColumns =
        (case (pt_KeyColumns tbl, pt_Columns tbl) of
           ([], c # _) \<Rightarrow> [pc_Name c]
         | (ks, _) \<Rightarrow> ks),
      dt_Options = [],
      dt_Columns = map (\<lambda>(i, c). sqlColumn i c) (zip [0..<length (pt_Columns tbl)] (pt_Columns tbl))\<rparr>"

definition SQLToDeclarative :: "string \<Rightarrow> SQLOptions \<Rightarrow> (err + DeclarativeDoc) option" where
  "SQLToDeclarative content opts =
     (if so_Dialect opts = DialectNone then Some (Inl (Errorf ''sql dialect is required (postgres, mysql, or sqlite)''))
      else let serverName = (if TrimSpace (so_ServerName opts) = [] then ''imported_db'' else TrimSpace (so_ServerName opts));
               defaultSchema = (if TrimSpace (so_Schema opts) = [] then ''public'' else TrimSpace (so_Schema opts));
               (protocol, cred, serverOpts) = serverTemplate (so_Dialect opts) defaultSchema
           in map_option (\<lambda>r.
                (case r of
                   Inl e \<Rightarrow> Inl e
                 | Inr [] \<Rightarrow> Inl (Errorf ''sql: no CREATE TABLE statements found'')
                 | Inr tbls \<Rightarrow>
                     Inr \<lparr>dd_Credentials = [],
                          dd_Servers = [\<lparr>ds_Name = serverName, ds_Protocol = protocol, ds_Credential = cred,
                                         ds_Enabled = Some True, ds_Options = serverOpts\<rparr>],
                          dd_Tables = map (sqlTable serverName) tbls, dd_Functions = []\<rparr>))
                (parseCreateTables content (so_Dialect opts) defaultSchema))"

end
