(* ===== verification/OpenApiImport.thy ===== *)
theory OpenApiImport
  imports Declarative
begin

text \<open>
  The import of OpenAPI documents (\<open>internal/importer/openapi.go\<close>). What the YAML and JSON libraries decode from
  a text is a parameter; the paths and the security schemes are Go maps, visited in the order of their list.
\<close>

record importOpenAPIOptions =
  oo_ServerName :: string
  oo_Endpoint :: string

record oasOperation =
  op_OperationID :: string
  op_Summary :: string

record oasPathItem =
  pi_Get :: "oasOperation option"
  pi_Post :: "oasOperation option"
  pi_Put :: "oasOperation option"
  pi_Patch :: "oasOperation option"
  pi_Delete :: "oasOperation option"

record oasSecurityScheme =
  ss_Type :: string
  ss_In :: string
  ss_Name :: string
  ss_Scheme :: string

record oasDoc =
  oas_OpenAPI :: string
  oas_Servers :: "string list"
  oas_Paths :: "(string \<times> oasPathItem) list"
  oas_Components :: "(string \<times> oasSecurityScheme) list option"

section \<open>Names and paths\<close>

text \<open>\<open>pathParamRe.ReplaceAllString\<close> with \<open>\{[^}]+\}\<close> and the empty string: a brace group with a name in it is cut out.\<close>

function dropPathParams :: "string \<Rightarrow> string" where
  "dropPathParams s =
     (case s of
        [] \<Rightarrow> []
      | c # r \<Rightarrow>
          if c = CHR 0x7B \<and> r \<noteq> [] \<and> hd r \<noteq> CHR 0x7D \<and> CHR 0x7D \<in> set r then
            dropPathParams (tl (dropWhile (\<lambda>x. x \<noteq> CHR 0x7D) r))
          else c # dropPathParams r)"
  by pat_completeness auto

termination dropPathParams
proof (relation "measure length")
  fix s c and r :: string
  assume "s = c # r"
  moreover have "length (tl (dropWhile (\<lambda>x. x \<noteq> CHR 0x7D) r)) \<le> length r"
    using length_dropWhile_le [of "\<lambda>x. x \<noteq> CHR 0x7D" r] by simp
  ultimately show "(tl (dropWhile (\<lambda>x. x \<noteq> CHR 0x7D) r), s) \<in> measure length" by simp
qed auto

declare dropPathParams.simps [simp del]

definition identifierByte :: "char \<Rightarrow> char" where
  "identifierByte c =
     (if (CHR ''a'' \<le> c \<and> c \<le> CHR ''z'') \<or> (CHR ''A'' \<le> c \<and> c \<le> CHR ''Z'') \<or> isDigit c then c else CHR ''_'')"

text \<open>Characters are bytes; the source maps a character outside ASCII, of several bytes, to one underscore.\<close>

definition sanitizeIdentifier :: "string \<Rightarrow> string" where
  "sanitizeIdentifier s0 =
     (let s = TrimSpace s0 in if s = [] then [] else ToLower (Trim (map identifierByte s) ''_''))"

definition sanitizeRemotePath :: "string \<Rightarrow> string" where
  "sanitizeRemotePath path0 =
     (let path = TrimSpace path0
      in if path = [] then ''/'' else if HasPrefix path ''/'' then path else ''/'' @ path)"

text \<open>The last segment that is not empty once the parameters are cut out.\<close>

definition tableNameFromPath :: "string \<Rightarrow> string" where
  "tableNameFromPath path0 =
     (let path = Trim path0 ''/''
      in if path = [] then []
         else sanitizeIdentifier
           (foldl (\<lambda>name p. let q = Trim p ''/'' in if q = [] then name else q) []
             (map dropPathParams (Split path (CHR ''/'')))))"

section \<open>Authentication\<close>

definition schemeAuth :: "oasSecurityScheme \<Rightarrow> row option" where
  "schemeAuth sc =
     (let ty = ToLower (ss_Type sc)
      in if ty = ''http'' then
           (if EqualFold (ss_Scheme sc) ''bearer''
            then Some [(''type'', VStr ''BEARER_TOKEN''), (''options'', VObj [(''label'', VStr ''Authorization'')])]
            else None)
         else if ty = ''apikey'' then
           Some [(''type'', VStr ''API_KEY''),
                 (''options'', VObj [(''label'',
                    VStr (if TrimSpace (ss_Name sc) = [] then ''X-Api-Key'' else TrimSpace (ss_Name sc)))])]
         else None)"

definition inferHTTPAuth :: "(string \<times> oasSecurityScheme) list option \<Rightarrow> row option" where
  "inferHTTPAuth components =
     (case components of
        None \<Rightarrow> None
      | Some schemes \<Rightarrow>
          (case List.map_filter (\<lambda>(_, sc). schemeAuth sc) schemes of [] \<Rightarrow> None | a # _ \<Rightarrow> Some a))"

section \<open>Paths to tables and functions\<close>

text \<open>What the loop over the paths has built. The functions carry the names given so far.\<close>

record oasOut =
  ao_Tables :: "DeclTable list"
  ao_SeenTables :: "string list"
  ao_Functions :: "DeclFunction list"
  ao_SeenFuncs :: "string list"

definition pathTable :: "string \<Rightarrow> string \<Rightarrow> string \<Rightarrow> DeclTable" where
  "pathTable serverName baseName path =
     \<lparr>dt_Server = serverName, dt_Schema = ''public'', dt_Name = baseName, dt_RemoteName = sanitizeRemotePath path,
      dt_KeyColumns = [''id''], dt_Options = [],
      dt_Columns = [\<lparr>dcl_Name = ''id'', dcl_DataType = ''text'', dcl_RemoteName = [], dcl_Nullable = None, dcl_Position = 0\<rparr>]\<rparr>"

definition addTable :: "string \<Rightarrow> string \<Rightarrow> string \<Rightarrow> oasPathItem \<Rightarrow> oasOut \<Rightarrow> oasOut" where
  "addTable serverName baseName path item out =
     (if pi_Get item = None \<or> baseName \<in> set (ao_SeenTables out) then out
      else out\<lparr>ao_SeenTables := baseName # ao_SeenTables out,
               ao_Tables := ao_Tables out @ [pathTable serverName baseName path]\<rparr>)"

definition pathOps :: "string \<Rightarrow> oasPathItem \<Rightarrow> (string \<times> oasOperation option \<times> string) list" where
  "pathOps baseName item =
     [(''POST'', pi_Post item, ''create_'' @ baseName), (''PUT'', pi_Put item, ''update_'' @ baseName),
      (''PATCH'', pi_Patch item, ''patch_'' @ baseName), (''DELETE'', pi_Delete item, ''delete_'' @ baseName)]"

definition functionName :: "string \<Rightarrow> string \<Rightarrow> oasOperation \<Rightarrow> string \<Rightarrow> string list \<Rightarrow> string" where
  "functionName baseName method op opName seen =
     (let fnName = sanitizeIdentifier (if TrimSpace (op_OperationID op) = [] then opName else TrimSpace (op_OperationID op));
          fnName = (if fnName = [] then ToLower method @ ''_'' @ baseName else fnName)
      in if fnName \<in> set seen then fnName @ ''_'' @ ToLower method else fnName)"

definition addOperation ::
  "string \<Rightarrow> string \<Rightarrow> string \<Rightarrow> oasOut \<Rightarrow> string \<times> oasOperation option \<times> string \<Rightarrow> oasOut"
where
  "addOperation serverName baseName path out entry =
     (case entry of
        (method, None, opName) \<Rightarrow> out
      | (method, Some op, opName) \<Rightarrow>
          let fnName = functionName baseName method op opName (ao_SeenFuncs out)
          in out\<lparr>ao_SeenFuncs := fnName # ao_SeenFuncs out,
                 ao_Functions := ao_Functions out @
                   [\<lparr>df_Server = serverName, df_Schema = ''public'', df_Name = fnName, df_Operation = ''invoke'',
                     df_RemotePath = sanitizeRemotePath path, df_Method = method, df_Options = []\<rparr>]\<rparr>)"

definition addPath :: "string \<Rightarrow> oasOut \<Rightarrow> string \<times> oasPathItem \<Rightarrow> oasOut" where
  "addPath serverName out p =
     (case p of (path, item) \<Rightarrow>
        let baseName = tableNameFromPath path
        in if baseName = [] then out
           else foldl (addOperation serverName baseName path) (addTable serverName baseName path item out)
                  (pathOps baseName item))"

definition openapiEndpoint :: "importOpenAPIOptions \<Rightarrow> oasDoc \<Rightarrow> string" where
  "openapiEndpoint opts doc =
     (let e = TrimSpace (oo_Endpoint opts);
          e = (if e = [] then (case oas_Servers doc of u # _ \<Rightarrow> TrimSpace u | [] \<Rightarrow> []) else e);
          e = (if e = [] then ''https://api.example.com'' else e)
      in TrimSuffix e ''/'')"

definition openapiServerName :: "importOpenAPIOptions \<Rightarrow> string" where
  "openapiServerName opts = (if TrimSpace (oo_ServerName opts) = [] then ''openapi_api'' else TrimSpace (oo_ServerName opts))"

definition openapiServer :: "importOpenAPIOptions \<Rightarrow> oasDoc \<Rightarrow> DeclServer" where
  "openapiServer opts doc =
     \<lparr>ds_Name = openapiServerName opts, ds_Protocol = ''http'', ds_Credential = [(''token'', VStr ''${API_TOKEN}'')],
      ds_Enabled = Some True,
      ds_Options = (''endpoint'', VStr (openapiEndpoint opts doc)) #
        (case inferHTTPAuth (oas_Components doc) of Some a \<Rightarrow> [(''auth'', VObj a)] | None \<Rightarrow> [])\<rparr>"

definition emptyOut :: oasOut where
  "emptyOut = \<lparr>ao_Tables = [], ao_SeenTables = [], ao_Functions = [], ao_SeenFuncs = []\<rparr>"

text \<open>The part of \<open>OpenAPIToDeclarative\<close> after decoding.\<close>

definition oasToDeclarative :: "oasDoc \<Rightarrow> importOpenAPIOptions \<Rightarrow> err + DeclarativeDoc" where
  "oasToDeclarative doc opts =
     (if oas_Paths doc = [] then Inl (Errorf ''openapi: no paths found'')
      else let out = foldl (addPath (openapiServerName opts)) emptyOut (oas_Paths doc)
           in if ao_Tables out = [] \<and> ao_Functions out = [] then Inl (Errorf ''openapi: no importable paths'')
              else Inr \<lparr>dd_Credentials = [], dd_Servers = [openapiServer opts doc], dd_Tables = ao_Tables out,
                        dd_Functions = ao_Functions out\<rparr>)"

text \<open>The text is YAML, or else JSON; the error is the one of YAML.\<close>

definition OpenAPIToDeclarative ::
  "(string \<Rightarrow> err + oasDoc) \<Rightarrow> (string \<Rightarrow> err + oasDoc) \<Rightarrow> string \<Rightarrow> importOpenAPIOptions \<Rightarrow> err + DeclarativeDoc"
where
  "OpenAPIToDeclarative yaml json raw opts =
     (case yaml raw of
        Inr doc \<Rightarrow> oasToDeclarative doc opts
      | Inl e \<Rightarrow>
          (case json raw of
             Inr doc \<Rightarrow> oasToDeclarative doc opts
           | Inl _ \<Rightarrow> Inl (Wrapf ''parse openapi: '' e [])))"

end
