(* ===== verification/OpenApi.thy ===== *)
theory OpenApi
  imports Engine
begin

text \<open>
  The OpenAPI document of the data API (\<open>internal/postgrest/openapi.go\<close>), built from the
  tables, columns, functions and servers of the store. A \<open>map[string]any\<close> of the document is
  a \<open>VObj\<close> whose entries are in the order the code writes them.
\<close>

text \<open>The version a build without linker flags reports (\<open>internal/version\<close>).\<close>

definition Version :: string where
  "Version = ''dev''"

record OpenAPIOptions =
  oa_Host :: string
  oa_BasePath :: string
  oa_Schema :: string

section \<open>Small parts\<close>

definition jsonType :: "string \<Rightarrow> val" where
  "jsonType t = VObj [(''type'', VStr t)]"

definition schemaRef :: "string \<Rightarrow> val" where
  "schemaRef name = VObj [(''$ref'', VStr (''#/components/schemas/'' @ name))]"

definition jsonContent :: "val \<Rightarrow> val" where
  "jsonContent schema = VObj [(''application/json'', VObj [(''schema'', schema)])]"

definition openAPIServers :: "string \<Rightarrow> string \<Rightarrow> val" where
  "openAPIServers host basePath =
     (if host = [] then
        VArr [VObj [(''url'', VStr basePath),
                    (''description'', VStr ''Dataspan data API (relative to request host)'')]]
      else VArr [VObj [(''url'', VStr (''http://'' @ host @ basePath)), (''description'', VStr ''HTTP'')],
                 VObj [(''url'', VStr (''https://'' @ host @ basePath)), (''description'', VStr ''HTTPS'')]])"

definition filterTablesBySchema :: "Table list \<Rightarrow> string \<Rightarrow> Table list" where
  "filterTablesBySchema tables schema = filter (\<lambda>t. t_SchemaName t = schema) tables"

definition filterFunctionsBySchema :: "Function list \<Rightarrow> string \<Rightarrow> Function list" where
  "filterFunctionsBySchema functions schema = filter (\<lambda>f. f_SchemaName f = schema) functions"

definition tablePath :: "Table \<Rightarrow> bool \<Rightarrow> string" where
  "tablePath tbl ambiguous =
     (if ambiguous then ''/'' @ t_SchemaName tbl @ ''/'' @ t_TableName tbl else ''/'' @ t_TableName tbl)"

definition definitionName :: "Table \<Rightarrow> string" where
  "definitionName tbl =
     (if t_SchemaName tbl = [] \<or> t_SchemaName tbl = ''public'' then t_TableName tbl
      else t_SchemaName tbl @ ''.'' @ t_TableName tbl)"

definition isReadOnlyProtocol :: "Protocol \<Rightarrow> bool" where
  "isReadOnlyProtocol p \<longleftrightarrow> p = ProtocolFile \<or> p = ProtocolS3"

section \<open>Columns and tables\<close>

definition openAPIFormat :: "string \<Rightarrow> string" where
  "openAPIFormat dataType =
     (let t = ToLower dataType
      in if t = ''uuid'' then ''uuid''
         else if t = ''date'' then ''date''
         else if t \<in> {''timestamp'', ''timestamptz'', ''datetime''} then ''date-time''
         else [])"

definition columnDescription :: "Column \<Rightarrow> string" where
  "columnDescription col =
     (if c_RemoteName col \<noteq> [] \<and> c_RemoteName col \<noteq> c_Name col then ''remote: '' @ c_RemoteName col else [])"

definition columnSchema :: "Column \<Rightarrow> val" where
  "columnSchema col =
     (let t = ToLower (c_DataType col);
          typ = (if t \<in> {''integer'', ''int'', ''bigint'', ''smallint'', ''numeric'', ''number'', ''float'', ''double''}
                 then [(''type'', VStr ''number'')]
                 else if t \<in> {''boolean'', ''bool''} then [(''type'', VStr ''boolean'')]
                 else if t \<in> {''json'', ''jsonb'', ''object''} then [(''type'', VStr ''object'')]
                 else if t = ''array'' then [(''type'', VStr ''array''), (''items'', jsonType ''string'')]
                 else [(''type'', VStr ''string'')]);
          fmt = openAPIFormat (c_DataType col)
      in VObj ((''description'', VStr (columnDescription col)) # typ @
               (if fmt \<noteq> [] then [(''format'', VStr fmt)] else [])))"

definition tableSchema :: "Table \<Rightarrow> Column list \<Rightarrow> Protocol \<Rightarrow> val" where
  "tableSchema tbl cols protocol =
     (let props = buildMap [] (map (\<lambda>c. (c_Name c, columnSchema c)) cols);
          required = map c_Name (filter (\<lambda>c. \<not> c_Nullable c) cols);
          desc = ''Foreign table '' @ t_SchemaName tbl @ ''.'' @ t_TableName tbl @ '' (server: '' @ t_ServerName tbl @
                 '', remote: '' @ RemoteTableName tbl @ '', protocol: '' @ protocol @ '')'' @
                 (if isReadOnlyProtocol protocol then '' [read-only: Select only]'' else [])
      in VObj ([(''type'', VStr ''object''), (''properties'', VObj props), (''description'', VStr desc)] @
               (if isReadOnlyProtocol protocol then [(''readOnly'', VBool True)] else []) @
               (if required \<noteq> [] then [(''required'', VArr (map VStr required))] else [])))"

section \<open>Operations\<close>

definition profileHeaderParam :: "string \<Rightarrow> val" where
  "profileHeaderParam schema =
     VObj [(''name'', VStr ''Accept-Profile''), (''in'', VStr ''header''),
           (''schema'', VObj [(''type'', VStr ''string''), (''default'', VStr schema)]),
           (''description'', VStr ''Schema profile'')]"

definition jsonRequestBody :: "string \<Rightarrow> bool \<Rightarrow> val" where
  "jsonRequestBody defName required =
     VObj [(''required'', VBool required), (''content'', jsonContent (schemaRef defName))]"

definition jsonResponse :: "string \<Rightarrow> string \<Rightarrow> val \<Rightarrow> val" where
  "jsonResponse status description schema =
     VObj [(status, VObj [(''description'', VStr description), (''content'', jsonContent schema)])]"

definition jsonArrayResponse :: "string \<Rightarrow> val" where
  "jsonArrayResponse defName =
     jsonResponse ''200'' ''OK'' (VObj [(''type'', VStr ''array''), (''items'', schemaRef defName)])"

definition jsonObjectResponse :: "string \<Rightarrow> string \<Rightarrow> string \<Rightarrow> val" where
  "jsonObjectResponse defName status description = jsonResponse status description (schemaRef defName)"

definition affectedResponse :: val where
  "affectedResponse =
     jsonResponse ''200'' ''OK''
       (VObj [(''type'', VStr ''object''), (''properties'', VObj [(''affected'', jsonType ''integer'')])])"

definition tableOperation :: "Table \<Rightarrow> string \<Rightarrow> (string \<times> val) list \<Rightarrow> val \<Rightarrow> val" where
  "tableOperation tbl summary requestBody responses =
     VObj ([(''tags'', VArr [VStr (t_SchemaName tbl)]), (''summary'', VStr (summary @ t_TableName tbl)),
            (''parameters'', VArr [profileHeaderParam (t_SchemaName tbl)])] @ requestBody @
           [(''responses'', responses)])"

definition tablePathItem :: "Table \<Rightarrow> string \<Rightarrow> bool \<Rightarrow> val" where
  "tablePathItem tbl defName readOnly =
     (let rbody = [(''requestBody'', jsonRequestBody defName True)]
      in VObj ((''get'', tableOperation tbl ''Read rows from '' [] (jsonArrayResponse defName)) #
          (if readOnly then []
           else [(''post'', tableOperation tbl ''Insert into '' rbody (jsonObjectResponse defName ''201'' ''Created'')),
                 (''patch'', tableOperation tbl ''Update '' rbody affectedResponse),
                 (''delete'', tableOperation tbl ''Delete from '' [] affectedResponse)])))"

definition rpcOperation :: "Function \<Rightarrow> val" where
  "rpcOperation fn =
     VObj ([(''tags'', VArr [VStr (f_SchemaName fn)]),
            (''summary'', VStr (''RPC '' @ f_Name fn @ '' ('' @ f_Operation fn @ '')'')),
            (''description'', VStr (''server: '' @ f_ServerName fn)),
            (''parameters'', VArr [VObj [(''name'', VStr ''schema''), (''in'', VStr ''query''),
               (''schema'', VObj [(''type'', VStr ''string''), (''default'', VStr (f_SchemaName fn))]),
               (''description'', VStr (''Schema profile (default '' @ quoteGo (f_SchemaName fn) @ '')''))]]),
            (''responses'', jsonResponse ''200'' ''OK'' (jsonType ''object''))] @
           (if f_Operation fn = ''invoke''
            then [(''requestBody'', VObj [(''required'', VBool False), (''content'', jsonContent (jsonType ''object''))])]
            else []))"

section \<open>The document\<close>

type_synonym doc = "(string \<times> val) list"

definition pathCount :: "Table list \<Rightarrow> string \<Rightarrow> nat" where
  "pathCount tables name = length (filter (\<lambda>t. t_TableName t = name) tables)"

text \<open>The loop over the tables: it reads the columns of each and fills \<open>paths\<close> and \<open>schemas\<close>.\<close>

fun tableLoop ::
  "(string \<Rightarrow> string \<Rightarrow> ('w, err, Column list) comp) \<Rightarrow> (string \<Rightarrow> Protocol) \<Rightarrow> Table list \<Rightarrow> Table list \<Rightarrow>
   doc \<times> doc \<Rightarrow> ('w, err, doc \<times> doc) comp"
where
  "tableLoop listColumns proto every [] acc = retC acc"
| "tableLoop listColumns proto every (tbl # tbls) (paths, schemas) =
     bindC (listColumns (t_SchemaName tbl) (t_TableName tbl)) (\<lambda>cols.
       let pathKey = tablePath tbl (pathCount every (t_TableName tbl) > 1);
           defName = definitionName tbl;
           protocol = proto (t_ServerName tbl)
       in tableLoop listColumns proto every tbls
            (AList.update pathKey (tablePathItem tbl defName (isReadOnlyProtocol protocol)) paths,
             AList.update defName (tableSchema tbl cols protocol) schemas))"

definition addFunction :: "doc \<Rightarrow> Function \<Rightarrow> doc" where
  "addFunction paths fn =
     (let pathKey = ''/rpc/'' @ f_Name fn
      in case map_of paths pathKey of
           Some (VObj item) \<Rightarrow> AList.update pathKey (VObj (AList.update ''post'' (rpcOperation fn) item)) paths
         | _ \<Rightarrow> AList.update pathKey (VObj [(''post'', rpcOperation fn)]) paths)"

definition protoByServer :: "Server list \<Rightarrow> string \<Rightarrow> Protocol" where
  "protoByServer servers name =
     (case map_of (rev (map (\<lambda>s. (s_Name s, s_Protocol s)) servers)) name of Some p \<Rightarrow> p | None \<Rightarrow> [])"

definition openAPIBase :: "string \<Rightarrow> string" where
  "openAPIBase basePath =
     (let b = (if basePath = [] then ''/rest/v1'' else basePath)
      in if HasPrefix b ''/'' then b else CHR ''/'' # b)"

definition BuildOpenAPI :: "'w store \<Rightarrow> OpenAPIOptions \<Rightarrow> ('w, err, val) comp" where
  "BuildOpenAPI st opts =
     bindC (st_ListTables st) (\<lambda>tables.
     bindC (st_ListFunctions st) (\<lambda>functions.
       let tables = (if oa_Schema opts \<noteq> [] then filterTablesBySchema tables (oa_Schema opts) else tables);
           functions = (if oa_Schema opts \<noteq> [] then filterFunctionsBySchema functions (oa_Schema opts) else functions)
       in bindC (st_ListServers st) (\<lambda>servers.
          bindC (tableLoop (st_ListColumns st) (protoByServer servers) tables tables ([], [])) (\<lambda>(paths, schemas).
            let paths = foldl addFunction paths functions;
                title = (if oa_Schema opts \<noteq> [] then ''dataspan API ('' @ oa_Schema opts @ '')'' else ''dataspan API'')
            in retC (VObj
                 [(''openapi'', VStr ''3.1.0''),
                  (''info'', VObj [(''title'', VStr title),
                     (''description'', VStr ''PostgREST-style foreign data wrapper sidecar (tables, columns, functions).''),
                     (''version'', VStr Version)]),
                  (''servers'', openAPIServers (oa_Host opts) (openAPIBase (oa_BasePath opts))),
                  (''paths'', VObj paths),
                  (''components'', VObj [(''schemas'', VObj schemas)])])))))"
end
