(* ===== verification/RestApi.thy ===== *)
theory RestApi
  imports OpenApi
begin

text \<open>
  The data API (\<open>internal/api/rest\<close>): routing (route.go), bodies (body.go), errors
  (errors.go) and the handlers (handler.go). A handler takes a request and the engine's state
  and yields the response it wrote and the new state; logging is left out.
\<close>

type_synonym 'w handler = "Request \<Rightarrow> 'w eng \<Rightarrow> ResponseWriter \<times> 'w eng"

section \<open>Routing (route.go)\<close>

definition defaultSchema :: string where
  "defaultSchema = ''public''"

record dataAPIResource =
  res_Schema :: string
  res_Table :: string
  res_RPC :: string

definition isRPC :: "dataAPIResource \<Rightarrow> bool" where
  "isRPC res \<longleftrightarrow> res_RPC res \<noteq> []"

definition schemaFromRequest :: "Request \<Rightarrow> string" where
  "schemaFromRequest r =
     (let profile = (if r_Method r = ''GET'' \<or> r_Method r = ''HEAD''
                     then TrimSpace (headerGet (r_Header r) ''Accept-Profile'')
                     else TrimSpace (headerGet (r_Header r) ''Content-Profile''))
      in if profile = [] then defaultSchema else profile)"

definition stripDataAPIPrefix :: "string \<Rightarrow> string" where
  "stripDataAPIPrefix path =
     (if HasPrefix path ''/rest/v1/'' then TrimPrefix path ''/rest/v1/''
      else if HasPrefix path ''/v1/'' then TrimPrefix path ''/v1/''
      else path)"

definition parseDataAPIResource :: "string \<Rightarrow> Request \<Rightarrow> dataAPIResource option" where
  "parseDataAPIResource path r =
     (let tl = Trim (stripDataAPIPrefix path) ''/''
      in if tl = [] then None
         else (case Split tl (CHR ''/'') of
                 [a] \<Rightarrow>
                   if a = ''rpc'' then None
                   else Some \<lparr>res_Schema = schemaFromRequest r, res_Table = a, res_RPC = []\<rparr>
               | [a, b] \<Rightarrow>
                   if a \<noteq> ''rpc'' then None
                   else let schema = TrimSpace (valuesGet (r_Query r) ''schema'')
                        in Some \<lparr>res_Schema = (if schema = [] then schemaFromRequest r else schema),
                                 res_Table = [], res_RPC = b\<rparr>
               | _ \<Rightarrow> None))"

definition isOpenAPIPath :: "string \<Rightarrow> bool" where
  "isOpenAPIPath path \<longleftrightarrow> path \<in> {''/rest/v1'', ''/rest/v1/'', ''/v1'', ''/v1/''}"

definition openAPIBasePath :: "string \<Rightarrow> string" where
  "openAPIBasePath path = (if HasPrefix path ''/v1'' then ''/v1'' else ''/rest/v1'')"

definition schemaFilterForOpenAPI :: "string \<Rightarrow> string" where
  "schemaFilterForOpenAPI profile = (if profile = [] \<or> profile = defaultSchema then [] else profile)"

section \<open>Errors (errors.go)\<close>

definition apiErrorJSON :: "APIError \<Rightarrow> val" where
  "apiErrorJSON e =
     VObj [(''code'', VStr (ae_Code e)), (''message'', VStr (ae_Message e)),
           (''details'', case ae_Details e of Some d \<Rightarrow> VStr d | None \<Rightarrow> VNil),
           (''hint'', case ae_Hint e of Some d \<Rightarrow> VStr d | None \<Rightarrow> VNil)]"

definition WriteError :: "err \<Rightarrow> ErrorContext \<Rightarrow> ResponseWriter \<Rightarrow> ResponseWriter" where
  "WriteError e ctx w =
     (let apiErr = (case MapError (Some e) ctx of Some a \<Rightarrow> a | None \<Rightarrow> InternalError (Some e))
      in WriteJSON (ae_Status apiErr) (apiErrorJSON apiErr) w)"

section \<open>Bodies (body.go)\<close>

definition decodeInsertBody :: "Request \<Rightarrow> err + row list \<times> bool" where
  "decodeInsertBody r =
     (case r_BodyErr r of
        Some e \<Rightarrow> Inl e
      | None \<Rightarrow>
          (case r_BodyText r of
             [] \<Rightarrow> Inr ([[]], True)
           | c # _ \<Rightarrow>
               if c = CHR ''['' then (case unmarshalRows (r_Body r) of Inl e \<Rightarrow> Inl e | Inr rows \<Rightarrow> Inr (rows, False))
               else (case unmarshalRow (r_Body r) of Inl e \<Rightarrow> Inl e | Inr one \<Rightarrow> Inr ([one], True))))"

text \<open>\<open>json.NewDecoder(r.Body).Decode(&row)\<close>: an empty body is \<open>io.EOF\<close>.\<close>

definition decodeRow :: "Request \<Rightarrow> err + row" where
  "decodeRow r = (if r_BodyFirst r = RawEmpty then Inl ErrEOF else unmarshalRow (r_BodyFirst r))"

definition contentRangeEnd :: "Query \<Rightarrow> nat \<Rightarrow> int" where
  "contentRangeEnd q n =
     (let e = (if n = 0 then q_Offset q else wrap64 (q_Offset q + int n - 1))
      in if e < q_Offset q then q_Offset q else e)"

definition writeSelectResult ::
  "Request \<Rightarrow> row list \<Rightarrow> Query \<Rightarrow> Prefer \<Rightarrow> int \<Rightarrow> ResponseWriter \<Rightarrow> APIError option \<times> ResponseWriter"
where
  "writeSelectResult r rows q prefer cnt w =
     (let mode = ParseObjectMode (r_Header r); n = length rows
      in if mode = ObjectModeSingle \<and> n = 0 then (Some SingleNotFound, w)
         else if mode \<noteq> ObjectModeArray \<and> n > 1 then (Some MultipleRows, w)
         else
           let cnt' = (if cnt < 0 then int n else cnt);
               w1 = (if p_CountExact prefer
                     then setHeader ''Content-Range''
                            (FormatContentRange (q_Offset q) (contentRangeEnd q n) cnt') w
                     else w);
               w2 = WriteHeader 200 w1
           in (None,
               if mode = ObjectModeArray
               then writeBody (JSONBody (rowsVal rows)) (setHeader ''Content-Type'' MediaArrayJSON w2)
               else let w3 = setHeader ''Content-Type'' MediaObjectJSON w2
                    in writeBody (JSONBody (case rows of [] \<Rightarrow> VNil | x # _ \<Rightarrow> VObj x)) w3))"

definition writeMutationNoContent :: "ResponseWriter \<Rightarrow> ResponseWriter" where
  "writeMutationNoContent w = WriteHeader 204 w"

definition writeMutationRows :: "row list \<Rightarrow> ResponseWriter \<Rightarrow> ResponseWriter" where
  "writeMutationRows rows w = WriteJSON 200 (rowsVal rows) w"

section \<open>Handlers (handler.go)\<close>

text \<open>The answer to an error of the engine.\<close>

definition orError ::
  "ErrorContext \<Rightarrow> (err + 'a) \<times> 'w eng \<Rightarrow> ('a \<Rightarrow> 'w eng \<Rightarrow> ResponseWriter \<times> 'w eng) \<Rightarrow> ResponseWriter \<times> 'w eng"
where
  "orError ctx rs k =
     (case rs of (Inl e, s) \<Rightarrow> (WriteError e ctx newWriter, s) | (Inr x, s) \<Rightarrow> k x s)"

definition handleSelect ::
  "'w engineEnv \<Rightarrow> string \<Rightarrow> string \<Rightarrow> Query \<Rightarrow> Prefer \<Rightarrow> ErrorContext \<Rightarrow> 'w handler" where
  "handleSelect env schema table q prefer ctx r s =
     orError ctx (Select env schema table q s) (\<lambda>rows s1.
       orError ctx (if p_CountExact prefer then countOp env schema table q s1 else (Inr (- 1), s1)) (\<lambda>cnt s2.
         (case writeSelectResult r rows q prefer cnt newWriter of
            (None, w) \<Rightarrow> (w, s2)
          | (Some apiErr, w) \<Rightarrow> (WriteError (ErrAPI apiErr) ctx w, s2))))"

definition handleInsert ::
  "'w engineEnv \<Rightarrow> string \<Rightarrow> string \<Rightarrow> Prefer \<Rightarrow> ErrorContext \<Rightarrow> 'w handler" where
  "handleInsert env schema table prefer ctx r s =
     (case decodeInsertBody r of
        Inl e \<Rightarrow> (WriteError e ctx newWriter, s)
      | Inr (rows, single) \<Rightarrow>
          (case rows of
             [] \<Rightarrow> (WriteError (ErrAPI (InvalidBody None)) ctx newWriter, s)
           | one # _ \<Rightarrow>
               if \<not> single then
                 orError ctx (insertMany env schema table rows prefer s) (\<lambda>ret s1.
                   (if p_Representation prefer then WriteJSON 201 (rowsVal ret) newWriter
                    else WriteHeader 201 newWriter, s1))
               else
                 orError ctx (insertOp env schema table one prefer s) (\<lambda>ret s1.
                   (case ret of
                      Some x \<Rightarrow> if p_Representation prefer then WriteJSON 201 (VObj x) newWriter
                                else WriteHeader 201 newWriter
                    | None \<Rightarrow> WriteHeader 201 newWriter, s1))))"

text \<open>The end of \<open>handleUpdate\<close> and \<open>handleDelete\<close>: a representation is selected after the change.\<close>

definition answerMutation ::
  "'w engineEnv \<Rightarrow> string \<Rightarrow> string \<Rightarrow> Query \<Rightarrow> Prefer \<Rightarrow> ErrorContext \<Rightarrow> 'w eng \<Rightarrow> ResponseWriter \<times> 'w eng" where
  "answerMutation env schema table q prefer ctx s =
     (if p_Representation prefer
      then orError ctx (Select env schema table q s) (\<lambda>rows s1. (writeMutationRows rows newWriter, s1))
      else (writeMutationNoContent newWriter, s))"

definition handleUpdate ::
  "'w engineEnv \<Rightarrow> string \<Rightarrow> string \<Rightarrow> Query \<Rightarrow> Prefer \<Rightarrow> ErrorContext \<Rightarrow> 'w handler" where
  "handleUpdate env schema table q prefer ctx r s =
     (case decodeRow r of
        Inl e \<Rightarrow> (WriteError e ctx newWriter, s)
      | Inr row \<Rightarrow>
          orError ctx (updateOp env schema table q row s) (\<lambda>_ s1.
            answerMutation env schema table q prefer ctx s1))"

definition handleDelete ::
  "'w engineEnv \<Rightarrow> string \<Rightarrow> string \<Rightarrow> Query \<Rightarrow> Prefer \<Rightarrow> ErrorContext \<Rightarrow> 'w handler" where
  "handleDelete env schema table q prefer ctx r s =
     orError ctx (deleteOp env schema table q s) (\<lambda>_ s1.
       answerMutation env schema table q prefer ctx s1)"

definition rpcQuery :: "Values \<Rightarrow> (string \<times> string) list" where
  "rpcQuery q = List.map_filter (\<lambda>(k, vs). if k = ''schema'' \<or> vs = [] then None else Some (k, hd vs)) q"

text \<open>The body of a call: a \<open>nil\<close> map when there is none, or when it is \<open>null\<close>.\<close>

definition decodeBody :: "Request \<Rightarrow> err + row option" where
  "decodeBody r =
     (case decodeRow r of
        Inl e \<Rightarrow> Inl e
      | Inr b \<Rightarrow> Inr (if r_BodyFirst r = RawJSON VNil then None else Some b))"

definition handleRPC :: "'w engineEnv \<Rightarrow> string \<Rightarrow> string \<Rightarrow> 'w handler" where
  "handleRPC env schema name r s =
     (let ctx = \<lparr>ec_Schema = schema, ec_Table = [], ec_RPC = name\<rparr>
      in if r_Method r \<noteq> ''POST'' then (WriteError (ErrAPI InvalidRPCMethod) ctx newWriter, s)
         else (case (if r_ContentLength r \<noteq> 0 then decodeBody r else Inr None) of
                 Inl e \<Rightarrow> (WriteError e ctx newWriter, s)
               | Inr rbody \<Rightarrow>
                   orError ctx (InvokeRPC env schema name rbody (rpcQuery (r_Query r)) s)
                     (\<lambda>result s1. (WriteJSON 200 result newWriter, s1))))"

definition noContext :: ErrorContext where
  "noContext = \<lparr>ec_Schema = [], ec_Table = [], ec_RPC = []\<rparr>"

definition serveOpenAPI :: "'w engineEnv \<Rightarrow> string \<Rightarrow> 'w handler" where
  "serveOpenAPI env basePath r s =
     orError noContext (inWorld (BuildOpenAPI (ee_store env)
         \<lparr>oa_Host = r_Host r, oa_BasePath = basePath,
          oa_Schema = schemaFilterForOpenAPI (schemaFromRequest r)\<rparr>) s) (\<lambda>spec s1.
       (if r_Method r = ''HEAD''
        then WriteHeader 200 (setHeader ''Content-Type'' ''application/openapi+json'' newWriter)
        else WriteJSONContentType 200 ''application/openapi+json'' spec newWriter, s1))"

definition handleTable :: "'w engineEnv \<Rightarrow> dataAPIResource \<Rightarrow> 'w handler" where
  "handleTable env res r s =
     (let schema = res_Schema res; table = res_Table res;
          ctx = \<lparr>ec_Schema = schema, ec_Table = table, ec_RPC = []\<rparr>;
          q = ParseQuery (r_Query r)
      in case ValidateSelect (q_Select q) (valuesGet (r_Query r) ''select'') of
           Some apiErr \<Rightarrow> (WriteError (ErrAPI apiErr) ctx newWriter, s)
         | None \<Rightarrow>
             let prefer = ParsePrefer (r_Header r)
             in if r_Method r = ''GET'' then handleSelect env schema table q prefer ctx r s
                else if r_Method r = ''POST'' then handleInsert env schema table prefer ctx r s
                else if r_Method r = ''PATCH'' then handleUpdate env schema table q prefer ctx r s
                else if r_Method r = ''DELETE'' then handleDelete env schema table q prefer ctx r s
                else (WriteError (ErrAPI (UnsupportedMethod (r_Method r))) ctx newWriter, s))"

definition handle :: "'w engineEnv \<Rightarrow> 'w handler" where
  "handle env r s =
     (if isOpenAPIPath (r_Path r) then
        (if r_Method r \<noteq> ''GET'' \<and> r_Method r \<noteq> ''HEAD''
         then (WriteError (ErrAPI (UnsupportedMethod (r_Method r))) noContext newWriter, s)
         else serveOpenAPI env (openAPIBasePath (r_Path r)) r s)
      else (case parseDataAPIResource (r_Path r) r of
              None \<Rightarrow> (WriteError (ErrAPI InvalidPath) noContext newWriter, s)
            | Some res \<Rightarrow>
                if isRPC res then handleRPC env (res_Schema res) (res_RPC res) r s
                else handleTable env res r s))"

text \<open>\<open>http.NotFound\<close> answers 404 with a plain text.\<close>

definition notFound :: ResponseWriter where
  "notFound =
     writeBody (TextBody ''404 page not found'')
       (WriteHeader 404 (setHeader ''Content-Type'' ''text/plain; charset=utf-8'' newWriter))"

definition handleRoot :: "'w engineEnv \<Rightarrow> 'w handler" where
  "handleRoot env r s =
     (if r_Path r \<noteq> ''/'' then (notFound, s)
      else if r_Method r \<noteq> ''GET'' \<and> r_Method r \<noteq> ''HEAD''
      then (WriteError (ErrAPI (UnsupportedMethod (r_Method r))) noContext newWriter, s)
      else serveOpenAPI env ''/rest/v1'' r s)"

section \<open>Lemmas\<close>

text \<open>A complete answer: a status was sent, and an error status comes with the JSON of an API error.\<close>

definition answered :: "ResponseWriter \<Rightarrow> bool" where
  "answered w =
     (case w_Sent w of
        None \<Rightarrow> False
      | Some (st, h) \<Rightarrow>
          st \<in> {200, 201, 204} \<or>
          headerGet h ''Content-Type'' = ''application/json'' \<and> (\<exists>a. w_Body w = JSONBody (apiErrorJSON a) \<and> ae_Status a = st))"

lemma WriteJSON_Sent:
  "w_Sent w = None \<Longrightarrow> \<exists>h. w_Sent (WriteJSON st v w) = Some (st, h) \<and> headerGet h ''Content-Type'' = ''application/json''"
  by (simp add: WriteJSON_def WriteJSONContentType_def writeBody_def WriteHeader_def setHeader_def headerGet_headerSet)

lemma answered_WriteError:
  assumes "w_Sent w = None"
  shows "answered (WriteError e ctx w)"
proof -
  obtain a where a: "WriteError e ctx w = WriteJSON (ae_Status a) (apiErrorJSON a) w"
    by (simp add: WriteError_def Let_def)
  obtain h where "w_Sent (WriteJSON (ae_Status a) (apiErrorJSON a) w) = Some (ae_Status a, h)"
    "headerGet h ''Content-Type'' = ''application/json''"
    using WriteJSON_Sent [OF assms] by blast
  with a show ?thesis by (auto simp: answered_def WriteJSON_sent)
qed

lemma newWriter_Sent [simp]: "w_Sent newWriter = None"
  by (simp add: newWriter_def)

lemma answered_success:
  "w_Sent w = None \<Longrightarrow> st \<in> {200, 201, 204} \<Longrightarrow> answered (WriteHeader st w)"
  "w_Sent w = None \<Longrightarrow> st \<in> {200, 201, 204} \<Longrightarrow> answered (WriteJSONContentType st ct v w)"
  "w_Sent w = None \<Longrightarrow> st \<in> {200, 201, 204} \<Longrightarrow> answered (WriteJSON st v w)"
  by (auto simp: answered_def WriteJSON_def WriteJSONContentType_def writeBody_def WriteHeader_def setHeader_def)

lemma setHeader_Sent [simp]: "w_Sent (setHeader k v w) = w_Sent w"
  by (simp add: setHeader_def)

lemma orError_answered:
  assumes "\<And>x s. answered (fst (k x s))"
  shows "answered (fst (orError ctx rs k))"
  using assms by (simp add: orError_def answered_WriteError split: prod.split sum.split)

lemma writeSelectResult_answered:
  assumes "w_Sent w = None"
  shows "case writeSelectResult r rows q prefer cnt w of (None, w') \<Rightarrow> answered w' | (Some a, w') \<Rightarrow> w' = w"
  using assms by (auto simp: writeSelectResult_def Let_def answered_def writeBody_def WriteHeader_def setHeader_def)

lemma handleSelect_answered: "answered (fst (handleSelect env schema table q prefer ctx r s))"
proof -
  have "answered (fst (case writeSelectResult r rows q prefer cnt newWriter of (None, w) \<Rightarrow> (w, s)
      | (Some a, w) \<Rightarrow> (WriteError (ErrAPI a) ctx w, s)))" for rows cnt and s :: "'a eng"
    using writeSelectResult_answered [of newWriter r rows q "prefer" cnt] answered_WriteError [of newWriter]
    by (auto split: prod.splits option.splits)
  then show ?thesis unfolding handleSelect_def by (intro orError_answered) simp
qed

lemma answerMutation_answered: "answered (fst (answerMutation env schema table q prefer ctx s))"
  unfolding answerMutation_def
  by (auto intro!: orError_answered simp: writeMutationRows_def writeMutationNoContent_def answered_success)

lemma handleInsert_answered: "answered (fst (handleInsert env schema table prefer ctx r s))"
  unfolding handleInsert_def
  by (auto intro!: orError_answered simp: answered_WriteError answered_success
      split: sum.split prod.split list.split option.split)

lemma handle_answered_lemma: "answered (fst (handle env r s))"
proof -
  have rpc: "answered (fst (handleRPC env schema name r s))" for schema name
    unfolding handleRPC_def Let_def
    by (auto intro!: orError_answered simp: answered_WriteError answered_success split: sum.split)
  have spec: "answered (fst (serveOpenAPI env base r s))" for base
    unfolding serveOpenAPI_def by (auto intro!: orError_answered simp: answered_success)
  have tab: "answered (fst (handleTable env res r s))" for res
    unfolding handleTable_def Let_def handleUpdate_def handleDelete_def
    by (auto intro!: orError_answered answerMutation_answered handleSelect_answered handleInsert_answered
        simp: answered_WriteError split: option.split sum.split)
  show ?thesis
    unfolding handle_def using rpc spec tab by (auto simp: answered_WriteError split: option.split)
qed

section \<open>Properties\<close>

text \<open>C34: every request to the data API is answered, whatever the store, the drivers and the engine's
  state: the handler sends exactly one status line, either 200, 201 or 204, or the status of an API error
  together with that error's code, message, details and hint as JSON, typed \<open>application/json\<close>.\<close>

theorem handle_answers: "answered (fst (handle env r s))"
  by (rule handle_answered_lemma)

text \<open>The answer to a select, on every branch: an \<open>Accept\<close> for a single object turns no row into 404
  (or \<open>null\<close> when missing rows are allowed) and several rows into 404; otherwise the status is 200 and
  the body is the row or the list of rows, with a Content-Range whose end is never before its start when
  an exact count is asked for. The Content-Type is set after the status line went out, so it is never
  sent.\<close>

theorem writeSelectResult_spec:
  "case writeSelectResult r rows q prefer cnt newWriter of
     (Some a, w) \<Rightarrow> w = newWriter \<and> ae_Status a = 404 \<and>
       (ParseObjectMode (r_Header r) = ObjectModeSingle \<and> rows = [] \<and> a = SingleNotFound \<or>
        ParseObjectMode (r_Header r) \<noteq> ObjectModeArray \<and> length rows > 1 \<and> a = MultipleRows)
   | (None, w) \<Rightarrow>
       sentStatus w = Some 200 \<and> sentHeader w ''Content-Type'' = [] \<and>
       sentHeader w ''Content-Range'' =
         (if p_CountExact prefer
          then FormatContentRange (q_Offset q) (contentRangeEnd q (length rows))
                 (if cnt < 0 then int (length rows) else cnt)
          else []) \<and>
       contentRangeEnd q (length rows) \<ge> q_Offset q \<and>
       w_Body w = JSONBody
         (case ParseObjectMode (r_Header r) of
            ObjectModeArray \<Rightarrow> rowsVal rows
          | _ \<Rightarrow> (case rows of [] \<Rightarrow> VNil | [x] \<Rightarrow> VObj x | x # _ \<Rightarrow> VObj x))"
proof -
  have h: "headerGet [(''Content-Range'', [v])] ''Content-Type'' = []"
    "headerGet [(''Content-Range'', [v])] ''Content-Range'' = v" "headerGet [] k = []" for v k
    by (simp_all add: headerGet_def EqualFold_def ToLower_def toLowerC_def)
  show ?thesis
    by (auto simp: writeSelectResult_def Let_def SingleNotFound_def MultipleRows_def mkAPIError_def
        writer_defs contentRangeEnd_def h split: ObjectMode.split list.split)
qed

section \<open>Properties of routing\<close>

definition exampleRequest :: "string \<Rightarrow> string \<Rightarrow> Values \<Rightarrow> Request" where
  "exampleRequest m p q =
     \<lparr>r_Method = m, r_Path = p, r_Query = q, r_Header = [], r_Host = ''localhost'', r_ContentLength = 0,
      r_BodyText = [], r_Body = RawEmpty, r_BodyFirst = RawEmpty, r_BodyErr = None\<rparr>"

definition pathSegment :: "string \<Rightarrow> bool" where
  "pathSegment s \<longleftrightarrow> s \<noteq> [] \<and> CHR ''/'' \<notin> set s"

lemma pathSegment_ends: "pathSegment a \<Longrightarrow> a \<noteq> [] \<and> hd a \<noteq> CHR ''/'' \<and> last a \<noteq> CHR ''/''"
  unfolding pathSegment_def by (metis hd_in_set last_in_set)

lemma Trim_slash:
  assumes "pathSegment a"
  shows "Trim a ''/'' = a"
  unfolding Trim_def using assms by (intro TrimFunc_id) (simp add: pathSegment_ends)

lemma Trim_two:
  assumes "pathSegment a" "pathSegment b"
  shows "Trim (a @ ''/'' @ b) ''/'' = a @ ''/'' @ b"
  unfolding Trim_def using assms by (intro TrimFunc_id) (simp add: pathSegment_ends)

text \<open>Routing and the OpenAPI document agree for a table whose name is unique among the documented
  tables: the documented path resolves to that table in the schema of the request's profile header. For a
  table whose name occurs in several schemas the document gives a path \<open>/schema/table\<close>, which the router
  rejects, so that entry of the document cannot be used.\<close>

theorem documented_paths_route:
  assumes "pathSegment (t_TableName tbl)" "t_TableName tbl \<noteq> ''rpc''"
    and "pathSegment (t_SchemaName tbl)" "t_SchemaName tbl \<noteq> ''rpc''"
  shows "parseDataAPIResource (''/rest/v1'' @ tablePath tbl False) r =
           Some \<lparr>res_Schema = schemaFromRequest r, res_Table = t_TableName tbl, res_RPC = []\<rparr> \<and>
         parseDataAPIResource (''/rest/v1'' @ tablePath tbl True) r = None"
proof -
  let ?t = "t_TableName tbl" and ?s = "t_SchemaName tbl"
  have one: "stripDataAPIPrefix (''/rest/v1'' @ tablePath tbl False) = ?t"
    by (simp add: stripDataAPIPrefix_def tablePath_def TrimPrefix_def)
  have two: "stripDataAPIPrefix (''/rest/v1'' @ tablePath tbl True) = ?s @ ''/'' @ ?t"
    by (simp add: stripDataAPIPrefix_def tablePath_def TrimPrefix_def)
  have "Split ?t (CHR ''/'') = [?t]"
    using assms(1) by (intro Split_char_free) (simp add: pathSegment_def)
  moreover have "Split (?s @ ''/'' @ ?t) (CHR ''/'') = [?s, ?t]"
    using assms(1,3) Split_append_sep [of "CHR ''/''" ?s ?t] by (simp add: pathSegment_def Split_char_free)
  ultimately show ?thesis
    using assms one two Trim_slash [OF assms(1)] Trim_two [OF assms(3,1)]
    by (simp add: parseDataAPIResource_def pathSegment_def)
qed

theorem documented_paths_route_witness:
  "parseDataAPIResource (''/rest/v1'' @ tablePath (rt_Table (exampleResolved ProtocolFile ''people'')) True)
     (exampleRequest ''GET'' '''' []) = None"
  using documented_paths_route [of "rt_Table (exampleResolved ProtocolFile ''people'')" "exampleRequest ''GET'' '''' []"]
  by (simp add: exampleResolved_def pathSegment_def)

text \<open>A malformed \<open>or=\<close> parameter is dropped without an error: when the list does not parse, the query is the
  same as without the parameter. A DELETE whose only condition is a malformed \<open>or=(...)\<close> is therefore run
  as a delete with no condition at all.\<close>

theorem malformed_or_deletes_all:
  assumes "parseOrGroups (TrimSpace v) = Inl e" "r_Query r = [(''or'', [v])]"
    and "r_Method r = ''DELETE''"
  shows "handleTable env res r s =
    handleDelete env (res_Schema res) (res_Table res) emptyQuery (ParsePrefer (r_Header r))
      \<lparr>ec_Schema = res_Schema res, ec_Table = res_Table res, ec_RPC = []\<rparr> r s"
proof -
  have "ParseQuery [(''or'', [v])] = emptyQuery"
    using assms(1) by (simp add: ParseQuery_def emptyQuery_def valuesGet_def reservedParams_def parseNonNeg_def
        TrimSpace_no_space Let_def)
  moreover have "ValidateSelect [] [] = None" by (simp add: ValidateSelect_def Contains_char)
  ultimately show ?thesis
    using assms(2,3) by (simp add: handleTable_def valuesGet_def emptyQuery_def Let_def)
qed

theorem malformed_or_deletes_all_witness:
  "handleTable exampleEnv \<lparr>res_Schema = ''public'', res_Table = ''t'', res_RPC = []\<rparr>
     (exampleRequest ''DELETE'' ''/rest/v1/t'' [(''or'', [''(id=7)''])]) (NewEngine 5 60 0 0) =
   handleDelete exampleEnv ''public'' ''t'' emptyQuery (ParsePrefer []) \<lparr>ec_Schema = ''public'', ec_Table = ''t'', ec_RPC = []\<rparr>
     (exampleRequest ''DELETE'' ''/rest/v1/t'' [(''or'', [''(id=7)''])]) (NewEngine 5 60 0 0)"
proof -
  have "parseOrGroups (TrimSpace ''(id=7)'') =
      Inl (Errorf (''invalid filter expression '' @ quoteGo ''id=7''))"
    by code_simp
  from malformed_or_deletes_all [OF this, of "exampleRequest ''DELETE'' ''/rest/v1/t'' [(''or'', [''(id=7)''])]"
      exampleEnv "\<lparr>res_Schema = ''public'', res_Table = ''t'', res_RPC = []\<rparr>" "NewEngine 5 60 0 0"]
  show ?thesis by (simp add: exampleRequest_def)
qed
end
