(* ===== verification/ApiAuth.thy ===== *)
theory ApiAuth
  imports HttpAuth RestApi
begin

text \<open>
  The authentication middleware of the server (\<open>internal/api/auth.go\<close>) and the cross-origin
  middleware (\<open>internal/httpx/middleware.go\<close>), as functions on handlers, and the order in which
  \<open>cmd/server/main.go\<close> composes them. The claims a token carries are put into the request's
  context, which no handler reads, so the request passed on is the same.
\<close>

definition adminPrefix :: string where
  "adminPrefix = ''/admin/api''"

definition isAdminPath :: "string \<Rightarrow> bool" where
  "isAdminPath path \<longleftrightarrow> path = adminPrefix \<or> HasPrefix path (adminPrefix @ ''/'')"

definition isDataPath :: "string \<Rightarrow> bool" where
  "isDataPath path \<longleftrightarrow> HasPrefix path ''/v1/'' \<or> HasPrefix path ''/rest/v1/''"

definition mapGatewayAuthError :: "err \<Rightarrow> APIError" where
  "mapGatewayAuthError e =
     (if errIs e ErrMissingAPIKey then AuthError ''No API key found in request''
      else if errIs e ErrInvalidAPIKey then AuthError ''Invalid API key''
      else if errIs e ErrMissingBearer then AuthError ''No authorization token was found''
      else if errIs e ErrInvalidJWT then
        AuthError (if Contains (errMsg e) ''expired'' then ''JWT expired'' else ''JWT cryptographic operation failed'')
      else AuthError (errMsg e))"

definition adminErrorJSON :: "string \<Rightarrow> val" where
  "adminErrorJSON msg = VObj [(''error'', VStr msg)]"

definition AdminAuth :: "Admin \<Rightarrow> 'w handler \<Rightarrow> 'w handler" where
  "AdminAuth a nxt r s =
     (if \<not> isAdminPath (r_Path r) \<or> \<not> am_Enabled a then nxt r s
      else (case adminValidate a (AdminAPIKeyFromRequest r) of
              None \<Rightarrow> nxt r s
            | Some e \<Rightarrow>
                if errIs e ErrAdminAuthDisabled then nxt r s
                else (WriteJSON 401
                        (adminErrorJSON (if errIs e ErrAdminMissingKey then ''missing admin api key''
                                         else ''invalid admin api key'')) newWriter, s)))"

definition DataAuth :: "jwtLib \<Rightarrow> ('w eng \<Rightarrow> int) \<Rightarrow> Gateway \<Rightarrow> 'w handler \<Rightarrow> 'w handler" where
  "DataAuth lib now g nxt r s =
     (if \<not> isDataPath (r_Path r) \<or> \<not> gw_Enabled g then nxt r s
      else (case Validate lib (now s) g (headerGet (r_Header r) ''apikey'')
                   (BearerToken (headerGet (r_Header r) ''Authorization'')) of
              Inr claims \<Rightarrow> nxt r s
            | Inl e \<Rightarrow>
                if errIs e ErrAuthDisabled then nxt r s
                else (WriteError (ErrAPI (mapGatewayAuthError e)) noContext newWriter, s)))"

text \<open>\<open>CORS\<close>: the headers are set before the handler runs; a preflight request stops here.\<close>

definition corsHeaders :: Header where
  "corsHeaders =
     [(''Access-Control-Allow-Origin'', [''*'']),
      (''Access-Control-Allow-Methods'', [''GET, POST, PATCH, DELETE, OPTIONS'']),
      (''Access-Control-Allow-Headers'',
       [''Content-Type, Prefer, Authorization, apikey, X-Client-Info, Accept-Profile, Content-Profile, X-Api-Key''])]"

definition CORS :: "'w handler \<Rightarrow> 'w handler" where
  "CORS nxt r s =
     (if r_Method r = ''OPTIONS'' then (WriteHeader 204 (newWriter\<lparr>w_Header := corsHeaders\<rparr>), s)
      else (case nxt r s of
              (w, s') \<Rightarrow>
                (w\<lparr>w_Header := corsHeaders @ w_Header w,
                   w_Sent := map_option (\<lambda>(st, h). (st, corsHeaders @ h)) (w_Sent w)\<rparr>, s')))"

text \<open>The chain of main.go, without logging and observability; \<open>mux\<close> is the request multiplexer.\<close>

definition serverHandler ::
  "jwtLib \<Rightarrow> ('w eng \<Rightarrow> int) \<Rightarrow> Gateway \<Rightarrow> Admin \<Rightarrow> 'w handler \<Rightarrow> 'w handler" where
  "serverHandler lib now g a mux = CORS (AdminAuth a (DataAuth lib now g mux))"

section \<open>Lemmas\<close>

lemma WriteError_auth:
  "sentStatus (WriteError (ErrAPI (mapGatewayAuthError e)) ctx newWriter) = Some 401"
proof -
  have "ae_Status (mapGatewayAuthError e) = 401"
    by (simp add: mapGatewayAuthError_def AuthError_def mkAPIError_def)
  then show ?thesis by (simp add: WriteError_def MapError_def WriteJSON_sent)
qed

lemma Validate_not_disabled: "gw_Enabled g \<Longrightarrow> Validate lib now g k b = Inl e \<Longrightarrow> \<not> errIs e ErrAuthDisabled"
  by (auto simp: Validate_def parseJWT_def Let_def split: if_splits sum.splits)

lemma adminValidate_not_disabled: "am_Enabled a \<Longrightarrow> adminValidate a k = Some e \<Longrightarrow> \<not> errIs e ErrAdminAuthDisabled"
  by (auto simp: adminValidate_def Let_def split: if_splits)

lemma adminValidate_None_iff:
  "am_Enabled a \<Longrightarrow> adminValidate a k = None \<longleftrightarrow> TrimSpace k \<noteq> [] \<and> TrimSpace k = am_Key a"
  by (auto simp: adminValidate_def Let_def)

section \<open>Properties\<close>

text \<open>With the gateway enabled no request under \<open>/v1/\<close> or \<open>/rest/v1/\<close> reaches a handler without
  credentials: such a request is passed on exactly when \<open>Validate\<close> accepts its \<open>apikey\<close> and bearer token,
  and otherwise it is answered with 401 and changes no state. Every other path is passed on unchecked, so
  \<open>GET /\<close>, which serves the same OpenAPI document as \<open>/rest/v1/\<close>, needs no key.\<close>

theorem DataAuth_gate:
  assumes "gw_Enabled g"
  shows "DataAuth lib now g nxt r s =
      (if isDataPath (r_Path r) \<and>
          \<not> isOk (Validate lib (now s) g (headerGet (r_Header r) ''apikey'')
                    (BearerToken (headerGet (r_Header r) ''Authorization'')))
       then (fst (DataAuth lib now g nxt r s), s) else nxt r s) \<and>
    (isDataPath (r_Path r) \<and>
       \<not> isOk (Validate lib (now s) g (headerGet (r_Header r) ''apikey'')
                 (BearerToken (headerGet (r_Header r) ''Authorization''))) \<longrightarrow>
     sentStatus (fst (DataAuth lib now g nxt r s)) = Some 401) \<and>
    \<not> isDataPath ''/''"
  using assms Validate_not_disabled [OF assms]
  by (auto simp: DataAuth_def isOk_def WriteError_auth isDataPath_def split: sum.splits)

definition exampleGateway :: Gateway where
  "exampleGateway = NewGateway ''anon'' '''' ''''"

definition exampleJWT :: jwtLib where
  "exampleJWT = \<lparr>jw_parse = (\<lambda>_ _. Inl ''malformed''), jw_exp = (\<lambda>_. None), jw_sub = (\<lambda>_. None)\<rparr>"

theorem DataAuth_gate_witness:
  "sentStatus (fst (DataAuth exampleJWT (\<lambda>_. 0) exampleGateway (handle exampleEnv)
      (exampleRequest ''GET'' ''/rest/v1/t'' []) (NewEngine 5 60 0 0))) = Some 401"
proof -
  have en: "gw_Enabled exampleGateway" by code_simp
  have path: "isDataPath (r_Path (exampleRequest ''GET'' ''/rest/v1/t'' []))" by code_simp
  have bad: "\<not> isOk (Validate exampleJWT 0 exampleGateway
      (headerGet (r_Header (exampleRequest ''GET'' ''/rest/v1/t'' [])) ''apikey'')
      (BearerToken (headerGet (r_Header (exampleRequest ''GET'' ''/rest/v1/t'' [])) ''Authorization'')))"
    by code_simp
  show ?thesis using DataAuth_gate [OF en, of exampleJWT "\<lambda>_. 0" "handle exampleEnv"] path bad by blast
qed

text \<open>With an admin key set, a request under the admin prefix is passed on exactly when it carries that
  key (in \<open>X-Api-Key\<close>, or else as a bearer token), and otherwise it gets 401 with a JSON error and no
  state changes; with no admin key set every admin request is passed on.\<close>

theorem AdminAuth_gate:
  "AdminAuth (NewAdmin key) nxt r s =
     (if isAdminPath (r_Path r) \<and> TrimSpace key \<noteq> [] \<and>
         TrimSpace (AdminAPIKeyFromRequest r) \<noteq> TrimSpace key
      then (WriteJSON 401 (adminErrorJSON
              (if TrimSpace (AdminAPIKeyFromRequest r) = [] then ''missing admin api key''
               else ''invalid admin api key'')) newWriter, s)
      else nxt r s)"
  by (auto simp: AdminAuth_def NewAdmin_def adminValidate_def Let_def)

text \<open>C1: the composed server never lets an unauthenticated request touch the engine: for a data path with the
  gateway enabled, if the engine's state changes then the request was not a preflight and its key and token
  are valid.\<close>

theorem server_changes_state_only_authenticated:
  assumes "gw_Enabled g" "isDataPath (r_Path r)"
    and "snd (serverHandler lib now g a mux r s) \<noteq> s"
  shows "r_Method r \<noteq> ''OPTIONS'' \<and>
    isOk (Validate lib (now s) g (headerGet (r_Header r) ''apikey'')
            (BearerToken (headerGet (r_Header r) ''Authorization'')))"
proof -
  have "\<not> isAdminPath (r_Path r)"
    using assms(2) by (auto simp: isAdminPath_def isDataPath_def adminPrefix_def HasPrefix_iff)
  then have "r_Method r \<noteq> ''OPTIONS''" and st: "snd (DataAuth lib now g mux r s) \<noteq> s"
    using assms(3) by (auto simp: serverHandler_def CORS_def AdminAuth_def split: prod.splits if_splits)
  moreover have "isOk (Validate lib (now s) g (headerGet (r_Header r) ''apikey'')
            (BearerToken (headerGet (r_Header r) ''Authorization'')))"
    using st assms(1,2) Validate_not_disabled [OF assms(1)]
    by (auto simp: DataAuth_def isOk_def split: sum.splits if_splits)
  ultimately show ?thesis by simp
qed

definition exampleSigned :: Request where
  "exampleSigned =
     (exampleRequest ''POST'' ''/rest/v1/t'' [])
       \<lparr>r_Header := [(''apikey'', [''anon'']), (''Authorization'', [''Bearer anon''])]\<rparr>"

theorem server_changes_state_only_authenticated_witness:
  "isOk (Validate exampleJWT 0 exampleGateway (headerGet (r_Header exampleSigned) ''apikey'')
     (BearerToken (headerGet (r_Header exampleSigned) ''Authorization'')))"
proof -
  let ?mux = "\<lambda>r s. (newWriter, s\<lparr>eg_world := eg_world s + 1\<rparr>) :: ResponseWriter \<times> int eng"
  have en: "gw_Enabled exampleGateway" by code_simp
  have path: "isDataPath (r_Path exampleSigned)" by code_simp
  have "eg_world (snd (serverHandler exampleJWT (\<lambda>_. 0) exampleGateway (NewAdmin '''') ?mux exampleSigned (NewEngine 5 60 0 0))) = 1"
    by code_simp
  then have "snd (serverHandler exampleJWT (\<lambda>_. 0) exampleGateway (NewAdmin '''') ?mux exampleSigned (NewEngine 5 60 0 0))
      \<noteq> NewEngine 5 60 0 0"
    by (auto simp: NewEngine_def)
  from server_changes_state_only_authenticated [OF en path this] show ?thesis by simp
qed
end
