(* ===== verification/AdminApi.thy ===== *)
theory AdminApi
  imports StoreConfig ApiAuth
begin

text \<open>
  The admin API (\<open>internal/api/admin/handler.go\<close>, \<open>internal/httpx/json.go\<close>): create, read, update and delete
  metadata over HTTP. A handler takes a request and the state of the store. The store is a record of its
  operations (\<open>store.Store\<close>), instantiated by the file store; parsing and printing identifiers and times,
  and pinging the store, are parameters. A request body decodes as \<open>encoding/json\<close> does with
  \<open>DisallowUnknownFields\<close>. Logging is left out.
\<close>

section \<open>The store and its environment\<close>

record 's adminStore =
  as_CreateCredential :: "string \<Rightarrow> row \<Rightarrow> ('s, err, Credential) comp"
  as_DeleteCredential :: "uuid \<Rightarrow> ('s, err, unit) comp"
  as_CreateServer :: "CreateServerRequest \<Rightarrow> ('s, err, Server) comp"
  as_ListServers :: "('s, err, Server list) comp"
  as_GetServerByID :: "uuid \<Rightarrow> ('s, err, Server) comp"
  as_UpdateServer :: "uuid \<Rightarrow> UpdateServerRequest \<Rightarrow> ('s, err, Server) comp"
  as_DeleteServer :: "uuid \<Rightarrow> ('s, err, unit) comp"
  as_CreateTable :: "CreateTableRequest \<Rightarrow> ('s, err, Table \<times> Column list) comp"
  as_ListTables :: "('s, err, Table list) comp"
  as_GetTableByID :: "uuid \<Rightarrow> ('s, err, Table) comp"
  as_UpdateTable :: "uuid \<Rightarrow> UpdateTableRequest \<Rightarrow> ('s, err, Table) comp"
  as_DeleteTable :: "uuid \<Rightarrow> ('s, err, unit) comp"
  as_ListColumnsByTableID :: "uuid \<Rightarrow> ('s, err, Column list) comp"
  as_GetColumnByID :: "uuid \<Rightarrow> ('s, err, Column) comp"
  as_CreateColumn :: "uuid \<Rightarrow> ColumnInput \<Rightarrow> ('s, err, Column) comp"
  as_UpdateColumn :: "uuid \<Rightarrow> UpdateColumnRequest \<Rightarrow> ('s, err, Column) comp"
  as_DeleteColumn :: "uuid \<Rightarrow> ('s, err, unit) comp"
  as_CreateFunction :: "CreateFunctionRequest \<Rightarrow> ('s, err, Function) comp"
  as_ListFunctions :: "('s, err, Function list) comp"
  as_GetFunctionByID :: "uuid \<Rightarrow> ('s, err, Function) comp"
  as_UpdateFunction :: "uuid \<Rightarrow> UpdateFunctionRequest \<Rightarrow> ('s, err, Function) comp"
  as_DeleteFunction :: "uuid \<Rightarrow> ('s, err, unit) comp"

record 's adminEnv =
  ad_store :: "'s adminStore"
  ad_mode :: string
  ad_parseUUID :: "string \<Rightarrow> uuid option"
  ad_uuidText :: "uuid \<Rightarrow> string"
  ad_timeText :: "time \<Rightarrow> string"
  ad_getenv :: "string \<Rightarrow> string"
  ad_ping :: "storeConfig \<Rightarrow> ('s, err, unit) comp"

type_synonym 's adminHandler = "Request \<Rightarrow> 's \<Rightarrow> ResponseWriter \<times> 's"

section \<open>Request bodies\<close>

datatype akind = AStr | AInt | ABool | ARaw | AUUID | AMap | AStrs | ARecs

definition intOf :: "val \<Rightarrow> int option" where
  "intOf v = (case v of VInt i \<Rightarrow> Some i | VNum t \<Rightarrow> Atoi t | _ \<Rightarrow> None)"

text \<open>Whether a value can be stored in a field; \<open>null\<close> always can. \<open>rec\<close> checks the elements of a list of structs.\<close>

definition akindOk :: "(string \<Rightarrow> uuid option) \<Rightarrow> (val \<Rightarrow> bool) \<Rightarrow> akind \<Rightarrow> val \<Rightarrow> bool" where
  "akindOk parse rec k v \<longleftrightarrow>
     v = VNil \<or>
     (case k of
        AStr \<Rightarrow> (case v of VStr _ \<Rightarrow> True | _ \<Rightarrow> False)
      | AInt \<Rightarrow> intOf v \<noteq> None
      | ABool \<Rightarrow> (case v of VBool _ \<Rightarrow> True | _ \<Rightarrow> False)
      | ARaw \<Rightarrow> True
      | AUUID \<Rightarrow> (case v of VStr s \<Rightarrow> parse s \<noteq> None | _ \<Rightarrow> False)
      | AMap \<Rightarrow> (case v of VObj _ \<Rightarrow> True | _ \<Rightarrow> False)
      | AStrs \<Rightarrow> (case v of VArr vs \<Rightarrow> list_all (\<lambda>x. case x of VNil \<Rightarrow> True | VStr _ \<Rightarrow> True | _ \<Rightarrow> False) vs | _ \<Rightarrow> False)
      | ARecs \<Rightarrow> (case v of VArr vs \<Rightarrow> list_all rec vs | _ \<Rightarrow> False))"

text \<open>The first error in the entries of an object: an unknown field, or a value of the wrong type.\<close>

fun entriesError :: "(akind \<Rightarrow> val \<Rightarrow> bool) \<Rightarrow> (string \<times> akind) list \<Rightarrow> row \<Rightarrow> err option" where
  "entriesError ok fs [] = None"
| "entriesError ok fs ((k, v) # kvs) =
     (case find (\<lambda>f. EqualFold (fst f) k) fs of
        None \<Rightarrow> Some (Errorf (''json: unknown field '' @ quoteGo k))
      | Some (_, kd) \<Rightarrow>
          if ok kd v then entriesError ok fs kvs
          else Some (ErrJSONType ''json: cannot unmarshal value into Go value''))"

definition columnFields :: "(string \<times> akind) list" where
  "columnFields =
     [(''name'', AStr), (''dataType'', AStr), (''remoteName'', AStr), (''nullable'', ABool), (''position'', AInt)]"

text \<open>Lists of structs occur only as the columns of a table.\<close>

definition columnOk :: "(string \<Rightarrow> uuid option) \<Rightarrow> val \<Rightarrow> bool" where
  "columnOk parse v \<longleftrightarrow>
     (case v of
        VNil \<Rightarrow> True
      | VObj kvs \<Rightarrow> entriesError (akindOk parse (\<lambda>_. False)) columnFields kvs = None
      | _ \<Rightarrow> False)"

definition DecodeJSON :: "(string \<Rightarrow> uuid option) \<Rightarrow> (string \<times> akind) list \<Rightarrow> Request \<Rightarrow> err + row" where
  "DecodeJSON parse fs r =
     (case r_BodyFirst r of
        RawEmpty \<Rightarrow> Inl ErrEOF
      | RawBad m \<Rightarrow> Inl (ErrJSONSyntax m)
      | RawJSON VNil \<Rightarrow> Inr []
      | RawJSON (VObj kvs) \<Rightarrow>
          (case entriesError (akindOk parse (columnOk parse)) fs kvs of None \<Rightarrow> Inr kvs | Some e \<Rightarrow> Inl e)
      | RawJSON _ \<Rightarrow> Inl (ErrJSONType ''json: cannot unmarshal value into Go value''))"

text \<open>Reading a decoded body. A pointer, a slice or a raw message takes the last entry of its name, a scalar the
  last one that is not \<open>null\<close>, a map collects the entries of all objects since the last \<open>null\<close>.\<close>

definition entryOf :: "row \<Rightarrow> string \<Rightarrow> val option" where
  "entryOf kvs name = map_option snd (find (\<lambda>kv. EqualFold name (fst kv)) (rev kvs))"

definition strPtr :: "row \<Rightarrow> string \<Rightarrow> string option" where
  "strPtr kvs name = (case entryOf kvs name of Some (VStr s) \<Rightarrow> Some s | _ \<Rightarrow> None)"

definition boolPtr :: "row \<Rightarrow> string \<Rightarrow> bool option" where
  "boolPtr kvs name = (case entryOf kvs name of Some (VBool b) \<Rightarrow> Some b | _ \<Rightarrow> None)"

definition intPtr :: "row \<Rightarrow> string \<Rightarrow> int option" where
  "intPtr kvs name = Option.bind (entryOf kvs name) intOf"

definition uuidPtr :: "(string \<Rightarrow> uuid option) \<Rightarrow> row \<Rightarrow> string \<Rightarrow> uuid option" where
  "uuidPtr parse kvs name = (case entryOf kvs name of Some (VStr s) \<Rightarrow> parse s | _ \<Rightarrow> None)"

definition rawField :: "row \<Rightarrow> string \<Rightarrow> raw" where
  "rawField kvs name = (case entryOf kvs name of Some v \<Rightarrow> RawJSON v | None \<Rightarrow> RawEmpty)"

definition intField :: "row \<Rightarrow> string \<Rightarrow> int" where
  "intField kvs name =
     (case find (\<lambda>kv. EqualFold name (fst kv) \<and> snd kv \<noteq> VNil) (rev kvs) of
        Some (_, v) \<Rightarrow> (case intOf v of Some i \<Rightarrow> i | None \<Rightarrow> 0)
      | None \<Rightarrow> 0)"

definition mapField :: "row \<Rightarrow> string \<Rightarrow> row" where
  "mapField kvs name =
     foldl (\<lambda>acc kv. if EqualFold name (fst kv) then (case snd kv of VObj m \<Rightarrow> buildMap acc m | _ \<Rightarrow> []) else acc) [] kvs"

definition strsField :: "row \<Rightarrow> string \<Rightarrow> string list option" where
  "strsField kvs name =
     (case entryOf kvs name of
        Some (VArr vs) \<Rightarrow> Some (map (\<lambda>v. case v of VStr s \<Rightarrow> s | _ \<Rightarrow> []) vs)
      | _ \<Rightarrow> None)"

definition decodeColumnInput :: "row \<Rightarrow> ColumnInput" where
  "decodeColumnInput kvs =
     \<lparr>ci_Name = strField kvs ''name'', ci_DataType = strField kvs ''dataType'',
      ci_RemoteName = strField kvs ''remoteName'', ci_Nullable = boolPtr kvs ''nullable'',
      ci_Position = intField kvs ''position''\<rparr>"

definition CreateCredentialFields :: "(string \<times> akind) list" where
  "CreateCredentialFields = [(''name'', AStr), (''data'', AMap)]"

definition CreateServerFields :: "(string \<times> akind) list" where
  "CreateServerFields =
     [(''name'', AStr), (''protocol'', AStr), (''options'', ARaw), (''credentialRef'', AUUID), (''credential'', AMap),
      (''credentialName'', AStr), (''enabled'', ABool)]"

definition decodeCreateServer :: "(string \<Rightarrow> uuid option) \<Rightarrow> row \<Rightarrow> CreateServerRequest" where
  "decodeCreateServer parse kvs =
     \<lparr>csr_Name = strField kvs ''name'', csr_Protocol = strField kvs ''protocol'', csr_Options = rawField kvs ''options'',
      csr_CredentialRef = uuidPtr parse kvs ''credentialRef'', csr_Credential = mapField kvs ''credential'',
      csr_CredentialName = strField kvs ''credentialName'', csr_Enabled = boolPtr kvs ''enabled''\<rparr>"

definition UpdateServerFields :: "(string \<times> akind) list" where
  "UpdateServerFields = [(''options'', ARaw), (''credentialRef'', AUUID), (''enabled'', ABool)]"

definition decodeUpdateServer :: "(string \<Rightarrow> uuid option) \<Rightarrow> row \<Rightarrow> UpdateServerRequest" where
  "decodeUpdateServer parse kvs =
     \<lparr>usr_Options = rawField kvs ''options'', usr_CredentialRef = uuidPtr parse kvs ''credentialRef'',
      usr_Enabled = boolPtr kvs ''enabled''\<rparr>"

definition CreateTableFields :: "(string \<times> akind) list" where
  "CreateTableFields =
     [(''serverName'', AStr), (''schemaName'', AStr), (''tableName'', AStr), (''remoteName'', AStr), (''keyColumns'', AStrs),
      (''options'', ARaw), (''columns'', ARecs)]"

definition decodeCreateTable :: "row \<Rightarrow> CreateTableRequest" where
  "decodeCreateTable kvs =
     \<lparr>ctr_ServerName = strField kvs ''serverName'', ctr_SchemaName = strField kvs ''schemaName'',
      ctr_TableName = strField kvs ''tableName'', ctr_RemoteName = strField kvs ''remoteName'',
      ctr_KeyColumns = strsField kvs ''keyColumns'', ctr_Options = rawField kvs ''options'',
      ctr_Columns =
        (case entryOf kvs ''columns'' of
           Some (VArr vs) \<Rightarrow> map (\<lambda>v. decodeColumnInput (case v of VObj m \<Rightarrow> m | _ \<Rightarrow> [])) vs
         | _ \<Rightarrow> [])\<rparr>"

definition UpdateTableFields :: "(string \<times> akind) list" where
  "UpdateTableFields = [(''remoteName'', AStr), (''keyColumns'', AStrs), (''options'', ARaw)]"

definition decodeUpdateTable :: "row \<Rightarrow> UpdateTableRequest" where
  "decodeUpdateTable kvs =
     \<lparr>utr_RemoteName = strPtr kvs ''remoteName'', utr_KeyColumns = strsField kvs ''keyColumns'',
      utr_Options = rawField kvs ''options''\<rparr>"

definition UpdateColumnFields :: "(string \<times> akind) list" where
  "UpdateColumnFields = [(''dataType'', AStr), (''remoteName'', AStr), (''nullable'', ABool), (''position'', AInt)]"

definition decodeUpdateColumn :: "row \<Rightarrow> UpdateColumnRequest" where
  "decodeUpdateColumn kvs =
     \<lparr>ucr_DataType = strPtr kvs ''dataType'', ucr_RemoteName = strPtr kvs ''remoteName'',
      ucr_Nullable = boolPtr kvs ''nullable'', ucr_Position = intPtr kvs ''position''\<rparr>"

definition CreateFunctionFields :: "(string \<times> akind) list" where
  "CreateFunctionFields =
     [(''serverName'', AStr), (''schemaName'', AStr), (''name'', AStr), (''operation'', AStr), (''remotePath'', AStr),
      (''method'', AStr), (''options'', ARaw)]"

definition decodeCreateFunction :: "row \<Rightarrow> CreateFunctionRequest" where
  "decodeCreateFunction kvs =
     \<lparr>cfr_ServerName = strField kvs ''serverName'', cfr_SchemaName = strField kvs ''schemaName'',
      cfr_Name = strField kvs ''name'', cfr_Operation = strField kvs ''operation'',
      cfr_RemotePath = strField kvs ''remotePath'', cfr_Method = strField kvs ''method'',
      cfr_Options = rawField kvs ''options''\<rparr>"

definition UpdateFunctionFields :: "(string \<times> akind) list" where
  "UpdateFunctionFields = [(''operation'', AStr), (''remotePath'', AStr), (''method'', AStr), (''options'', ARaw)]"

definition decodeUpdateFunction :: "row \<Rightarrow> UpdateFunctionRequest" where
  "decodeUpdateFunction kvs =
     \<lparr>ufr_Operation = strPtr kvs ''operation'', ufr_RemotePath = strPtr kvs ''remotePath'',
      ufr_Method = strPtr kvs ''method'', ufr_Options = rawField kvs ''options''\<rparr>"


section \<open>Responses\<close>

definition rawEntry :: "raw \<Rightarrow> row" where
  "rawEntry r = (case r of RawEmpty \<Rightarrow> [] | RawJSON v \<Rightarrow> [(''options'', v)] | RawBad _ \<Rightarrow> [(''options'', VNil)])"

definition omitEmpty :: "string \<Rightarrow> string \<Rightarrow> row" where
  "omitEmpty k s = (if s = [] then [] else [(k, VStr s)])"

definition credentialJSON :: "'s adminEnv \<Rightarrow> Credential \<Rightarrow> val" where
  "credentialJSON env c =
     VObj [(''id'', VStr (ad_uuidText env (cr_ID c))), (''name'', VStr (cr_Name c)),
           (''createdAt'', VStr (ad_timeText env (cr_CreatedAt c)))]"

definition serverJSON :: "'s adminEnv \<Rightarrow> Server \<Rightarrow> val" where
  "serverJSON env s =
     VObj ([(''id'', VStr (ad_uuidText env (s_ID s))), (''name'', VStr (s_Name s)), (''protocol'', VStr (s_Protocol s))] @
       rawEntry (s_Options s) @
       (case s_CredentialRef s of None \<Rightarrow> [] | Some i \<Rightarrow> [(''credentialRef'', VStr (ad_uuidText env i))]) @
       [(''enabled'', VBool (s_Enabled s)), (''updatedAt'', VStr (ad_timeText env (s_UpdatedAt s)))])"

definition tableJSON :: "'s adminEnv \<Rightarrow> Table \<Rightarrow> val" where
  "tableJSON env t =
     VObj ([(''id'', VStr (ad_uuidText env (t_ID t))), (''serverId'', VStr (ad_uuidText env (t_ServerID t))),
            (''schemaName'', VStr (t_SchemaName t)), (''tableName'', VStr (t_TableName t))] @
       omitEmpty ''remoteName'' (t_RemoteName t) @
       [(''keyColumns'', VArr (map VStr (t_KeyColumns t)))] @ rawEntry (t_Options t) @
       omitEmpty ''serverName'' (t_ServerName t))"

definition columnJSON :: "'s adminEnv \<Rightarrow> Column \<Rightarrow> val" where
  "columnJSON env c =
     VObj ([(''id'', VStr (ad_uuidText env (c_ID c))), (''tableId'', VStr (ad_uuidText env (c_TableID c))),
            (''name'', VStr (c_Name c)), (''dataType'', VStr (c_DataType c))] @
       omitEmpty ''remoteName'' (c_RemoteName c) @
       [(''nullable'', VBool (c_Nullable c)), (''position'', VInt (c_Position c))])"

definition functionJSON :: "'s adminEnv \<Rightarrow> Function \<Rightarrow> val" where
  "functionJSON env f =
     VObj ([(''id'', VStr (ad_uuidText env (f_ID f))), (''serverId'', VStr (ad_uuidText env (f_ServerID f))),
            (''schemaName'', VStr (f_SchemaName f)), (''name'', VStr (f_Name f)), (''operation'', VStr (f_Operation f))] @
       omitEmpty ''remotePath'' (f_RemotePath f) @ omitEmpty ''method'' (f_Method f) @ rawEntry (f_Options f) @
       omitEmpty ''serverName'' (f_ServerName f))"

text \<open>The answer to \<open>POST /tables\<close>; a nil list of columns is \<open>null\<close>.\<close>

definition createdTableJSON :: "'s adminEnv \<Rightarrow> Table \<times> Column list \<Rightarrow> val" where
  "createdTableJSON env tc =
     VObj [(''columns'', case snd tc of [] \<Rightarrow> VNil | cs \<Rightarrow> VArr (map (columnJSON env) cs)),
           (''table'', tableJSON env (fst tc))]"

definition httpError :: "string \<Rightarrow> nat \<Rightarrow> ResponseWriter" where
  "httpError msg code =
     writeBody (TextBody (msg @ [char_of (10 :: nat)]))
       (WriteHeader code (setHeader ''X-Content-Type-Options'' ''nosniff''
         (setHeader ''Content-Type'' ''text/plain; charset=utf-8'' newWriter)))"

definition methodNotAllowed :: ResponseWriter where
  "methodNotAllowed = httpError ''method not allowed'' 405"

definition WriteAdminError :: "err \<Rightarrow> ResponseWriter" where
  "WriteAdminError e = WriteJSON (if errIs e ErrNotFound then 404 else 400) (adminErrorJSON (errMsg e)) newWriter"

definition adminWriteDenied :: "'s adminEnv \<Rightarrow> ResponseWriter option" where
  "adminWriteDenied env =
     (if ad_mode env \<noteq> ModeFile then None
      else Some (WriteJSON 405 (adminErrorJSON
        ''admin write API is not available when DATASPAN_STORE_MODE=file; edit drivers.yaml instead'') newWriter))"

section \<open>Handlers\<close>

text \<open>The answer to a store operation: its error, or status and JSON; 204 has no body.\<close>

definition answerWith :: "nat \<Rightarrow> ('a \<Rightarrow> val) \<Rightarrow> ('s, err, 'a) comp \<Rightarrow> 's \<Rightarrow> ResponseWriter \<times> 's" where
  "answerWith status json f s =
     (case f s of
        (Inl e, s1) \<Rightarrow> (WriteAdminError e, s1)
      | (Inr x, s1) \<Rightarrow> (WriteJSON status (json x) newWriter, s1))"

definition answerNoContent :: "('s, err, unit) comp \<Rightarrow> 's \<Rightarrow> ResponseWriter \<times> 's" where
  "answerNoContent f s =
     (case f s of
        (Inl e, s1) \<Rightarrow> (WriteAdminError e, s1)
      | (Inr _, s1) \<Rightarrow> (WriteHeader 204 newWriter, s1))"

text \<open>A write: refused in file mode.\<close>

definition guarded :: "'s adminEnv \<Rightarrow> ('s \<Rightarrow> ResponseWriter \<times> 's) \<Rightarrow> 's \<Rightarrow> ResponseWriter \<times> 's" where
  "guarded env k s = (case adminWriteDenied env of Some w \<Rightarrow> (w, s) | None \<Rightarrow> k s)"

text \<open>A write with a body, which is decoded after the guard.\<close>

definition guardedBody ::
  "'s adminEnv \<Rightarrow> (string \<times> akind) list \<Rightarrow> Request \<Rightarrow> (row \<Rightarrow> 's \<Rightarrow> ResponseWriter \<times> 's) \<Rightarrow> 's \<Rightarrow> ResponseWriter \<times> 's"
where
  "guardedBody env fs r k =
     guarded env (\<lambda>s.
       (case DecodeJSON (ad_parseUUID env) fs r of Inl e \<Rightarrow> (WriteAdminError e, s) | Inr kvs \<Rightarrow> k kvs s))"

definition listJSON :: "('a \<Rightarrow> val) \<Rightarrow> 'a list \<Rightarrow> val" where
  "listJSON json xs = VArr (map json xs)"

definition parseAdminIDTail :: "'s adminEnv \<Rightarrow> string \<Rightarrow> string \<Rightarrow> (uuid \<times> string list) option" where
  "parseAdminIDTail env path prefix =
     (let rest = Trim (TrimPrefix path prefix) ''/''
      in if rest = [] then None
         else (case Split rest (CHR ''/'') of
                 [] \<Rightarrow> None
               | p # ps \<Rightarrow> map_option (\<lambda>i. (i, ps)) (ad_parseUUID env p)))"

definition parseAdminID :: "'s adminEnv \<Rightarrow> string \<Rightarrow> string \<Rightarrow> uuid option" where
  "parseAdminID env path prefix =
     (case parseAdminIDTail env path prefix of
        Some (i, []) \<Rightarrow> Some i
      | _ \<Rightarrow> None)"

definition health :: "'s adminHandler" where
  "health r s =
     (if r_Method r \<noteq> ''GET'' then (methodNotAllowed, s)
      else (WriteJSON 200 (VObj [(''status'', VStr ''ok''), (''version'', VStr Version)]) newWriter, s))"

definition healthReady :: "'s adminEnv \<Rightarrow> 's adminHandler" where
  "healthReady env r s =
     (if r_Method r \<noteq> ''GET'' then (methodNotAllowed, s)
      else (case LoadConfig (ad_getenv env) of
              Inl e \<Rightarrow> (WriteJSON 503 (VObj [(''error'', VStr (errMsg e)), (''status'', VStr ''error'')]) newWriter, s)
            | Inr cfg \<Rightarrow>
                (case ad_ping env cfg s of
                   (Inl e, s1) \<Rightarrow>
                     (WriteJSON 503 (VObj [(''error'', VStr (errMsg e)), (''status'', VStr ''error''),
                        (''store'', VStr (sc_Mode cfg))]) newWriter, s1)
                 | (Inr _, s1) \<Rightarrow>
                     (WriteJSON 200 (VObj [(''status'', VStr ''ready''), (''store'', VStr (sc_Mode cfg)),
                        (''version'', VStr Version)]) newWriter, s1))))"

definition credentials :: "'s adminEnv \<Rightarrow> 's adminHandler" where
  "credentials env r s =
     (if r_Method r \<noteq> ''POST'' then (methodNotAllowed, s)
      else guardedBody env CreateCredentialFields r (\<lambda>kvs.
        answerWith 201 (credentialJSON env)
          (as_CreateCredential (ad_store env) (strField kvs ''name'') (mapField kvs ''data''))) s)"

definition deleteCredential :: "'s adminEnv \<Rightarrow> 's adminHandler" where
  "deleteCredential env r s =
     (if r_Method r \<noteq> ''DELETE'' then (methodNotAllowed, s)
      else guarded env (\<lambda>s.
        (case parseAdminID env (r_Path r) (adminPrefix @ ''/credentials/'') of
           None \<Rightarrow> (notFound, s)
         | Some i \<Rightarrow> answerNoContent (as_DeleteCredential (ad_store env) i) s)) s)"

definition servers :: "'s adminEnv \<Rightarrow> 's adminHandler" where
  "servers env r s =
     (if r_Method r = ''GET'' then
        answerWith 200 (listJSON (serverJSON env)) (as_ListServers (ad_store env)) s
      else if r_Method r = ''POST'' then
        guardedBody env CreateServerFields r (\<lambda>kvs.
          answerWith 201 (serverJSON env)
            (as_CreateServer (ad_store env) (decodeCreateServer (ad_parseUUID env) kvs))) s
      else (methodNotAllowed, s))"

definition serverByID :: "'s adminEnv \<Rightarrow> 's adminHandler" where
  "serverByID env r s =
     (case parseAdminID env (r_Path r) (adminPrefix @ ''/servers/'') of
        None \<Rightarrow> (notFound, s)
      | Some i \<Rightarrow>
          if r_Method r = ''GET'' then answerWith 200 (serverJSON env) (as_GetServerByID (ad_store env) i) s
          else if r_Method r = ''PATCH'' then
            guardedBody env UpdateServerFields r (\<lambda>kvs.
              answerWith 200 (serverJSON env)
                (as_UpdateServer (ad_store env) i (decodeUpdateServer (ad_parseUUID env) kvs))) s
          else if r_Method r = ''DELETE'' then
            guarded env (answerNoContent (as_DeleteServer (ad_store env) i)) s
          else (methodNotAllowed, s))"

definition tables :: "'s adminEnv \<Rightarrow> 's adminHandler" where
  "tables env r s =
     (if r_Method r = ''GET'' then
        answerWith 200 (listJSON (tableJSON env)) (as_ListTables (ad_store env)) s
      else if r_Method r = ''POST'' then
        guardedBody env CreateTableFields r (\<lambda>kvs.
          answerWith 201 (createdTableJSON env) (as_CreateTable (ad_store env) (decodeCreateTable kvs))) s
      else (methodNotAllowed, s))"

definition tableColumnsOf :: "'s adminEnv \<Rightarrow> uuid \<Rightarrow> 's adminHandler" where
  "tableColumnsOf env i r s =
     (if r_Method r = ''GET'' then
        answerWith 200 (listJSON (columnJSON env)) (as_ListColumnsByTableID (ad_store env) i) s
      else if r_Method r = ''POST'' then
        guardedBody env columnFields r (\<lambda>kvs.
          answerWith 201 (columnJSON env) (as_CreateColumn (ad_store env) i (decodeColumnInput kvs))) s
      else (methodNotAllowed, s))"

definition tableByID :: "'s adminEnv \<Rightarrow> 's adminHandler" where
  "tableByID env r s =
     (case parseAdminIDTail env (r_Path r) (adminPrefix @ ''/tables/'') of
        None \<Rightarrow> (notFound, s)
      | Some (i, ps) \<Rightarrow>
          if ps = [''columns''] then tableColumnsOf env i r s
          else if ps \<noteq> [] then (notFound, s)
          else if r_Method r = ''GET'' then answerWith 200 (tableJSON env) (as_GetTableByID (ad_store env) i) s
          else if r_Method r = ''PATCH'' then
            guardedBody env UpdateTableFields r (\<lambda>kvs.
              answerWith 200 (tableJSON env) (as_UpdateTable (ad_store env) i (decodeUpdateTable kvs))) s
          else if r_Method r = ''DELETE'' then
            guarded env (answerNoContent (as_DeleteTable (ad_store env) i)) s
          else (methodNotAllowed, s))"

definition columnByID :: "'s adminEnv \<Rightarrow> 's adminHandler" where
  "columnByID env r s =
     (case parseAdminID env (r_Path r) (adminPrefix @ ''/columns/'') of
        None \<Rightarrow> (notFound, s)
      | Some i \<Rightarrow>
          if r_Method r = ''GET'' then answerWith 200 (columnJSON env) (as_GetColumnByID (ad_store env) i) s
          else if r_Method r = ''PATCH'' then
            guardedBody env UpdateColumnFields r (\<lambda>kvs.
              answerWith 200 (columnJSON env) (as_UpdateColumn (ad_store env) i (decodeUpdateColumn kvs))) s
          else if r_Method r = ''DELETE'' then
            guarded env (answerNoContent (as_DeleteColumn (ad_store env) i)) s
          else (methodNotAllowed, s))"

definition adminFunctions :: "'s adminEnv \<Rightarrow> 's adminHandler" where
  "adminFunctions env r s =
     (if r_Method r = ''GET'' then
        answerWith 200 (listJSON (functionJSON env)) (as_ListFunctions (ad_store env)) s
      else if r_Method r = ''POST'' then
        guardedBody env CreateFunctionFields r (\<lambda>kvs.
          answerWith 201 (functionJSON env) (as_CreateFunction (ad_store env) (decodeCreateFunction kvs))) s
      else (methodNotAllowed, s))"

definition functionByID :: "'s adminEnv \<Rightarrow> 's adminHandler" where
  "functionByID env r s =
     (case parseAdminID env (r_Path r) (adminPrefix @ ''/functions/'') of
        None \<Rightarrow> (notFound, s)
      | Some i \<Rightarrow>
          if r_Method r = ''GET'' then answerWith 200 (functionJSON env) (as_GetFunctionByID (ad_store env) i) s
          else if r_Method r = ''PATCH'' then
            guardedBody env UpdateFunctionFields r (\<lambda>kvs.
              answerWith 200 (functionJSON env) (as_UpdateFunction (ad_store env) i (decodeUpdateFunction kvs))) s
          else if r_Method r = ''DELETE'' then
            guarded env (answerNoContent (as_DeleteFunction (ad_store env) i)) s
          else (methodNotAllowed, s))"

end
