(* ===== verification/Importer.thy ===== *)
theory Importer
  imports SqlImport OpenApiImport AdminApi
begin

text \<open>
  The import of metadata: the choice of a converter (\<open>internal/importer/importer.go\<close>), the import of a YAML
  text into the store (\<open>internal/store/import.go\<close>), the import handler of the admin API
  (\<open>internal/api/admin/import.go\<close>), and the routes of the admin API with the file store behind them. The
  YAML and JSON libraries and the reader of multipart forms are parameters.
\<close>

section \<open>Conversion\<close>

abbreviation (input) KindOpenAPI :: string where "KindOpenAPI \<equiv> ''openapi''"
abbreviation (input) KindSQL :: string where "KindSQL \<equiv> ''sql''"
abbreviation (input) KindYAML :: string where "KindYAML \<equiv> ''yaml''"

text \<open>The libraries: an OpenAPI document from YAML or JSON, and a declarative document to YAML and back.\<close>

record docLib =
  dl_oasYAML :: "string \<Rightarrow> err + oasDoc"
  dl_oasJSON :: "string \<Rightarrow> err + oasDoc"
  dl_marshal :: "DeclarativeDoc \<Rightarrow> err + string"
  dl_unmarshal :: "string \<Rightarrow> err + DeclarativeDoc"

record ConvertOptions =
  co_Kind :: string
  co_Input :: string
  co_OpenAPI :: importOpenAPIOptions
  co_SQL :: SQLOptions

text \<open>The document of the input; the scan of SQL has a result for every text (\<open>parseCreateTables_terminates\<close>).\<close>

definition convertDoc :: "docLib \<Rightarrow> ConvertOptions \<Rightarrow> err + DeclarativeDoc" where
  "convertDoc lib opts =
     (if co_Kind opts = KindOpenAPI then
        OpenAPIToDeclarative (dl_oasYAML lib) (dl_oasJSON lib) (co_Input opts) (co_OpenAPI opts)
      else the (SQLToDeclarative (co_Input opts) (co_SQL opts)))"

definition Convert :: "docLib \<Rightarrow> ConvertOptions \<Rightarrow> err + string" where
  "Convert lib opts =
     (if co_Kind opts = KindYAML then Inr (co_Input opts)
      else if co_Kind opts = KindOpenAPI \<or> co_Kind opts = KindSQL then
        (case convertDoc lib opts of
           Inl e \<Rightarrow> Inl e
         | Inr doc \<Rightarrow>
             (case dl_marshal lib doc of
                Inl e \<Rightarrow> Inl (Wrapf ''marshal yaml: '' e [])
              | Inr out \<Rightarrow> Inr out))
      else Inl (Errorf (''unsupported import kind '' @ quoteGo (co_Kind opts))))"

definition looksLikeOpenAPI :: "string \<Rightarrow> bool" where
  "looksLikeOpenAPI content \<longleftrightarrow>
     (let s = ToLower content
      in Contains s ''openapi:'' \<or> Contains s ([CHR 0x22] @ ''openapi'' @ [CHR 0x22]) \<or>
         (Contains s ''paths:'' \<and> Contains s ''components:''))"

definition DetectKind :: "string \<Rightarrow> string \<Rightarrow> string" where
  "DetectKind filename content =
     (let name = ToLower filename
      in if HasSuffix name ''.sql'' then KindSQL
         else if HasSuffix name ''.yaml'' \<or> HasSuffix name ''.yml'' then
           (if looksLikeOpenAPI content then KindOpenAPI else KindYAML)
         else if HasSuffix name ''.json'' \<and> looksLikeOpenAPI content then KindOpenAPI
         else if looksLikeOpenAPI content then KindOpenAPI
         else KindYAML)"

text \<open>\<open>ImportYAML\<close>; \<open>importDecl\<close> is \<open>ImportDeclarative\<close> of the store in use.\<close>

definition ImportYAML ::
  "docLib \<Rightarrow> (DeclarativeDoc \<Rightarrow> string \<Rightarrow> ('s, err, Result) comp) \<Rightarrow> string \<Rightarrow> string \<Rightarrow> ('s, err, Result) comp"
where
  "ImportYAML lib importDecl raw mode =
     (case dl_unmarshal lib raw of Inl e \<Rightarrow> failC e | Inr doc \<Rightarrow> importDecl doc mode)"

section \<open>The import handler\<close>

record importRequest =
  ir_Kind :: string
  ir_Content :: string
  ir_Dialect :: string
  ir_Mode :: string
  ir_ServerName :: string
  ir_Endpoint :: string
  ir_Schema :: string

definition importRequestFields :: "(string \<times> akind) list" where
  "importRequestFields =
     [(''kind'', AStr), (''content'', AStr), (''dialect'', AStr), (''mode'', AStr), (''serverName'', AStr),
      (''endpoint'', AStr), (''schema'', AStr)]"

text \<open>What the handler reads apart from the request: parsing a multipart form gives its values and the file.\<close>

record 's importEnv =
  im_lib :: docLib
  im_multipart :: "Request \<Rightarrow> err + ((string \<Rightarrow> string) \<times> (err + string))"
  im_import :: "DeclarativeDoc \<Rightarrow> string \<Rightarrow> ('s, err, Result) comp"

definition fieldsRequest :: "(string \<Rightarrow> string) \<Rightarrow> string \<Rightarrow> importRequest" where
  "fieldsRequest get content =
     \<lparr>ir_Kind = get ''kind'', ir_Content = content, ir_Dialect = get ''dialect'', ir_Mode = get ''mode'',
      ir_ServerName = get ''serverName'', ir_Endpoint = get ''endpoint'', ir_Schema = get ''schema''\<rparr>"

definition readImportRequest :: "'s adminEnv \<Rightarrow> 's importEnv \<Rightarrow> Request \<Rightarrow> err + importRequest" where
  "readImportRequest env im r =
     (let ct = ToLower (TrimSpace (headerGet (r_Header r) ''Content-Type''))
      in if HasPrefix ct ''multipart/form-data'' then
           (case im_multipart im r of
              Inl e \<Rightarrow> Inl e
            | Inr (get, file) \<Rightarrow>
                (case file of Inl e \<Rightarrow> Inl e | Inr content \<Rightarrow> Inr (fieldsRequest get content)))
         else if HasPrefix ct ''application/yaml'' \<or> HasPrefix ct ''text/yaml'' then
           (case r_BodyErr r of
              Some e \<Rightarrow> Inl e
            | None \<Rightarrow>
                let req = fieldsRequest (valuesGet (r_Query r)) (r_BodyText r)
                in Inr (if ir_Kind req = [] then req\<lparr>ir_Kind := ''yaml''\<rparr> else req))
         else (case DecodeJSON (ad_parseUUID env) importRequestFields r of
                 Inl e \<Rightarrow> Inl e
               | Inr kvs \<Rightarrow> Inr (fieldsRequest (strField kvs) (strField kvs ''content''))))"

definition noSQL :: SQLOptions where
  "noSQL = \<lparr>so_ServerName = [], so_Schema = [], so_Dialect = DialectNone\<rparr>"

definition importConvertOptions :: "importRequest \<Rightarrow> err + ConvertOptions" where
  "importConvertOptions req =
     (let kind = TrimSpace (ir_Kind req);
          kind = (if kind = [] then DetectKind ''input'' (ir_Content req) else kind);
          conv = \<lparr>co_Kind = kind, co_Input = ir_Content req,
                  co_OpenAPI = \<lparr>oo_ServerName = [], oo_Endpoint = []\<rparr>, co_SQL = noSQL\<rparr>
      in if kind = KindOpenAPI then
           Inr (conv\<lparr>co_OpenAPI := \<lparr>oo_ServerName = ir_ServerName req, oo_Endpoint = ir_Endpoint req\<rparr>\<rparr>)
         else if kind = KindSQL then
           (case ParseSQLDialect (ir_Dialect req) of
              Inl e \<Rightarrow> Inl e
            | Inr d \<Rightarrow>
                let schema = TrimSpace (ir_Schema req)
                in Inr (conv\<lparr>co_SQL := \<lparr>so_ServerName = ir_ServerName req,
                                        so_Schema = (if schema = [] then ''public'' else schema), so_Dialect = d\<rparr>\<rparr>))
         else Inr conv)"

definition resultJSON :: "Result \<Rightarrow> val" where
  "resultJSON re =
     VObj [(''servers'', VInt (int (re_Servers re))), (''tables'', VInt (int (re_Tables re))),
           (''functions'', VInt (int (re_Functions re)))]"

definition importMetadata :: "'s adminEnv \<Rightarrow> 's importEnv \<Rightarrow> 's adminHandler" where
  "importMetadata env im r s =
     (if r_Method r \<noteq> ''POST'' then (methodNotAllowed, s)
      else guarded env (\<lambda>s.
        (case readImportRequest env im r of
           Inl e \<Rightarrow> (WriteAdminError e, s)
         | Inr req \<Rightarrow>
             if TrimSpace (ir_Content req) = [] then (WriteJSON 400 (adminErrorJSON ''content is required'') newWriter, s)
             else (case importConvertOptions req of
                     Inl e \<Rightarrow> (WriteAdminError e, s)
                   | Inr conv \<Rightarrow>
                       (case Convert (im_lib im) conv of
                          Inl e \<Rightarrow> (WriteAdminError e, s)
                        | Inr yamlOut \<Rightarrow>
                            let mode = (if TrimSpace (ir_Mode req) = [] then ''replace'' else TrimSpace (ir_Mode req))
                            in answerWith 200 (\<lambda>re. VObj [(''imported'', resultJSON re), (''kind'', VStr (co_Kind conv)),
                                                            (''mode'', VStr mode)])
                                 (ImportYAML (im_lib im) (im_import im) yamlOut mode) s)))) s)"

section \<open>Routes\<close>

text \<open>\<open>Register\<close>: the handler of the pattern of the admin API that a path matches.\<close>

definition atPath :: "Request \<Rightarrow> string \<Rightarrow> bool" where
  "atPath r p \<longleftrightarrow> r_Path r = adminPrefix @ p"

definition underPath :: "Request \<Rightarrow> string \<Rightarrow> bool" where
  "underPath r p \<longleftrightarrow> HasPrefix (r_Path r) (adminPrefix @ p @ ''/'')"

definition adminRoute :: "'s adminEnv \<Rightarrow> 's importEnv \<Rightarrow> Request \<Rightarrow> 's adminHandler option" where
  "adminRoute env im r =
     (if r_Path r = ''/health'' then Some health
      else if r_Path r = ''/health/ready'' then Some (healthReady env)
      else if atPath r ''/credentials'' then Some (credentials env)
      else if underPath r ''/credentials'' then Some (deleteCredential env)
      else if atPath r ''/servers'' then Some (servers env)
      else if underPath r ''/servers'' then Some (serverByID env)
      else if atPath r ''/tables'' then Some (tables env)
      else if underPath r ''/tables'' then Some (tableByID env)
      else if underPath r ''/columns'' then Some (columnByID env)
      else if atPath r ''/functions'' then Some (adminFunctions env)
      else if underPath r ''/functions'' then Some (functionByID env)
      else if atPath r ''/import'' then Some (importMetadata env im)
      else None)"

text \<open>The multiplexer of main.go: the admin API on the store, which is the world of the engine, and the data API.
  The redirects and the path cleaning of \<open>net/http\<close> and the metrics endpoint are left out.\<close>

definition restMux :: "'w engineEnv \<Rightarrow> 'w handler" where
  "restMux env r s =
     (if HasPrefix (r_Path r) ''/v1/'' \<or> HasPrefix (r_Path r) ''/rest/v1/'' then handle env r s else handleRoot env r s)"

definition serverMux :: "'w adminEnv \<Rightarrow> 'w importEnv \<Rightarrow> 'w engineEnv \<Rightarrow> 'w handler" where
  "serverMux admin im env r s =
     (case adminRoute admin im r of
        Some h \<Rightarrow> (case h r (eg_world s) of (w, x) \<Rightarrow> (w, s\<lparr>eg_world := x\<rparr>))
      | None \<Rightarrow> restMux env r s)"

section \<open>The file store behind the admin API\<close>

definition fileAdminStore :: "'w fileEnv \<Rightarrow> 'w fileStore adminStore" where
  "fileAdminStore env =
     \<lparr>as_CreateCredential = CreateCredential env, as_DeleteCredential = DeleteCredential env,
      as_CreateServer = CreateServer env, as_ListServers = ListServers, as_GetServerByID = GetServerByID,
      as_UpdateServer = UpdateServer env, as_DeleteServer = DeleteServer env,
      as_CreateTable = CreateTable env, as_ListTables = ListTables, as_GetTableByID = GetTableByID,
      as_UpdateTable = UpdateTable env, as_DeleteTable = DeleteTable env,
      as_ListColumnsByTableID = ListColumnsByTableID, as_GetColumnByID = GetColumnByID,
      as_CreateColumn = CreateColumn env, as_UpdateColumn = UpdateColumn env, as_DeleteColumn = DeleteColumn env,
      as_CreateFunction = CreateFunction env, as_ListFunctions = ListFunctions,
      as_GetFunctionByID = GetFunctionByID, as_UpdateFunction = UpdateFunction env,
      as_DeleteFunction = DeleteFunction env\<rparr>"

definition fileImportEnv ::
  "docLib \<Rightarrow> (Request \<Rightarrow> err + ((string \<Rightarrow> string) \<times> (err + string))) \<Rightarrow> 'w fileEnv \<Rightarrow> 'w fileStore importEnv"
where
  "fileImportEnv lib multipart env =
     \<lparr>im_lib = lib, im_multipart = multipart, im_import = ImportDeclarative env\<rparr>"

end
