(* ===== verification/AdminFacts.thy ===== *)
theory AdminFacts
  imports Importer StoreProperties
begin

text \<open>
  What the admin API guarantees: which operation of the store a request runs and how it is answered, and in file mode no
  request changes the metadata. The store it relies on is a locale: reading does not change its state. The
  file store is an instance.
\<close>

section \<open>What a request is for\<close>

text \<open>The API as a table: the operation of the store that a request is for, and the status of its success. An identifier is the
  last part of the path; the body, where there is one, has the fields of the operation; writes are for database mode.\<close>

definition unitC :: "('s, err, 'a) comp \<Rightarrow> ('s, err, unit) comp" where
  "unitC m = bindC m (\<lambda>_. retC ())"

abbreviation bodyOf :: "'s adminEnv \<Rightarrow> (string \<times> akind) list \<Rightarrow> Request \<Rightarrow> err + row" where
  "bodyOf env fs r \<equiv> DecodeJSON (ad_parseUUID env) fs r"

definition idAt :: "'s adminEnv \<Rightarrow> Request \<Rightarrow> string \<Rightarrow> uuid \<Rightarrow> bool" where
  "idAt env r p i \<longleftrightarrow> underPath r p \<and> parseAdminID env (r_Path r) (adminPrefix @ p @ ''/'') = Some i"

definition columnsOf :: "'s adminEnv \<Rightarrow> Request \<Rightarrow> uuid \<Rightarrow> bool" where
  "columnsOf env r i \<longleftrightarrow>
     underPath r ''/tables'' \<and> parseAdminIDTail env (r_Path r) (adminPrefix @ ''/tables/'') = Some (i, [''columns''])"

inductive adminCalls :: "'s adminEnv \<Rightarrow> 's importEnv \<Rightarrow> Request \<Rightarrow> nat \<Rightarrow> ('s, err, unit) comp \<Rightarrow> bool"
  for env im r
where
  create_credential: "atPath r ''/credentials'' \<Longrightarrow> r_Method r = ''POST'' \<Longrightarrow> ad_mode env \<noteq> ModeFile \<Longrightarrow> bodyOf env CreateCredentialFields r = Inr kvs \<Longrightarrow>
    adminCalls env im r 201 (unitC (as_CreateCredential (ad_store env) (strField kvs ''name'') (mapField kvs ''data'')))"
| delete_credential: "idAt env r ''/credentials'' i \<Longrightarrow> r_Method r = ''DELETE'' \<Longrightarrow> ad_mode env \<noteq> ModeFile \<Longrightarrow>
    adminCalls env im r 204 (unitC (as_DeleteCredential (ad_store env) i))"
| list_servers: "atPath r ''/servers'' \<Longrightarrow> r_Method r = ''GET'' \<Longrightarrow>
    adminCalls env im r 200 (unitC (as_ListServers (ad_store env)))"
| create_server: "atPath r ''/servers'' \<Longrightarrow> r_Method r = ''POST'' \<Longrightarrow> ad_mode env \<noteq> ModeFile \<Longrightarrow> bodyOf env CreateServerFields r = Inr kvs \<Longrightarrow>
    adminCalls env im r 201 (unitC (as_CreateServer (ad_store env) (decodeCreateServer (ad_parseUUID env) kvs)))"
| get_server: "idAt env r ''/servers'' i \<Longrightarrow> r_Method r = ''GET'' \<Longrightarrow>
    adminCalls env im r 200 (unitC (as_GetServerByID (ad_store env) i))"
| update_server: "idAt env r ''/servers'' i \<Longrightarrow> r_Method r = ''PATCH'' \<Longrightarrow> ad_mode env \<noteq> ModeFile \<Longrightarrow> bodyOf env UpdateServerFields r = Inr kvs \<Longrightarrow>
    adminCalls env im r 200 (unitC (as_UpdateServer (ad_store env) i (decodeUpdateServer (ad_parseUUID env) kvs)))"
| delete_server: "idAt env r ''/servers'' i \<Longrightarrow> r_Method r = ''DELETE'' \<Longrightarrow> ad_mode env \<noteq> ModeFile \<Longrightarrow>
    adminCalls env im r 204 (unitC (as_DeleteServer (ad_store env) i))"
| list_tables: "atPath r ''/tables'' \<Longrightarrow> r_Method r = ''GET'' \<Longrightarrow>
    adminCalls env im r 200 (unitC (as_ListTables (ad_store env)))"
| create_table: "atPath r ''/tables'' \<Longrightarrow> r_Method r = ''POST'' \<Longrightarrow> ad_mode env \<noteq> ModeFile \<Longrightarrow> bodyOf env CreateTableFields r = Inr kvs \<Longrightarrow>
    adminCalls env im r 201 (unitC (as_CreateTable (ad_store env) (decodeCreateTable kvs)))"
| get_table: "idAt env r ''/tables'' i \<Longrightarrow> r_Method r = ''GET'' \<Longrightarrow>
    adminCalls env im r 200 (unitC (as_GetTableByID (ad_store env) i))"
| update_table: "idAt env r ''/tables'' i \<Longrightarrow> r_Method r = ''PATCH'' \<Longrightarrow> ad_mode env \<noteq> ModeFile \<Longrightarrow> bodyOf env UpdateTableFields r = Inr kvs \<Longrightarrow>
    adminCalls env im r 200 (unitC (as_UpdateTable (ad_store env) i (decodeUpdateTable kvs)))"
| delete_table: "idAt env r ''/tables'' i \<Longrightarrow> r_Method r = ''DELETE'' \<Longrightarrow> ad_mode env \<noteq> ModeFile \<Longrightarrow>
    adminCalls env im r 204 (unitC (as_DeleteTable (ad_store env) i))"
| list_columns: "columnsOf env r i \<Longrightarrow> r_Method r = ''GET'' \<Longrightarrow>
    adminCalls env im r 200 (unitC (as_ListColumnsByTableID (ad_store env) i))"
| create_column: "columnsOf env r i \<Longrightarrow> r_Method r = ''POST'' \<Longrightarrow> ad_mode env \<noteq> ModeFile \<Longrightarrow> bodyOf env columnFields r = Inr kvs \<Longrightarrow>
    adminCalls env im r 201 (unitC (as_CreateColumn (ad_store env) i (decodeColumnInput kvs)))"
| get_column: "idAt env r ''/columns'' i \<Longrightarrow> r_Method r = ''GET'' \<Longrightarrow>
    adminCalls env im r 200 (unitC (as_GetColumnByID (ad_store env) i))"
| update_column: "idAt env r ''/columns'' i \<Longrightarrow> r_Method r = ''PATCH'' \<Longrightarrow> ad_mode env \<noteq> ModeFile \<Longrightarrow> bodyOf env UpdateColumnFields r = Inr kvs \<Longrightarrow>
    adminCalls env im r 200 (unitC (as_UpdateColumn (ad_store env) i (decodeUpdateColumn kvs)))"
| delete_column: "idAt env r ''/columns'' i \<Longrightarrow> r_Method r = ''DELETE'' \<Longrightarrow> ad_mode env \<noteq> ModeFile \<Longrightarrow>
    adminCalls env im r 204 (unitC (as_DeleteColumn (ad_store env) i))"
| list_functions: "atPath r ''/functions'' \<Longrightarrow> r_Method r = ''GET'' \<Longrightarrow>
    adminCalls env im r 200 (unitC (as_ListFunctions (ad_store env)))"
| create_function: "atPath r ''/functions'' \<Longrightarrow> r_Method r = ''POST'' \<Longrightarrow> ad_mode env \<noteq> ModeFile \<Longrightarrow> bodyOf env CreateFunctionFields r = Inr kvs \<Longrightarrow>
    adminCalls env im r 201 (unitC (as_CreateFunction (ad_store env) (decodeCreateFunction kvs)))"
| get_function: "idAt env r ''/functions'' i \<Longrightarrow> r_Method r = ''GET'' \<Longrightarrow>
    adminCalls env im r 200 (unitC (as_GetFunctionByID (ad_store env) i))"
| update_function: "idAt env r ''/functions'' i \<Longrightarrow> r_Method r = ''PATCH'' \<Longrightarrow> ad_mode env \<noteq> ModeFile \<Longrightarrow> bodyOf env UpdateFunctionFields r = Inr kvs \<Longrightarrow>
    adminCalls env im r 200 (unitC (as_UpdateFunction (ad_store env) i (decodeUpdateFunction kvs)))"
| delete_function: "idAt env r ''/functions'' i \<Longrightarrow> r_Method r = ''DELETE'' \<Longrightarrow> ad_mode env \<noteq> ModeFile \<Longrightarrow>
    adminCalls env im r 204 (unitC (as_DeleteFunction (ad_store env) i))"
| import_metadata: "atPath r ''/import'' \<Longrightarrow> r_Method r = ''POST'' \<Longrightarrow> ad_mode env \<noteq> ModeFile \<Longrightarrow> readImportRequest env im r = Inr req \<Longrightarrow>
    TrimSpace (ir_Content req) \<noteq> [] \<Longrightarrow> bindE (importConvertOptions req) (Convert (im_lib im)) = Inr out \<Longrightarrow>
    adminCalls env im r 200 (unitC (ImportYAML (im_lib im) (im_import im) out
      (if TrimSpace (ir_Mode req) = [] then ''replace'' else TrimSpace (ir_Mode req))))"

definition callStatus :: "nat \<Rightarrow> err + unit \<Rightarrow> nat" where
  "callStatus n res = (case res of Inr _ \<Rightarrow> n | Inl e \<Rightarrow> if errIs e ErrNotFound then 404 else 400)"

text \<open>The answer to a request that is for an operation, and to one that is for none.\<close>

definition answersCall :: "nat \<Rightarrow> ('s, err, unit) comp \<Rightarrow> 's \<Rightarrow> ResponseWriter \<times> 's \<Rightarrow> bool" where
  "answersCall n op s res \<longleftrightarrow> snd res = snd (op s) \<and> sentStatus (fst res) = Some (callStatus n (fst (op s)))"

definition turnsDown :: "'s \<Rightarrow> ResponseWriter \<times> 's \<Rightarrow> bool" where
  "turnsDown s res \<longleftrightarrow> snd res = s \<and> sentStatus (fst res) \<in> {Some 400, Some 404, Some 405}"

lemma answers_operation: "answersCall n (unitC f) s (answerWith n json f s)" "answersCall 204 (unitC g) s (answerNoContent g s)"
  by (auto simp: answersCall_def answerWith_def answerNoContent_def unitC_def bindC_def retC_def callStatus_def WriteAdminError_def
      WriteJSON_sent newWriter_def writer_defs split: prod.split sum.split option.split)

lemma turnsDown_simps [simp]:
  "turnsDown s (WriteAdminError e, s)" "turnsDown s (methodNotAllowed, s)" "turnsDown s (notFound, s)"
  "turnsDown s (WriteJSON 400 v newWriter, s)" "turnsDown s (WriteJSON 405 v newWriter, s)"
  by (auto simp: turnsDown_def WriteAdminError_def WriteJSON_sent methodNotAllowed_def httpError_def notFound_def
      writer_defs split: option.splits)

lemma guarded_cases:
  "guarded env k s = (if ad_mode env = ModeFile then (the (adminWriteDenied env), s) else k s)"
  "ad_mode env = ModeFile \<Longrightarrow> turnsDown s (guarded env k s)"
  "ad_mode env = ModeFile \<Longrightarrow> turnsDown s (guardedBody env fs r k2 s)"
  "ad_mode env \<noteq> ModeFile \<Longrightarrow> guardedBody env fs r k2 s =
     (case bodyOf env fs r of Inl e \<Rightarrow> (WriteAdminError e, s) | Inr kvs \<Rightarrow> k2 kvs s)"
  by (auto simp: guarded_def guardedBody_def adminWriteDenied_def)

lemma parseAdminID_tail: "parseAdminID env p q = Some i \<longleftrightarrow> parseAdminIDTail env p q = Some (i, [])"
  by (auto simp: parseAdminID_def split: option.split list.split)

lemma idAt_iff:
  "idAt env r p i \<longleftrightarrow> underPath r p \<and> parseAdminID env (r_Path r) (adminPrefix @ p @ ''/'') = Some i \<and>
     parseAdminIDTail env (r_Path r) (adminPrefix @ p @ ''/'') = Some (i, [])"
  using parseAdminID_tail by (auto simp: idAt_def)

text \<open>A request that is for an operation gets its answer.\<close>

lemmas path_defs = adminRoute_def atPath_def underPath_def HasPrefix_iff adminPrefix_def

lemma route_at:
  "atPath r ''/credentials'' \<Longrightarrow> adminRoute env im r = Some (credentials env)"
  "atPath r ''/servers'' \<Longrightarrow> adminRoute env im r = Some (servers env)"
  "atPath r ''/tables'' \<Longrightarrow> adminRoute env im r = Some (tables env)"
  "atPath r ''/functions'' \<Longrightarrow> adminRoute env im r = Some (adminFunctions env)"
  "atPath r ''/import'' \<Longrightarrow> adminRoute env im r = Some (importMetadata env im)"
  by (simp_all add: path_defs)

lemma route_under:
  "underPath r ''/credentials'' \<Longrightarrow> adminRoute env im r = Some (deleteCredential env)"
  "underPath r ''/servers'' \<Longrightarrow> adminRoute env im r = Some (serverByID env)"
  "underPath r ''/tables'' \<Longrightarrow> adminRoute env im r = Some (tableByID env)"
  "underPath r ''/columns'' \<Longrightarrow> adminRoute env im r = Some (columnByID env)"
  "underPath r ''/functions'' \<Longrightarrow> adminRoute env im r = Some (functionByID env)"
  by (auto simp: path_defs)

lemma adminCalls_answers:
  assumes "adminCalls env im r n op" "adminRoute env im r = Some h" shows "answersCall n op s (h r s)"
  using assms
proof cases
  case (import_metadata req out)
  then obtain conv where "importConvertOptions req = Inr conv" "Convert (im_lib im) conv = Inr out"
    by (auto simp: bindE_def split: sum.splits)
  with import_metadata assms(2) show ?thesis
    by (auto simp: route_at importMetadata_def Let_def answers_operation guarded_cases(1))
qed (use assms(2) in \<open>auto simp: columnsOf_def route_at route_under credentials_def deleteCredential_def servers_def
    serverByID_def tables_def tableByID_def tableColumnsOf_def columnByID_def adminFunctions_def functionByID_def
    guarded_cases(1,4) answers_operation idAt_iff\<close>)

text \<open>And every other request is turned down.\<close>

definition called :: "'s adminEnv \<Rightarrow> 's importEnv \<Rightarrow> Request \<Rightarrow> bool" where
  "called env im r \<longleftrightarrow> (\<exists>n op. adminCalls env im r n op)"

lemma calledI: "adminCalls env im r n op \<Longrightarrow> called env im r"
  by (auto simp: called_def)

lemmas called_rules = adminCalls.intros [THEN calledI]

lemmas handler_cases = guarded_cases guardedBody_def

lemma guardedBody_called:
  assumes "\<And>kvs. ad_mode env \<noteq> ModeFile \<Longrightarrow> bodyOf env fs r = Inr kvs \<Longrightarrow> called env im r"
  shows "called env im r \<or> turnsDown s (guardedBody env fs r k s)"
  using assms by (cases "ad_mode env = ModeFile"; cases "bodyOf env fs r") (auto simp: guarded_cases)

lemma guarded_called:
  assumes "ad_mode env \<noteq> ModeFile \<Longrightarrow> called env im r \<or> turnsDown s (k s)"
  shows "called env im r \<or> turnsDown s (guarded env k s)"
proof (cases "ad_mode env = ModeFile")
  case False
  with assms show ?thesis by (simp add: guarded_cases(1))
qed (simp add: guarded_cases(2))

lemma handler_at:
  "atPath r ''/credentials'' \<Longrightarrow> called env im r \<or> turnsDown s (credentials env r s)"
  "atPath r ''/servers'' \<Longrightarrow> called env im r \<or> turnsDown s (servers env r s)"
  "atPath r ''/tables'' \<Longrightarrow> called env im r \<or> turnsDown s (tables env r s)"
  "atPath r ''/functions'' \<Longrightarrow> called env im r \<or> turnsDown s (adminFunctions env r s)"
  unfolding credentials_def servers_def tables_def adminFunctions_def
  by (auto intro!: guardedBody_called intro: called_rules)

lemma handler_import:
  assumes "atPath r ''/import''" shows "called env im r \<or> turnsDown s (importMetadata env im r s)"
proof (cases "r_Method r = ''POST'' \<and> ad_mode env \<noteq> ModeFile \<and> (\<exists>req out. readImportRequest env im r = Inr req \<and>
    TrimSpace (ir_Content req) \<noteq> [] \<and> bindE (importConvertOptions req) (Convert (im_lib im)) = Inr out)")
  case True
  then have "called env im r" using called_rules(23) [OF assms] by blast
  then show ?thesis ..
next
  case False
  have "turnsDown s (importMetadata env im r s)"
  proof (cases "r_Method r = ''POST'' \<and> ad_mode env \<noteq> ModeFile")
    case post: True
    show ?thesis
    proof (cases "readImportRequest env im r")
      case (Inr req)
      have "TrimSpace (ir_Content req) = [] \<or> (\<exists>e. bindE (importConvertOptions req) (Convert (im_lib im)) = Inl e)"
        using False post Inr by (cases "bindE (importConvertOptions req) (Convert (im_lib im))") auto
      with post Inr show ?thesis
        by (auto simp: importMetadata_def guarded_cases(1) bindE_def split: sum.splits)
    qed (use post in \<open>simp add: importMetadata_def guarded_cases(1)\<close>)
  qed (auto simp: importMetadata_def guarded_cases(2))
  then show ?thesis ..
qed

text \<open>The handlers of one row: GET, PATCH and DELETE.\<close>

lemma row_called:
  assumes "r_Method r = ''GET'' \<Longrightarrow> called env im r"
    and "\<And>kvs. r_Method r = ''PATCH'' \<Longrightarrow> ad_mode env \<noteq> ModeFile \<Longrightarrow> bodyOf env fs r = Inr kvs \<Longrightarrow> called env im r"
    and "r_Method r = ''DELETE'' \<Longrightarrow> ad_mode env \<noteq> ModeFile \<Longrightarrow> called env im r"
  shows "called env im r \<or> turnsDown s
    (if r_Method r = ''GET'' then k1 else if r_Method r = ''PATCH'' then guardedBody env fs r k2 s
     else if r_Method r = ''DELETE'' then guarded env k3 s else (methodNotAllowed, s))"
  using assms guardedBody_called [of env fs r im s k2] guarded_called [of env im r s k3] by auto

lemma rows_called:
  assumes "r_Method r = ''GET'' \<Longrightarrow> called env im r"
    and "\<And>kvs. r_Method r = ''POST'' \<Longrightarrow> ad_mode env \<noteq> ModeFile \<Longrightarrow> bodyOf env fs r = Inr kvs \<Longrightarrow> called env im r"
  shows "called env im r \<or> turnsDown s
    (if r_Method r = ''GET'' then k1 else if r_Method r = ''POST'' then guardedBody env fs r k2 s else (methodNotAllowed, s))"
  using assms guardedBody_called [of env fs r im s k2] by auto

lemma handler_credential:
  assumes "underPath r ''/credentials''" shows "called env im r \<or> turnsDown s (deleteCredential env r s)"
proof -
  have "called env im r" if "parseAdminID env (r_Path r) (adminPrefix @ ''/credentials/'') = Some i" "r_Method r = ''DELETE''"
    "ad_mode env \<noteq> ModeFile" for i
    using called_rules(2) [of env r i] assms that by (simp add: idAt_def)
  then have "called env im r \<or> turnsDown s (guarded env (\<lambda>s. case parseAdminID env (r_Path r) (adminPrefix @ ''/credentials/'') of
      None \<Rightarrow> (notFound, s) | Some i \<Rightarrow> answerNoContent (as_DeleteCredential (ad_store env) i) s) s)" if "r_Method r = ''DELETE''"
    using that by (intro guarded_called) (auto split: option.split)
  then show ?thesis by (auto simp: deleteCredential_def)
qed

lemma handler_server:
  assumes "underPath r ''/servers''" shows "called env im r \<or> turnsDown s (serverByID env r s)"
proof (cases "parseAdminID env (r_Path r) (adminPrefix @ ''/servers/'')")
  case (Some i)
  with assms have id: "idAt env r ''/servers'' i" by (simp add: idAt_def)
  note row = row_called [OF called_rules(5) [OF id] called_rules(6) [OF id] called_rules(7) [OF id]]
  show ?thesis unfolding serverByID_def Some option.case by (rule row)
qed (simp add: serverByID_def)

lemma handler_column:
  assumes "underPath r ''/columns''" shows "called env im r \<or> turnsDown s (columnByID env r s)"
proof (cases "parseAdminID env (r_Path r) (adminPrefix @ ''/columns/'')")
  case (Some i)
  with assms have id: "idAt env r ''/columns'' i" by (simp add: idAt_def)
  note row = row_called [OF called_rules(15) [OF id] called_rules(16) [OF id] called_rules(17) [OF id]]
  show ?thesis unfolding columnByID_def Some option.case by (rule row)
qed (simp add: columnByID_def)

lemma handler_function:
  assumes "underPath r ''/functions''" shows "called env im r \<or> turnsDown s (functionByID env r s)"
proof (cases "parseAdminID env (r_Path r) (adminPrefix @ ''/functions/'')")
  case (Some i)
  with assms have id: "idAt env r ''/functions'' i" by (simp add: idAt_def)
  note row = row_called [OF called_rules(20) [OF id] called_rules(21) [OF id] called_rules(22) [OF id]]
  show ?thesis unfolding functionByID_def Some option.case by (rule row)
qed (simp add: functionByID_def)

lemma handler_table:
  assumes "underPath r ''/tables''" shows "called env im r \<or> turnsDown s (tableByID env r s)"
proof (cases "parseAdminIDTail env (r_Path r) (adminPrefix @ ''/tables/'')")
  case (Some ip)
  obtain i ps where ip: "ip = (i, ps)" by fastforce
  consider "ps = [''columns'']" | "ps = []" | "ps \<noteq> [''columns'']" "ps \<noteq> []" by blast
  then show ?thesis
  proof cases
    case 1
    with assms Some ip have id: "columnsOf env r i" by (simp add: columnsOf_def)
    from rows_called [OF called_rules(13) [OF id] called_rules(14) [OF id]] show ?thesis
      using 1 Some ip by (simp add: tableByID_def tableColumnsOf_def)
  next
    case 2
    with assms Some ip have id: "idAt env r ''/tables'' i" by (simp add: idAt_iff parseAdminID_tail)
    note row = row_called [OF called_rules(10) [OF id] called_rules(11) [OF id] called_rules(12) [OF id]]
    show ?thesis by (simp only: tableByID_def Some ip 2 option.case prod.case list.distinct simp_thms if_False) (rule row)
  next
    case 3
    then show ?thesis using Some ip by (simp add: tableByID_def)
  qed
qed (simp add: tableByID_def)

lemma route_called:
  assumes "adminRoute env im r = Some h" "isAdminPath (r_Path r)" shows "called env im r \<or> turnsDown s (h r s)"
proof -
  have "r_Path r \<noteq> ''/health''" "r_Path r \<noteq> ''/health/ready''"
    using assms(2) by (auto simp: isAdminPath_def adminPrefix_def HasPrefix_iff)
  then show ?thesis
    using assms(1) unfolding adminRoute_def
    using handler_at [of r env im s] handler_import [of r env im s] handler_credential [of r env im s] handler_server [of r env im s]
      handler_table [of r env im s] handler_column [of r env im s] handler_function [of r env im s]
    by (auto split: if_splits)
qed

section \<open>Reading\<close>

text \<open>What the handlers rely on: the reading operations leave the state of the store alone.\<close>

locale admin_reads =
  fixes store :: "'s adminStore"
  assumes ListServers_reads: "snd (as_ListServers store s) = s"
    and GetServerByID_reads: "snd (as_GetServerByID store i s) = s"
    and ListTables_reads: "snd (as_ListTables store s) = s"
    and GetTableByID_reads: "snd (as_GetTableByID store i s) = s"
    and ListColumnsByTableID_reads: "snd (as_ListColumnsByTableID store i s) = s"
    and GetColumnByID_reads: "snd (as_GetColumnByID store i s) = s"
    and ListFunctions_reads: "snd (as_ListFunctions store s) = s"
    and GetFunctionByID_reads: "snd (as_GetFunctionByID store i s) = s"
begin

lemmas reads = ListServers_reads GetServerByID_reads ListTables_reads GetTableByID_reads
  ListColumnsByTableID_reads GetColumnByID_reads ListFunctions_reads GetFunctionByID_reads

lemma answerWith_reads: "snd (f s) = s \<Longrightarrow> snd (answerWith n json f s) = s"
  by (auto simp: answerWith_def split: prod.split sum.split)

lemma guarded_file: "ad_mode env = ModeFile \<Longrightarrow> snd (guarded env k s) = s"
  by (simp add: guarded_def adminWriteDenied_def)

lemma guardedBody_file: "ad_mode env = ModeFile \<Longrightarrow> snd (guardedBody env fs r k s) = s"
  by (simp add: guardedBody_def guarded_file)

lemmas handler_intros = answerWith_reads guarded_file guardedBody_file

lemma route_file_mode:
  assumes env: "ad_store env = store" "ad_mode env = ModeFile"
    and route: "adminRoute env im r = Some h" "r_Path r \<noteq> ''/health/ready''"
  shows "snd (h r s) = s"
proof -
  note store = reads [folded env(1)]
  have "snd (health r s) = s" "snd (credentials env r s) = s" "snd (deleteCredential env r s) = s"
    "snd (importMetadata env im r s) = s"
    using env(2) by (auto simp: health_def credentials_def deleteCredential_def importMetadata_def intro!: handler_intros)
  moreover have "snd (servers env r s) = s" "snd (serverByID env r s) = s" "snd (tables env r s) = s"
    using env(2) by (auto simp: servers_def serverByID_def tables_def store intro!: handler_intros split: option.split)
  moreover have "snd (tableByID env r s) = s" "snd (columnByID env r s) = s" "snd (adminFunctions env r s) = s"
    "snd (functionByID env r s) = s"
    using env(2) by (auto simp: tableByID_def tableColumnsOf_def columnByID_def adminFunctions_def functionByID_def store
        intro!: handler_intros split: option.split)
  ultimately show ?thesis using route by (auto simp: adminRoute_def split: if_splits)
qed

end

lemma readData_reads: "snd (readData f s) = s"
  by (simp add: readData_def)

interpretation fileReads: admin_reads "fileAdminStore fenv"
  by unfold_locales
    (simp_all add: fileAdminStore_def ListServers_def GetServerByID_def ListTables_def GetTableByID_def
      ListColumnsByTableID_def GetColumnByID_def ListFunctions_def GetFunctionByID_def readData_reads)

section \<open>File mode\<close>

definition refused :: "ResponseWriter \<Rightarrow> bool" where
  "refused w \<longleftrightarrow> sentStatus w = Some 404 \<or> sentStatus w = Some 405"

lemma refused_simps: "refused methodNotAllowed" "refused notFound"
  by (auto simp: refused_def methodNotAllowed_def httpError_def notFound_def writer_defs split: option.splits)

lemma guarded_refused: "ad_mode env = ModeFile \<Longrightarrow> refused (fst (guarded env k s))"
  by (simp add: refused_def guarded_def adminWriteDenied_def WriteJSON_sent newWriter_def)

lemma guardedBody_refused: "ad_mode env = ModeFile \<Longrightarrow> refused (fst (guardedBody env fs r k s))"
  by (simp add: guardedBody_def guarded_refused)

lemma route_refused:
  assumes mode: "ad_mode env = ModeFile" and route: "adminRoute env im r = Some h" and get: "r_Method r \<noteq> ''GET''"
  shows "refused (fst (h r s))"
proof -
  note refused_intros = refused_simps guarded_refused [OF mode] guardedBody_refused [OF mode]
  have "refused (fst (health r s))" "refused (fst (healthReady env r s))" "refused (fst (credentials env r s))"
    "refused (fst (deleteCredential env r s))" "refused (fst (importMetadata env im r s))"
    using get by (auto simp: health_def healthReady_def credentials_def deleteCredential_def importMetadata_def
        intro!: refused_intros)
  moreover have "refused (fst (servers env r s))" "refused (fst (serverByID env r s))" "refused (fst (tables env r s))"
    using get by (auto simp: servers_def serverByID_def tables_def intro!: refused_intros split: option.split)
  moreover have "refused (fst (tableByID env r s))" "refused (fst (columnByID env r s))"
    "refused (fst (adminFunctions env r s))" "refused (fst (functionByID env r s))"
    using get by (auto simp: tableByID_def tableColumnsOf_def columnByID_def adminFunctions_def functionByID_def
        intro!: refused_intros split: option.split)
  ultimately show ?thesis using route by (auto simp: adminRoute_def split: if_splits)
qed

lemma isAdminPath_not_data: "isAdminPath p \<Longrightarrow> \<not> isDataPath p \<and> p \<noteq> ''/'' \<and> p \<noteq> ''/health/ready'' \<and>
    \<not> HasPrefix p ''/v1/'' \<and> \<not> HasPrefix p ''/rest/v1/''"
  by (auto simp: isAdminPath_def isDataPath_def adminPrefix_def HasPrefix_iff)

text \<open>Below the middleware: a request under the admin prefix in file mode.\<close>

lemma serverMux_file_mode:
  assumes env: "ad_store admin = fileAdminStore fenv" "ad_mode admin = ModeFile" and path: "isAdminPath (r_Path r)"
  shows "snd (serverMux admin im env r s) = s \<and>
    (r_Method r \<noteq> ''GET'' \<longrightarrow> refused (fst (serverMux admin im env r s)))"
proof (cases "adminRoute admin im r")
  case None
  with isAdminPath_not_data [OF path] show ?thesis
    by (simp add: serverMux_def restMux_def handleRoot_def refused_simps)
next
  case (Some h)
  obtain w x where h: "h r (eg_world s) = (w, x)" by (cases "h r (eg_world s)")
  have "x = eg_world s" "r_Method r \<noteq> ''GET'' \<longrightarrow> refused w"
    using fileReads.route_file_mode [OF env Some, of "eg_world s"] route_refused [OF env(2) Some, of "eg_world s"]
      isAdminPath_not_data [OF path] h by auto
  with h Some show ?thesis by (simp add: serverMux_def)
qed

lemma serverHandler_admin:
  assumes "isAdminPath (r_Path r)" "r_Method r \<noteq> ''OPTIONS''"
  shows "serverHandler lib now g a mux r s = CORS (AdminAuth a mux) r s"
  using assms isAdminPath_not_data [OF assms(1)]
  by (simp add: serverHandler_def CORS_def AdminAuth_def DataAuth_def split: option.split)

lemma CORS_status: "r_Method r \<noteq> ''OPTIONS'' \<Longrightarrow> sentStatus (fst (CORS nxt r s)) = sentStatus (fst (nxt r s))"
  by (auto simp: CORS_def sentStatus_def option.map_comp comp_def case_prod_beta' split: prod.split
      intro: option.map_cong)

lemma CORS_state: "r_Method r \<noteq> ''OPTIONS'' \<Longrightarrow> snd (CORS nxt r s) = snd (nxt r s)"
  by (auto simp: CORS_def split: prod.split)

text \<open>C7: in file mode the admin API is read-only: whatever a request under \<open>/admin/api\<close> carries, the composed
  server leaves the metadata, drivers.yaml, and the rest of the engine's state as they were, and unless it is a
  GET or a preflight request it is refused with 401, 404 or 405.\<close>

theorem admin_file_mode_readonly:
  assumes "ad_store admin = fileAdminStore fenv" "ad_mode admin = ModeFile" "isAdminPath (r_Path r)"
  shows "snd (serverHandler lib now g a (serverMux admin im env) r s) = s \<and>
    (r_Method r \<notin> {''GET'', ''OPTIONS''} \<longrightarrow>
     sentStatus (fst (serverHandler lib now g a (serverMux admin im env) r s)) \<in> {Some 401, Some 404, Some 405})"
proof (cases "r_Method r = ''OPTIONS''")
  case True
  then show ?thesis by (simp add: serverHandler_def CORS_def)
next
  case False
  note mux = serverMux_file_mode [OF assms, of im env s]
  have "snd (AdminAuth a (serverMux admin im env) r s) = s"
    using mux by (auto simp: AdminAuth_def split: option.split)
  moreover have "r_Method r \<noteq> ''GET'' \<longrightarrow>
      sentStatus (fst (AdminAuth a (serverMux admin im env) r s)) \<in> {Some 401, Some 404, Some 405}"
    using mux by (auto simp: AdminAuth_def refused_def WriteJSON_sent newWriter_def split: option.split)
  ultimately show ?thesis
    using False by (simp add: serverHandler_admin [OF assms(3)] CORS_status CORS_state)
qed

text \<open>C39: what the admin API answers. \<open>adminCalls\<close> is the table of the API: which operation of the store a request is for, from
  its method, path and body and the mode of the server, and which status its success has. A request that is for an operation
  runs that operation, once, and is answered with its status when it succeeds, with 404 when it fails with the store's
  not-found error, and with 400 when it fails with another error. Every other request that a handler of the API gets leaves
  the store alone and is answered with 400, 404 or 405.\<close>

theorem admin_answers:
  assumes "adminRoute env im r = Some h" "isAdminPath (r_Path r)"
  shows "(\<forall>n op. adminCalls env im r n op \<longrightarrow>
      snd (h r s) = snd (op s) \<and>
      sentStatus (fst (h r s)) = Some (case fst (op s) of Inr _ \<Rightarrow> n | Inl e \<Rightarrow> if errIs e ErrNotFound then 404 else 400)) \<and>
    ((\<forall>n op. \<not> adminCalls env im r n op) \<longrightarrow>
      snd (h r s) = s \<and> sentStatus (fst (h r s)) \<in> {Some 400, Some 404, Some 405})"
  using adminCalls_answers [OF _ assms(1), of _ _ s] route_called [OF assms, of s]
  by (auto simp: answersCall_def callStatus_def turnsDown_def called_def)

section \<open>Examples\<close>

definition fileModeAdmin :: "unit fileStore adminEnv" where
  "fileModeAdmin =
     \<lparr>ad_store = fileAdminStore storeEnv, ad_mode = ModeFile,
      ad_parseUUID = (\<lambda>s. if s = ''u1'' then Some 1 else None), ad_uuidText = (\<lambda>_. ''u1''), ad_timeText = (\<lambda>_. []),
      ad_getenv = (\<lambda>_. []), ad_ping = (\<lambda>_ s. (Inr (), s))\<rparr>"

definition exampleLib :: docLib where
  "exampleLib =
     \<lparr>dl_oasYAML = (\<lambda>_. Inl ErrEOF), dl_oasJSON = (\<lambda>_. Inl ErrEOF), dl_marshal = (\<lambda>_. Inr ''doc''),
      dl_unmarshal = (\<lambda>_. Inr emptyDoc)\<rparr>"

definition fileModeImport :: "unit fileStore importEnv" where
  "fileModeImport = fileImportEnv exampleLib (\<lambda>_. Inl ErrEOF) storeEnv"

definition fileModeEngine :: "unit fileStore engineEnv" where
  "fileModeEngine =
     \<lparr>ee_store = fileMetaStore storeEnv, ee_factories = [], ee_close = (\<lambda>_ w. w), ee_now = (\<lambda>_. 0),
      ee_hash = exampleHash\<rparr>"

theorem admin_file_mode_readonly_witness:
  "snd (serverHandler exampleJWT (\<lambda>_. 0) exampleGateway (NewAdmin ''k'')
      (serverMux fileModeAdmin fileModeImport fileModeEngine) (exampleRequest ''DELETE'' ''/admin/api/servers/u1'' [])
      (NewEngine 5 60 0 storeWithTable)) = NewEngine 5 60 0 storeWithTable"
proof -
  have "isAdminPath (r_Path (exampleRequest ''DELETE'' ''/admin/api/servers/u1'' []))" by code_simp
  moreover have "ad_store fileModeAdmin = fileAdminStore storeEnv" "ad_mode fileModeAdmin = ModeFile"
    by (simp_all add: fileModeAdmin_def)
  ultimately show ?thesis using admin_file_mode_readonly by blast
qed

theorem admin_answers_witness:
  "sentStatus (fst (serverByID fileModeAdmin (exampleRequest ''GET'' ''/admin/api/servers/u1'' []) storeWithTable)) = Some 200 \<and>
   sentStatus (fst (serverByID fileModeAdmin (exampleRequest ''GET'' ''/admin/api/servers/u1'' []) (emptyStore 0 ()))) = Some 404 \<and>
   sentStatus (fst (serverByID fileModeAdmin (exampleRequest ''PUT'' ''/admin/api/servers/u1'' []) storeWithTable)) \<in> {Some 400, Some 404, Some 405}"
proof -
  let ?r = "\<lambda>m. exampleRequest m ''/admin/api/servers/u1'' []"
  have route: "adminRoute fileModeAdmin fileModeImport (?r m) = Some (serverByID fileModeAdmin)" for m
    by (simp add: adminRoute_def atPath_def underPath_def adminPrefix_def exampleRequest_def)
  have path: "isAdminPath (r_Path (?r m))" for m by (simp add: isAdminPath_def adminPrefix_def exampleRequest_def HasPrefix_iff)
  have "idAt fileModeAdmin (?r ''GET'') ''/servers'' 1" by code_simp
  moreover have "r_Method (?r ''GET'') = ''GET''" by (simp add: exampleRequest_def)
  ultimately have get: "adminCalls fileModeAdmin fileModeImport (?r ''GET'') 200 (unitC (as_GetServerByID (ad_store fileModeAdmin) 1))"
    by (rule get_server)
  note answers = admin_answers [OF route path, THEN conjunct1, rule_format, OF get]
  have "fst (unitC (as_GetServerByID (ad_store fileModeAdmin) 1) storeWithTable) = Inr ()" by code_simp
  moreover have "fst (unitC (as_GetServerByID (ad_store fileModeAdmin) 1) (emptyStore 0 ())) = Inl ErrNotFound" by code_simp
  moreover have "errIs ErrNotFound ErrNotFound" by code_simp
  moreover have "\<not> adminCalls fileModeAdmin fileModeImport (?r ''PUT'') n op" for n op
    by (rule notI, erule adminCalls.cases) (simp_all add: exampleRequest_def)
  then have "sentStatus (fst (serverByID fileModeAdmin (?r ''PUT'') storeWithTable)) \<in> {Some 400, Some 404, Some 405}"
    using admin_answers [OF route path] by blast
  ultimately show ?thesis using answers [of storeWithTable] answers [of "emptyStore 0 ()"] by simp
qed

end
