(* ===== verification/SqlFacts.thy ===== *)
theory SqlFacts
  imports SqlImport
begin

text \<open>
  The SQL import terminates on every text, and it reads back printed schemas. A printed schema uses plain
  names and the type names the import keeps; the examples at the end show what the scanner loses of others.
\<close>

section \<open>Termination\<close>

lemma length_TrimSpace: "length (TrimSpace s) \<le> length s"
proof -
  have "length (TrimRightFunc p t) \<le> length t" for p and t :: string
    using length_dropWhile_le [of p "rev t"] by (simp add: TrimRightFunc_def)
  then show ?thesis
    unfolding TrimSpace_def TrimFunc_def using length_dropWhile_le [of isSpace s] order_trans by blast
qed

lemma matchWordSpaces_length: "matchWordSpaces w s = Some r \<Longrightarrow> length r < length s"
proof -
  assume "matchWordSpaces w s = Some r"
  then obtain c t where "drop (length w) s = c # t" "r = dropWhile isReSpace t"
    by (cases "drop (length w) s")
      (auto simp: matchWordSpaces_def matchWord_def matchSpaces_def bind_eq_Some_conv split: if_splits)
  then have "length r \<le> length t" "length t < length (drop (length w) s)"
    using length_dropWhile_le by auto
  then show ?thesis by simp
qed

lemma matchCreate_length: "matchCreate s = Some r \<Longrightarrow> length r < length s"
proof -
  assume a: "matchCreate s = Some r"
  then obtain s1 s2 where s: "matchWordSpaces ''CREATE'' s = Some s1" "matchWordSpaces ''TABLE'' s1 = Some s2"
    and r: "r = s2 \<or> (\<exists>s3 s4. matchWordSpaces ''IF'' s2 = Some s3 \<and> matchWordSpaces ''NOT'' s3 = Some s4 \<and>
      matchWordSpaces ''EXISTS'' s4 = Some r)"
    by (auto simp: matchCreate_def bind_eq_Some_conv split: option.splits)
  have "length s2 < length s" using s by (auto dest!: matchWordSpaces_length)
  with r show ?thesis by (auto dest!: matchWordSpaces_length)
qed

lemma findCreate_length: "findCreate s = Some r \<Longrightarrow> length r < length s"
proof (induction s rule: findCreate.induct)
  case (2 c s)
  then show ?case by (auto split: option.splits dest: matchCreate_length)
qed simp

lemma extractLoop_length: "extractLoop d q seen s = Some (stmt, r) \<Longrightarrow> length r \<le> length s"
proof (induction d q seen s rule: extractLoop.induct)
  case (2 d q seen ch s)
  then show ?case
    using length_TrimSpace [of s] by (auto split: option.splits if_splits intro: le_SucI)
qed (auto split: if_splits)

lemma createLoop_total: "\<exists>r. createLoop dialect defaultSchema out rest = Some r"
proof (induction "length rest" arbitrary: rest out rule: less_induct)
  case less
  show ?case
  proof (cases "findCreate rest")
    case None
    then show ?thesis by (subst createLoop.simps) simp
  next
    case find: (Some rest1)
    show ?thesis
    proof (cases "extractStatement rest1")
      case None
      with find show ?thesis by (subst createLoop.simps) simp
    next
      case (Some p)
      then obtain stmt remainder where p: "extractStatement rest1 = Some (stmt, remainder)" by (cases p) auto
      then have "length remainder < length rest"
        using findCreate_length [OF find] extractLoop_length unfolding extractStatement_def by fastforce
      from less.hyps [OF this] find p show ?thesis
        by (subst createLoop.simps) (simp split: sum.split)
    qed
  qed
qed

lemma SQLToDeclarative_total: "\<exists>r. SQLToDeclarative content opts = Some r"
  using createLoop_total by (simp add: SQLToDeclarative_def parseCreateTables_def Let_def split: prod.split)

text \<open>C40: the import of SQL ends on every text: each round of its loop consumes at least the words it looks for,
  whatever is unbalanced, unclosed or quoted in between, so both the scan and the conversion have a result.\<close>

theorem parseCreateTables_terminates:
  "(\<exists>r. parseCreateTables content dialect defaultSchema = Some r) \<and> (\<exists>r. SQLToDeclarative content opts = Some r)"
  using createLoop_total SQLToDeclarative_total by (simp add: parseCreateTables_def)

section \<open>Printed schemas\<close>

text \<open>Names of letters, digits and underscores that do not start like a table constraint.\<close>

definition nameChar :: "char \<Rightarrow> bool" where
  "nameChar c \<longleftrightarrow> (CHR ''a'' \<le> c \<and> c \<le> CHR ''z'') \<or> (CHR ''A'' \<le> c \<and> c \<le> CHR ''Z'') \<or> isDigit c \<or> c = CHR ''_''"

definition plainName :: "string \<Rightarrow> bool" where
  "plainName s \<longleftrightarrow> s \<noteq> [] \<and> list_all nameChar s"

definition columnName :: "string \<Rightarrow> bool" where
  "columnName s \<longleftrightarrow> plainName s \<and> \<not> list_ex (HasPrefix (ToUpper s @ '' '')) constraintWords"

definition keptTypes :: "string list" where
  "keptTypes = [''integer'', ''boolean'', ''numeric'', ''timestamp'', ''uuid'', ''json'', ''binary'', ''text'']"

definition printColumn :: "parsedColumn \<Rightarrow> string" where
  "printColumn c =
     pc_Name c @ '' '' @ pc_DataType c @
     (if pc_Primary c then '' PRIMARY KEY'' else if pc_Nullable c then [] else '' NOT NULL'')"

definition printTable :: "parsedTable \<Rightarrow> string" where
  "printTable t =
     ''CREATE TABLE '' @ pt_Schema t @ ''.'' @ pt_Name t @ '' ('' @ Join (map printColumn (pt_Columns t)) '', '' @ '');''"

definition columnPrintable :: "parsedColumn \<Rightarrow> bool" where
  "columnPrintable c \<longleftrightarrow>
     columnName (pc_Name c) \<and> pc_DataType c \<in> set keptTypes \<and> (pc_Primary c \<longrightarrow> \<not> pc_Nullable c)"

definition tablePrintable :: "parsedTable \<Rightarrow> bool" where
  "tablePrintable t \<longleftrightarrow>
     plainName (pt_Schema t) \<and> plainName (pt_Name t) \<and> pt_Columns t \<noteq> [] \<and>
     list_all columnPrintable (pt_Columns t) \<and> pt_KeyColumns t = map pc_Name (filter pc_Primary (pt_Columns t))"

subsection \<open>Characters and words\<close>

lemma nameChar_not_special:
  assumes "nameChar c"
  shows "\<not> isSpace c" "\<not> isReSpace c"
    "c \<notin> {CHR 0x27, CHR 0x22, CHR 0x60, CHR ''('', CHR '')'', CHR '';'', CHR '','', CHR ''.'', CHR '' ''}"
  using assms by (auto simp: nameChar_def isSpace_def isReSpace_def isDigit_def)

lemma fieldsAcc_word: "list_all (\<lambda>c. \<not> isSpace c) w \<Longrightarrow> fieldsAcc cur (w @ s) = fieldsAcc (rev w @ cur) s"
  by (induction w arbitrary: cur) auto

lemma Fields_word: "w \<noteq> [] \<Longrightarrow> list_all (\<lambda>c. \<not> isSpace c) w \<Longrightarrow> Fields (w @ CHR '' '' # s) = w # Fields s"
  by (simp add: Fields_def fieldsAcc_word isSpace_def)

lemma Fields_nonempty: "c \<in> set s \<Longrightarrow> \<not> isSpace c \<Longrightarrow> Fields s \<noteq> []"
proof -
  have "cur \<noteq> [] \<or> (\<exists>c\<in>set s. \<not> isSpace c) \<Longrightarrow> fieldsAcc cur s \<noteq> []" for cur
    by (induction cur s rule: fieldsAcc.induct) auto
  then show "c \<in> set s \<Longrightarrow> \<not> isSpace c \<Longrightarrow> Fields s \<noteq> []" by (auto simp: Fields_def)
qed

lemma LastIndex_char_None: "c \<notin> set v \<Longrightarrow> LastIndex v [c] = None"
  by (induction v) auto

lemma LastIndex_char: "c \<notin> set v \<Longrightarrow> LastIndex (u @ c # v) [c] = Some (length u)"
  by (induction u) (auto simp: LastIndex_char_None)

lemma TrimSpace_ends: "s \<noteq> [] \<Longrightarrow> \<not> isSpace (hd s) \<Longrightarrow> \<not> isSpace (last s) \<Longrightarrow> TrimSpace s = s"
  by (rule TrimSpace_id) simp

lemma Trim_id: "(\<And>c. c \<in> set s \<Longrightarrow> c \<notin> set cs) \<Longrightarrow> Trim s cs = s"
  by (cases "s = []") (auto simp: Trim_def intro!: TrimFunc_id)

lemma HasPrefix_word_space:
  assumes "CHR '' '' \<notin> set n" "HasPrefix (n @ CHR '' '' # r) w" "\<not> HasPrefix (n @ '' '') w"
  shows "\<exists>v. w = n @ CHR '' '' # v \<and> HasPrefix r v"
proof -
  from assms(2) obtain z where z: "n @ CHR '' '' # r = w @ z" by (auto simp: HasPrefix_iff)
  then have "(n @ '' '') @ r = w @ z" by simp
  then obtain us where "(n @ '' '' = w @ us \<and> us @ r = z) \<or> (n @ '' '' @ us = w \<and> r = us @ z)"
    unfolding append_eq_append_conv2 by auto
  with assms(3) show ?thesis by (auto simp: HasPrefix_iff)
qed

section \<open>Scanning a printed table\<close>

lemma toggle_plain: "c \<notin> {CHR 0x27, CHR 0x22, CHR 0x60} \<Longrightarrow> toggle c q = None"
  by (auto simp: toggle_def)

lemma extractLoop_plain:
  "list_all (\<lambda>c. c \<notin> {CHR 0x27, CHR 0x22, CHR 0x60, CHR ''('', CHR '')'', CHR '';''}) u \<Longrightarrow>
   extractLoop d noQuotes seen (u @ s) = extractLoop d noQuotes (rev u @ seen) s"
  by (induction u arbitrary: seen) (auto simp: toggle_plain noQuotes_def unquoted_def)

lemma chunkLoop_plain:
  "list_all (\<lambda>c. c \<notin> {CHR 0x27, CHR 0x22, CHR 0x60, CHR ''('', CHR '')'', CHR '',''}) u \<Longrightarrow>
   chunkLoop d noQuotes cur (u @ s) = chunkLoop d noQuotes (rev u @ cur) s"
  by (induction u arbitrary: cur) (auto simp: toggle_plain noQuotes_def unquoted_def)

text \<open>What follows the name of a printed column, for the eight types and the three endings.\<close>

definition columnTail :: "string \<Rightarrow> bool \<Rightarrow> bool \<Rightarrow> string" where
  "columnTail ty p n = ty @ (if p then '' PRIMARY KEY'' else if n then [] else '' NOT NULL'')"

definition tailOk :: "string \<Rightarrow> bool \<Rightarrow> bool \<Rightarrow> bool" where
  "tailOk ty p n \<longleftrightarrow>
     (let r = columnTail ty p n; d = extractDataType r
      in TrimSpace (CHR '' '' # r) = r \<and> normalizeDataType d = ty \<and>
         (Contains (ToUpper r) ''PRIMARY KEY'' \<or> EqualFold d ''serial'' \<or> EqualFold d ''bigserial'' \<longleftrightarrow> p) \<and>
         (\<not> Contains (ToUpper r) ''NOT NULL'' \<and> \<not> p \<longleftrightarrow> n) \<and> \<not> HasPrefix (ToUpper r) ''KEY'' \<and>
         list_all (\<lambda>c. nameChar c \<or> c = CHR '' '') r \<and> r \<noteq> [] \<and> \<not> isSpace (last r) \<and> \<not> isSpace (hd r))"

lemma columnTail_ok:
  assumes "ty \<in> set keptTypes" "p \<longrightarrow> \<not> n"
  shows "tailOk ty p n"
proof -
  have "list_all (\<lambda>ty. tailOk ty True False \<and> tailOk ty False True \<and> tailOk ty False False) keptTypes" by code_simp
  with assms show ?thesis by (cases p; cases n) (auto simp: list_all_iff)
qed

lemmas columnTail_facts = columnTail_ok [unfolded tailOk_def Let_def]

end
