(* ===== verification/ImportFacts.thy ===== *)
theory ImportFacts
  imports AdminFacts SqlFacts Reload
begin

text \<open>
  The importers end in the store: the names an OpenAPI import gives are identifiers and its tables are
  distinct, a document with one server compiles, and after the import its tables resolve. The import of an
  OpenAPI document visits a Go map, and the examples show what depends on its order.
\<close>

section \<open>Identifiers\<close>

definition idChar :: "char \<Rightarrow> bool" where
  "idChar c \<longleftrightarrow> (CHR ''a'' \<le> c \<and> c \<le> CHR ''z'') \<or> isDigit c \<or> c = CHR ''_''"

definition isIdentifier :: "string \<Rightarrow> bool" where
  "isIdentifier s \<longleftrightarrow> s \<noteq> [] \<and> list_all idChar s"

lemma toLowerC_upper: "CHR ''A'' \<le> c \<Longrightarrow> c \<le> CHR ''Z'' \<Longrightarrow> CHR ''a'' \<le> toLowerC c \<and> toLowerC c \<le> CHR ''z''"
  by (simp add: toLowerC_def less_eq_char_def)

lemma idChar_lower: "idChar (toLowerC (identifierByte c))"
proof (cases "CHR ''A'' \<le> c \<and> c \<le> CHR ''Z''")
  case True
  with toLowerC_upper [of c] show ?thesis by (simp add: identifierByte_def idChar_def)
next
  case False
  have u: "toLowerC CHR ''_'' = CHR ''_''" by code_simp
  from False have "toLowerC c = c" by (auto simp: toLowerC_def)
  with False u show ?thesis by (auto simp: identifierByte_def idChar_def)
qed

lemma sanitizeIdentifier_chars: "list_all idChar (sanitizeIdentifier s)"
proof -
  have "set (Trim (map identifierByte t) ''_'') \<subseteq> identifierByte ` set t" for t
    using set_TrimFunc [of "\<lambda>c. c \<in> set ''_''" "map identifierByte t"] by (simp add: Trim_def)
  then have "idChar (toLowerC x)" if "x \<in> set (Trim (map identifierByte t) ''_'')" for x t
    using that idChar_lower by blast
  then show ?thesis by (auto simp: sanitizeIdentifier_def Let_def ToLower_def list_all_iff)
qed

lemma idChar_not_space: "idChar c \<Longrightarrow> \<not> isSpace c"
  by (auto simp: idChar_def isSpace_def isDigit_def)

lemma isIdentifier_trimmed: "isIdentifier s \<Longrightarrow> TrimSpace s = s"
  by (rule TrimSpace_no_space) (auto simp: isIdentifier_def list_all_iff idChar_not_space)

lemma tableName_identifier: "tableNameFromPath p \<noteq> [] \<Longrightarrow> isIdentifier (tableNameFromPath p)"
  by (auto simp: isIdentifier_def tableNameFromPath_def Let_def sanitizeIdentifier_chars)

section \<open>The loop over the paths\<close>

definition methods :: "string list" where
  "methods = [''POST'', ''PUT'', ''PATCH'', ''DELETE'']"

lemma functionName_identifier:
  assumes "m \<in> set methods" "isIdentifier base"
  shows "isIdentifier (functionName base m oper opName seen)"
proof -
  have "list_all (\<lambda>m. isIdentifier (ToLower m)) methods" by code_simp
  with assms(1) have m: "isIdentifier (ToLower m)" by (simp add: list_all_iff)
  have u: "idChar CHR ''_''" by code_simp
  define n where "n = sanitizeIdentifier (if TrimSpace (op_OperationID oper) = [] then opName else TrimSpace (op_OperationID oper))"
  have "isIdentifier (if n = [] then ToLower m @ ''_'' @ base else n)"
    using m u assms(2) sanitizeIdentifier_chars by (auto simp: isIdentifier_def n_def)
  then show ?thesis
    using m u by (auto simp: functionName_def Let_def n_def [symmetric] isIdentifier_def)
qed

text \<open>What holds after the paths of \<open>done\<close>: the tables are distinct and come from paths with a GET, no such path is
  missing, and the functions have identifiers for names.\<close>

definition importable :: "string \<times> oasPathItem \<Rightarrow> bool" where
  "importable p \<longleftrightarrow> pi_Get (snd p) \<noteq> None \<and> tableNameFromPath (fst p) \<noteq> []"

definition oasInv :: "string \<Rightarrow> (string \<times> oasPathItem) set \<Rightarrow> oasOut \<Rightarrow> bool" where
  "oasInv server visited out \<longleftrightarrow>
     ao_SeenTables out = rev (map dt_Name (ao_Tables out)) \<and> distinct (ao_SeenTables out) \<and>
     (\<forall>t\<in>set (ao_Tables out). \<exists>p\<in>visited. importable p \<and> t = pathTable server (tableNameFromPath (fst p)) (fst p)) \<and>
     (\<forall>p\<in>visited. importable p \<longrightarrow> tableNameFromPath (fst p) \<in> set (ao_SeenTables out)) \<and>
     (\<forall>f\<in>set (ao_Functions out). df_Server f = server \<and> df_Operation f = ''invoke'' \<and> isIdentifier (df_Name f) \<and>
        (\<exists>p\<in>visited. df_RemotePath f = sanitizeRemotePath (fst p)))"

lemma addTable_inv:
  assumes "oasInv server visited out" "tableNameFromPath path \<noteq> []"
  shows "oasInv server (insert (path, item) visited) (addTable server (tableNameFromPath path) path item out)"
  using assms by (auto simp: oasInv_def addTable_def importable_def pathTable_def)

lemma addOperation_inv:
  assumes "oasInv server visited out" "(path, item) \<in> visited" "isIdentifier base" "fst entry \<in> set methods"
  shows "oasInv server visited (addOperation server base path out entry)"
proof (cases entry)
  case (fields m oper opName)
  then show ?thesis
    using assms functionName_identifier [of m base] bexI [where P = "\<lambda>p. sanitizeRemotePath path = sanitizeRemotePath (fst p)", OF _ assms(2)]
    by (cases oper) (auto simp: oasInv_def addOperation_def Let_def)
qed

lemma foldl_addOperation_inv:
  "oasInv server visited out \<Longrightarrow> (path, item) \<in> visited \<Longrightarrow> isIdentifier base \<Longrightarrow> fst ` set es \<subseteq> set methods \<Longrightarrow>
   oasInv server visited (foldl (addOperation server base path) out es)"
  by (induction es arbitrary: out) (auto intro!: addOperation_inv)

lemma addPath_inv: "oasInv server visited out \<Longrightarrow> oasInv server (insert p visited) (addPath server out p)"
proof -
  assume inv: "oasInv server visited out"
  obtain path item where p: "p = (path, item)" by (cases p)
  show ?thesis
  proof (cases "tableNameFromPath path = []")
    case True
    with inv show ?thesis by (auto simp: p addPath_def oasInv_def importable_def)
  next
    case False
    have "fst ` set (pathOps (tableNameFromPath path) item) \<subseteq> set methods" by (simp add: pathOps_def methods_def)
    with addTable_inv [OF inv False, of item] False show ?thesis
      by (auto simp: p addPath_def Let_def intro!: foldl_addOperation_inv [where item = item] tableName_identifier)
  qed
qed

lemma foldl_addPath_inv:
  "oasInv server visited out \<Longrightarrow> oasInv server (visited \<union> set ps) (foldl (addPath server) out ps)"
proof (induction ps arbitrary: visited out)
  case (Cons p ps)
  from Cons.IH [OF addPath_inv [OF Cons.prems]] show ?case by simp
qed simp

lemma paths_inv: "oasInv server (set ps) (foldl (addPath server) emptyOut ps)"
proof -
  have "oasInv server {} emptyOut" by (simp add: oasInv_def emptyOut_def)
  from foldl_addPath_inv [OF this, of ps] show ?thesis by simp
qed

text \<open>How many operations of a path become functions.\<close>

definition operationCount :: "string \<times> oasPathItem \<Rightarrow> nat" where
  "operationCount p =
     (if tableNameFromPath (fst p) = [] then 0
      else length (filter (\<lambda>oper. oper \<noteq> None) [pi_Post (snd p), pi_Put (snd p), pi_Patch (snd p), pi_Delete (snd p)]))"

lemma addOperation_count:
  "length (ao_Functions (addOperation server base path out entry)) =
   length (ao_Functions out) + (if fst (snd entry) = None then 0 else 1)"
  by (auto simp: addOperation_def Let_def split: prod.split option.split)

lemma addPath_count: "length (ao_Functions (addPath server out p)) = length (ao_Functions out) + operationCount p"
  by (cases p) (simp add: addPath_def operationCount_def pathOps_def addOperation_count addTable_def Let_def)

lemma paths_count:
  "length (ao_Functions (foldl (addPath server) out ps)) = length (ao_Functions out) + sum_list (map operationCount ps)"
  by (induction ps arbitrary: out) (simp_all add: addPath_count)

text \<open>C20: What an OpenAPI import contains. The tables are exactly the names of the paths with a GET, each once; every
  table points to one of its paths and is keyed by \<open>id\<close>; every POST, PUT, PATCH and DELETE of a named path is one
  function with an invoke operation; all names are non-empty identifiers of lower case letters, digits and underscores.\<close>

theorem openapi_import_contents:
  assumes "oasToDeclarative doc opts = Inr d"
  shows "distinct (map dt_Name (dd_Tables d)) \<and>
    set (map dt_Name (dd_Tables d)) = (\<lambda>p. tableNameFromPath (fst p)) ` {p \<in> set (oas_Paths doc). importable p} \<and>
    (\<forall>t\<in>set (dd_Tables d). isIdentifier (dt_Name t) \<and>
       (\<exists>p\<in>set (oas_Paths doc). importable p \<and> t = pathTable (openapiServerName opts) (tableNameFromPath (fst p)) (fst p))) \<and>
    length (dd_Functions d) = sum_list (map operationCount (oas_Paths doc)) \<and>
    (\<forall>f\<in>set (dd_Functions d). df_Operation f = ''invoke'' \<and> isIdentifier (df_Name f))"
proof -
  define out where "out = foldl (addPath (openapiServerName opts)) emptyOut (oas_Paths doc)"
  have d: "dd_Tables d = ao_Tables out" "dd_Functions d = ao_Functions out"
    using assms by (auto simp: oasToDeclarative_def Let_def out_def split: if_splits)
  have inv: "oasInv (openapiServerName opts) (set (oas_Paths doc)) out" unfolding out_def by (rule paths_inv)
  note oasInvD = inv [unfolded oasInv_def]
  have dist: "distinct (map dt_Name (ao_Tables out))" using oasInvD by (metis distinct_rev)
  have tabs: "\<forall>t\<in>set (ao_Tables out). isIdentifier (dt_Name t) \<and>
       (\<exists>p\<in>set (oas_Paths doc). importable p \<and> t = pathTable (openapiServerName opts) (tableNameFromPath (fst p)) (fst p))"
  proof
    fix t
    assume "t \<in> set (ao_Tables out)"
    with oasInvD obtain p where p: "p \<in> set (oas_Paths doc)" "importable p"
      "t = pathTable (openapiServerName opts) (tableNameFromPath (fst p)) (fst p)" by blast
    have "dt_Name t = tableNameFromPath (fst p)" by (simp add: p(3) pathTable_def)
    moreover have "isIdentifier (tableNameFromPath (fst p))"
      using p(2) by (auto simp: importable_def intro: tableName_identifier)
    ultimately show "isIdentifier (dt_Name t) \<and>
       (\<exists>p\<in>set (oas_Paths doc). importable p \<and> t = pathTable (openapiServerName opts) (tableNameFromPath (fst p)) (fst p))"
      using p by auto
  qed
  have seen: "set (ao_SeenTables out) = dt_Name ` set (ao_Tables out)" using oasInvD by simp
  have names: "set (map dt_Name (ao_Tables out)) = (\<lambda>p. tableNameFromPath (fst p)) ` {p \<in> set (oas_Paths doc). importable p}"
  proof (rule subset_antisym)
    show "set (map dt_Name (ao_Tables out)) \<subseteq> (\<lambda>p. tableNameFromPath (fst p)) ` {p \<in> set (oas_Paths doc). importable p}"
    proof
      fix n
      assume "n \<in> set (map dt_Name (ao_Tables out))"
      then obtain t where "t \<in> set (ao_Tables out)" "n = dt_Name t" by auto
      with tabs obtain p where "p \<in> set (oas_Paths doc)" "importable p" "n = tableNameFromPath (fst p)"
        by (auto simp: pathTable_def)
      then show "n \<in> (\<lambda>p. tableNameFromPath (fst p)) ` {p \<in> set (oas_Paths doc). importable p}" by blast
    qed
    show "(\<lambda>p. tableNameFromPath (fst p)) ` {p \<in> set (oas_Paths doc). importable p} \<subseteq> set (map dt_Name (ao_Tables out))"
      using oasInvD unfolding set_map seen [symmetric] by blast
  qed
  have count: "length (ao_Functions out) = sum_list (map operationCount (oas_Paths doc))"
    unfolding out_def by (simp add: paths_count emptyOut_def)
  have funs: "\<forall>f\<in>set (ao_Functions out). df_Operation f = ''invoke'' \<and> isIdentifier (df_Name f)"
    using oasInvD by blast
  show ?thesis unfolding d by (intro conjI dist names tabs count funs)
qed

section \<open>Compiling the document of one server\<close>

text \<open>Both importers build a document with one server, to which every table and function belongs.\<close>

definition oneServer :: "string \<Rightarrow> string \<Rightarrow> DeclarativeDoc \<Rightarrow> bool" where
  "oneServer name protocol doc \<longleftrightarrow>
     dd_Credentials doc = [] \<and> name \<noteq> [] \<and> TrimSpace name = name \<and> TrimSpace protocol = protocol \<and> protocol \<noteq> [] \<and>
     (\<exists>s. dd_Servers doc = [s] \<and> ds_Name s = name \<and> ds_Protocol s = protocol \<and> ds_Enabled s \<noteq> Some False) \<and>
     list_all (\<lambda>t. dt_Server t = name \<and> TrimSpace (dt_Name t) \<noteq> []) (dd_Tables doc) \<and>
     list_all (\<lambda>f. df_Server f = name \<and> TrimSpace (df_Name f) \<noteq> [] \<and> TrimSpace (df_Operation f) \<noteq> []) (dd_Functions doc)"

text \<open>The vault can encrypt what the document holds.\<close>

definition canEncrypt :: "compileEnv \<Rightarrow> DeclarativeDoc \<Rightarrow> bool" where
  "canEncrypt env doc \<longleftrightarrow>
     (\<forall>s\<in>set (dd_Servers doc). \<forall>i. isOk (Encrypt (ce_vault env) (ce_nonce env i) (expandEnvMap (ce_getenv env) (ds_Credential s))))"

definition tableFacts :: "TableRecord \<Rightarrow> string \<times> string \<times> string \<times> string list \<times> uuid" where
  "tableFacts t = (tbr_SchemaName t, tbr_TableName t, tbr_RemoteName t, tbr_KeyColumns t, tbr_ServerID t)"

definition hasServer :: "string \<Rightarrow> ServerRecord \<Rightarrow> compiler \<Rightarrow> bool" where
  "hasServer name r c \<longleftrightarrow> map_of (cp_servers c) name = Some (svr_ID r) \<and> sn_Servers (cp_out c) = [r]"

lemma compileTable_one:
  assumes "hasServer name r c" "dt_Server t = name" "TrimSpace name = name" "name \<noteq> []" "TrimSpace (dt_Name t) \<noteq> []"
  shows "\<exists>c1. compileTable t c = Inr c1 \<and> hasServer name r c1 \<and>
    map tableFacts (sn_Tables (cp_out c1)) = map tableFacts (sn_Tables (cp_out c)) @
      [(schemaOr (dt_Schema t), TrimSpace (dt_Name t), dt_RemoteName t, dt_KeyColumns t, svr_ID r)]"
  using assms by (simp add: compileTable_def hasServer_def tableFacts_def Let_def split: prod.split)

lemma compileFunction_one:
  assumes "hasServer name r c" "df_Server f = name" "TrimSpace name = name" "name \<noteq> []" "TrimSpace (df_Name f) \<noteq> []"
    "TrimSpace (df_Operation f) \<noteq> []"
  shows "\<exists>c1. compileFunction f c = Inr c1 \<and> hasServer name r c1 \<and> sn_Tables (cp_out c1) = sn_Tables (cp_out c)"
  using assms by (simp add: compileFunction_def hasServer_def Let_def)

lemma compileServer_one:
  assumes "TrimSpace (fs_Name s) = name" "name \<noteq> []" "TrimSpace (fs_Protocol s) \<noteq> []" "cf_Name (fs_Credential s) = []"
    and enc: "isOk (Encrypt (ce_vault env) (ce_nonce env (Suc n)) (expandEnvMap (ce_getenv env) (cf_Data (fs_Credential s))))"
  shows "\<exists>c1 r. compileServer env s (startCompiler n) = Inr c1 \<and> hasServer name r c1 \<and> svr_Name r = name \<and>
    svr_Protocol r = TrimSpace (fs_Protocol s) \<and> svr_Enabled r = (fs_Enabled s \<noteq> Some False) \<and> sn_Tables (cp_out c1) = []"
proof -
  have trim: "TrimSpace name = name" using assms(1) by (metis TrimSpace_def TrimFunc_idem)
  have "\<exists>ref c1. serverCredRef env name (fs_Credential s) (startCompiler n) = Inr (ref, c1)"
    using enc assms(2,4) trim by (auto simp: serverCredRef_def registerCred_def startCompiler_def isOk_def Let_def split: sum.splits)
  then obtain ref c1 where c1: "serverCredRef env name (fs_Credential s) (startCompiler n) = Inr (ref, c1)" by blast
  from serverCredRef_lists [OF c1] have "sn_Servers (cp_out c1) = []" "sn_Tables (cp_out c1) = []"
    by (simp_all add: startCompiler_def emptySnapshot_def)
  with c1 assms(1,2,3) show ?thesis
    by (auto simp: compileServer_def hasServer_def Let_def update_conv' split: option.split)
qed

lemma compile_oneServer:
  assumes doc: "oneServer name protocol doc" and enc: "canEncrypt env doc"
  shows "\<exists>snap m r. compileDeclarative env (declarativeFromImporter doc) n = Inr (snap, m) \<and> sn_Servers snap = [r] \<and>
    svr_Name r = name \<and> svr_Protocol r = protocol \<and> svr_Enabled r \<and>
    map tableFacts (sn_Tables snap) =
      map (\<lambda>t. (schemaOr (dt_Schema t), TrimSpace (dt_Name t), dt_RemoteName t, dt_KeyColumns t, svr_ID r)) (dd_Tables doc)"
proof -
  note one = doc [unfolded oneServer_def list_all_iff]
  then obtain s where s: "dd_Servers doc = [s]" "ds_Name s = name" "ds_Protocol s = protocol" "ds_Enabled s \<noteq> Some False" by blast
  let ?s = "\<lparr>fs_Name = ds_Name s, fs_Protocol = ds_Protocol s, fs_Credential = \<lparr>cf_Name = [], cf_Data = ds_Credential s\<rparr>,
    fs_Enabled = ds_Enabled s, fs_Options = ds_Options s\<rparr>"
  obtain c1 r where c1: "compileServer env ?s (startCompiler n) = Inr c1" "hasServer name r c1"
    "svr_Name r = name" "svr_Protocol r = protocol" "svr_Enabled r" "sn_Tables (cp_out c1) = []"
    using compileServer_one [of ?s name env n] one s enc by (auto simp: canEncrypt_def)
  let ?view = "\<lambda>c. map tableFacts (sn_Tables (cp_out c))"
  let ?fact = "\<lambda>t. (schemaOr (dt_Schema t), TrimSpace (dt_Name t), dt_RemoteName t, dt_KeyColumns t, svr_ID r)"
  have "\<exists>c2. foldE compileTable (map (\<lambda>t. t) (dd_Tables doc)) c1 = Inr c2 \<and> hasServer name r c2 \<and>
      ?view c2 = ?view c1 @ map ?fact (dd_Tables doc)"
    using one c1(2) by (intro foldE_collect) (auto intro!: compileTable_one)
  then obtain c2 where c2: "foldE compileTable (dd_Tables doc) c1 = Inr c2" "hasServer name r c2"
    "?view c2 = map ?fact (dd_Tables doc)" using c1(6) by auto
  have "\<exists>c3. foldE compileFunction fs c = Inr c3 \<and> hasServer name r c3 \<and> sn_Tables (cp_out c3) = sn_Tables (cp_out c)"
    if "set fs \<subseteq> set (dd_Functions doc)" "hasServer name r c" for fs c
    using that
  proof (induction fs arbitrary: c)
    case (Cons f fs)
    then obtain c' where "compileFunction f c = Inr c'" "hasServer name r c'" "sn_Tables (cp_out c') = sn_Tables (cp_out c)"
      using compileFunction_one [of name r c f] one by auto
    with Cons.IH [of c'] Cons.prems show ?case by auto
  qed simp
  from this [OF subset_refl c2(2)] obtain c3 where c3: "foldE compileFunction (dd_Functions doc) c2 = Inr c3"
    "hasServer name r c3" "sn_Tables (cp_out c3) = sn_Tables (cp_out c2)" by blast
  have "compileDeclarative env (declarativeFromImporter doc) n = Inr (cp_out c3, cp_next c3)"
    using c1(1) c2(1) c3(1) one s
    by (simp add: compileDeclarative_def declarativeFromImporter_def bindE_def startCompiler_def)
  with c1 c2 c3 show ?thesis by (auto simp: hasServer_def)
qed

section \<open>After the import\<close>

lemma import_replace:
  assumes "compileDeclarative (compileEnvOf env (st_world s)) (declarativeFromImporter doc) (st_next s) = Inr (snap, m)"
  shows "st_data (snd (ImportDeclarative env doc ''replace'' s)) = snap"
proof -
  have "importPrepare env doc ''replace'' s = (Inr (doc, snap), s\<lparr>st_next := m\<rparr>)"
    using assms by (simp add: importPrepare_def readData_def importDoc_def bindC_def compileIn_def retC_def)
  then show ?thesis by (simp add: ImportDeclarative_def bindC_def importCommit_data)
qed

lemma imported_table:
  assumes doc: "oneServer name protocol doc" and enc: "canEncrypt (compileEnvOf env (st_world s)) doc"
    and dist: "distinct (map (\<lambda>t. (schemaOr (dt_Schema t), TrimSpace (dt_Name t))) (dd_Tables doc))"
    and t: "t \<in> set (dd_Tables doc)"
  shows "\<exists>rt. fst (ResolveTable (schemaOr (dt_Schema t)) (TrimSpace (dt_Name t)) (snd (ImportDeclarative env doc ''replace'' s))) = Inr rt \<and>
    s_Name (rt_Server rt) = name \<and> s_Protocol (rt_Server rt) = protocol \<and> t_RemoteName (rt_Table rt) = dt_RemoteName t \<and>
    t_KeyColumns (rt_Table rt) = dt_KeyColumns t"
proof -
  obtain snap m r where c: "compileDeclarative (compileEnvOf env (st_world s)) (declarativeFromImporter doc) (st_next s) = Inr (snap, m)"
    and r: "sn_Servers snap = [r]" "svr_Name r = name" "svr_Protocol r = protocol" "svr_Enabled r"
    and facts: "map tableFacts (sn_Tables snap) =
      map (\<lambda>t. (schemaOr (dt_Schema t), TrimSpace (dt_Name t), dt_RemoteName t, dt_KeyColumns t, svr_ID r)) (dd_Tables doc)"
    using compile_oneServer [OF doc enc] by blast
  let ?key = "\<lambda>x. (tbr_SchemaName x, tbr_TableName x)"
  have "map ?key (sn_Tables snap) = map (\<lambda>(a, b, _). (a, b)) (map tableFacts (sn_Tables snap))"
    by (simp add: tableFacts_def)
  also have "\<dots> = map (\<lambda>t. (schemaOr (dt_Schema t), TrimSpace (dt_Name t))) (dd_Tables doc)"
    by (simp add: facts)
  finally have keys: "distinct (map ?key (sn_Tables snap))" using dist by simp
  have "(schemaOr (dt_Schema t), TrimSpace (dt_Name t), dt_RemoteName t, dt_KeyColumns t, svr_ID r) \<in> set (map tableFacts (sn_Tables snap))"
    using t facts by auto
  then obtain x where x: "x \<in> set (sn_Tables snap)"
    "tableFacts x = (schemaOr (dt_Schema t), TrimSpace (dt_Name t), dt_RemoteName t, dt_KeyColumns t, svr_ID r)" by auto
  have "findTable snap (schemaOr (dt_Schema t)) (TrimSpace (dt_Name t)) = Some x"
    using find_unique [OF keys x(1)] x(2) by (simp add: findTable_def tableFacts_def)
  with x(2) r show ?thesis
    by (simp add: ResolveTable_def readData_def import_replace [OF c] bindE_def orNotFound_def enabledServer_def
        tableModel_def serverModel_def tableFacts_def)
qed

lemma openapi_oneServer:
  assumes "oasToDeclarative doc opts = Inr d"
  shows "oneServer (openapiServerName opts) ''http'' d"
proof -
  define out where "out = foldl (addPath (openapiServerName opts)) emptyOut (oas_Paths doc)"
  have d: "d = \<lparr>dd_Credentials = [], dd_Servers = [openapiServer opts doc], dd_Tables = ao_Tables out, dd_Functions = ao_Functions out\<rparr>"
    using assms by (auto simp: oasToDeclarative_def Let_def out_def split: if_splits)
  have inv: "oasInv (openapiServerName opts) (set (oas_Paths doc)) out" unfolding out_def by (rule paths_inv)
  have "dt_Server t = openapiServerName opts \<and> TrimSpace (dt_Name t) \<noteq> []" if t: "t \<in> set (ao_Tables out)" for t
  proof -
    from inv t obtain p where p: "importable p" "t = pathTable (openapiServerName opts) (tableNameFromPath (fst p)) (fst p)"
      unfolding oasInv_def by blast
    then have "isIdentifier (tableNameFromPath (fst p))" by (auto simp: importable_def intro: tableName_identifier)
    with p show ?thesis by (simp add: pathTable_def isIdentifier_trimmed) (simp add: isIdentifier_def)
  qed
  moreover have "df_Server f = openapiServerName opts \<and> TrimSpace (df_Name f) \<noteq> [] \<and> TrimSpace (df_Operation f) \<noteq> []"
    if f: "f \<in> set (ao_Functions out)" for f
  proof -
    from inv f have "df_Server f = openapiServerName opts" "df_Operation f = ''invoke''" "isIdentifier (df_Name f)"
      unfolding oasInv_def by auto
    moreover have "TrimSpace ''invoke'' \<noteq> []" by code_simp
    ultimately show ?thesis by (simp add: isIdentifier_trimmed) (simp add: isIdentifier_def)
  qed
  moreover have "TrimSpace ''http'' = ''http''" "TrimSpace ''openapi_api'' = ''openapi_api''" by code_simp+
  then have "openapiServerName opts \<noteq> [] \<and> TrimSpace (openapiServerName opts) = openapiServerName opts \<and> TrimSpace ''http'' = ''http''"
    by (simp add: openapiServerName_def)
  ultimately show ?thesis
    by (auto simp: d oneServer_def list_all_iff openapiServer_def)
qed

text \<open>C12: An OpenAPI import ends in usable tables: when the specification converts, the printed document reads back as
  itself, and the vault can encrypt the placeholder token, then after the import in replace mode every path with a
  GET and a name resolves, in schema public, to a table of an enabled http server whose remote name is one of the
  paths of that name.\<close>

theorem openapi_import_resolves:
  assumes "co_Kind opts = KindOpenAPI" "dl_oasYAML lib (co_Input opts) = Inr doc" "Convert lib opts = Inr text"
    and "\<forall>d. dl_marshal lib d = Inr text \<longrightarrow> dl_unmarshal lib text = Inr d"
    and "\<forall>i. isOk (Encrypt (fe_vault env) (fe_nonce env i) (expandEnvMap (fe_getenv env) [(''token'', VStr ''${API_TOKEN}'')]))"
    and "p \<in> set (oas_Paths doc)" "importable p"
  shows "\<exists>rt. fst (ResolveTable ''public'' (tableNameFromPath (fst p))
        (snd (ImportYAML lib (ImportDeclarative env) text ''replace'' s))) = Inr rt \<and>
    s_Name (rt_Server rt) = openapiServerName (co_OpenAPI opts) \<and> s_Protocol (rt_Server rt) = ''http'' \<and>
    t_KeyColumns (rt_Table rt) = [''id''] \<and>
    (\<exists>q\<in>set (oas_Paths doc). importable q \<and> tableNameFromPath (fst q) = tableNameFromPath (fst p) \<and>
       t_RemoteName (rt_Table rt) = sanitizeRemotePath (fst q))"
proof -
  obtain d where d: "oasToDeclarative doc (co_OpenAPI opts) = Inr d" "dl_marshal lib d = Inr text"
    using assms(1,2,3) by (auto simp: Convert_def convertDoc_def OpenAPIToDeclarative_def split: sum.splits)
  have server: "dd_Servers d = [openapiServer (co_OpenAPI opts) doc]"
    using d(1) by (auto simp: oasToDeclarative_def Let_def split: if_splits)
  have enc: "canEncrypt (compileEnvOf env (st_world s)) d"
    using assms(5) by (simp add: canEncrypt_def server openapiServer_def compileEnvOf_def)
  define out where "out = foldl (addPath (openapiServerName (co_OpenAPI opts))) emptyOut (oas_Paths doc)"
  have tabs: "dd_Tables d = ao_Tables out" using d(1) by (auto simp: oasToDeclarative_def Let_def out_def split: if_splits)
  have inv: "oasInv (openapiServerName (co_OpenAPI opts)) (set (oas_Paths doc)) out" unfolding out_def by (rule paths_inv)
  have tab: "schemaOr (dt_Schema t) = ''public'' \<and> TrimSpace (dt_Name t) = dt_Name t \<and> dt_KeyColumns t = [''id''] \<and>
      (\<exists>q\<in>set (oas_Paths doc). importable q \<and> tableNameFromPath (fst q) = dt_Name t \<and> dt_RemoteName t = sanitizeRemotePath (fst q))"
    if t: "t \<in> set (dd_Tables d)" for t
  proof -
    from inv t obtain q where q: "q \<in> set (oas_Paths doc)" "importable q"
      "t = pathTable (openapiServerName (co_OpenAPI opts)) (tableNameFromPath (fst q)) (fst q)"
      unfolding oasInv_def tabs by blast
    moreover have "TrimSpace ''public'' = ''public''" by code_simp
    moreover have "isIdentifier (tableNameFromPath (fst q))" using q(2) by (auto simp: importable_def intro: tableName_identifier)
    ultimately show ?thesis by (auto simp: pathTable_def schemaOr_def isIdentifier_trimmed)
  qed
  have "distinct (map dt_Name (dd_Tables d))"
    using inv unfolding oasInv_def tabs by (metis distinct_rev)
  then have dist: "distinct (map (\<lambda>t. (schemaOr (dt_Schema t), TrimSpace (dt_Name t))) (dd_Tables d))"
    using tab by (auto simp: distinct_map inj_on_def)
  obtain t where t: "t \<in> set (dd_Tables d)" "dt_Name t = tableNameFromPath (fst p)"
  proof -
    have "tableNameFromPath (fst p) \<in> dt_Name ` set (ao_Tables out)" using inv assms(6,7) by (auto simp: oasInv_def)
    with that tabs show ?thesis by auto
  qed
  from tab [OF t(1)] t(2) obtain q where q: "q \<in> set (oas_Paths doc)" "importable q"
    "tableNameFromPath (fst q) = tableNameFromPath (fst p)" "dt_RemoteName t = sanitizeRemotePath (fst q)" by auto
  from imported_table [OF openapi_oneServer [OF d(1)] enc dist t(1)] tab [OF t(1)] t(2)
  obtain rt where "fst (ResolveTable ''public'' (tableNameFromPath (fst p)) (snd (ImportDeclarative env d ''replace'' s))) = Inr rt"
    "s_Name (rt_Server rt) = openapiServerName (co_OpenAPI opts)" "s_Protocol (rt_Server rt) = ''http''"
    "t_KeyColumns (rt_Table rt) = [''id'']" "t_RemoteName (rt_Table rt) = sanitizeRemotePath (fst q)"
    by (auto simp: q(4))
  moreover have "ImportYAML lib (ImportDeclarative env) text ''replace'' = ImportDeclarative env d ''replace''"
    using d(2) assms(4) by (simp add: ImportYAML_def)
  ultimately show ?thesis using q by metis
qed

text \<open>Which path a table of an OpenAPI import reads depends on the order in which Go visits the map of paths: of
  two paths with a GET and the same name, such as \<open>/users\<close> and \<open>/users/{id}\<close>, the one visited first wins, and the
  other is dropped without an error.\<close>

theorem openapi_table_depends_on_order:
  assumes "importable p" "importable q" "tableNameFromPath (fst p) = tableNameFromPath (fst q)"
    and "oas_Paths doc = [p, q]"
  shows "\<exists>d d'. oasToDeclarative doc opts = Inr d \<and> oasToDeclarative (doc\<lparr>oas_Paths := [q, p]\<rparr>) opts = Inr d' \<and>
    map dt_RemoteName (dd_Tables d) = [sanitizeRemotePath (fst p)] \<and>
    map dt_RemoteName (dd_Tables d') = [sanitizeRemotePath (fst q)]"
proof -
  have tables: "ao_Tables (foldl (addOperation server base path) out es) = ao_Tables out"
    "ao_SeenTables (foldl (addOperation server base path) out es) = ao_SeenTables out" for server base path out es
    by (induction es arbitrary: out) (simp_all add: addOperation_def Let_def split: prod.split option.split)
  have two: "ao_Tables (foldl (addPath server) emptyOut [a, b]) = [pathTable server (tableNameFromPath (fst a)) (fst a)]"
    if "importable a" "importable b" "tableNameFromPath (fst a) = tableNameFromPath (fst b)" for server a b
    using that by (cases a; cases b) (auto simp: addPath_def addTable_def emptyOut_def tables importable_def Let_def)
  from two [OF assms(1,2,3), of "openapiServerName opts"] two [OF assms(2,1) assms(3) [symmetric], of "openapiServerName opts"]
  show ?thesis using assms(4) by (auto simp: oasToDeclarative_def Let_def pathTable_def)
qed

section \<open>Examples\<close>

definition getItem :: oasPathItem where
  "getItem = \<lparr>pi_Get = Some \<lparr>op_OperationID = [], op_Summary = []\<rparr>, pi_Post = None, pi_Put = None, pi_Patch = None, pi_Delete = None\<rparr>"

definition postItem :: oasPathItem where
  "postItem = getItem\<lparr>pi_Get := None, pi_Post := Some \<lparr>op_OperationID = ''save'', op_Summary = []\<rparr>\<rparr>"

definition usersDoc :: oasDoc where
  "usersDoc =
     \<lparr>oas_OpenAPI = ''3.0.0'', oas_Servers = [''https://x/''], oas_Paths = [(''/users'', getItem), (''/users/{id}'', getItem)],
      oas_Components = None\<rparr>"

definition usersOptions :: importOpenAPIOptions where
  "usersOptions = \<lparr>oo_ServerName = '' api '', oo_Endpoint = []\<rparr>"

definition usersConvert :: ConvertOptions where
  "usersConvert = \<lparr>co_Kind = KindOpenAPI, co_Input = ''spec'', co_OpenAPI = usersOptions, co_SQL = noSQL\<rparr>"

definition usersDecl :: DeclarativeDoc where
  "usersDecl = (case oasToDeclarative usersDoc usersOptions of Inr d \<Rightarrow> d | Inl _ \<Rightarrow> emptyDoc)"

definition usersLib :: docLib where
  "usersLib =
     \<lparr>dl_oasYAML = (\<lambda>_. Inr usersDoc), dl_oasJSON = (\<lambda>_. Inl ErrEOF),
      dl_marshal = (\<lambda>d. if d = usersDecl then Inr ''doc'' else Inl ErrEOF), dl_unmarshal = (\<lambda>_. Inr usersDecl)\<rparr>"

lemma users_importable: "importable (''/users'', getItem)" "importable (''/users/{id}'', getItem)"
  "tableNameFromPath ''/users'' = ''users''" "tableNameFromPath ''/users/{id}'' = ''users''"
  by code_simp+

theorem openapi_import_contents_witness:
  "map dt_Name (dd_Tables usersDecl) = [''users''] \<and> dd_Functions usersDecl = [] \<and> distinct (map dt_Name (dd_Tables usersDecl))"
proof -
  have "isOk (oasToDeclarative usersDoc usersOptions)" "map dt_Name (dd_Tables usersDecl) = [''users''] \<and> dd_Functions usersDecl = []"
    by code_simp+
  then have "oasToDeclarative usersDoc usersOptions = Inr usersDecl"
    by (auto simp: usersDecl_def isOk_def split: sum.splits)
  from openapi_import_contents [OF this] \<open>map dt_Name _ = _ \<and> _\<close> show ?thesis by simp
qed

theorem openapi_import_resolves_witness:
  "\<exists>rt. fst (ResolveTable ''public'' ''users''
        (snd (ImportYAML usersLib (ImportDeclarative storeEnv) ''doc'' ''replace'' (emptyStore 0 ())))) = Inr rt \<and>
     s_Name (rt_Server rt) = ''api''"
proof -
  have ok: "isOk (oasToDeclarative usersDoc usersOptions)" by code_simp
  then have conv: "Convert usersLib usersConvert = Inr ''doc''"
    by (auto simp: Convert_def convertDoc_def usersConvert_def OpenAPIToDeclarative_def usersLib_def usersDecl_def isOk_def
        split: sum.splits)
  have enc: "\<forall>i. isOk (Encrypt (fe_vault storeEnv) (fe_nonce storeEnv i)
      (expandEnvMap (fe_getenv storeEnv) [(''token'', VStr ''${API_TOKEN}'')]))"
    by (simp add: storeEnv_def Encrypt_def exampleVault_def bindE_def isOk_def)
  have name: "openapiServerName (co_OpenAPI usersConvert) = ''api''" by code_simp
  have read: "dl_oasYAML usersLib (co_Input usersConvert) = Inr usersDoc" "co_Kind usersConvert = KindOpenAPI"
    "\<forall>d. dl_marshal usersLib d = Inr ''doc'' \<longrightarrow> dl_unmarshal usersLib ''doc'' = Inr d" "(''/users'', getItem) \<in> set (oas_Paths usersDoc)"
    by (simp_all add: usersLib_def usersConvert_def usersDoc_def)
  from openapi_import_resolves [OF read(2,1) conv read(3) enc read(4) users_importable(1), of "emptyStore 0 ()"]
  show ?thesis unfolding name fst_conv users_importable(3) by blast
qed

theorem openapi_table_depends_on_order_witness:
  "map dt_RemoteName (dd_Tables usersDecl) = [''/users''] \<and>
   (\<exists>d. oasToDeclarative (usersDoc\<lparr>oas_Paths := [(''/users/{id}'', getItem), (''/users'', getItem)]\<rparr>) usersOptions = Inr d \<and>
      map dt_RemoteName (dd_Tables d) = [''/users/{id}''])"
proof -
  have s: "sanitizeRemotePath ''/users'' = ''/users''" "sanitizeRemotePath ''/users/{id}'' = ''/users/{id}''" by code_simp+
  from openapi_table_depends_on_order [OF users_importable(1,2), of usersDoc usersOptions] users_importable s
  show ?thesis by (auto simp: usersDoc_def usersDecl_def)
qed

text \<open>Three operations with one operation id get only two names, so one of the functions cannot be called.\<close>

lemma openapi_function_names_collide:
  "map_sum id (\<lambda>d. map df_Name (dd_Functions d))
     (oasToDeclarative (usersDoc\<lparr>oas_Paths := [(''/a'', postItem), (''/b'', postItem), (''/c'', postItem)]\<rparr>) usersOptions) =
   Inr [''save'', ''save_post'', ''save_post'']"
  by code_simp

end
