(* ===== verification/SqlRoundtrip.thy ===== *)
theory SqlRoundtrip
  imports SqlFacts
begin

text \<open>
  The SQL import reads a printed schema back: the statement is found, cut at its semicolon, its column list
  is split at the commas, and every line gives the column it was printed from.
\<close>

section \<open>Words\<close>

lemma plainName_facts:
  assumes "plainName n"
  shows "n \<noteq> []" "list_all (\<lambda>c. \<not> isSpace c) n" "CHR '' '' \<notin> set n" "\<not> isSpace (hd n)" "nameChar (hd n)"
    "c \<in> {CHR 0x27, CHR 0x22, CHR 0x60, CHR ''('', CHR '')'', CHR '';'', CHR '','', CHR ''.''} \<Longrightarrow> c \<notin> set n"
proof -
  have all: "nameChar x" if "x \<in> set n" for x
    using assms that by (auto simp: plainName_def list_all_iff)
  show n: "n \<noteq> []" using assms by (simp add: plainName_def)
  show "list_all (\<lambda>c. \<not> isSpace c) n" using all nameChar_not_special(1) by (auto simp: list_all_iff)
  show "CHR '' '' \<notin> set n" using all nameChar_not_special(3) by blast
  show "nameChar (hd n)" using n all by simp
  then show "\<not> isSpace (hd n)" by (rule nameChar_not_special(1))
  show "c \<in> {CHR 0x27, CHR 0x22, CHR 0x60, CHR ''('', CHR '')'', CHR '';'', CHR '','', CHR ''.''} \<Longrightarrow> c \<notin> set n"
    using all [of c] nameChar_not_special(3) [of c] by blast
qed

lemma nameChar_upper: "nameChar c \<Longrightarrow> nameChar (toUpperC c)"
proof -
  assume c: "nameChar c"
  show ?thesis
  proof (cases "CHR ''a'' \<le> c \<and> c \<le> CHR ''z''")
    case True
    then have "65 \<le> of_char c - (32::nat) \<and> of_char c - (32::nat) \<le> 90" by (simp add: less_eq_char_def) arith
    with True show ?thesis by (simp add: toUpperC_def nameChar_def less_eq_char_def)
  next
    case False
    with c show ?thesis by (auto simp: toUpperC_def)
  qed
qed

lemma space_word_prefix:
  assumes "CHR '' '' \<notin> set n" "CHR '' '' \<notin> set a" "HasPrefix (n @ CHR '' '' # r) (a @ CHR '' '' # v)"
  shows "n = a \<and> HasPrefix r v"
proof -
  from assms(3) obtain z where z: "n @ CHR '' '' # r = a @ CHR '' '' # v @ z" by (auto simp: HasPrefix_iff)
  from assms(1,2) have t: "takeWhile (\<lambda>c. c \<noteq> CHR '' '') (n @ CHR '' '' # r) = n"
    "takeWhile (\<lambda>c. c \<noteq> CHR '' '') (a @ CHR '' '' # v @ z) = a" by (auto simp: takeWhile_append takeWhile_eq_all_conv)
  with z have "n = a" by metis
  with z show ?thesis by (auto simp: HasPrefix_iff)
qed

section \<open>Finding the statement\<close>

lemma matchCreate_printed:
  assumes "plainName s"
  shows "matchCreate (''CREATE TABLE '' @ s @ ''.'' @ x) = Some (s @ ''.'' @ x)"
proof -
  obtain c t where s: "s = c # t" "nameChar c" "list_all nameChar t"
    using assms by (cases s) (auto simp: plainName_def)
  have sp: "dropWhile isReSpace (s @ y) = s @ y" for y using s nameChar_not_special(2) by simp
  have "matchWordSpaces ''CREATE'' (''CREATE TABLE '' @ y) = Some (''TABLE '' @ y)"
    and "matchWordSpaces ''TABLE'' (''TABLE '' @ y) = Some (dropWhile isReSpace y)" for y
    by (simp_all add: matchWordSpaces_def matchWord_def matchSpaces_def ToUpper_def isReSpace_def toUpperC_def)
  moreover have "matchWordSpaces ''IF'' (s @ ''.'' @ x) = None"
  proof (cases t)
    case Nil
    have "toUpperC CHR ''.'' \<noteq> CHR ''F''" by code_simp
    then show ?thesis using s Nil by (simp add: matchWordSpaces_def matchWord_def ToUpper_def)
  next
    case (Cons c2 u)
    then have "\<not> isReSpace (hd (u @ ''.'' @ x))" using s(3) nameChar_not_special(2) by (cases u) (auto simp: isReSpace_def)
    then have "matchSpaces (u @ ''.'' @ x) = None" by (cases "u @ ''.'' @ x") (auto simp: matchSpaces_def)
    then show ?thesis using s Cons by (simp add: matchWordSpaces_def matchWord_def)
  qed
  ultimately show ?thesis using sp by (simp add: matchCreate_def)
qed

lemma findCreate_printed:
  "plainName s \<Longrightarrow> findCreate (''CREATE TABLE '' @ s @ ''.'' @ x) = Some (s @ ''.'' @ x)"
  using matchCreate_printed [of s x] by simp

section \<open>One column\<close>

lemma printColumn_tail:
  "printColumn c = pc_Name c @ CHR '' '' # columnTail (pc_DataType c) (pc_Primary c) (pc_Nullable c)"
  by (simp add: printColumn_def columnTail_def)

lemma parseColumnLine_printed:
  assumes "columnPrintable c"
  shows "TrimSpace (printColumn c) = printColumn c" "parseColumnLine (printColumn c) = c"
proof -
  let ?tail = "columnTail (pc_DataType c) (pc_Primary c) (pc_Nullable c)"
  from assms have n: "plainName (pc_Name c)" and ty: "pc_DataType c \<in> set keptTypes" "pc_Primary c \<longrightarrow> \<not> pc_Nullable c"
    by (auto simp: columnPrintable_def columnName_def)
  note name = plainName_facts [OF n] and tail = columnTail_facts [OF ty]
  show trim: "TrimSpace (printColumn c) = printColumn c"
    using name tail by (intro TrimSpace_ends) (auto simp: printColumn_tail)
  have "extractFirstIdentifier (printColumn c) = pc_Name c"
  proof -
    obtain a t where at: "pc_Name c = a # t" using name(1) by (cases "pc_Name c") auto
    then have "a \<noteq> CHR 0x60" "a \<noteq> CHR 0x22" using name(5) nameChar_not_special(3) by auto
    then show ?thesis
      using trim Fields_word [OF name(1,2)] at by (simp add: extractFirstIdentifier_def printColumn_tail)
  qed
  moreover have "\<not> HasPrefix (pc_Name c) [CHR 0x60]" "\<not> HasPrefix (pc_Name c) [CHR 0x22]"
    using name(1,5) nameChar_not_special(3) by (cases "pc_Name c"; auto)+
  moreover define prim where "prim \<longleftrightarrow> Contains (ToUpper ?tail) ''PRIMARY KEY'' \<or>
      EqualFold (extractDataType ?tail) ''serial'' \<or> EqualFold (extractDataType ?tail) ''bigserial''"
  moreover have rest: "TrimSpace (drop (length (pc_Name c)) (printColumn c)) = ?tail" using tail by (simp add: printColumn_tail)
  ultimately have "parseColumnLine (printColumn c) =
      \<lparr>pc_Name = pc_Name c, pc_DataType = normalizeDataType (extractDataType ?tail),
       pc_Nullable = (\<not> Contains (ToUpper ?tail) ''NOT NULL'' \<and> \<not> prim), pc_Primary = prim\<rparr>"
    using trim name(1) by (simp add: parseColumnLine_def Let_def rest) (simp add: printColumn_tail)
  moreover have "prim = pc_Primary c" "normalizeDataType (extractDataType ?tail) = pc_DataType c"
    "(\<not> Contains (ToUpper ?tail) ''NOT NULL'' \<and> \<not> pc_Primary c) = pc_Nullable c"
    using tail unfolding prim_def by blast+
  ultimately show "parseColumnLine (printColumn c) = c" by simp
qed

lemma printColumn_chars:
  assumes "columnPrintable c"
  shows "list_all (\<lambda>x. nameChar x \<or> x = CHR '' '') (printColumn c)" "printColumn c \<noteq> []"
proof -
  from assms have n: "plainName (pc_Name c)" and ty: "pc_DataType c \<in> set keptTypes" "pc_Primary c \<longrightarrow> \<not> pc_Nullable c"
    by (auto simp: columnPrintable_def columnName_def)
  from columnTail_facts [OF ty] n show "list_all (\<lambda>x. nameChar x \<or> x = CHR '' '') (printColumn c)"
    by (auto simp: printColumn_tail plainName_def list_all_iff)
  show "printColumn c \<noteq> []" by (simp add: printColumn_tail)
qed

lemma printColumn_plain:
  assumes "columnPrintable c" "x \<in> {CHR 0x27, CHR 0x22, CHR 0x60, CHR ''('', CHR '')'', CHR '';'', CHR '','', CHR ''.''}"
  shows "x \<notin> set (printColumn c)"
proof
  assume "x \<in> set (printColumn c)"
  with printColumn_chars(1) [OF assms(1)] have "nameChar x \<or> x = CHR '' ''" by (auto simp: list_all_iff)
  with assms(2) nameChar_not_special(3) [of x] show False by auto
qed

text \<open>A printed column is not taken for a constraint.\<close>

lemma printColumn_not_constraint:
  assumes "columnPrintable c"
  shows "\<not> HasPrefix (ToUpper (printColumn c)) ''PRIMARY KEY''"
    "\<not> list_ex (HasPrefix (ToUpper (printColumn c))) constraintWords"
proof -
  let ?tail = "columnTail (pc_DataType c) (pc_Primary c) (pc_Nullable c)"
  from assms have n: "plainName (pc_Name c)" and ty: "pc_DataType c \<in> set keptTypes" "pc_Primary c \<longrightarrow> \<not> pc_Nullable c"
    and free: "\<not> list_ex (HasPrefix (ToUpper (pc_Name c) @ '' '')) constraintWords"
    by (auto simp: columnPrintable_def columnName_def)
  let ?n = "ToUpper (pc_Name c)" and ?r = "ToUpper ?tail"
  have sp: "CHR '' '' \<notin> set ?n"
  proof
    assume "CHR '' '' \<in> set ?n"
    then obtain x where "x \<in> set (pc_Name c)" "toUpperC x = CHR '' ''" by (auto simp: ToUpper_def)
    with n have "nameChar (CHR '' '')" using nameChar_upper [of x] by (auto simp: plainName_def list_all_iff)
    then show False using nameChar_not_special(3) by blast
  qed
  have "toUpperC CHR '' '' = CHR '' ''" by code_simp
  then have up: "ToUpper (printColumn c) = ?n @ CHR '' '' # ?r" by (simp add: printColumn_tail ToUpper_def)
  have key: "\<not> HasPrefix ?r ''KEY''" using columnTail_facts [OF ty] by simp
  show "\<not> HasPrefix (ToUpper (printColumn c)) ''PRIMARY KEY''"
    using space_word_prefix [OF sp, of "''PRIMARY''" ?r "''KEY''"] key unfolding up by auto
  have "\<not> HasPrefix (?n @ CHR '' '' # ?r) w" if w: "w \<in> set constraintWords" for w
  proof
    assume p: "HasPrefix (?n @ CHR '' '' # ?r) w"
    from free w have "\<not> HasPrefix (?n @ '' '') w" by (auto simp: list_ex_iff)
    from HasPrefix_word_space [OF sp p this] obtain v where v: "w = ?n @ CHR '' '' # v" "HasPrefix ?r v" by blast
    then have "CHR '' '' \<in> set w" by simp
    moreover have "list_all (\<lambda>w. CHR '' '' \<in> set w \<longrightarrow> w = ''FOREIGN KEY'' \<or> w = ''KEY '') constraintWords" by code_simp
    ultimately have "w = ''FOREIGN KEY'' \<or> w = ''KEY ''" using w unfolding list_all_iff by blast
    then show False
    proof
      assume "w = ''FOREIGN KEY''"
      with p space_word_prefix [OF sp, of "''FOREIGN''" ?r "''KEY''"] key show False by auto
    next
      assume k: "w = ''KEY ''"
      with p space_word_prefix [OF sp, of "''KEY''" ?r "[]"] have "?n = ''KEY''" by auto
      with k \<open>\<not> HasPrefix (?n @ '' '') w\<close> show False by simp
    qed
  qed
  then show "\<not> list_ex (HasPrefix (ToUpper (printColumn c))) constraintWords" unfolding up list_ex_iff by blast
qed

section \<open>The list of columns\<close>

lemma columnLoop_trim:
  "map TrimSpace xs = map TrimSpace ys \<Longrightarrow> columnLoop xs cols keys = columnLoop ys cols keys"
proof (induction xs arbitrary: ys cols keys)
  case (Cons x xs)
  then obtain y zs where "ys = y # zs" "TrimSpace x = TrimSpace y" "map TrimSpace xs = map TrimSpace zs" by (cases ys) auto
  with Cons.IH show ?case by (simp add: Let_def)
qed simp

lemma columnLoop_printed:
  "list_all columnPrintable cs \<Longrightarrow> columnLoop (map printColumn cs) cols keys = (cols @ cs, keys)"
proof (induction cs arbitrary: cols)
  case (Cons c cs)
  then have c: "columnPrintable c" by simp
  then have "pc_Name c \<noteq> []" by (simp add: columnPrintable_def columnName_def plainName_def)
  with Cons parseColumnLine_printed [OF c] printColumn_chars(2) [OF c] printColumn_not_constraint [OF c]
  show ?case by (simp add: Let_def)
qed simp

definition chunkFree :: "string \<Rightarrow> bool" where
  "chunkFree u \<longleftrightarrow> list_all (\<lambda>c. c \<notin> {CHR 0x27, CHR 0x22, CHR 0x60, CHR ''('', CHR '')'', CHR '',''}) u"

lemma chunkFree_printed: "columnPrintable c \<Longrightarrow> chunkFree (printColumn c) \<and> chunkFree (CHR '' '' # printColumn c)"
  using printColumn_plain [of c] by (fastforce simp: chunkFree_def list_all_iff)

lemma TrimSpace_lead: "TrimSpace (CHR '' '' # s) = TrimSpace s"
  by (simp add: TrimSpace_def TrimFunc_def isSpace_def)

lemma chunkLoop_printed:
  "list_all columnPrintable cs \<Longrightarrow> cs \<noteq> [] \<Longrightarrow> pre = [] \<or> pre = '' '' \<Longrightarrow>
   map TrimSpace (chunkLoop 0 noQuotes [] (pre @ Join (map printColumn cs) '', '')) = map printColumn cs"
proof (induction cs arbitrary: pre)
  case (Cons c cs)
  then have c: "columnPrintable c" by simp
  note free = chunkFree_printed [OF c] and trim = parseColumnLine_printed(1) [OF c]
  have pre: "chunkFree (pre @ printColumn c)" "TrimSpace (pre @ printColumn c) = printColumn c"
    using Cons.prems(3) free trim by (auto simp: TrimSpace_lead)
  note scan = chunkLoop_plain [OF pre(1) [unfolded chunkFree_def], of 0 "[]"]
  show ?case
  proof (cases cs)
    case Nil
    then show ?thesis using scan [of "[]"] pre(2) trim printColumn_chars(2) [OF c] by (simp add: Let_def)
  next
    case (Cons c2 cs2)
    let ?rest = "'' '' @ Join (map printColumn cs) '', ''"
    have "chunkLoop 0 noQuotes [] ((pre @ printColumn c) @ CHR '','' # ?rest) =
      (pre @ printColumn c) # chunkLoop 0 noQuotes [] ?rest"
      unfolding scan by (simp add: toggle_plain noQuotes_def unquoted_def)
    moreover have "map TrimSpace (chunkLoop 0 noQuotes [] ?rest) = map printColumn cs"
      using Cons.IH [of "'' ''"] Cons.prems(1) Cons by simp
    ultimately show ?thesis using pre(2) Cons by simp
  qed
qed simp

lemma parseColumns_printed:
  assumes "list_all columnPrintable cs" "cs \<noteq> []"
  shows "parseColumnDefinitions (Join (map printColumn cs) '', '') = (cs, [])"
proof -
  have m: "map TrimSpace (splitColumnChunks (Join (map printColumn cs) '', '')) = map printColumn cs"
    using chunkLoop_printed [OF assms, of "[]"] by (simp add: splitColumnChunks_def)
  have "map TrimSpace (map printColumn cs) = map printColumn cs"
    using assms(1) parseColumnLine_printed(1) by (auto simp: list_all_iff)
  with m have "parseColumnDefinitions (Join (map printColumn cs) '', '') = columnLoop (map printColumn cs) [] []"
    unfolding parseColumnDefinitions_def by (intro columnLoop_trim) simp
  with columnLoop_printed [OF assms(1)] show ?thesis by simp
qed

section \<open>One table\<close>

lemma Join_chars:
  "list_all columnPrintable cs \<Longrightarrow> x \<in> set (Join (map printColumn cs) '', '') \<Longrightarrow> nameChar x \<or> x \<in> {CHR '' '', CHR '',''}"
proof (induction cs)
  case (Cons c cs)
  from Cons.prems printColumn_chars(1) [of c] have "x \<in> set (printColumn c) \<Longrightarrow> nameChar x \<or> x = CHR '' ''"
    by (auto simp: list_all_iff)
  with Cons show ?case by (cases cs) auto
qed simp

lemma Join_plain:
  assumes "list_all columnPrintable cs" "x \<in> {CHR 0x27, CHR 0x22, CHR 0x60, CHR ''('', CHR '')'', CHR '';'', CHR ''.''}"
  shows "x \<notin> set (Join (map printColumn cs) '', '')"
proof
  assume "x \<in> set (Join (map printColumn cs) '', '')"
  with Join_chars [OF assms(1)] have "nameChar x \<or> x \<in> {CHR '' '', CHR '',''}" .
  with assms(2) nameChar_not_special(3) [of x] show False by auto
qed

abbreviation (input) columnsText :: "parsedTable \<Rightarrow> string" where
  "columnsText t \<equiv> Join (map printColumn (pt_Columns t)) '', ''"

abbreviation (input) qualifiedText :: "parsedTable \<Rightarrow> string" where
  "qualifiedText t \<equiv> pt_Schema t @ ''.'' @ pt_Name t"

lemma qualified_plain:
  assumes "tablePrintable t" "x \<in> {CHR 0x27, CHR 0x22, CHR 0x60, CHR ''('', CHR '')'', CHR '';'', CHR '','', CHR '' ''}"
  shows "x \<notin> set (qualifiedText t)"
proof
  assume "x \<in> set (qualifiedText t)"
  with assms(1) have "nameChar x \<or> x = CHR ''.''" by (auto simp: tablePrintable_def plainName_def list_all_iff)
  with assms(2) nameChar_not_special(3) [of x] show False by auto
qed

lemma extractStatement_printed:
  assumes "tablePrintable t"
  shows "extractStatement (qualifiedText t @ '' ('' @ columnsText t @ '');'' @ rest) =
    Some (qualifiedText t @ '' ('' @ columnsText t @ '')'', TrimSpace rest)"
proof -
  let ?u = "qualifiedText t @ '' ''" and ?j = "columnsText t"
  from assms have cols: "list_all columnPrintable (pt_Columns t)" and s: "plainName (pt_Schema t)" by (auto simp: tablePrintable_def)
  have u: "list_all (\<lambda>c. c \<notin> {CHR 0x27, CHR 0x22, CHR 0x60, CHR ''('', CHR '')'', CHR '';''}) ?u"
    using qualified_plain [OF assms] by (force simp: list_all_iff)
  have j: "list_all (\<lambda>c. c \<notin> {CHR 0x27, CHR 0x22, CHR 0x60, CHR ''('', CHR '')'', CHR '';''}) ?j"
    unfolding list_all_iff using Join_plain [OF cols] by blast
  have paren: "extractLoop d noQuotes seen (CHR ''('' # x) = extractLoop (d + 1) noQuotes (CHR ''('' # seen) x"
    "extractLoop d noQuotes seen (CHR '')'' # x) = extractLoop (d - 1) noQuotes (CHR '')'' # seen) x"
    "extractLoop 0 noQuotes seen (CHR '';'' # x) = Some (TrimSpace (rev seen), TrimSpace x)" for d seen x
    by (simp_all add: toggle_plain noQuotes_def unquoted_def)
  have "extractStatement (?u @ CHR ''('' # ?j @ CHR '')'' # CHR '';'' # rest) =
    Some (TrimSpace (?u @ CHR ''('' # ?j @ '')''), TrimSpace rest)"
    unfolding extractStatement_def extractLoop_plain [OF u] paren extractLoop_plain [OF j]
    by (simp add: paren del: extractLoop.simps)
  moreover have "TrimSpace (?u @ CHR ''('' # ?j @ '')'') = ?u @ CHR ''('' # ?j @ '')''"
    using plainName_facts(1,4) [OF s] by (intro TrimSpace_ends) (auto simp: isSpace_def)
  ultimately show ?thesis by simp
qed

lemma splitQualifiedName_printed:
  assumes "tablePrintable t"
  shows "splitQualifiedName (qualifiedText t) d def = (pt_Schema t, pt_Name t)"
proof -
  from assms have s: "plainName (pt_Schema t)" and n: "plainName (pt_Name t)" by (auto simp: tablePrintable_def)
  have "Trim x cs = x" if "plainName x" "set cs \<subseteq> {CHR 0x22, CHR 0x60}" for x cs
    using plainName_facts(6) [OF that(1)] that(2) by (intro Trim_id) blast
  then have trims: "Trim (pt_Schema t) cs = pt_Schema t" "Trim (pt_Name t) cs = pt_Name t"
    if "set cs \<subseteq> {CHR 0x22, CHR 0x60}" for cs
    using s n that by auto
  have "\<not> isSpace x" if "x \<in> set (qualifiedText t)" for x
    using s n that nameChar_not_special(1) by (auto simp: plainName_def list_all_iff isSpace_def)
  then have sp: "TrimSpace (qualifiedText t) = qualifiedText t" by (intro TrimSpace_no_space)
  have q: "Trim (qualifiedText t) quoteMarks = qualifiedText t"
    using qualified_plain [OF assms] by (intro Trim_id) (auto simp: quoteMarks_def)
  have "CHR ''.'' \<notin> set (pt_Schema t)" "CHR ''.'' \<notin> set (pt_Name t)" using plainName_facts(6) [of _ "CHR ''.''"] s n by auto
  then have "Index (qualifiedText t) ''.'' = Some (length (pt_Schema t))"
    "LastIndex (qualifiedText t) ''.'' = Some (length (pt_Schema t))"
    by (simp_all add: Index_char_append LastIndex_char)
  then show ?thesis
    unfolding splitQualifiedName_def sp q Let_def by (simp add: trims quoteMarks_def)
qed

lemma parseOne_steps:
  assumes "TrimSpace stmt = stmt" "\<not> length (Fields stmt) < 3" "hd (Fields stmt) = q" "Index stmt ''('' = Some i"
    "drop (i + 1) stmt = body" "LastIndex body '')'' = Some j" "splitQualifiedName q d def = (s, n)"
    "parseColumnDefinitions (take j body) = (cols, keys)"
  shows "parseOneCreateTable stmt d def =
    Inr \<lparr>pt_Schema = s, pt_Name = n, pt_KeyColumns = (if keys = [] then map pc_Name (filter pc_Primary cols) else keys),
         pt_Columns = cols\<rparr>"
  using assms by (simp add: parseOneCreateTable_def)

lemma parseOne_printed:
  assumes "tablePrintable t"
  shows "parseOneCreateTable (qualifiedText t @ '' ('' @ columnsText t @ '')'') d def = Inr t"
proof -
  let ?q = "qualifiedText t" and ?j = "columnsText t"
  let ?stmt = "?q @ '' ('' @ ?j @ '')''"
  from assms have cols: "list_all columnPrintable (pt_Columns t)" "pt_Columns t \<noteq> []" and s: "plainName (pt_Schema t)"
    and n: "plainName (pt_Name t)" and keys: "pt_KeyColumns t = map pc_Name (filter pc_Primary (pt_Columns t))"
    by (auto simp: tablePrintable_def)
  have trim: "TrimSpace ?stmt = ?stmt" using plainName_facts(1,4) [OF s] by (intro TrimSpace_ends) (auto simp: isSpace_def)
  have ns: "list_all (\<lambda>c. \<not> isSpace c) ?q"
    using s n nameChar_not_special(1) by (auto simp: plainName_def list_all_iff isSpace_def)
  obtain c cs where c: "pt_Columns t = c # cs" using cols(2) by (cases "pt_Columns t") auto
  then have cn: "plainName (pc_Name c)" and cp: "columnPrintable c" using cols by (auto simp: columnPrintable_def columnName_def)
  obtain z where z: "?j = pc_Name c @ CHR '' '' # z" using c by (cases cs) (auto simp: printColumn_tail)
  have fields: "Fields ?stmt = ?q # (CHR ''('' # pc_Name c) # Fields (z @ '')'')"
  proof -
    have "Fields ?stmt = ?q # Fields (CHR ''('' # ?j @ '')'')"
      using Fields_word [of ?q "CHR ''('' # ?j @ '')''"] ns by simp
    moreover have "Fields ((CHR ''('' # pc_Name c) @ CHR '' '' # z @ '')'') = (CHR ''('' # pc_Name c) # Fields (z @ '')'')"
      using plainName_facts(2) [OF cn] by (intro Fields_word) (auto simp: isSpace_def)
    ultimately show ?thesis by (simp add: z)
  qed
  have "Fields (z @ '')'') \<noteq> []" by (rule Fields_nonempty [of "CHR '')''"]) (auto simp: isSpace_def)
  then have len: "\<not> length (Fields ?stmt) < 3" unfolding fields by (cases "Fields (z @ '')'')") simp_all
  have "CHR ''('' \<notin> set (?q @ '' '')" using qualified_plain [OF assms, of "CHR ''(''"] by auto
  from Index_char_append [OF this] have i: "Index ?stmt ''('' = Some (Suc (length ?q))" by simp
  have "drop (length (?q @ '' ('')) ((?q @ '' ('') @ ?j @ '')'') = ?j @ '')''" by (rule append_eq_conv_conj [THEN iffD1, THEN conjunct2, symmetric]) simp
  then have d: "drop (Suc (length ?q) + 1) ?stmt = ?j @ '')''" by (simp del: drop_Suc_Cons)
  have l: "LastIndex (?j @ '')'') '')'' = Some (length ?j)" using LastIndex_char [of "CHR '')''" "[]" ?j] by simp
  have h: "hd (Fields ?stmt) = ?q" unfolding fields by simp
  have "take (length ?j) (?j @ '')'') = ?j" by simp
  then have c: "parseColumnDefinitions (take (length ?j) (?j @ '')'')) = (pt_Columns t, [])"
    using parseColumns_printed [OF cols] by simp
  from parseOne_steps [OF trim len h i d l splitQualifiedName_printed [OF assms] c] keys show ?thesis by simp
qed

section \<open>The whole text\<close>

lemma printTable_text:
  "printTable t @ rest = ''CREATE TABLE '' @ pt_Schema t @ ''.'' @ (pt_Name t @ '' ('' @ columnsText t @ '');'' @ rest)"
  by (simp add: printTable_def)

lemma TrimSpace_printed: "TrimSpace (concat (map printTable ts)) = concat (map printTable ts)"
proof (cases ts)
  case (Cons t us)
  have "last (concat (map printTable xs)) = CHR '';''" if "xs \<noteq> []" for xs
    using that by (induction xs) (auto simp: printTable_def)
  with Cons show ?thesis by (intro TrimSpace_ends) (auto simp: printTable_def isSpace_def)
qed simp

lemma createLoop_step:
  "findCreate rest = Some r \<Longrightarrow> extractStatement r = Some (stmt, rem) \<Longrightarrow> parseOneCreateTable stmt d def = Inr t \<Longrightarrow>
   pt_Name t \<noteq> [] \<Longrightarrow> createLoop d def out rest = createLoop d def (out @ [t]) rem"
  by (subst createLoop.simps) simp

lemma createLoop_printed:
  "list_all tablePrintable ts \<Longrightarrow> createLoop d def out (concat (map printTable ts)) = Some (Inr (out @ ts))"
proof (induction ts arbitrary: out)
  case Nil
  show ?case by (subst createLoop.simps) simp
next
  case (Cons t ts)
  then have t: "tablePrintable t" by simp
  then have s: "plainName (pt_Schema t)" and n: "pt_Name t \<noteq> []" by (auto simp: tablePrintable_def plainName_def)
  have find: "findCreate (concat (map printTable (t # ts))) =
      Some (qualifiedText t @ '' ('' @ columnsText t @ '');'' @ concat (map printTable ts))"
    unfolding list.map concat.simps printTable_text findCreate_printed [OF s] by simp
  from createLoop_step [OF find extractStatement_printed [OF t] parseOne_printed [OF t, of d def] n, of out] Cons
  show ?case by (simp add: TrimSpace_printed)
qed

text \<open>C19: The SQL import reads back every schema of plain statements, in each dialect: printing tables whose names are
  words of letters, digits and underscores that do not begin like a constraint, with the eight types the import keeps and
  \<open>PRIMARY KEY\<close> or \<open>NOT NULL\<close> endings, and parsing the text gives exactly those tables, their key columns included.\<close>

theorem parseCreateTables_printed:
  assumes "list_all tablePrintable ts"
  shows "parseCreateTables (concat (map printTable ts)) d def = Some (Inr ts)"
  using createLoop_printed [OF assms, of d def "[]"] by (simp add: parseCreateTables_def)

definition usersTable :: parsedTable where
  "usersTable =
     \<lparr>pt_Schema = ''shop'', pt_Name = ''users'', pt_KeyColumns = [''id''],
      pt_Columns = [\<lparr>pc_Name = ''id'', pc_DataType = ''uuid'', pc_Nullable = False, pc_Primary = True\<rparr>,
                    \<lparr>pc_Name = ''age'', pc_DataType = ''integer'', pc_Nullable = True, pc_Primary = False\<rparr>]\<rparr>"

theorem parseCreateTables_printed_witness:
  "printTable usersTable = ''CREATE TABLE shop.users (id uuid PRIMARY KEY, age integer);'' \<and>
   parseCreateTables (printTable usersTable) DialectMy ''public'' = Some (Inr [usersTable])"
proof -
  have "list_all tablePrintable [usersTable]" by code_simp
  from parseCreateTables_printed [OF this, of DialectMy "''public''"]
  have "parseCreateTables (printTable usersTable) DialectMy ''public'' = Some (Inr [usersTable])" by simp
  moreover have "printTable usersTable = ''CREATE TABLE shop.users (id uuid PRIMARY KEY, age integer);''" by code_simp
  ultimately show ?thesis by simp
qed

section \<open>What the scanner loses\<close>

text \<open>Without a space before the parenthesis the first column becomes part of the table's name, or the statement is
  skipped when it has fewer than three fields.\<close>

lemma sql_needs_space:
  "map_option (map_sum id (map pt_Name)) (parseCreateTables ''CREATE TABLE t(id int, a text);'' DialectPG ''public'') =
     Some (Inr [''t(id''])"
  "parseCreateTables ''CREATE TABLE t(id int);'' DialectPG ''public'' = Some (Inr [])"
  by code_simp+

text \<open>A column whose name begins like a constraint is dropped.\<close>

lemma sql_drops_column:
  "map_option (map_sum id (map (\<lambda>t. map pc_Name (pt_Columns t))))
     (parseCreateTables ''CREATE TABLE t (id int, check_date date, index_no int);'' DialectPG ''public'') =
   Some (Inr [[''id'']])"
  by code_simp

text \<open>The key of a named primary key constraint is lost.\<close>

lemma sql_loses_named_key:
  "map_option (map_sum id (map pt_KeyColumns))
     (parseCreateTables ''CREATE TABLE t (a int, b int, CONSTRAINT pk PRIMARY KEY (b));'' DialectPG ''public'') =
   Some (Inr [[]])"
  by code_simp

end
