(* ===== verification/SqlDrivers.thy ===== *)
theory SqlDrivers
  imports DriverApi
begin

text \<open>
  The postgres and mysql drivers (\<open>internal/driver/postgres/postgres.go\<close> and
  \<open>internal/driver/mysql/mysql.go\<close>). Each operation builds an SQL text and a list of
  arguments, modelled as a pure function, and hands them to the database connection, whose
  operations are the fields of the records \<open>pgconn\<close> and \<open>mysqlconn\<close>.
\<close>

section \<open>Conditions\<close>

text \<open>The loop over the filters: each yields some conditions and some arguments.\<close>

fun buildConds ::
  "(Filter \<Rightarrow> nat \<Rightarrow> string list \<times> val list) \<Rightarrow> Filter list \<Rightarrow> nat \<Rightarrow> string list \<times> val list" where
  "buildConds cond [] idx = ([], [])"
| "buildConds cond (f # fs) idx =
     (case cond f idx of
        (ps, xs) \<Rightarrow>
          (case buildConds cond fs (idx + length xs) of (ps', xs') \<Rightarrow> (ps @ ps', xs @ xs')))"

definition opSQL :: "Op \<Rightarrow> string" where
  "opSQL op =
     (if op = OpNeq then ''<>''
      else if op = OpGt then ''>''
      else if op = OpGte then ''>=''
      else if op = OpLt then ''<''
      else if op = OpLte then ''<=''
      else if op = OpLike then ''LIKE''
      else ''='')"

definition inValues :: "string \<Rightarrow> val list" where
  "inValues v = map (\<lambda>p. VStr (TrimSpace p)) (Split v (CHR '',''))"

definition rowToCols :: "row \<Rightarrow> string list \<times> val list" where
  "rowToCols r = (map fst r, map snd r)"

definition rowToColsNonKeys :: "row \<Rightarrow> string list \<Rightarrow> string list \<times> val list" where
  "rowToColsNonKeys r keys = rowToCols (filter (\<lambda>kv. fst kv \<notin> set keys) r)"

text \<open>The rows scanned from a result with the given column names.\<close>

definition scanRow :: "string list \<Rightarrow> val list \<Rightarrow> row" where
  "scanRow names vals = buildMap [] (zip names vals)"

definition strCred :: "row option \<Rightarrow> string \<Rightarrow> string" where
  "strCred cred key =
     (case cred of
        None \<Rightarrow> []
      | Some c \<Rightarrow> (case map_of c key of Some v \<Rightarrow> Sprint v | None \<Rightarrow> []))"

definition orderBy :: "(string \<Rightarrow> string) \<Rightarrow> OrderSpec list \<Rightarrow> string" where
  "orderBy q ord =
     (if ord = [] then []
      else '' ORDER BY '' @ Join (map (\<lambda>o'. q (o_Column o') @ '' '' @
             (if o_Desc o' then ''DESC'' else ''ASC'')) ord) '', '')"

definition limitOffset :: "int \<Rightarrow> int \<Rightarrow> string" where
  "limitOffset lim off =
     (if lim > 0 then '' LIMIT '' @ decInt lim else []) @
     (if off > 0 then '' OFFSET '' @ decInt off else [])"

definition whereText :: "string \<Rightarrow> string" where
  "whereText w = (if w = [] then [] else '' WHERE '' @ w)"

section \<open>The postgres driver\<close>

record 'w pgconn =
  pg_query :: "string \<Rightarrow> val list \<Rightarrow> ('w, err, string list \<times> val list list) comp"
  pg_queryRow :: "string \<Rightarrow> val list \<Rightarrow> ('w, err, val list) comp"
  pg_queryInt :: "string \<Rightarrow> val list \<Rightarrow> ('w, err, int) comp"
  pg_exec :: "string \<Rightarrow> val list \<Rightarrow> ('w, err, int) comp"

record 'w pgpool =
  pp_connect :: "string \<Rightarrow> ('w, err, 'w pgconn) comp"
  pp_ping :: "'w pgconn \<Rightarrow> ('w, err, unit) comp"
  pp_close :: "'w pgconn \<Rightarrow> 'w \<Rightarrow> 'w"

definition dollar :: "nat \<Rightarrow> string" where
  "dollar i = CHR ''$'' # decNat i"

definition pgCond :: "Filter \<Rightarrow> nat \<Rightarrow> string list \<times> val list" where
  "pgCond f idx =
     (let col = quoteGo (fl_Column f); op = fl_Op f; v = fl_Value f
      in if op = OpEq then ([col @ ''='' @ dollar idx], [VStr v])
         else if op = OpIn then
           ([col @ '' IN ('' @ Join (map dollar [idx ..< idx + length (inValues v)]) '', '' @ '')''],
            inValues v)
         else if op = OpIs then
           (if v = ''null'' then ([col @ '' IS NULL''], []) else ([col @ '' IS '' @ v], []))
         else ([col @ '' '' @ opSQL op @ '' '' @ dollar idx], [VStr v]))"

definition buildWhere :: "Filter list \<Rightarrow> nat \<Rightarrow> string \<times> val list" where
  "buildWhere filters startIdx =
     (case buildConds pgCond filters startIdx of (ps, xs) \<Rightarrow> (Join ps '' AND '', xs))"

text \<open>The loop over the \<open>or\<close> groups in \<open>whereClause\<close>.\<close>

fun orGroupParts :: "Filter list list \<Rightarrow> nat \<Rightarrow> string list \<times> val list" where
  "orGroupParts [] idx = ([], [])"
| "orGroupParts (g # gs) idx =
     (case buildWhere g idx of
        (w, a) \<Rightarrow>
          if w \<noteq> [] then
            (case orGroupParts gs (idx + length a) of
               (ps, xs) \<Rightarrow> ((''('' @ w @ '')'') # ps, a @ xs))
          else orGroupParts gs idx)"

definition whereClause :: "Filter list \<Rightarrow> Filter list list \<Rightarrow> nat \<Rightarrow> string \<times> val list" where
  "whereClause filters orGroups startIdx =
     (let (w, a) = buildWhere filters startIdx;
          (parts, args) = (if w \<noteq> [] then ([w], a) else ([], []));
          (orParts, orArgs) = orGroupParts orGroups (startIdx + length args);
          orText = (if orParts \<noteq> [] then [''('' @ Join orParts '' OR '' @ '')''] else [])
      in (Join (parts @ orText) '' AND '', args @ orArgs))"

text \<open>The driver's state is its default schema; \<open>quoteCols\<close> quotes with the verb \<open>%q\<close>.\<close>

definition pgQualified :: "string \<Rightarrow> string \<Rightarrow> string \<Rightarrow> string" where
  "pgQualified dschema schema table =
     quoteGo (if schema = [] then dschema else schema) @ ''.'' @ quoteGo table"

definition pgRemoteTable :: "string \<Rightarrow> ResolvedTable \<Rightarrow> string" where
  "pgRemoteTable dschema resolved =
     pgQualified dschema
       (if t_SchemaName (rt_Table resolved) \<noteq> [] then t_SchemaName (rt_Table resolved) else dschema)
       (RemoteTableName (rt_Table resolved))"

definition quoteCols :: "string list \<Rightarrow> string" where
  "quoteCols cols = Join (map quoteGo cols) '', ''"

definition pgWhere :: "ResolvedTable \<Rightarrow> Filter list \<Rightarrow> Filter list list \<Rightarrow> nat \<Rightarrow> string \<times> val list" where
  "pgWhere resolved fs gs idx =
     whereClause (MapFilters fs (rt_Columns resolved)) (mapOrGroups gs (rt_Columns resolved)) idx"

definition pgSelectSQL :: "string \<Rightarrow> SelectRequest \<Rightarrow> string \<times> val list" where
  "pgSelectSQL dschema req =
     (let cols = (if sr_Select req = [] then ''*'' else quoteCols (sr_Select req));
          (w, args) = pgWhere (sr_Resolved req) (sr_Filters req) (sr_OrGroups req) 1
      in (''SELECT '' @ cols @ '' FROM '' @ pgRemoteTable dschema (sr_Resolved req) @ whereText w @
            orderBy quoteGo (sr_Order req) @ limitOffset (sr_Limit req) (sr_Offset req), args))"

definition pgCountSQL :: "string \<Rightarrow> SelectRequest \<Rightarrow> string \<times> val list" where
  "pgCountSQL dschema req =
     (let (w, args) = pgWhere (sr_Resolved req) (sr_Filters req) (sr_OrGroups req) 1
      in (''SELECT COUNT(*) FROM '' @ pgRemoteTable dschema (sr_Resolved req) @ whereText w, args))"

definition pgInsertSQL :: "string \<Rightarrow> RowRequest \<Rightarrow> err + string \<times> val list" where
  "pgInsertSQL dschema req =
     (let (cols, args) = rowToCols (MapRowToRemote (rr_Row req) (rt_Columns (rr_Resolved req)))
      in if cols = [] then Inl (Errorf ''empty row'')
         else Inr (''INSERT INTO '' @ pgRemoteTable dschema (rr_Resolved req) @ '' ('' @ quoteCols cols @
                     '') VALUES ('' @ Join (map (\<lambda>i. dollar (i + 1)) [0 ..< length cols]) '', '' @ '')'', args))"

definition pgUpdateSQL :: "string \<Rightarrow> RowRequest \<Rightarrow> err + string \<times> val list" where
  "pgUpdateSQL dschema req =
     (let (cols, args) = rowToColsNonKeys (MapRowToRemote (rr_Row req) (rt_Columns (rr_Resolved req)))
                           (t_KeyColumns (rt_Table (rr_Resolved req)))
      in if cols = [] then Inl (Errorf ''no columns to update'')
         else let (w, wArgs) = pgWhere (rr_Resolved req) (rr_Filters req) (rr_OrGroups req) (length args + 1);
                  sets = map (\<lambda>(i, c). quoteGo c @ ''='' @ dollar (i + 1)) (enumerate 0 cols)
              in Inr (''UPDATE '' @ pgRemoteTable dschema (rr_Resolved req) @ '' SET '' @ Join sets '', '' @
                        whereText w, if w \<noteq> [] then args @ wArgs else args))"

definition pgDeleteSQL :: "string \<Rightarrow> DeleteRequest \<Rightarrow> string \<times> val list" where
  "pgDeleteSQL dschema req =
     (let (w, args) = pgWhere (dr_Resolved req) (dr_Filters req) (dr_OrGroups req) 1
      in (''DELETE FROM '' @ pgRemoteTable dschema (dr_Resolved req) @ whereText w, args))"

definition isConflict :: "err \<Rightarrow> bool" where
  "isConflict e =
     (let s = ToLower (errMsg e)
      in Contains s ''duplicate'' \<or> Contains s ''unique'' \<or> Contains s ''23505'')"

definition pgInsert :: "'w pgconn \<Rightarrow> string \<Rightarrow> RowRequest \<Rightarrow> ('w, err, row option) comp" where
  "pgInsert db dschema req =
     bindC (liftC (pgInsertSQL dschema req)) (\<lambda>(query, args).
       if rr_PreferRepresentation req \<and> rr_Returning req \<noteq> []
       then bindC (pg_queryRow db (query @ '' RETURNING '' @ quoteCols (rr_Returning req)) args)
              (\<lambda>vals. retC (Some (scanRow (rr_Returning req) vals)))
       else bindC (pg_exec db query args) (\<lambda>_. retC None))"

definition pgUpdate :: "'w pgconn \<Rightarrow> string \<Rightarrow> RowRequest \<Rightarrow> ('w, err, int) comp" where
  "pgUpdate db dschema req = bindC (liftC (pgUpdateSQL dschema req)) (\<lambda>(query, args). pg_exec db query args)"

definition pgUpsert :: "'w pgconn \<Rightarrow> string \<Rightarrow> RowRequest \<Rightarrow> ('w, err, bool \<times> row option) comp" where
  "pgUpsert db dschema req w =
     (case pgInsert db dschema req w of
        (Inr ret, w1) \<Rightarrow> (Inr (True, ret), w1)
      | (Inl e, w1) \<Rightarrow>
          if \<not> isConflict e then (Inl e, w1)
          else (case pgUpdate db dschema req w1 of
                  (Inl e2, w2) \<Rightarrow> (Inl e2, w2)
                | (Inr n, w2) \<Rightarrow> (Inr (False, None), w2)))"

definition pgDriver :: "'w pgconn \<Rightarrow> string \<Rightarrow> 'w driver" where
  "pgDriver db dschema =
     \<lparr>d_select = (\<lambda>req. case pgSelectSQL dschema req of (query, args) \<Rightarrow>
                   bindC (pg_query db query args) (\<lambda>(names, rows). retC (map (scanRow names) rows))),
      d_insert = pgInsert db dschema,
      d_update = pgUpdate db dschema,
      d_upsert = pgUpsert db dschema,
      d_delete = (\<lambda>req. case pgDeleteSQL dschema req of (query, args) \<Rightarrow> pg_exec db query args),
      d_invoke = (\<lambda>_. failC (OpNotSupported ''invoke'' ProtocolPostgres)),
      d_count = Some (\<lambda>req. case pgCountSQL dschema req of (query, args) \<Rightarrow> pg_queryInt db query args)\<rparr>"

definition pgNew :: "'w pgpool \<Rightarrow> 'w Factory" where
  "pgNew pool srv cred =
     (case ParseServerOptions PostgresServerOptionsFields (s_Options srv) of
        (_, Some e) \<Rightarrow> failC e
      | (opts, None) \<Rightarrow>
          let dsn = TrimSpace (strField opts ''dsn'');
              dsn = (if dsn = [] then strCred cred ''dsn'' else dsn);
              schema = TrimSpace (strField opts ''schema'')
          in if dsn = [] then
               failC (Errorf (''postgres server '' @ quoteGo (s_Name srv) @ '' requires options.dsn or credential.dsn''))
             else (\<lambda>w. case pp_connect pool dsn w of
                     (Inl e, w1) \<Rightarrow> (Inl (Wrapf ''postgres connect: '' e ''''), w1)
                   | (Inr db, w1) \<Rightarrow>
                       (case pp_ping pool db w1 of
                          (Inl e, w2) \<Rightarrow> (Inl (Wrapf ''postgres ping: '' e ''''), pp_close pool db w2)
                        | (Inr _, w2) \<Rightarrow> (Inr (pgDriver db (if schema = [] then ''public'' else schema)), w2))))"

section \<open>The mysql driver\<close>

record 'w mysqlconn =
  my_query :: "string \<Rightarrow> val list \<Rightarrow> ('w, err, string list \<times> val list list) comp"
  my_exec :: "string \<Rightarrow> val list \<Rightarrow> ('w, err, int \<times> int) comp"

record 'w mysqlpool =
  mp_open :: "string \<Rightarrow> ('w, err, 'w mysqlconn) comp"
  mp_ping :: "'w mysqlconn \<Rightarrow> ('w, err, unit) comp"
  mp_close :: "'w mysqlconn \<Rightarrow> 'w \<Rightarrow> 'w"

definition backtick :: "string \<Rightarrow> string" where
  "backtick c = CHR 0x60 # c @ [CHR 0x60]"

definition backtickCols :: "string list \<Rightarrow> string" where
  "backtickCols cols = Join (map backtick cols) '', ''"

text \<open>Placeholders are not numbered; the index is not used.\<close>

definition myCond :: "Filter \<Rightarrow> nat \<Rightarrow> string list \<times> val list" where
  "myCond f idx =
     (let col = backtick (fl_Column f); op = fl_Op f; v = fl_Value f
      in if op = OpEq then ([col @ ''=?''], [VStr v])
         else if op = OpIn then
           ([col @ '' IN ('' @ Join (map (\<lambda>_. ''?'') (inValues v)) '', '' @ '')''], inValues v)
         else if op = OpIs then (if v = ''null'' then ([col @ '' IS NULL''], []) else ([], []))
         else ([col @ '' '' @ opSQL op @ '' ?''], [VStr v]))"

definition buildWhereMySQL :: "Filter list \<Rightarrow> string \<times> val list" where
  "buildWhereMySQL filters = (case buildConds myCond filters 0 of (ps, xs) \<Rightarrow> (Join ps '' AND '', xs))"

definition myTable :: "string \<Rightarrow> ResolvedTable \<Rightarrow> string" where
  "myTable database resolved =
     (if database \<noteq> [] then backtick database @ ''.'' else []) @ backtick (RemoteTableName (rt_Table resolved))"

definition myWhere :: "ResolvedTable \<Rightarrow> Filter list \<Rightarrow> string \<times> val list" where
  "myWhere resolved fs = buildWhereMySQL (MapFilters fs (rt_Columns resolved))"

definition mySelectSQL :: "string \<Rightarrow> SelectRequest \<Rightarrow> string \<times> val list" where
  "mySelectSQL database req =
     (let cols = (if sr_Select req = [] then ''*'' else backtickCols (sr_Select req));
          (w, args) = myWhere (sr_Resolved req) (sr_Filters req)
      in (''SELECT '' @ cols @ '' FROM '' @ myTable database (sr_Resolved req) @ whereText w @
            orderBy backtick (sr_Order req) @ limitOffset (sr_Limit req) (sr_Offset req), args))"

definition myInsertText :: "string \<Rightarrow> ResolvedTable \<Rightarrow> string list \<Rightarrow> string" where
  "myInsertText database resolved cols =
     ''INSERT INTO '' @ myTable database resolved @ '' ('' @ backtickCols cols @ '') VALUES ('' @
       Join (map (\<lambda>_. ''?'') cols) '', '' @ '')''"

definition myInsertSQL :: "string \<Rightarrow> RowRequest \<Rightarrow> err + string \<times> val list" where
  "myInsertSQL database req =
     (let (cols, args) = rowToCols (MapRowToRemote (rr_Row req) (rt_Columns (rr_Resolved req)))
      in if cols = [] then Inl (Errorf ''empty row'')
         else Inr (myInsertText database (rr_Resolved req) cols, args))"

definition myUpdateSQL :: "string \<Rightarrow> RowRequest \<Rightarrow> err + string \<times> val list" where
  "myUpdateSQL database req =
     (let (cols, args) = rowToColsNonKeys (MapRowToRemote (rr_Row req) (rt_Columns (rr_Resolved req)))
                           (t_KeyColumns (rt_Table (rr_Resolved req)))
      in if cols = [] then Inl (Errorf ''no columns to update'')
         else let (w, wArgs) = myWhere (rr_Resolved req) (rr_Filters req)
              in Inr (''UPDATE '' @ myTable database (rr_Resolved req) @ '' SET '' @
                        Join (map (\<lambda>c. backtick c @ ''=?'') cols) '', '' @ whereText w,
                      if w \<noteq> [] then args @ wArgs else args))"

definition myUpsertSQL :: "string \<Rightarrow> RowRequest \<Rightarrow> err + string \<times> val list" where
  "myUpsertSQL database req =
     (let (cols, args) = rowToCols (MapRowToRemote (rr_Row req) (rt_Columns (rr_Resolved req)))
      in if cols = [] then Inl (Errorf ''empty row'')
         else Inr (myInsertText database (rr_Resolved req) cols @ '' ON DUPLICATE KEY UPDATE '' @
                     Join (map (\<lambda>c. backtick c @ ''=VALUES('' @ backtick c @ '')'') cols) '', '', args))"

definition myDeleteSQL :: "string \<Rightarrow> DeleteRequest \<Rightarrow> string \<times> val list" where
  "myDeleteSQL database req =
     (let (w, args) = myWhere (dr_Resolved req) (dr_Filters req)
      in (''DELETE FROM '' @ myTable database (dr_Resolved req) @ whereText w, args))"

definition myDriver :: "'w mysqlconn \<Rightarrow> string \<Rightarrow> 'w driver" where
  "myDriver db database =
     \<lparr>d_select = (\<lambda>req. case mySelectSQL database req of (query, args) \<Rightarrow>
                   bindC (my_query db query args) (\<lambda>(names, rows). retC (map (scanRow names) rows))),
      d_insert = (\<lambda>req. bindC (liftC (myInsertSQL database req)) (\<lambda>(query, args).
                   bindC (my_exec db query args) (\<lambda>(lastId, affected).
                     retC (if rr_PreferRepresentation req \<and> lastId > 0 then Some [(''id'', VInt lastId)] else None)))),
      d_update = (\<lambda>req. bindC (liftC (myUpdateSQL database req)) (\<lambda>(query, args).
                   bindC (my_exec db query args) (\<lambda>(lastId, affected). retC affected))),
      d_upsert = (\<lambda>req. bindC (liftC (myUpsertSQL database req)) (\<lambda>(query, args).
                   bindC (my_exec db query args) (\<lambda>(lastId, affected). retC (affected = 1, None)))),
      d_delete = (\<lambda>req. case myDeleteSQL database req of (query, args) \<Rightarrow>
                   bindC (my_exec db query args) (\<lambda>(lastId, affected). retC affected)),
      d_invoke = (\<lambda>_. failC (OpNotSupported ''invoke'' ProtocolMySQL)),
      d_count = None\<rparr>"

definition myDSN :: "string \<Rightarrow> row option \<Rightarrow> string \<Rightarrow> string \<Rightarrow> err + string" where
  "myDSN srvName cred optDSN optDatabase =
     (let dsn = TrimSpace optDSN;
          dsn = (if dsn = [] then strCred cred ''dsn'' else dsn)
      in if dsn \<noteq> [] then Inr dsn
         else let user = strCred cred ''username''; pass = strCred cred ''password'';
                  host = strCred cred ''host''; host = (if host = [] then ''127.0.0.1'' else host);
                  port = strCred cred ''port''; port = (if port = [] then ''3306'' else port);
                  dbName = TrimSpace optDatabase;
                  dbName = (if dbName = [] then strCred cred ''database'' else dbName)
              in if user = [] \<or> dbName = [] then
                   Inl (Errorf (''mysql server '' @ quoteGo srvName @ '' requires options.dsn or credential fields''))
                 else Inr (user @ '':'' @ pass @ ''@tcp('' @ host @ '':'' @ port @ '')/'' @ dbName @ ''?parseTime=true''))"

definition myNew :: "'w mysqlpool \<Rightarrow> 'w Factory" where
  "myNew pool srv cred =
     (case ParseServerOptions MySQLServerOptionsFields (s_Options srv) of
        (_, Some e) \<Rightarrow> failC e
      | (opts, None) \<Rightarrow>
          bindC (liftC (myDSN (s_Name srv) cred (strField opts ''dsn'') (strField opts ''database''))) (\<lambda>dsn.
            bindC (mp_open pool dsn) (\<lambda>db w.
              (case mp_ping pool db w of
                 (Inl e, w1) \<Rightarrow> (Inl (Wrapf ''mysql ping: '' e ''''), mp_close pool db w1)
               | (Inr _, w1) \<Rightarrow>
                   let dbName = TrimSpace (strField opts ''database'')
                   in (Inr (myDriver db (if dbName = [] then strCred cred ''database'' else dbName)), w1)))))"

section \<open>Lemmas: values are bound, not spliced\<close>

text \<open>What of a filter the SQL text may depend on.\<close>

definition filterShape :: "Filter \<Rightarrow> string \<times> Op \<times> nat" where
  "filterShape f =
     (fl_Column f, fl_Op f, if fl_Op f = OpIn then length (inValues (fl_Value f)) else 0)"

text \<open>
  A builder of conditions that binds the values of the filters it accepts as arguments: the
  text and the number of arguments of a condition depend on the shape of the filter only.
\<close>

locale where_builder =
  fixes cond :: "Filter \<Rightarrow> nat \<Rightarrow> string list \<times> val list"
    and binds :: "Filter \<Rightarrow> bool"
  assumes cond_shape:
    "binds f \<Longrightarrow> binds g \<Longrightarrow> filterShape f = filterShape g \<Longrightarrow>
     fst (cond f i) = fst (cond g i) \<and> length (snd (cond f i)) = length (snd (cond g i))"
begin

lemma conds_shape:
  "list_all binds fs \<Longrightarrow> list_all binds gs \<Longrightarrow> map filterShape fs = map filterShape gs \<Longrightarrow>
   fst (buildConds cond fs i) = fst (buildConds cond gs i) \<and>
   length (snd (buildConds cond fs i)) = length (snd (buildConds cond gs i))"
proof (induction fs arbitrary: gs i)
  case (Cons f fs)
  then obtain g gs' where gs: "gs = g # gs'" "filterShape f = filterShape g"
    "map filterShape fs = map filterShape gs'" by (cases gs) auto
  with Cons.prems have c: "fst (cond f i) = fst (cond g i)"
    "length (snd (cond f i)) = length (snd (cond g i))"
    using cond_shape [of f g i] by simp_all
  have "list_all binds fs" "list_all binds gs'" using Cons.prems gs by simp_all
  from Cons.IH [OF this gs(3), of "i + length (snd (cond g i))"] c gs(1) show ?case
    by (simp add: case_prod_beta)
qed simp

end

definition bindable :: "Filter \<Rightarrow> bool" where
  "bindable f \<longleftrightarrow> fl_Op f \<noteq> OpIs"

interpretation pg_where: where_builder pgCond bindable
  by unfold_locales (auto simp: pgCond_def bindable_def filterShape_def Let_def split: if_splits)

interpretation my_where: where_builder myCond bindable
  by unfold_locales (auto simp: myCond_def bindable_def filterShape_def Let_def inValues_def
      map_replicate_const split: if_splits)

lemma filterShape_MapFilters:
  "map filterShape (MapFilters fs cols) =
     map (\<lambda>(c, o', n). (rename (localToRemote cols) c, o', n)) (map filterShape fs)"
  by (simp add: MapFilters_map filterShape_def comp_def)

lemma filterShape_map:
  "map filterShape fs = map filterShape gs \<Longrightarrow>
   map filterShape (MapFilters fs cols) = map filterShape (MapFilters gs cols)"
  by (simp only: filterShape_MapFilters)

lemma filterShape_mapGroups:
  "map (map filterShape) gs = map (map filterShape) gs' \<Longrightarrow>
   map (map filterShape) (map (\<lambda>g. MapFilters g cols) gs) = map (map filterShape) (map (\<lambda>g. MapFilters g cols) gs')"
proof -
  let ?k = "map (\<lambda>(c, o', n). (rename (localToRemote cols) c, o', n))"
  have "map (map filterShape) (map (\<lambda>g. MapFilters g cols) hs) = map ?k (map (map filterShape) hs)" for hs
    by (simp add: filterShape_MapFilters comp_def)
  then show "map (map filterShape) gs = map (map filterShape) gs' \<Longrightarrow> ?thesis" by (simp only:)
qed

lemma bindable_map: "list_all bindable (MapFilters fs cols) = list_all bindable fs"
  by (simp add: MapFilters_map list_all_iff bindable_def)

lemma buildWhere_shape:
  assumes "list_all bindable fs" "list_all bindable gs" "map filterShape fs = map filterShape gs"
  shows "fst (buildWhere fs i) = fst (buildWhere gs i) \<and>
         length (snd (buildWhere fs i)) = length (snd (buildWhere gs i))"
  using pg_where.conds_shape [OF assms, of i] by (simp add: buildWhere_def case_prod_beta)

lemma orGroupParts_shape:
  assumes "list_all (list_all bindable) fss" "list_all (list_all bindable) gss"
    and "map (map filterShape) fss = map (map filterShape) gss"
  shows "fst (orGroupParts fss i) = fst (orGroupParts gss i) \<and>
         length (snd (orGroupParts fss i)) = length (snd (orGroupParts gss i))"
  using assms
proof (induction fss arbitrary: gss i)
  case (Cons fs fss)
  then obtain gs gss' where gss: "gss = gs # gss'" "map filterShape fs = map filterShape gs"
    "map (map filterShape) fss = map (map filterShape) gss'" by (cases gss) auto
  have "fst (buildWhere fs i) = fst (buildWhere gs i)"
    "length (snd (buildWhere fs i)) = length (snd (buildWhere gs i))"
    using buildWhere_shape [of fs gs i] Cons.prems gss by simp_all
  with Cons.IH [of gss'] Cons.prems gss show ?case
    by (simp add: case_prod_beta)
qed simp

lemma whereClause_shape:
  assumes "list_all bindable fs" "list_all bindable gs" "map filterShape fs = map filterShape gs"
    and "list_all (list_all bindable) fss" "list_all (list_all bindable) gss"
    and "map (map filterShape) fss = map (map filterShape) gss"
  shows "fst (whereClause fs fss i) = fst (whereClause gs gss i)"
proof -
  have w: "fst (buildWhere fs i) = fst (buildWhere gs i)"
    "length (snd (buildWhere fs i)) = length (snd (buildWhere gs i))"
    using buildWhere_shape [OF assms(1-3), of i] by simp_all
  have o': "fst (orGroupParts fss j) = fst (orGroupParts gss j)" for j
    using orGroupParts_shape [OF assms(4-6)] by blast
  show ?thesis
    using w o' [of i] o' [of "i + length (snd (buildWhere gs i))"]
    by (simp add: whereClause_def Let_def case_prod_beta)
qed

section \<open>Lemmas: numbered placeholders\<close>

text \<open>The numbers of the placeholders \<open>$n\<close> of an SQL text, in order.\<close>

fun dollarNums :: "string \<Rightarrow> nat list" where
  "dollarNums [] = []"
| "dollarNums (c # s) =
     (if c = CHR ''$'' then [nat (parseDigits (takeWhile isDigit s))] else []) @ dollarNums s"

definition noDollar :: "string \<Rightarrow> bool" where
  "noDollar s \<longleftrightarrow> CHR ''$'' \<notin> set s"

definition endsNumber :: "string \<Rightarrow> bool" where
  "endsNumber s \<longleftrightarrow> s = [] \<or> \<not> isDigit (hd s)"

lemma takeWhile_append_end: "endsNumber b \<Longrightarrow> takeWhile isDigit (a @ b) = takeWhile isDigit a"
  by (induction a) (auto simp: endsNumber_def, cases b, auto)

lemma dollarNums_append: "endsNumber b \<Longrightarrow> dollarNums (a @ b) = dollarNums a @ dollarNums b"
  by (induction a) (auto simp: takeWhile_append_end)

lemma dollarNums_noDollar: "noDollar s \<Longrightarrow> dollarNums s = []"
  by (induction s) (auto simp: noDollar_def)

lemma dollarNums_prefix: "noDollar a \<Longrightarrow> dollarNums (a @ b) = dollarNums b"
  by (induction a) (auto simp: noDollar_def)

lemma isDigit_not_dollar: "isDigit c \<Longrightarrow> c \<noteq> CHR ''$''"
  by (auto simp: isDigit_def)

lemma dollarNums_dollar: "dollarNums (dollar i) = [i]"
proof -
  have "noDollar (decNat i)"
    using decNat_digits [of i] isDigit_not_dollar by (auto simp: noDollar_def list_all_iff)
  moreover have "takeWhile isDigit (decNat i) = decNat i"
    using decNat_digits [of i] by (simp add: takeWhile_eq_all_conv list_all_iff)
  ultimately show ?thesis
    by (simp add: dollar_def dollarNums_noDollar parseDigits_decNat del: takeWhile_eq_all_conv)
qed

lemma endsNumber_simps [simp]:
  "endsNumber []" "endsNumber (c # s) \<longleftrightarrow> \<not> isDigit c"
  by (simp_all add: endsNumber_def)

lemma dollarNums_Join:
  assumes "noDollar sep" "endsNumber sep" "sep \<noteq> []" "\<forall>p\<in>set ps. endsNumber p"
  shows "dollarNums (Join ps sep) = concat (map dollarNums ps)"
  using assms(4)
proof (induction ps)
  case (Cons p ps)
  have "endsNumber (sep @ Join ps sep)"
    using assms(2,3) by (cases sep) auto
  with Cons assms(1) show ?case
    by (auto simp: Join_Cons dollarNums_append dollarNums_prefix)
qed simp

lemma noDollar_quoteChar: "c \<noteq> CHR ''$'' \<Longrightarrow> CHR ''$'' \<notin> set (quoteChar c)"
proof -
  have "list_all (\<lambda>n. hexDigit n \<noteq> CHR ''$'') [0..<16]" by code_simp
  then have hex: "CHR ''$'' \<noteq> hexDigit n" if "n < 16" for n
    using that by (fastforce simp only: list_all_iff set_upt atLeastLessThan_iff)
  have "(of_char c :: nat) < 256" by (rule nat_of_char_less_256)
  then have "(of_char c :: nat) div 16 < 16" "(of_char c :: nat) mod 16 < 16"
    by (simp_all add: less_mult_imp_div_less)
  note this [THEN hex]
  then show "c \<noteq> CHR ''$'' \<Longrightarrow> CHR ''$'' \<notin> set (quoteChar c)"
    by (simp add: quoteChar_def)
qed

lemma noDollar_quoteGo:
  assumes "noDollar s"
  shows "noDollar (quoteGo s)"
proof -
  have "CHR ''$'' \<notin> set (quoteChar c)" if "c \<in> set s" for c
    using that assms by (intro noDollar_quoteChar) (auto simp: noDollar_def)
  then show ?thesis by (simp add: noDollar_def quoteGo_def)
qed

text \<open>A filter whose condition holds no dollar sign but its placeholders.\<close>

definition plainFilter :: "Filter \<Rightarrow> bool" where
  "plainFilter f \<longleftrightarrow> noDollar (fl_Column f) \<and> (fl_Op f = OpIs \<longrightarrow> noDollar (fl_Value f))"

lemma quoteGo_Cons: "quoteGo s = CHR 0x22 # concat (map quoteChar s) @ [CHR 0x22]"
  by (simp add: quoteGo_def)

lemma not_digit_literals [simp]:
  "\<not> isDigit CHR 0x22" "\<not> isDigit CHR ''(''" "\<not> isDigit CHR '')''" "\<not> isDigit CHR '' ''"
  "\<not> isDigit CHR '',''" "\<not> isDigit CHR ''$''"
  by (simp_all add: isDigit_def)

lemma endsNumber_quoteGo [simp]: "endsNumber (quoteGo s @ t)"
  by (simp add: quoteGo_Cons)

lemma noDollar_append [simp]: "noDollar (a @ b) \<longleftrightarrow> noDollar a \<and> noDollar b"
  by (auto simp: noDollar_def)

lemma noDollar_Cons [simp]: "noDollar (c # s) \<longleftrightarrow> c \<noteq> CHR ''$'' \<and> noDollar s"
  by (auto simp: noDollar_def)

lemma noDollar_Nil [simp]: "noDollar []"
  by (simp add: noDollar_def)

lemma noDollar_opSQL [simp]: "noDollar (opSQL op)"
  by (simp add: opSQL_def)

lemma endsNumber_dollar [simp]: "endsNumber (dollar i @ t)"
  by (simp add: dollar_def)

lemma concat_singletons: "concat (map (\<lambda>i. [i]) xs) = xs"
  by (induction xs) simp_all

lemma dollarNums_pgCond:
  assumes "plainFilter f"
  shows "concat (map dollarNums (fst (pgCond f i))) = [i ..< i + length (snd (pgCond f i))]"
    and "\<forall>p\<in>set (fst (pgCond f i)). endsNumber p"
proof -
  have c: "noDollar (quoteGo (fl_Column f))"
    using assms by (simp add: plainFilter_def noDollar_quoteGo)
  have ph: "dollarNums (Join (map dollar xs) '', '') = xs" for xs
    by (subst dollarNums_Join)
      (simp_all add: comp_def dollarNums_dollar concat_singletons, simp add: dollar_def)
  show "concat (map dollarNums (fst (pgCond f i))) = [i ..< i + length (snd (pgCond f i))]"
    using assms c
    by (auto simp: pgCond_def Let_def dollarNums_prefix dollarNums_append dollarNums_dollar ph
        dollarNums_noDollar plainFilter_def)
  show "\<forall>p\<in>set (fst (pgCond f i)). endsNumber p"
    by (simp add: pgCond_def Let_def)
qed

lemma upt_join: "[i ..< i + a] @ [i + a ..< i + (a + b)] = [i ..< i + (a + b)]"
  using upt_add_eq_append [of i "i + a" b] by (simp add: add.assoc)

lemma dollarNums_buildConds:
  assumes "list_all plainFilter fs"
  shows "concat (map dollarNums (fst (buildConds pgCond fs i))) =
           [i ..< i + length (snd (buildConds pgCond fs i))] \<and>
         (\<forall>p\<in>set (fst (buildConds pgCond fs i)). endsNumber p)"
  using assms
proof (induction fs arbitrary: i)
  case (Cons f fs)
  let ?n = "length (snd (pgCond f i))"
  have f: "concat (map dollarNums (fst (pgCond f i))) = [i ..< i + ?n]"
    "\<forall>p\<in>set (fst (pgCond f i)). endsNumber p"
    using dollarNums_pgCond [of f i] Cons.prems by simp_all
  show ?case
    using f Cons.IH [of "i + ?n"] Cons.prems
    by (auto simp: case_prod_beta add.assoc upt_join)
qed simp

lemma dollarNums_AND:
  "\<forall>p\<in>set ps. endsNumber p \<Longrightarrow> dollarNums (Join ps '' AND '') = concat (map dollarNums ps)"
  by (rule dollarNums_Join) simp_all

lemma endsNumber_Join:
  "\<forall>p\<in>set ps. endsNumber p \<and> p \<noteq> [] \<Longrightarrow> endsNumber (Join ps sep)"
  by (cases ps) (auto simp: Join_Cons endsNumber_def)

lemma pgCond_not_Nil: "fst (pgCond f i) \<noteq> [] \<and> (\<forall>p\<in>set (fst (pgCond f i)). p \<noteq> [])"
  by (simp add: pgCond_def Let_def quoteGo_Cons)

lemma buildConds_not_Nil: "p \<in> set (fst (buildConds pgCond fs i)) \<Longrightarrow> p \<noteq> []"
  by (induction fs arbitrary: i) (auto simp: case_prod_beta pgCond_not_Nil dest: pgCond_not_Nil [THEN conjunct2, THEN bspec])

lemma dollarNums_buildWhere:
  assumes "list_all plainFilter fs"
  shows "dollarNums (fst (buildWhere fs i)) = [i ..< i + length (snd (buildWhere fs i))]"
    and "endsNumber (fst (buildWhere fs i))"
  using dollarNums_buildConds [OF assms, of i] buildConds_not_Nil [of _ fs i]
  by (auto simp: buildWhere_def case_prod_beta dollarNums_AND intro!: endsNumber_Join)

lemma buildWhere_Nil_iff: "fst (buildWhere fs i) = [] \<longleftrightarrow> fs = []"
proof (cases fs)
  case (Cons f fs')
  obtain p ps where "fst (buildConds pgCond fs i) = p # ps" "p \<noteq> []"
    using pgCond_not_Nil [of f i] Cons by (cases "fst (pgCond f i)") (auto simp: case_prod_beta)
  then show ?thesis using Cons by (simp add: buildWhere_def case_prod_beta Join_Cons)
qed (simp add: buildWhere_def)

lemma buildWhere_args_Nil: "fs = [] \<Longrightarrow> snd (buildWhere fs i) = []"
  by (simp add: buildWhere_def)

lemma dollarNums_orGroupParts:
  assumes "list_all (list_all plainFilter) gs"
  shows "concat (map dollarNums (fst (orGroupParts gs i))) = [i ..< i + length (snd (orGroupParts gs i))] \<and>
         (\<forall>p\<in>set (fst (orGroupParts gs i)). endsNumber p)"
  using assms
proof (induction gs arbitrary: i)
  case (Cons g gs)
  let ?n = "length (snd (buildWhere g i))"
  note g = dollarNums_buildWhere [of g i]
  show ?case
  proof (cases "g = []")
    case True
    with Cons show ?thesis by (simp add: buildWhere_def)
  next
    case False
    then have "fst (buildWhere g i) \<noteq> []" by (simp add: buildWhere_Nil_iff)
    with g Cons.IH [of "i + ?n"] Cons.prems show ?thesis
      by (auto simp: case_prod_beta add.assoc dollarNums_append upt_join)
  qed
qed simp

lemma orGroupParts_Nil_iff: "fst (orGroupParts gs i) = [] \<longleftrightarrow> list_all (\<lambda>g. g = []) gs"
  by (induction gs arbitrary: i) (auto simp: case_prod_beta buildWhere_Nil_iff)

lemma dollarNums_whereClause:
  assumes "list_all plainFilter fs" "list_all (list_all plainFilter) gs"
  shows "dollarNums (fst (whereClause fs gs i)) = [i ..< i + length (snd (whereClause fs gs i))]"
    and "endsNumber (fst (whereClause fs gs i))"
proof -
  let ?n = "length (snd (buildWhere fs i))"
  let ?o = "orGroupParts gs (i + ?n)"
  let ?ot = "if fst ?o \<noteq> [] then [''('' @ Join (fst ?o) '' OR '' @ '')''] else []"
  let ?ps = "(if fst (buildWhere fs i) \<noteq> [] then [fst (buildWhere fs i)] else []) @ ?ot"
  note w = dollarNums_buildWhere [OF assms(1), of i]
  note o' = dollarNums_orGroupParts [OF assms(2), of "i + ?n"]
  have ot: "concat (map dollarNums ?ot) = [i + ?n ..< i + ?n + length (snd ?o)]"
    using o' by (auto simp: dollarNums_append dollarNums_Join)
  have wh: "whereClause fs gs i = (Join ?ps '' AND '', snd (buildWhere fs i) @ snd ?o)"
    using buildWhere_Nil_iff [of fs i] buildWhere_args_Nil [of fs i]
    by (auto simp: whereClause_def Let_def case_prod_beta)
  have ends: "\<forall>p\<in>set ?ps. endsNumber p \<and> p \<noteq> []" using w by auto
  then have "dollarNums (Join ?ps '' AND '') = concat (map dollarNums ?ps)"
    by (intro dollarNums_AND) blast
  also have "\<dots> = [i ..< i + ?n + length (snd ?o)]"
    using w ot by (auto simp: buildWhere_args_Nil buildWhere_Nil_iff add.assoc upt_join)
  finally show "dollarNums (fst (whereClause fs gs i)) = [i ..< i + length (snd (whereClause fs gs i))]"
    by (simp add: wh add.assoc)
  show "endsNumber (fst (whereClause fs gs i))"
    unfolding wh fst_conv using ends by (rule endsNumber_Join)
qed

lemma whereClause_Nil_iff:
  "fst (whereClause fs gs i) = [] \<longleftrightarrow> fs = [] \<and> list_all (\<lambda>g. g = []) gs"
  by (auto simp: whereClause_def Let_def case_prod_beta buildWhere_Nil_iff orGroupParts_Nil_iff)

section \<open>Lemmas: whole statements\<close>

definition plainTable :: "string \<Rightarrow> ResolvedTable \<Rightarrow> bool" where
  "plainTable dschema resolved \<longleftrightarrow>
     noDollar dschema \<and> noDollar (t_SchemaName (rt_Table resolved)) \<and>
     noDollar (RemoteTableName (rt_Table resolved))"

definition plainWhere :: "ResolvedTable \<Rightarrow> Filter list \<Rightarrow> Filter list list \<Rightarrow> bool" where
  "plainWhere resolved fs gs \<longleftrightarrow>
     list_all plainFilter (MapFilters fs (rt_Columns resolved)) \<and>
     list_all (list_all plainFilter) (mapOrGroups gs (rt_Columns resolved))"

lemma noDollar_pgRemoteTable: "plainTable dschema resolved \<Longrightarrow> noDollar (pgRemoteTable dschema resolved)"
  by (simp add: plainTable_def pgRemoteTable_def pgQualified_def noDollar_quoteGo)

lemma dollarNums_whereText:
  assumes "plainWhere resolved fs gs"
  shows "dollarNums (whereText (fst (pgWhere resolved fs gs i))) = [i ..< i + length (snd (pgWhere resolved fs gs i))]"
proof -
  have nil: "snd (pgWhere resolved fs gs i) = []" if "fst (pgWhere resolved fs gs i) = []"
  proof -
    have "dollarNums (fst (pgWhere resolved fs gs i)) = [i ..< i + length (snd (pgWhere resolved fs gs i))]"
      using assms unfolding plainWhere_def pgWhere_def by (intro dollarNums_whereClause) simp_all
    with that have "length [i ..< i + length (snd (pgWhere resolved fs gs i))] = 0"
      by (metis dollarNums.simps(1) list.size(3))
    then show ?thesis by simp
  qed
  show ?thesis
    using nil assms dollarNums_whereClause(1) [of "MapFilters fs (rt_Columns resolved)"
        "mapOrGroups gs (rt_Columns resolved)" i]
    by (simp add: whereText_def pgWhere_def plainWhere_def dollarNums_prefix)
qed

lemma endsNumber_whereText [simp]: "endsNumber (whereText w @ s) \<longleftrightarrow> w = [] \<and> endsNumber s \<or> w \<noteq> []"
  by (simp add: whereText_def)

lemma pgDelete_placeholders:
  assumes "plainTable dschema (dr_Resolved req)"
    and "plainWhere (dr_Resolved req) (dr_Filters req) (dr_OrGroups req)"
  shows "dollarNums (fst (pgDeleteSQL dschema req)) = [1 ..< Suc (length (snd (pgDeleteSQL dschema req)))]"
proof -
  have "noDollar (''DELETE FROM '' @ pgRemoteTable dschema (dr_Resolved req))"
    using noDollar_pgRemoteTable [OF assms(1)] by simp
  from dollarNums_prefix [OF this] dollarNums_whereText [OF assms(2), of 1] show ?thesis
    by (simp add: pgDeleteSQL_def case_prod_beta)
qed

lemma noDollar_Join: "noDollar sep \<Longrightarrow> list_all noDollar ps \<Longrightarrow> noDollar (Join ps sep)"
  by (induction ps) (auto simp: Join_Cons)

lemma noDollar_quoteCols: "list_all noDollar cols \<Longrightarrow> noDollar (quoteCols cols)"
  unfolding quoteCols_def by (rule noDollar_Join) (simp_all add: list_all_iff noDollar_quoteGo)

lemma noDollar_decNat: "noDollar (decNat n)"
  using decNat_digits [of n] isDigit_not_dollar by (auto simp: noDollar_def list_all_iff)

lemma noDollar_limitOffset: "noDollar (limitOffset l o')"
  by (simp add: limitOffset_def decInt_def noDollar_decNat)

lemma noDollar_orderBy: "list_all noDollar (map o_Column ord) \<Longrightarrow> noDollar (orderBy quoteGo ord)"
proof -
  assume a: "list_all noDollar (map o_Column ord)"
  have "noDollar (Join (map (\<lambda>o'. quoteGo (o_Column o') @ '' '' @ (if o_Desc o' then ''DESC'' else ''ASC'')) ord) '', '')"
    using a by (intro noDollar_Join) (auto simp: list_all_iff noDollar_quoteGo)
  then show ?thesis by (simp add: orderBy_def)
qed

lemma pgSelect_placeholders:
  assumes "plainTable dschema (sr_Resolved req)"
    and "plainWhere (sr_Resolved req) (sr_Filters req) (sr_OrGroups req)"
    and "list_all noDollar (sr_Select req)" "list_all noDollar (map o_Column (sr_Order req))"
  shows "dollarNums (fst (pgSelectSQL dschema req)) = [1 ..< Suc (length (snd (pgSelectSQL dschema req)))]"
proof -
  let ?pre = "''SELECT '' @ (if sr_Select req = [] then ''*'' else quoteCols (sr_Select req)) @ '' FROM '' @
    pgRemoteTable dschema (sr_Resolved req)"
  let ?suf = "orderBy quoteGo (sr_Order req) @ limitOffset (sr_Limit req) (sr_Offset req)"
  let ?w = "whereText (fst (pgWhere (sr_Resolved req) (sr_Filters req) (sr_OrGroups req) 1))"
  have "noDollar ?pre"
    using noDollar_pgRemoteTable [OF assms(1)] noDollar_quoteCols [OF assms(3)] by simp
  moreover have suf: "noDollar ?suf"
    using noDollar_orderBy [OF assms(4)] noDollar_limitOffset by simp
  moreover have "endsNumber ?suf"
    by (simp add: orderBy_def limitOffset_def)
  ultimately have "dollarNums (?pre @ ?w @ ?suf) = dollarNums ?w"
    by (simp only: dollarNums_prefix dollarNums_append dollarNums_noDollar append_Nil2)
  with dollarNums_whereText [OF assms(2), of 1] show ?thesis
    by (simp add: pgSelectSQL_def case_prod_beta Let_def)
qed

lemma dollarNums_sets:
  assumes "list_all noDollar cols"
  shows "dollarNums (Join (map (\<lambda>(i, c). quoteGo c @ ''='' @ dollar (i + 1)) (enumerate 0 cols)) '', '')
       = [1 ..< Suc (length cols)]"
proof -
  have "dollarNums (quoteGo c @ ''='' @ dollar i) = [i]" if "noDollar c" for c i
  proof -
    have "noDollar (quoteGo c @ ''='')" using that by (simp add: noDollar_quoteGo)
    from dollarNums_prefix [OF this, of "dollar i"] show ?thesis by (simp add: dollarNums_dollar)
  qed
  then have "map (dollarNums \<circ> (\<lambda>(i, c). quoteGo c @ ''='' @ dollar (i + 1))) (enumerate 0 cols)
      = map (\<lambda>i. [i]) [1 ..< Suc (length cols)]"
    using assms by (intro nth_equalityI) (simp_all add: nth_enumerate_eq list_all_length del: upt_Suc)
  also have "concat \<dots> = [1 ..< Suc (length cols)]"
    by (rule concat_singletons)
  finally show ?thesis by (subst dollarNums_Join) auto
qed

lemma endsNumber_whereText_Nil [simp]: "endsNumber (whereText w)"
  using endsNumber_whereText [of w "[]"] by (cases "w = []") simp_all

lemma pgWhere_args_Nil:
  assumes "plainWhere rt fs gs" "fst (pgWhere rt fs gs i) = []"
  shows "snd (pgWhere rt fs gs i) = []"
proof -
  have "[i ..< i + length (snd (pgWhere rt fs gs i))] = []"
    using dollarNums_whereText [OF assms(1), of i] assms(2) by (metis dollarNums.simps(1) whereText_def)
  then have "length [i ..< i + length (snd (pgWhere rt fs gs i))] = 0" by (simp only: list.size)
  then show ?thesis by simp
qed

lemma pgUpdate_placeholders:
  assumes "plainTable dschema (rr_Resolved req)"
    and "plainWhere (rr_Resolved req) (rr_Filters req) (rr_OrGroups req)"
    and "list_all noDollar (fst (rowToColsNonKeys (MapRowToRemote (rr_Row req) (rt_Columns (rr_Resolved req)))
           (t_KeyColumns (rt_Table (rr_Resolved req)))))"
    and "pgUpdateSQL dschema req = Inr (q, args)"
  shows "dollarNums q = [1 ..< Suc (length args)]"
proof -
  let ?rt = "rr_Resolved req"
  let ?cv = "rowToColsNonKeys (MapRowToRemote (rr_Row req) (rt_Columns ?rt)) (t_KeyColumns (rt_Table ?rt))"
  let ?n = "length (snd ?cv)"
  have len: "length (fst ?cv) = ?n" by (simp add: rowToColsNonKeys_def rowToCols_def)
  let ?w = "pgWhere ?rt (rr_Filters req) (rr_OrGroups req) (?n + 1)"
  let ?pre = "''UPDATE '' @ pgRemoteTable dschema ?rt @ '' SET ''"
  let ?sets = "Join (map (\<lambda>(i, c). quoteGo c @ ''='' @ dollar (i + 1)) (enumerate 0 (fst ?cv))) '', ''"
  have q: "q = ?pre @ ?sets @ whereText (fst ?w)"
    and args: "length args = ?n + length (snd ?w)"
    using assms(4) pgWhere_args_Nil [OF assms(2), of "?n + 1"]
    by (auto simp: pgUpdateSQL_def case_prod_beta Let_def split: if_splits)
  have "noDollar ?pre" using noDollar_pgRemoteTable [OF assms(1)] by simp
  then have "dollarNums q = dollarNums ?sets @ dollarNums (whereText (fst ?w))"
    unfolding q by (simp only: dollarNums_prefix dollarNums_append endsNumber_whereText_Nil)
  also have "\<dots> = [1 ..< 1 + ?n] @ [1 + ?n ..< 1 + (?n + length (snd ?w))]"
    unfolding dollarNums_sets [OF assms(3)] dollarNums_whereText [OF assms(2)] len
    by (simp only: Suc_eq_plus1 add.commute [of _ "1 :: nat"] add.assoc)
  finally show ?thesis unfolding upt_join args by (simp only: Suc_eq_plus1_left)
qed

section \<open>Lemmas: what the placeholders stand for\<close>

text \<open>An SQL text with a text put in for every placeholder \<open>$n\<close>.\<close>

function bindText :: "(nat \<Rightarrow> string) \<Rightarrow> string \<Rightarrow> string" where
  "bindText v [] = []"
| "bindText v (c # s) =
     (if c = CHR ''$'' then v (nat (parseDigits (takeWhile isDigit s))) @ bindText v (dropWhile isDigit s)
      else c # bindText v s)"
  by pat_completeness auto

termination
  by (relation "measure (\<lambda>(v, s). length s)") (simp_all add: le_imp_less_Suc length_dropWhile_le)

definition argText :: "(val \<Rightarrow> string) \<Rightarrow> val list \<Rightarrow> nat \<Rightarrow> string" where
  "argText render args n = render (args ! (n - 1))"

text \<open>The conditions of a request with the values in their places.\<close>

definition condText :: "(val \<Rightarrow> string) \<Rightarrow> Filter \<Rightarrow> string" where
  "condText render f =
     quoteGo (fl_Column f) @
     (if fl_Op f = OpEq then ''='' @ render (VStr (fl_Value f))
      else if fl_Op f = OpIn then '' IN ('' @ Join (map render (inValues (fl_Value f))) '', '' @ '')''
      else if fl_Op f = OpIs then '' IS '' @ (if fl_Value f = ''null'' then ''NULL'' else fl_Value f)
      else '' '' @ opSQL (fl_Op f) @ '' '' @ render (VStr (fl_Value f)))"

definition conditionText :: "(val \<Rightarrow> string) \<Rightarrow> Filter list \<Rightarrow> Filter list list \<Rightarrow> string" where
  "conditionText render fs gs =
     (let alts = map (\<lambda>g. ''('' @ Join (map (condText render) g) '' AND '' @ '')'') (filter (\<lambda>g. g \<noteq> []) gs)
      in Join (map (condText render) fs @ (if alts = [] then [] else [''('' @ Join alts '' OR '' @ '')''])) '' AND '')"

definition requestText :: "(val \<Rightarrow> string) \<Rightarrow> ResolvedTable \<Rightarrow> Filter list \<Rightarrow> Filter list list \<Rightarrow> string" where
  "requestText render rt fs gs =
     whereText (conditionText render (MapFilters fs (rt_Columns rt)) (mapOrGroups gs (rt_Columns rt)))"

lemma dropWhile_append_end: "endsNumber b \<Longrightarrow> dropWhile isDigit (a @ b) = dropWhile isDigit a @ b"
  by (induction a) (auto simp: endsNumber_def, cases b, auto)

lemma bindText_append: "endsNumber b \<Longrightarrow> bindText v (a @ b) = bindText v a @ bindText v b"
  by (induction v a rule: bindText.induct) (simp_all add: takeWhile_append_end dropWhile_append_end)

lemma bindText_prefix: "noDollar a \<Longrightarrow> bindText v (a @ b) = a @ bindText v b"
  by (induction a) auto

lemma bindText_noDollar: "noDollar s \<Longrightarrow> bindText v s = s"
  using bindText_prefix [of s v "[]"] by simp

lemma bindText_dollar: "bindText v (dollar i) = v i"
proof -
  have "takeWhile isDigit (decNat i) = decNat i" "dropWhile isDigit (decNat i) = []"
    using decNat_digits [of i] by (simp_all add: takeWhile_eq_all_conv list_all_iff)
  then show ?thesis by (simp add: dollar_def parseDigits_decNat del: takeWhile_eq_all_conv dropWhile_eq_Nil_conv)
qed

lemma bindText_Join:
  assumes "noDollar sep" "endsNumber sep" "sep \<noteq> []" "\<forall>p\<in>set ps. endsNumber p"
  shows "bindText v (Join ps sep) = Join (map (bindText v) ps) sep"
  using assms(4)
proof (induction ps)
  case (Cons p ps)
  have "endsNumber (sep @ Join ps sep)" using assms(2,3) by (cases sep) auto
  with Cons assms(1) show ?case by (auto simp: Join_Cons bindText_append bindText_prefix)
qed simp

text \<open>From the placeholder \<open>i\<close> on, the texts are those of the given arguments.\<close>

definition gives :: "(nat \<Rightarrow> string) \<Rightarrow> (val \<Rightarrow> string) \<Rightarrow> nat \<Rightarrow> val list \<Rightarrow> bool" where
  "gives v render i xs \<longleftrightarrow> map v [i ..< i + length xs] = map render xs"

lemma gives_append: "gives v render i (xs @ ys) \<longleftrightarrow> gives v render i xs \<and> gives v render (i + length xs) ys"
proof -
  have "map v [i ..< i + length (xs @ ys)] = map v [i ..< i + length xs] @ map v [i + length xs ..< i + length xs + length ys]"
    using upt_join [of i "length xs" "length ys"] by (metis add.assoc length_append map_append)
  then show ?thesis by (simp add: gives_def)
qed

lemma gives_Nil [simp]: "gives v render i []"
  by (simp add: gives_def)

lemma gives_one: "gives v render i [x] \<longleftrightarrow> v i = render x"
  by (simp add: gives_def)

lemma gives_all: "gives (argText render args) render 1 args"
  unfolding gives_def by (rule nth_equalityI) (simp_all add: argText_def del: upt_Suc)

lemma bind_pgCond:
  assumes "plainFilter f" "gives v render i (snd (pgCond f i))"
  shows "map (bindText v) (fst (pgCond f i)) = [condText render f]"
proof -
  have c: "noDollar (quoteGo (fl_Column f))" using assms(1) by (simp add: plainFilter_def noDollar_quoteGo)
  have ph: "bindText v (Join (map dollar xs) '', '') = Join (map v xs) '', ''" for xs
    by (subst bindText_Join) (simp_all add: comp_def bindText_dollar, simp add: dollar_def)
  note bound = pgCond_def condText_def Let_def bindText_prefix bindText_append bindText_dollar ph bindText_noDollar
  consider "fl_Op f = OpIn" | "fl_Op f = OpIs" | "fl_Op f \<noteq> OpIn" "fl_Op f \<noteq> OpIs" by blast
  then show ?thesis
  proof cases
    case 1
    then have "map v [i ..< i + length (inValues (fl_Value f))] = map render (inValues (fl_Value f))"
      using assms(2) by (simp add: pgCond_def Let_def gives_def)
    with 1 c show ?thesis by (simp add: bound)
  next
    case 2
    with assms(1) c show ?thesis by (simp add: bound plainFilter_def)
  next
    case 3
    then have "v i = render (VStr (fl_Value f))"
      using assms(2) by (cases "fl_Op f = OpEq") (simp_all add: pgCond_def Let_def gives_def)
    with 3 c show ?thesis by (simp add: bound)
  qed
qed

lemma bind_buildConds:
  assumes "list_all plainFilter fs" "gives v render i (snd (buildConds pgCond fs i))"
  shows "map (bindText v) (fst (buildConds pgCond fs i)) = map (condText render) fs"
  using assms
proof (induction fs arbitrary: i)
  case (Cons f fs)
  then show ?case by (auto simp: case_prod_beta gives_append bind_pgCond)
qed simp

lemma bind_buildWhere:
  assumes "list_all plainFilter fs" "gives v render i (snd (buildWhere fs i))"
  shows "bindText v (fst (buildWhere fs i)) = Join (map (condText render) fs) '' AND ''"
  using bind_buildConds [of fs v render i] assms dollarNums_buildConds [of fs i]
  by (simp add: buildWhere_def case_prod_beta bindText_Join)

lemma bind_orGroupParts:
  assumes "list_all (list_all plainFilter) gs" "gives v render i (snd (orGroupParts gs i))"
  shows "map (bindText v) (fst (orGroupParts gs i)) =
    map (\<lambda>g. ''('' @ Join (map (condText render) g) '' AND '' @ '')'') (filter (\<lambda>g. g \<noteq> []) gs)"
  using assms
proof (induction gs arbitrary: i)
  case (Cons g gs)
  then show ?case
    using dollarNums_buildWhere [of g i]
    by (auto simp: case_prod_beta buildWhere_Nil_iff gives_append bindText_append bind_buildWhere)
qed simp

lemma Join_front: "ps \<noteq> [] \<Longrightarrow> Join (Join ps sep # qs) sep = Join (ps @ qs) sep"
  by (induction ps) (auto simp: Join_Cons)

lemma bind_whereClause:
  assumes "list_all plainFilter fs" "list_all (list_all plainFilter) gs" "gives v render i (snd (whereClause fs gs i))"
  shows "bindText v (fst (whereClause fs gs i)) = conditionText render fs gs"
proof -
  let ?n = "length (snd (buildWhere fs i))"
  let ?o = "orGroupParts gs (i + ?n)"
  let ?ot = "if fst ?o \<noteq> [] then [''('' @ Join (fst ?o) '' OR '' @ '')''] else []"
  let ?ps = "(if fst (buildWhere fs i) \<noteq> [] then [fst (buildWhere fs i)] else []) @ ?ot"
  let ?alts = "map (\<lambda>g. ''('' @ Join (map (condText render) g) '' AND '' @ '')'') (filter (\<lambda>g. g \<noteq> []) gs)"
  have wh: "whereClause fs gs i = (Join ?ps '' AND '', snd (buildWhere fs i) @ snd ?o)"
    using buildWhere_Nil_iff [of fs i] buildWhere_args_Nil [of fs i]
    by (auto simp: whereClause_def Let_def case_prod_beta)
  then have g: "gives v render i (snd (buildWhere fs i))" "gives v render (i + ?n) (snd ?o)"
    using assms(3) by (simp_all add: gives_append)
  note w = bind_buildWhere [OF assms(1) g(1)] and o' = bind_orGroupParts [OF assms(2) g(2)]
  note ends = dollarNums_buildWhere(2) [OF assms(1), of i]
    dollarNums_orGroupParts [OF assms(2), of "i + ?n", THEN conjunct2]
  have ot: "map (bindText v) ?ot = (if ?alts = [] then [] else [''('' @ Join ?alts '' OR '' @ '')''])"
    using o' ends(2) by (auto simp: bindText_append bindText_Join)
  have "bindText v (Join ?ps '' AND '') = Join (map (bindText v) ?ps) '' AND ''"
    using ends by (intro bindText_Join) auto
  also have "\<dots> = conditionText render fs gs"
    using Join_front [of "map (condText render) fs" "'' AND ''" "map (bindText v) ?ot"] w buildWhere_Nil_iff [of fs i]
    unfolding conditionText_def Let_def ot [symmetric] by (cases "fs = []") auto
  finally show ?thesis by (simp add: wh)
qed

lemma condText_not_Nil: "condText render f \<noteq> []"
  by (simp add: condText_def quoteGo_Cons)

lemma conditionText_Nil_iff: "conditionText render fs gs = [] \<longleftrightarrow> fs = [] \<and> list_all (\<lambda>g. g = []) gs"
  by (cases fs) (auto simp: conditionText_def Let_def Join_Cons condText_not_Nil filter_empty_conv list_all_iff)

lemma bind_whereText:
  assumes "plainWhere rt fs gs" "gives v render i (snd (pgWhere rt fs gs i))"
  shows "bindText v (whereText (fst (pgWhere rt fs gs i))) = requestText render rt fs gs"
proof -
  let ?f = "MapFilters fs (rt_Columns rt)" and ?g = "mapOrGroups gs (rt_Columns rt)"
  have "bindText v (fst (whereClause ?f ?g i)) = conditionText render ?f ?g"
    using assms by (intro bind_whereClause) (simp_all add: plainWhere_def pgWhere_def)
  moreover have "fst (whereClause ?f ?g i) = [] \<longleftrightarrow> conditionText render ?f ?g = []"
    by (simp add: whereClause_Nil_iff conditionText_Nil_iff)
  ultimately show ?thesis
    by (auto simp: requestText_def pgWhere_def whereText_def bindText_prefix)
qed

lemma bind_sets:
  assumes "list_all noDollar (map fst kvs)" "gives v render i (map snd kvs)" "0 < i"
  shows "bindText v (Join (map (\<lambda>(k, c). quoteGo c @ ''='' @ dollar (k + 1)) (enumerate (i - 1) (map fst kvs))) '', '') =
    Join (map (\<lambda>(c, x). quoteGo c @ ''='' @ render x) kvs) '', ''"
proof -
  let ?f = "\<lambda>(k, c). quoteGo c @ ''='' @ dollar (k + 1)"
  have "map (bindText v) (map ?f (enumerate (i - 1) (map fst kvs))) = map (\<lambda>(c, x). quoteGo c @ ''='' @ render x) kvs"
    using assms
  proof (induction kvs arbitrary: i)
    case (Cons kv kvs)
    obtain c x where kv: "kv = (c, x)" by fastforce
    have "noDollar (quoteGo c @ ''='')" using Cons.prems(1) kv by (simp add: noDollar_quoteGo)
    from bindText_prefix [OF this, of v "dollar i"] have "bindText v (quoteGo c @ ''='' @ dollar i) = quoteGo c @ ''='' @ render x"
      using Cons.prems(2) kv gives_append [of v render i "[x]" "map snd kvs"] by (simp add: bindText_dollar gives_one)
    moreover have "gives v render (Suc i) (map snd kvs)"
      using Cons.prems(2) kv gives_append [of v render i "[x]" "map snd kvs"] by simp
    moreover have "Suc (i - 1) = Suc i - 1" using Cons.prems(3) by simp
    ultimately show ?case using Cons.IH [of "Suc i"] Cons.prems(1,3) kv by simp
  qed simp
  then show ?thesis by (subst bindText_Join) auto
qed

lemma pgDelete_bound:
  assumes "plainTable sc (dr_Resolved req)" "plainWhere (dr_Resolved req) (dr_Filters req) (dr_OrGroups req)"
    and "pgDeleteSQL sc req = (q, args)"
  shows "bindText (argText render args) q =
    ''DELETE FROM '' @ pgRemoteTable sc (dr_Resolved req) @ requestText render (dr_Resolved req) (dr_Filters req) (dr_OrGroups req)"
proof -
  have "noDollar (''DELETE FROM '' @ pgRemoteTable sc (dr_Resolved req))" using noDollar_pgRemoteTable [OF assms(1)] by simp
  from bindText_prefix [OF this] bind_whereText [OF assms(2)] assms(3) gives_all [of render args] show ?thesis
    by (auto simp: pgDeleteSQL_def case_prod_beta)
qed

lemma pgSelect_bound:
  assumes "plainTable sc (sr_Resolved req)" "plainWhere (sr_Resolved req) (sr_Filters req) (sr_OrGroups req)"
    and "list_all noDollar (sr_Select req)" "list_all noDollar (map o_Column (sr_Order req))"
    and "pgSelectSQL sc req = (q, args)"
  shows "bindText (argText render args) q =
    ''SELECT '' @ (if sr_Select req = [] then ''*'' else quoteCols (sr_Select req)) @ '' FROM '' @ pgRemoteTable sc (sr_Resolved req) @
      requestText render (sr_Resolved req) (sr_Filters req) (sr_OrGroups req) @
      orderBy quoteGo (sr_Order req) @ limitOffset (sr_Limit req) (sr_Offset req)"
proof -
  let ?pre = "''SELECT '' @ (if sr_Select req = [] then ''*'' else quoteCols (sr_Select req)) @ '' FROM '' @
    pgRemoteTable sc (sr_Resolved req)"
  let ?suf = "orderBy quoteGo (sr_Order req) @ limitOffset (sr_Limit req) (sr_Offset req)"
  let ?w = "pgWhere (sr_Resolved req) (sr_Filters req) (sr_OrGroups req) 1"
  have q: "q = ?pre @ whereText (fst ?w) @ ?suf" and args: "args = snd ?w"
    using assms(5) by (simp_all add: pgSelectSQL_def case_prod_beta Let_def)
  have "noDollar ?pre" using noDollar_pgRemoteTable [OF assms(1)] noDollar_quoteCols [OF assms(3)] by simp
  moreover have "noDollar ?suf" using noDollar_orderBy [OF assms(4)] noDollar_limitOffset by simp
  moreover have "endsNumber ?suf" by (simp add: orderBy_def limitOffset_def)
  ultimately have "bindText (argText render args) q = ?pre @ bindText (argText render args) (whereText (fst ?w)) @ ?suf"
    unfolding q by (simp only: bindText_prefix bindText_append bindText_noDollar)
  with bind_whereText [OF assms(2)] gives_all [of render args] args show ?thesis by simp
qed

lemma pgUpdate_bound:
  assumes "plainTable sc (rr_Resolved req)" "plainWhere (rr_Resolved req) (rr_Filters req) (rr_OrGroups req)"
    and "list_all noDollar (map fst sets)"
    and "sets = filter (\<lambda>kv. fst kv \<notin> set (t_KeyColumns (rt_Table (rr_Resolved req)))) (MapRowToRemote (rr_Row req) (rt_Columns (rr_Resolved req)))"
    and "pgUpdateSQL sc req = Inr (q, args)"
  shows "bindText (argText render args) q =
    ''UPDATE '' @ pgRemoteTable sc (rr_Resolved req) @ '' SET '' @ Join (map (\<lambda>(c, x). quoteGo c @ ''='' @ render x) sets) '', '' @
      requestText render (rr_Resolved req) (rr_Filters req) (rr_OrGroups req)"
proof -
  let ?rt = "rr_Resolved req"
  let ?w = "pgWhere ?rt (rr_Filters req) (rr_OrGroups req) (length sets + 1)"
  let ?pre = "''UPDATE '' @ pgRemoteTable sc ?rt @ '' SET ''"
  let ?sets = "Join (map (\<lambda>(i, c). quoteGo c @ ''='' @ dollar (i + 1)) (enumerate 0 (map fst sets))) '', ''"
  let ?v = "argText render args"
  have cv: "rowToColsNonKeys (MapRowToRemote (rr_Row req) (rt_Columns ?rt)) (t_KeyColumns (rt_Table ?rt)) = (map fst sets, map snd sets)"
    unfolding assms(4) rowToColsNonKeys_def rowToCols_def by (simp add: case_prod_beta)
  have q: "q = ?pre @ ?sets @ whereText (fst ?w)" and args: "args = map snd sets @ snd ?w"
    using assms(5) pgWhere_args_Nil [OF assms(2), of "length sets + 1"]
    by (auto simp: pgUpdateSQL_def cv Let_def case_prod_beta split: if_splits)
  have g: "gives ?v render 1 (map snd sets)" "gives ?v render (length sets + 1) (snd ?w)"
    using gives_all [of render args] unfolding args gives_append by simp_all
  have "noDollar ?pre" using noDollar_pgRemoteTable [OF assms(1)] by simp
  then have "bindText ?v q = ?pre @ bindText ?v ?sets @ bindText ?v (whereText (fst ?w))"
    unfolding q by (simp only: bindText_prefix bindText_append endsNumber_whereText_Nil)
  with bind_sets [OF assms(3) g(1), simplified] bind_whereText [OF assms(2) g(2)] show ?thesis by simp
qed

section \<open>Properties\<close>

text \<open>C21: every statement the postgres driver builds over a request binds its arguments where the request has its values. When
  for every placeholder \<open>$n\<close> the \<open>n\<close>th argument is put in, in any rendering of values, DELETE and SELECT become the statement
  whose conditions are the filters and the \<open>or\<close> groups with each value at its own column, and UPDATE sets every column outside
  the key to its own value in the row before those conditions. And the placeholders are numbered \<open>$1\<close>, \<open>$2\<close>, ... in the order
  of the text, one for every argument. The names involved hold no dollar sign of their own.\<close>

theorem pg_placeholders_numbered:
  assumes "plainTable dschema rt" "plainWhere rt fs gs"
    and "list_all noDollar sel" "list_all noDollar (map o_Column ord)" "list_all noDollar (map fst sets)"
    and "sets = filter (\<lambda>kv. fst kv \<notin> set (t_KeyColumns (rt_Table rt))) (MapRowToRemote r (rt_Columns rt))"
  shows "(case pgDeleteSQL dschema \<lparr>dr_Resolved = rt, dr_Filters = fs, dr_OrGroups = gs\<rparr> of
            (q, args) \<Rightarrow> dollarNums q = [1 ..< Suc (length args)] \<and>
              bindText (argText render args) q = ''DELETE FROM '' @ pgRemoteTable dschema rt @ requestText render rt fs gs) \<and>
         (case pgSelectSQL dschema \<lparr>sr_Resolved = rt, sr_Select = sel, sr_Filters = fs, sr_OrGroups = gs,
              sr_Order = ord, sr_Limit = lim, sr_Offset = off\<rparr> of
            (q, args) \<Rightarrow> dollarNums q = [1 ..< Suc (length args)] \<and>
              bindText (argText render args) q =
                ''SELECT '' @ (if sel = [] then ''*'' else quoteCols sel) @ '' FROM '' @ pgRemoteTable dschema rt @
                requestText render rt fs gs @ orderBy quoteGo ord @ limitOffset lim off) \<and>
         (case pgUpdateSQL dschema \<lparr>rr_Resolved = rt, rr_Row = r, rr_Filters = fs, rr_OrGroups = gs,
              rr_PreferRepresentation = rep, rr_PreferUpsert = ups, rr_Returning = ret\<rparr> of
            Inl e \<Rightarrow> sets = [] \<and> e = Errorf ''no columns to update''
          | Inr (q, args) \<Rightarrow> dollarNums q = [1 ..< Suc (length args)] \<and>
              bindText (argText render args) q =
                ''UPDATE '' @ pgRemoteTable dschema rt @ '' SET '' @
                Join (map (\<lambda>(c, x). quoteGo c @ ''='' @ render x) sets) '', '' @ requestText render rt fs gs)"
proof (intro conjI)
  let ?d = "\<lparr>dr_Resolved = rt, dr_Filters = fs, dr_OrGroups = gs\<rparr>"
  show "case pgDeleteSQL dschema ?d of
      (q, args) \<Rightarrow> dollarNums q = [1 ..< Suc (length args)] \<and>
        bindText (argText render args) q = ''DELETE FROM '' @ pgRemoteTable dschema rt @ requestText render rt fs gs"
    using pgDelete_placeholders [of dschema ?d] pgDelete_bound [of dschema ?d] assms(1,2) by (auto simp: case_prod_beta)
  let ?s = "\<lparr>sr_Resolved = rt, sr_Select = sel, sr_Filters = fs, sr_OrGroups = gs,
              sr_Order = ord, sr_Limit = lim, sr_Offset = off\<rparr>"
  show "case pgSelectSQL dschema ?s of (q, args) \<Rightarrow> dollarNums q = [1 ..< Suc (length args)] \<and>
      bindText (argText render args) q =
        ''SELECT '' @ (if sel = [] then ''*'' else quoteCols sel) @ '' FROM '' @ pgRemoteTable dschema rt @
        requestText render rt fs gs @ orderBy quoteGo ord @ limitOffset lim off"
    using pgSelect_placeholders [of dschema ?s] pgSelect_bound [of dschema ?s] assms(1-4) by (auto simp: case_prod_beta)
  let ?u = "\<lparr>rr_Resolved = rt, rr_Row = r, rr_Filters = fs, rr_OrGroups = gs,
              rr_PreferRepresentation = rep, rr_PreferUpsert = ups, rr_Returning = ret\<rparr>"
  have cv: "rowToColsNonKeys (MapRowToRemote r (rt_Columns rt)) (t_KeyColumns (rt_Table rt)) = (map fst sets, map snd sets)"
    unfolding assms(6) rowToColsNonKeys_def rowToCols_def by (simp add: case_prod_beta)
  have "dollarNums q = [1 ..< Suc (length args)] \<and>
      bindText (argText render args) q = ''UPDATE '' @ pgRemoteTable dschema rt @ '' SET '' @
        Join (map (\<lambda>(c, x). quoteGo c @ ''='' @ render x) sets) '', '' @ requestText render rt fs gs"
    if "pgUpdateSQL dschema ?u = Inr (q, args)" for q args
    using pgUpdate_placeholders [of dschema ?u q args] pgUpdate_bound [of dschema ?u sets q args render] assms that cv by simp
  moreover have "sets = [] \<and> e = Errorf ''no columns to update''" if "pgUpdateSQL dschema ?u = Inl e" for e
    using that cv by (auto simp: pgUpdateSQL_def case_prod_beta Let_def split: if_splits)
  ultimately show "case pgUpdateSQL dschema ?u of Inl e \<Rightarrow> sets = [] \<and> e = Errorf ''no columns to update''
          | Inr (q, args) \<Rightarrow> dollarNums q = [1 ..< Suc (length args)] \<and>
              bindText (argText render args) q = ''UPDATE '' @ pgRemoteTable dschema rt @ '' SET '' @
                Join (map (\<lambda>(c, x). quoteGo c @ ''='' @ render x) sets) '', '' @ requestText render rt fs gs"
    by (auto split: sum.split)
qed

lemmas example_table_defs = exampleResolved_def exampleServer_def exampleColumns_def RemoteTableName_def
  RemoteColumnName_def

theorem pg_placeholders_numbered_witness:
  "case pgUpdateSQL ''public'' \<lparr>rr_Resolved = exampleResolved ProtocolPostgres ''people'', rr_Row = [(''name'', VStr ''bo'')],
       rr_Filters = [mkFilter ''id'' OpIn ''1, 2''], rr_OrGroups = [[mkFilter ''name'' OpEq ''al'']],
       rr_PreferRepresentation = False, rr_PreferUpsert = False, rr_Returning = []\<rparr> of
     Inl e \<Rightarrow> False
   | Inr (q, args) \<Rightarrow> dollarNums q = [1, 2, 3, 4] \<and>
       bindText (argText (\<lambda>x. case x of VStr t \<Rightarrow> t | _ \<Rightarrow> []) args) q =
         ''UPDATE \"public\".\"people\" SET \"full_name\"=bo WHERE \"id\" IN (1, 2) AND ((\"full_name\"=al))''"
proof -
  let ?rt = "exampleResolved ProtocolPostgres ''people''" and ?render = "\<lambda>x. case x of VStr t \<Rightarrow> t | _ \<Rightarrow> []"
  let ?fs = "[mkFilter ''id'' OpIn ''1, 2'']" and ?gs = "[[mkFilter ''name'' OpEq ''al'']]"
  let ?sets = "filter (\<lambda>kv. fst kv \<notin> set (t_KeyColumns (rt_Table ?rt))) (MapRowToRemote [(''name'', VStr ''bo'')] (rt_Columns ?rt))"
  have "plainTable ''public'' ?rt" by (simp add: plainTable_def example_table_defs)
  moreover have "plainWhere ?rt ?fs ?gs" by code_simp
  moreover have "list_all noDollar (map fst ?sets)" by code_simp
  moreover have "?sets \<noteq> []" by code_simp
  moreover have "''UPDATE '' @ pgRemoteTable ''public'' ?rt @ '' SET '' @ Join (map (\<lambda>(c, x). quoteGo c @ ''='' @ ?render x) ?sets) '', '' @
      requestText ?render ?rt ?fs ?gs =
      ''UPDATE \"public\".\"people\" SET \"full_name\"=bo WHERE \"id\" IN (1, 2) AND ((\"full_name\"=al))''" by code_simp
  moreover have "map_sum (\<lambda>e. e) (\<lambda>(q, args). length args) (pgUpdateSQL ''public'' \<lparr>rr_Resolved = ?rt, rr_Row = [(''name'', VStr ''bo'')],
       rr_Filters = ?fs, rr_OrGroups = ?gs, rr_PreferRepresentation = False, rr_PreferUpsert = False, rr_Returning = []\<rparr>) = Inr 4"
    by code_simp
  ultimately show ?thesis
    using pg_placeholders_numbered [of "''public''" ?rt ?fs ?gs "[]" "[]" ?sets "[(''name'', VStr ''bo'')]" ?render 0 0 False False "[]"]
    by (auto split: sum.splits simp: numeral_eq_Suc)
qed

text \<open>C22: filter values are never part of an SQL text: two requests whose filters agree in column and
  operator (and, for \<open>in\<close>, in the number of values) and use no \<open>is\<close> filter get the same SQL text
  from the postgres driver (SELECT, COUNT, DELETE) and from the mysql driver (SELECT, DELETE); only the
  arguments differ.\<close>

theorem sql_values_not_spliced:
  assumes "list_all bindable fs" "list_all bindable fs'" "map filterShape fs = map filterShape fs'"
    and "list_all (list_all bindable) gs" "list_all (list_all bindable) gs'"
    and "map (map filterShape) gs = map (map filterShape) gs'"
  shows "let sel = (\<lambda>fs gs. \<lparr>sr_Resolved = rt, sr_Select = cols, sr_Filters = fs, sr_OrGroups = gs,
                sr_Order = ord, sr_Limit = lim, sr_Offset = off\<rparr>);
             del = (\<lambda>fs gs. \<lparr>dr_Resolved = rt, dr_Filters = fs, dr_OrGroups = gs\<rparr>)
         in fst (pgSelectSQL sc (sel fs gs)) = fst (pgSelectSQL sc (sel fs' gs')) \<and>
            fst (pgCountSQL sc (sel fs gs)) = fst (pgCountSQL sc (sel fs' gs')) \<and>
            fst (pgDeleteSQL sc (del fs gs)) = fst (pgDeleteSQL sc (del fs' gs')) \<and>
            fst (mySelectSQL sc (sel fs gs)) = fst (mySelectSQL sc (sel fs' gs')) \<and>
            fst (myDeleteSQL sc (del fs gs)) = fst (myDeleteSQL sc (del fs' gs'))"
proof -
  let ?m = "\<lambda>fs. MapFilters fs (rt_Columns rt)"
  have mgs: "map (map filterShape) (map ?m gs) = map (map filterShape) (map ?m gs')"
    using assms(6) by (rule filterShape_mapGroups)
  have pg: "fst (pgWhere rt fs gs 1) = fst (pgWhere rt fs' gs' 1)"
    unfolding pgWhere_def mapOrGroups_map
  proof (rule whereClause_shape)
    show "map filterShape (?m fs) = map filterShape (?m fs')" by (rule filterShape_map [OF assms(3)])
    show "list_all bindable (?m fs)" "list_all bindable (?m fs')"
      using assms(1,2) by (simp_all only: bindable_map)
    show "list_all (list_all bindable) (map ?m gs)" "list_all (list_all bindable) (map ?m gs')"
      using assms(4,5) by (simp_all add: list_all_iff bindable_map [unfolded list_all_iff])
  qed (rule mgs)
  have my: "fst (myWhere rt fs) = fst (myWhere rt fs')"
    using my_where.conds_shape [of "?m fs" "?m fs'" 0] assms(1,2) filterShape_map [OF assms(3)]
    by (simp add: myWhere_def buildWhereMySQL_def case_prod_beta bindable_map)
  show ?thesis
    using pg my by (simp add: Let_def pgSelectSQL_def pgCountSQL_def pgDeleteSQL_def mySelectSQL_def
        myDeleteSQL_def case_prod_beta)
qed

theorem sql_values_not_spliced_witness:
  "fst (pgDeleteSQL ''public'' \<lparr>dr_Resolved = exampleResolved ProtocolPostgres ''t'',
       dr_Filters = [mkFilter ''id'' OpEq ''7'', mkFilter ''name'' OpIn ''a,b''], dr_OrGroups = []\<rparr>) =
   fst (pgDeleteSQL ''public'' \<lparr>dr_Resolved = exampleResolved ProtocolPostgres ''t'',
       dr_Filters = [mkFilter ''id'' OpEq ''7; DROP TABLE t'', mkFilter ''name'' OpIn ''c, d''], dr_OrGroups = []\<rparr>)"
  using sql_values_not_spliced [where fs = "[mkFilter ''id'' OpEq ''7'', mkFilter ''name'' OpIn ''a,b'']"
      and fs' = "[mkFilter ''id'' OpEq ''7; DROP TABLE t'', mkFilter ''name'' OpIn ''c, d'']"
      and gs = "[]" and gs' = "[]" and rt = "exampleResolved ProtocolPostgres ''t''" and sc = "''public''"]
  by (simp add: bindable_def filterShape_def inValues_def)

text \<open>A postgres DELETE carries a WHERE clause exactly when the request has a filter or a
  non-empty \<open>or\<close> group, so a filtered delete never touches the whole table.\<close>

theorem pg_delete_where:
  "fst (pgDeleteSQL sc \<lparr>dr_Resolved = rt, dr_Filters = fs, dr_OrGroups = gs\<rparr>) =
     ''DELETE FROM '' @ pgRemoteTable sc rt @
       (if fs = [] \<and> list_all (\<lambda>g. g = []) gs then []
        else '' WHERE '' @ fst (pgWhere rt fs gs 1))"
proof -
  have "fst (pgWhere rt fs gs 1) = [] \<longleftrightarrow> fs = [] \<and> list_all (\<lambda>g. g = []) gs"
    unfolding pgWhere_def whereClause_Nil_iff by (auto simp: MapFilters_map mapOrGroups_map list_all_iff)
  then show ?thesis by (simp add: pgDeleteSQL_def case_prod_beta whereText_def)
qed

text \<open>A filtered mysql DELETE can empty the table: \<open>or\<close> groups and \<open>is\<close> filters other than
  \<open>is.null\<close> add no condition, so a request with only those runs a DELETE without WHERE.\<close>

theorem mysql_delete_unfiltered:
  assumes "list_all (\<lambda>f. fl_Op f = OpIs \<and> fl_Value f \<noteq> ''null'') fs"
  shows "myDeleteSQL db \<lparr>dr_Resolved = rt, dr_Filters = fs, dr_OrGroups = gs\<rparr> =
           (''DELETE FROM '' @ myTable db rt, [])"
proof -
  have "buildConds myCond (MapFilters fs cols) i = ([], [])" for cols i
    using assms by (induction fs arbitrary: i) (auto simp: MapFilters_map myCond_def)
  then show ?thesis
    by (simp add: myDeleteSQL_def myWhere_def buildWhereMySQL_def whereText_def)
qed

theorem mysql_delete_unfiltered_witness:
  "myDeleteSQL ''db'' \<lparr>dr_Resolved = exampleResolved ProtocolMySQL ''t'', dr_Filters = [mkFilter ''ok'' OpIs ''true''],
       dr_OrGroups = [[mkFilter ''id'' OpEq ''7'']]\<rparr> =
     (''DELETE FROM '' @ myTable ''db'' (exampleResolved ProtocolMySQL ''t''), [])"
  by (rule mysql_delete_unfiltered) simp

text \<open>The value of an \<open>is\<close> filter is spliced into postgres SQL as it is: the filter
  \<open>col=is.v\<close> runs a DELETE that ends in the text \<open>v\<close>, whatever the client put there, with no
  argument.\<close>

theorem pg_is_value_spliced:
  assumes "v \<noteq> ''null''"
  shows "pgDeleteSQL sc \<lparr>dr_Resolved = rt, dr_Filters = [mkFilter col OpIs v], dr_OrGroups = []\<rparr> =
    (''DELETE FROM '' @ pgRemoteTable sc rt @ '' WHERE '' @
       quoteGo (rename (localToRemote (rt_Columns rt)) col) @ '' IS '' @ v, [])"
  using assms
  by (simp add: pgDeleteSQL_def pgWhere_def whereClause_def buildWhere_def pgCond_def MapFilters_map
      mapOrGroups_map whereText_def quoteGo_Cons Let_def)

theorem pg_is_value_spliced_witness:
  "fst (pgDeleteSQL ''public'' \<lparr>dr_Resolved = exampleResolved ProtocolPostgres ''t'',
      dr_Filters = [mkFilter ''id'' OpIs ''null OR true''], dr_OrGroups = []\<rparr>) =
    ''DELETE FROM '' @ pgRemoteTable ''public'' (exampleResolved ProtocolPostgres ''t'') @ '' WHERE '' @
      quoteGo (rename (localToRemote exampleColumns) ''id'') @ '' IS null OR true''"
  using pg_is_value_spliced [of "''null OR true''" "''public''" "exampleResolved ProtocolPostgres ''t''" "''id''"]
  by (simp add: exampleResolved_def)

text \<open>A postgres upsert that hits a conflict updates every row: the engine passes no filters with
  an upsert, so after a unique violation the driver runs an UPDATE without a WHERE clause.\<close>

theorem pg_upsert_conflict_updates_all:
  assumes "rr_Filters req = []" "rr_OrGroups req = []"
    and "pgInsert db sc req w = (Inl e, w1)" "isConflict e"
    and "rowToColsNonKeys (MapRowToRemote (rr_Row req) (rt_Columns (rr_Resolved req)))
           (t_KeyColumns (rt_Table (rr_Resolved req))) = (c # cs, args)"
  shows "pgUpsert db sc req w =
    bindC (pg_exec db (''UPDATE '' @ pgRemoteTable sc (rr_Resolved req) @ '' SET '' @
        Join (map (\<lambda>(i, c). quoteGo c @ ''='' @ dollar (i + 1)) (enumerate 0 (c # cs))) '', '') args)
      (\<lambda>_. retC (False, None)) w1"
proof -
  have "pgUpdateSQL sc req = Inr (''UPDATE '' @ pgRemoteTable sc (rr_Resolved req) @ '' SET '' @
      Join (map (\<lambda>(i, c). quoteGo c @ ''='' @ dollar (i + 1)) (enumerate 0 (c # cs))) '', '', args)"
    using assms(1,2,5) by (simp add: pgUpdateSQL_def pgWhere_def whereClause_def buildWhere_def
        MapFilters_def mapOrGroups_def whereText_def Let_def)
  with assms(3,4) show ?thesis
    by (simp add: pgUpsert_def pgUpdate_def comp_defs split: prod.split sum.split)
qed

text \<open>A connection that logs the statements and rejects every INSERT with a unique violation.\<close>

definition exampleConn :: "string list pgconn" where
  "exampleConn =
     \<lparr>pg_query = (\<lambda>_ _. retC ([], [])), pg_queryRow = (\<lambda>_ _. retC []), pg_queryInt = (\<lambda>_ _. retC 0),
      pg_exec = (\<lambda>q args w. (if HasPrefix q ''INSERT'' then Inl (Errorf ''duplicate key'') else Inr 3, q # w))\<rparr>"

definition exampleUpsert :: RowRequest where
  "exampleUpsert =
     \<lparr>rr_Resolved = exampleResolved ProtocolPostgres ''t'', rr_Row = [(''id'', VStr ''7''), (''name'', VStr ''bo'')],
      rr_Filters = [], rr_OrGroups = [], rr_PreferRepresentation = False, rr_PreferUpsert = True, rr_Returning = []\<rparr>"

theorem pg_upsert_conflict_updates_all_witness:
  "fst (pgUpsert exampleConn ''public'' exampleUpsert []) = Inr (False, None) \<and>
   hd (snd (pgUpsert exampleConn ''public'' exampleUpsert [])) =
     ''UPDATE '' @ pgRemoteTable ''public'' (exampleResolved ProtocolPostgres ''t'') @ '' SET '' @
       quoteGo ''full_name'' @ ''='' @ dollar 1"
proof -
  have ins: "pgInsert exampleConn ''public'' exampleUpsert [] =
      (Inl (Errorf ''duplicate key''), snd (pgInsert exampleConn ''public'' exampleUpsert []))"
    by code_simp
  have cols: "rowToColsNonKeys (MapRowToRemote (rr_Row exampleUpsert) (rt_Columns (rr_Resolved exampleUpsert)))
      (t_KeyColumns (rt_Table (rr_Resolved exampleUpsert))) = ([''full_name''], [VStr ''bo''])"
    by code_simp
  have con: "isConflict (Errorf ''duplicate key'')" by code_simp
  have no: "rr_Filters exampleUpsert = []" "rr_OrGroups exampleUpsert = []"
    by (simp_all add: exampleUpsert_def)
  show ?thesis
    using pg_upsert_conflict_updates_all [OF no ins con cols]
    by (simp add: comp_defs exampleConn_def exampleUpsert_def enumerate_simps)
qed
end
