(* ===== verification/SqlUse.thy ===== *)
theory SqlUse
  imports ImportFacts SqlRoundtrip SqlDrivers
begin

text \<open>
  From a SQL schema to the driver: the tables of an imported schema resolve in the file store, and whether the
  driver of the imported server can open with the imported credential depends on the dialect.
\<close>

lemma plain_TrimSpace: "plainName n \<Longrightarrow> TrimSpace n = n"
  by (rule TrimSpace_no_space) (use plainName_facts(2) in \<open>auto simp: list_all_iff\<close>)

lemma SQLToDeclarative_printed:
  assumes "list_all tablePrintable ts" "ts \<noteq> []" "so_Dialect opts \<noteq> DialectNone"
    and "SQLToDeclarative (concat (map printTable ts)) opts = Some (Inr d)"
  shows "\<exists>name protocol cred sopts. name \<noteq> [] \<and> TrimSpace name = name \<and> serverTemplate (so_Dialect opts) sopts = (protocol, cred, ds_Options (hd (dd_Servers d))) \<and>
    dd_Servers d = [\<lparr>ds_Name = name, ds_Protocol = protocol, ds_Credential = cred, ds_Enabled = Some True,
      ds_Options = ds_Options (hd (dd_Servers d))\<rparr>] \<and>
    d = \<lparr>dd_Credentials = [], dd_Servers = dd_Servers d, dd_Tables = map (sqlTable name) ts, dd_Functions = []\<rparr>"
proof -
  have imp: "TrimSpace ''imported_db'' = ''imported_db''" by code_simp
  let ?name = "if TrimSpace (so_ServerName opts) = [] then ''imported_db'' else TrimSpace (so_ServerName opts)"
  let ?schema = "if TrimSpace (so_Schema opts) = [] then ''public'' else TrimSpace (so_Schema opts)"
  obtain protocol cred sopts where st: "serverTemplate (so_Dialect opts) ?schema = (protocol, cred, sopts)"
    by (cases "serverTemplate (so_Dialect opts) ?schema") auto
  have parse: "parseCreateTables (concat (map printTable ts)) (so_Dialect opts) ?schema = Some (Inr ts)"
    using createLoop_printed [OF assms(1), of "so_Dialect opts" ?schema "[]"] by (simp add: parseCreateTables_def)
  obtain t us where ts: "ts = t # us" using assms(2) by (cases ts) auto
  have "d = \<lparr>dd_Credentials = [], dd_Servers = [\<lparr>ds_Name = ?name, ds_Protocol = protocol, ds_Credential = cred,
      ds_Enabled = Some True, ds_Options = sopts\<rparr>], dd_Tables = map (sqlTable ?name) ts, dd_Functions = []\<rparr>"
    using assms(3,4) parse st unfolding SQLToDeclarative_def Let_def by (simp add: ts)
  with st imp show ?thesis by (intro exI [of _ ?name] exI [of _ protocol] exI [of _ cred] exI [of _ ?schema]) auto
qed

lemma serverTemplate_protocol:
  "serverTemplate dialect schema = (protocol, cred, opts) \<Longrightarrow> protocol \<noteq> [] \<and> TrimSpace protocol = protocol"
proof -
  have "TrimSpace ''postgres'' = ''postgres''" "TrimSpace ''mysql'' = ''mysql''" "TrimSpace ''sqlite'' = ''sqlite''" by code_simp+
  then show "serverTemplate dialect schema = (protocol, cred, opts) \<Longrightarrow> protocol \<noteq> [] \<and> TrimSpace protocol = protocol"
    by (auto simp: serverTemplate_def Let_def split: SQLDialect.splits)
qed

lemma sqlTable_simps [simp]:
  "dt_Server (sqlTable n t) = n" "dt_Schema (sqlTable n t) = pt_Schema t" "dt_Name (sqlTable n t) = pt_Name t"
  "dt_RemoteName (sqlTable n t) = pt_Name t"
  by (simp_all add: sqlTable_def)

text \<open>The keys of an imported table: its primary key, or else its first column.\<close>

definition sqlKeys :: "parsedTable \<Rightarrow> string list" where
  "sqlKeys t = (if pt_KeyColumns t = [] then [pc_Name (hd (pt_Columns t))] else pt_KeyColumns t)"

lemma sqlTable_keys: "pt_Columns t \<noteq> [] \<Longrightarrow> dt_KeyColumns (sqlTable n t) = sqlKeys t"
  by (cases "pt_KeyColumns t"; cases "pt_Columns t") (simp_all add: sqlTable_def sqlKeys_def)

text \<open>C11: A SQL import ends in usable metadata: for a printed schema whose tables have different names, when the
  converted document reads back as itself and the vault can encrypt it, every table resolves after the import in replace
  mode, under its schema and name, with its primary key or else its first column as the key.\<close>

theorem sql_import_resolves:
  assumes "list_all tablePrintable ts" "distinct (map (\<lambda>t. (pt_Schema t, pt_Name t)) ts)" "t \<in> set ts"
    and "co_Kind opts = KindSQL" "co_Input opts = concat (map printTable ts)" "so_Dialect (co_SQL opts) \<noteq> DialectNone"
    and "Convert lib opts = Inr text" "\<forall>d. dl_marshal lib d = Inr text \<longrightarrow> dl_unmarshal lib text = Inr d"
    and "\<forall>i data. isOk (Encrypt (fe_vault env) (fe_nonce env i) data)"
  shows "\<exists>rt. fst (ResolveTable (pt_Schema t) (pt_Name t)
        (snd (ImportYAML lib (ImportDeclarative env) text ''replace'' s))) = Inr rt \<and>
    t_RemoteName (rt_Table rt) = pt_Name t \<and> t_KeyColumns (rt_Table rt) = sqlKeys t \<and>
    s_Protocol (rt_Server rt) = fst (serverTemplate (so_Dialect (co_SQL opts)) [])"
proof -
  have ne: "ts \<noteq> []" using assms(3) by auto
  obtain r where r: "SQLToDeclarative (co_Input opts) (co_SQL opts) = Some r" using SQLToDeclarative_total by blast
  obtain d where d: "SQLToDeclarative (concat (map printTable ts)) (co_SQL opts) = Some (Inr d)" "dl_marshal lib d = Inr text"
    using assms(4,5,7) r by (auto simp: Convert_def convertDoc_def split: sum.splits)
  obtain name protocol cred schema where n: "name \<noteq> []" "TrimSpace name = name"
    "serverTemplate (so_Dialect (co_SQL opts)) schema = (protocol, cred, ds_Options (hd (dd_Servers d)))"
    "dd_Servers d = [\<lparr>ds_Name = name, ds_Protocol = protocol, ds_Credential = cred, ds_Enabled = Some True,
      ds_Options = ds_Options (hd (dd_Servers d))\<rparr>]"
    "d = \<lparr>dd_Credentials = [], dd_Servers = dd_Servers d, dd_Tables = map (sqlTable name) ts, dd_Functions = []\<rparr>"
    using SQLToDeclarative_printed [OF assms(1) ne assms(6) d(1)] by blast
  have tabs: "dd_Tables d = map (sqlTable name) ts" "dd_Functions d = []" "dd_Credentials d = []"
    using arg_cong [OF n(5), of dd_Tables] arg_cong [OF n(5), of dd_Functions] arg_cong [OF n(5), of dd_Credentials] by auto
  have names: "TrimSpace (pt_Name x) = pt_Name x" "pt_Name x \<noteq> []" "schemaOr (pt_Schema x) = pt_Schema x" "pt_Columns x \<noteq> []"
    if x: "x \<in> set ts" for x
  proof -
    from assms(1) x have p: "plainName (pt_Schema x)" "plainName (pt_Name x)" "pt_Columns x \<noteq> []"
      by (auto simp: list_all_iff tablePrintable_def)
    then show "TrimSpace (pt_Name x) = pt_Name x" "pt_Name x \<noteq> []" "schemaOr (pt_Schema x) = pt_Schema x" "pt_Columns x \<noteq> []"
      by (auto simp: plain_TrimSpace schemaOr_def plainName_def)
  qed
  have one: "oneServer name protocol d"
    using n(1,2,4) serverTemplate_protocol [OF n(3)] names tabs by (auto simp: oneServer_def list_all_iff)
  have enc: "canEncrypt (compileEnvOf env (st_world s)) d"
    using assms(9) by (simp add: canEncrypt_def compileEnvOf_def)
  have dist: "distinct (map (\<lambda>t. (schemaOr (dt_Schema t), TrimSpace (dt_Name t))) (dd_Tables d))"
    using assms(2) names by (auto simp: tabs distinct_map inj_on_def)
  have "sqlTable name t \<in> set (dd_Tables d)" using assms(3) tabs by simp
  from imported_table [OF one enc dist this] names [OF assms(3)]
  obtain rt where "fst (ResolveTable (pt_Schema t) (pt_Name t) (snd (ImportDeclarative env d ''replace'' s))) = Inr rt"
    "t_RemoteName (rt_Table rt) = pt_Name t" "t_KeyColumns (rt_Table rt) = sqlKeys t" "s_Protocol (rt_Server rt) = protocol"
    by (auto simp: sqlTable_keys)
  moreover have "protocol = fst (serverTemplate (so_Dialect (co_SQL opts)) [])"
    using n(3) by (auto simp: serverTemplate_def Let_def split: SQLDialect.splits)
  moreover have "ImportYAML lib (ImportDeclarative env) text ''replace'' = ImportDeclarative env d ''replace''"
    using d(2) assms(8) by (simp add: ImportYAML_def)
  ultimately show ?thesis by metis
qed

text \<open>A server imported from a PostgreSQL schema cannot be opened: its credential has a host, a port and so on, and the
  driver only takes a DSN. The same template for MySQL gives a DSN once a user and a database are set.\<close>

lemma imported_postgres_unusable:
  "pgNew pool (srv\<lparr>s_Options := nodeToRaw (mapToNode [(''schema'', VStr schema)])\<rparr>)
     (Some (expandEnvMap getenv (fst (snd (serverTemplate DialectPG schema))))) w =
   (Inl (Errorf (''postgres server '' @ quoteGo (s_Name srv) @ '' requires options.dsn or credential.dsn'')), w)"
proof -
  have parse: "ParseServerOptions PostgresServerOptionsFields (nodeToRaw (mapToNode [(''schema'', VStr schema)])) =
      (fst (ParseServerOptions PostgresServerOptionsFields (nodeToRaw (mapToNode [(''schema'', VStr schema)]))), None) \<and>
      TrimSpace (strField (fst (ParseServerOptions PostgresServerOptionsFields (nodeToRaw (mapToNode [(''schema'', VStr schema)])))) ''dsn'') = []"
    by code_simp
  then obtain opts where opts: "ParseServerOptions PostgresServerOptionsFields (nodeToRaw (mapToNode [(''schema'', VStr schema)])) = (opts, None)"
    "TrimSpace (strField opts ''dsn'') = []" by blast
  have "strCred (Some (expandEnvMap getenv (fst (snd (serverTemplate DialectPG schema))))) ''dsn'' = []"
    by (simp add: serverTemplate_def Let_def strCred_def expandEnvMap_def)
  with opts show ?thesis by (simp add: pgNew_def failC_def)
qed

lemma imported_mysql_dsn:
  "myDSN name (Some (expandEnvMap (\<lambda>v. if v = ''DB_USER'' then ''u'' else if v = ''DB_NAME'' then ''d'' else [])
     (fst (snd (serverTemplate DialectMy ''public''))))) [] [] =
   Inr ''u:${DB_PASSWORD}@tcp(${DB_HOST}:${DB_PORT})/d?parseTime=true''"
  by code_simp

text \<open>Two tables of a MySQL schema.\<close>

definition ordersTable :: parsedTable where
  "ordersTable = usersTable\<lparr>pt_Name := ''orders''\<rparr>"

definition sqlConvert :: ConvertOptions where
  "sqlConvert = \<lparr>co_Kind = KindSQL, co_Input = concat (map printTable [usersTable, ordersTable]),
     co_OpenAPI = usersOptions, co_SQL = \<lparr>so_ServerName = [], so_Schema = [], so_Dialect = DialectMy\<rparr>\<rparr>"

definition sqlDecl :: DeclarativeDoc where
  "sqlDecl = (case SQLToDeclarative (co_Input sqlConvert) (co_SQL sqlConvert) of Some (Inr d) \<Rightarrow> d | _ \<Rightarrow> emptyDoc)"

definition sqlLib :: docLib where
  "sqlLib = usersLib\<lparr>dl_marshal := (\<lambda>d. if d = sqlDecl then Inr ''doc'' else Inl ErrEOF), dl_unmarshal := (\<lambda>_. Inr sqlDecl)\<rparr>"

theorem sql_import_resolves_witness:
  "\<exists>rt. fst (ResolveTable ''shop'' ''users''
        (snd (ImportYAML sqlLib (ImportDeclarative storeEnv) ''doc'' ''replace'' (emptyStore 0 ())))) = Inr rt \<and>
     t_KeyColumns (rt_Table rt) = [''id''] \<and> s_Protocol (rt_Server rt) = ''mysql''"
proof -
  have ts: "list_all tablePrintable [usersTable, ordersTable]" "distinct (map (\<lambda>t. (pt_Schema t, pt_Name t)) [usersTable, ordersTable])"
    by code_simp+
  have "list_all tablePrintable ts \<Longrightarrow> parseCreateTables (concat (map printTable ts)) DialectMy sch = Some (Inr ts)" for ts sch
    using createLoop_printed [of ts DialectMy sch "[]"] by (simp add: parseCreateTables_def)
  from this [OF ts(1)] have "SQLToDeclarative (co_Input sqlConvert) (co_SQL sqlConvert) = Some (Inr sqlDecl)"
    by (simp add: sqlDecl_def SQLToDeclarative_def sqlConvert_def Let_def split: prod.split)
  then have conv: "Convert sqlLib sqlConvert = Inr ''doc''"
    by (simp add: Convert_def convertDoc_def sqlConvert_def sqlLib_def)
  have enc: "\<forall>i data. isOk (Encrypt (fe_vault storeEnv) (fe_nonce storeEnv i) data)"
    by (simp add: storeEnv_def Encrypt_def exampleVault_def bindE_def isOk_def)
  have opts: "co_Kind sqlConvert = KindSQL" "co_Input sqlConvert = concat (map printTable [usersTable, ordersTable])"
    "so_Dialect (co_SQL sqlConvert) = DialectMy" by (simp_all add: sqlConvert_def)
  have lib: "\<forall>d. dl_marshal sqlLib d = Inr ''doc'' \<longrightarrow> dl_unmarshal sqlLib ''doc'' = Inr d" by (simp add: sqlLib_def)
  have facts: "pt_Schema usersTable = ''shop''" "pt_Name usersTable = ''users''" "sqlKeys usersTable = [''id'']"
    "fst (serverTemplate DialectMy []) = ''mysql''" by code_simp+
  have "so_Dialect (co_SQL sqlConvert) \<noteq> DialectNone" "usersTable \<in> set [usersTable, ordersTable]" by (simp_all add: opts)
  from sql_import_resolves [OF ts this(2) opts(1,2) this(1) conv lib enc, of "emptyStore 0 ()"]
  show ?thesis unfolding facts opts by blast
qed

end
