(* ===== verification/DbStore.thy ===== *)
theory DbStore
  imports StoreConfig
begin

text \<open>
  The database store (\<open>internal/store/db\<close>: store.go, crud.go, convert.go, export.go, import.go, migrate.go) and
  the entities it stores (\<open>internal/models/entities.go\<close>). GORM and the database are a parameter: a record of
  the calls the store makes for each entity. A call with a WHERE clause takes it as a predicate on rows; the
  ORDER BY clause is always the same for an entity (servers by name, tables and functions by schema and name,
  columns by position and name) and is part of the call.
\<close>

section \<open>Entities\<close>

record MetaCredential =
  mcr_ID :: uuid
  mcr_Name :: string
  mcr_Payload :: string
  mcr_CreatedAt :: time

record MetaServer =
  msv_ID :: uuid
  msv_Name :: string
  msv_Protocol :: string
  msv_Options :: raw
  msv_CredentialRef :: "uuid option"
  msv_Enabled :: bool
  msv_UpdatedAt :: time

record MetaForeignTable =
  mtb_ID :: uuid
  mtb_ServerID :: uuid
  mtb_SchemaName :: string
  mtb_Name :: string
  mtb_RemoteName :: string
  mtb_KeyColumns :: raw
  mtb_Options :: raw

record MetaForeignColumn =
  mcl_ID :: uuid
  mcl_TableID :: uuid
  mcl_Name :: string
  mcl_DataType :: string
  mcl_RemoteName :: string
  mcl_Nullable :: bool
  mcl_Position :: int

record MetaForeignFunction =
  mfn_ID :: uuid
  mfn_ServerID :: uuid
  mfn_SchemaName :: string
  mfn_Name :: string
  mfn_Operation :: string
  mfn_RemotePath :: string
  mfn_Method :: string
  mfn_Options :: raw

section \<open>The calls to GORM\<close>

text \<open>
  \<open>Create\<close> fills the row in with what was stored, \<open>First\<close> gives \<open>None\<close> for \<open>gorm.ErrRecordNotFound\<close>, \<open>Find\<close> the
  rows in order, \<open>Updates\<close> changes columns of the row with an id, \<open>Delete\<close> counts the rows it deleted.
\<close>

record ('w, 'r) gormTable =
  gt_create :: "'r \<Rightarrow> ('w, err, 'r) comp"
  gt_first :: "('r \<Rightarrow> bool) \<Rightarrow> ('w, err, 'r option) comp"
  gt_find :: "('r \<Rightarrow> bool) \<Rightarrow> ('w, err, 'r list) comp"
  gt_updates :: "uuid \<Rightarrow> ('r \<Rightarrow> 'r) \<Rightarrow> ('w, err, unit) comp"
  gt_delete :: "('r \<Rightarrow> bool) \<Rightarrow> ('w, err, nat) comp"

record 'w gorm =
  gm_credentials :: "('w, MetaCredential) gormTable"
  gm_servers :: "('w, MetaServer) gormTable"
  gm_tables :: "('w, MetaForeignTable) gormTable"
  gm_columns :: "('w, MetaForeignColumn) gormTable"
  gm_functions :: "('w, MetaForeignFunction) gormTable"
  gm_begin :: "('w, err, unit) comp"
  gm_commit :: "('w, err, unit) comp"
  gm_rollback :: "('w, err, unit) comp"

record 'w dbEnv =
  db_gorm :: "'w gorm"
  db_vault :: "Vault option"
  db_nonce :: "uuid \<Rightarrow> err + string"
  db_now :: "'w \<Rightarrow> time"
  db_getenv :: "string \<Rightarrow> string"

record 'w dbStore =
  dbs_next :: uuid
  dbs_world :: 'w

type_synonym ('w, 'a) dbC = "('w dbStore, err, 'a) comp"

definition inDB :: "('w, err, 'a) comp \<Rightarrow> ('w, 'a) dbC" where
  "inDB f s = (case f (dbs_world s) of (r, w) \<Rightarrow> (r, s\<lparr>dbs_world := w\<rparr>))"

definition dbNewUUID :: "('w, uuid) dbC" where
  "dbNewUUID s = (Inr (Suc (dbs_next s)), s\<lparr>dbs_next := Suc (dbs_next s)\<rparr>)"

definition dbNow :: "'w dbEnv \<Rightarrow> ('w, time) dbC" where
  "dbNow env s = (Inr (db_now env (dbs_world s)), s)"

definition firstRow :: "('w, 'r) gormTable \<Rightarrow> ('r \<Rightarrow> bool) \<Rightarrow> ('w, 'r) dbC" where
  "firstRow t p = bindC (inDB (gt_first t p)) (\<lambda>r. liftC (orNotFound r))"

text \<open>The outcome of a deletion by id: an error when no row was affected.\<close>

definition deleteRow :: "('w, 'r) gormTable \<Rightarrow> ('r \<Rightarrow> bool) \<Rightarrow> ('w, unit) dbC" where
  "deleteRow t p = bindC (inDB (gt_delete t p)) (\<lambda>n. if n = 0 then failC ErrNotFound else retC ())"

text \<open>\<open>Transaction\<close>: an error of the function rolls back, its success commits. \<open>attemptC\<close> goes on with the outcome of a
  computation, error or not.\<close>

definition attemptC :: "('s, 'e, 'a) comp \<Rightarrow> ('e + 'a \<Rightarrow> ('s, 'e, 'b) comp) \<Rightarrow> ('s, 'e, 'b) comp" where
  "attemptC m k s = (case m s of (r, s1) \<Rightarrow> k r s1)"

definition inTransaction :: "'w gorm \<Rightarrow> ('w, 'a) dbC \<Rightarrow> ('w, 'a) dbC" where
  "inTransaction g fn =
     bindC (inDB (gm_begin g)) (\<lambda>_. attemptC fn (\<lambda>r.
       (case r of
          Inl e \<Rightarrow> attemptC (inDB (gm_rollback g)) (\<lambda>_. failC e)
        | Inr x \<Rightarrow> bindC (inDB (gm_commit g)) (\<lambda>_. retC x))))"

text \<open>A loop whose body may fail, and one that collects results.\<close>

fun eachC :: "('a \<Rightarrow> ('s, 'e, unit) comp) \<Rightarrow> 'a list \<Rightarrow> ('s, 'e, unit) comp" where
  "eachC f [] = retC ()"
| "eachC f (x # xs) = bindC (f x) (\<lambda>_. eachC f xs)"

fun collectC :: "('a \<Rightarrow> ('s, 'e, 'b) comp) \<Rightarrow> 'a list \<Rightarrow> ('s, 'e, 'b list) comp" where
  "collectC f [] = retC []"
| "collectC f (x # xs) = bindC (f x) (\<lambda>y. bindC (collectC f xs) (\<lambda>ys. retC (y # ys)))"

section \<open>Conversions (convert.go)\<close>

definition encodeKeyColumns :: "string list \<Rightarrow> raw" where
  "encodeKeyColumns cols = RawJSON (VArr (map VStr cols))"

text \<open>\<open>null\<close> elements decode as empty strings; anything else that is not a string is an error, which gives no columns.\<close>

definition decodeKeyColumns :: "raw \<Rightarrow> string list" where
  "decodeKeyColumns r =
     (case r of
        RawJSON (VArr vs) \<Rightarrow>
          if list_all (\<lambda>v. case v of VStr _ \<Rightarrow> True | VNil \<Rightarrow> True | _ \<Rightarrow> False) vs
          then map (\<lambda>v. case v of VStr s \<Rightarrow> s | _ \<Rightarrow> []) vs else []
      | _ \<Rightarrow> [])"

definition rawJSON :: "raw \<Rightarrow> raw" where
  "rawJSON r = (if r = RawEmpty then RawJSON (VObj []) else r)"

definition toJSONRaw :: "raw \<Rightarrow> raw" where
  "toJSONRaw r = (if r = RawEmpty then RawJSON (VObj []) else r)"

definition toCredential :: "MetaCredential \<Rightarrow> Credential" where
  "toCredential c = \<lparr>cr_ID = mcr_ID c, cr_Name = mcr_Name c, cr_CreatedAt = mcr_CreatedAt c\<rparr>"

definition toServer :: "MetaServer \<Rightarrow> Server" where
  "toServer s =
     \<lparr>s_ID = msv_ID s, s_Name = msv_Name s, s_Protocol = msv_Protocol s, s_Options = rawJSON (msv_Options s),
      s_CredentialRef = msv_CredentialRef s, s_Enabled = msv_Enabled s, s_UpdatedAt = msv_UpdatedAt s\<rparr>"

definition toTable :: "MetaForeignTable \<Rightarrow> string \<Rightarrow> Table" where
  "toTable t serverName =
     \<lparr>t_ID = mtb_ID t, t_ServerID = mtb_ServerID t, t_SchemaName = mtb_SchemaName t, t_TableName = mtb_Name t,
      t_RemoteName = mtb_RemoteName t, t_KeyColumns = decodeKeyColumns (mtb_KeyColumns t),
      t_Options = rawJSON (mtb_Options t), t_ServerName = serverName\<rparr>"

definition toColumn :: "MetaForeignColumn \<Rightarrow> Column" where
  "toColumn c =
     \<lparr>c_ID = mcl_ID c, c_TableID = mcl_TableID c, c_Name = mcl_Name c, c_DataType = mcl_DataType c,
      c_RemoteName = mcl_RemoteName c, c_Nullable = mcl_Nullable c, c_Position = mcl_Position c\<rparr>"

definition toFunction :: "MetaForeignFunction \<Rightarrow> string \<Rightarrow> Function" where
  "toFunction f serverName =
     \<lparr>f_ID = mfn_ID f, f_ServerID = mfn_ServerID f, f_SchemaName = mfn_SchemaName f, f_Name = mfn_Name f,
      f_Operation = mfn_Operation f, f_RemotePath = mfn_RemotePath f, f_Method = mfn_Method f,
      f_Options = rawJSON (mfn_Options f), f_ServerName = serverName\<rparr>"

text \<open>\<open>Preload("Server")\<close>: a second query for the servers of the rows; a row without a server gets the zero value.\<close>

definition zeroServer :: MetaServer where
  "zeroServer =
     \<lparr>msv_ID = uuidNil, msv_Name = [], msv_Protocol = [], msv_Options = RawEmpty, msv_CredentialRef = None,
      msv_Enabled = False, msv_UpdatedAt = 0\<rparr>"

definition serverOf :: "MetaServer list \<Rightarrow> uuid \<Rightarrow> MetaServer" where
  "serverOf servers i = (case find (\<lambda>s. msv_ID s = i) servers of Some s \<Rightarrow> s | None \<Rightarrow> zeroServer)"

definition preloadServers :: "'w gorm \<Rightarrow> uuid list \<Rightarrow> ('w, uuid \<Rightarrow> MetaServer) dbC" where
  "preloadServers g ids =
     (if ids = [] then retC (\<lambda>_. zeroServer)
      else bindC (inDB (gt_find (gm_servers g) (\<lambda>s. msv_ID s \<in> set ids))) (\<lambda>servers. retC (serverOf servers)))"

section \<open>Credentials\<close>

definition dbCreateCredential :: "'w dbEnv \<Rightarrow> string \<Rightarrow> row \<Rightarrow> ('w, Credential) dbC" where
  "dbCreateCredential env name data s =
     (if name = [] then failC (Errorf ''name is required'') s
      else (case Encrypt (db_vault env) (db_nonce env (Suc (dbs_next s))) data of
              Inl e \<Rightarrow> failC e s
            | Inr payload \<Rightarrow>
                bindC dbNewUUID (\<lambda>i. bindC (dbNow env) (\<lambda>now.
                bindC (inDB (gt_create (gm_credentials (db_gorm env))
                  \<lparr>mcr_ID = i, mcr_Name = name, mcr_Payload = payload, mcr_CreatedAt = now\<rparr>)) (\<lambda>row.
                  retC (toCredential row)))) s))"

definition dbDeleteCredential :: "'w dbEnv \<Rightarrow> uuid \<Rightarrow> ('w, unit) dbC" where
  "dbDeleteCredential env i = deleteRow (gm_credentials (db_gorm env)) (\<lambda>c. mcr_ID c = i)"

definition dbResolveCredential :: "'w dbEnv \<Rightarrow> uuid \<Rightarrow> ('w, row) dbC" where
  "dbResolveCredential env ref =
     bindC (firstRow (gm_credentials (db_gorm env)) (\<lambda>c. mcr_ID c = ref)) (\<lambda>c.
       liftC (Decrypt (db_vault env) (mcr_Payload c)))"

section \<open>Servers\<close>

definition dbInlineCredential :: "'w dbEnv \<Rightarrow> CreateServerRequest \<Rightarrow> ('w, CreateServerRequest) dbC" where
  "dbInlineCredential env req =
     (if csr_CredentialRef req = None \<and> csr_Credential req \<noteq> [] then
        (let credName = TrimSpace (csr_CredentialName req);
             credName = (if credName = [] then csr_Name req @ ''-credential'' else credName)
         in bindC (dbCreateCredential env credName (csr_Credential req)) (\<lambda>cred.
              retC (req\<lparr>csr_CredentialRef := Some (cr_ID cred)\<rparr>)))
      else retC req)"

definition dbCreateServer :: "'w dbEnv \<Rightarrow> CreateServerRequest \<Rightarrow> ('w, Server) dbC" where
  "dbCreateServer env req0 =
     (if csr_Name req0 = [] \<or> csr_Protocol req0 = [] then failC (Errorf ''name and protocol are required'')
      else bindC (dbInlineCredential env req0) (\<lambda>req.
        if csr_CredentialRef req \<noteq> None \<and> csr_Credential req \<noteq> [] then
          failC (Errorf ''provide either credentialRef or inline credential, not both'')
        else bindC dbNewUUID (\<lambda>i. bindC (dbNow env) (\<lambda>now.
          bindC (inDB (gt_create (gm_servers (db_gorm env))
            \<lparr>msv_ID = i, msv_Name = csr_Name req, msv_Protocol = csr_Protocol req,
             msv_Options = toJSONRaw (objectOr (csr_Options req)), msv_CredentialRef = csr_CredentialRef req,
             msv_Enabled = (case csr_Enabled req of Some b \<Rightarrow> b | None \<Rightarrow> True), msv_UpdatedAt = now\<rparr>)) (\<lambda>row.
            retC (toServer row))))))"

definition dbListServers :: "'w dbEnv \<Rightarrow> ('w, Server list) dbC" where
  "dbListServers env = bindC (inDB (gt_find (gm_servers (db_gorm env)) (\<lambda>_. True))) (\<lambda>rows. retC (map toServer rows))"

definition dbGetServerByID :: "'w dbEnv \<Rightarrow> uuid \<Rightarrow> ('w, Server) dbC" where
  "dbGetServerByID env i =
     bindC (firstRow (gm_servers (db_gorm env)) (\<lambda>s. msv_ID s = i)) (\<lambda>row. retC (toServer row))"

definition dbGetServerByName :: "'w dbEnv \<Rightarrow> string \<Rightarrow> ('w, Server) dbC" where
  "dbGetServerByName env name =
     bindC (firstRow (gm_servers (db_gorm env)) (\<lambda>s. msv_Name s = name)) (\<lambda>row. retC (toServer row))"

definition dbUpdateServer :: "'w dbEnv \<Rightarrow> uuid \<Rightarrow> UpdateServerRequest \<Rightarrow> ('w, Server) dbC" where
  "dbUpdateServer env i req =
     bindC (dbGetServerByID env i) (\<lambda>srv0. bindC (dbNow env) (\<lambda>now.
       let srv = (if usr_Options req \<noteq> RawEmpty then srv0\<lparr>s_Options := usr_Options req\<rparr> else srv0);
           srv = (if usr_CredentialRef req \<noteq> None then srv\<lparr>s_CredentialRef := usr_CredentialRef req\<rparr> else srv);
           srv = (case usr_Enabled req of Some b \<Rightarrow> srv\<lparr>s_Enabled := b\<rparr> | None \<Rightarrow> srv);
           srv = srv\<lparr>s_UpdatedAt := now\<rparr>
       in bindC (inDB (gt_updates (gm_servers (db_gorm env)) i (\<lambda>r.
            r\<lparr>msv_Options := toJSONRaw (s_Options srv), msv_CredentialRef := s_CredentialRef srv,
              msv_Enabled := s_Enabled srv, msv_UpdatedAt := s_UpdatedAt srv\<rparr>))) (\<lambda>_. retC srv)))"

definition dbDeleteServer :: "'w dbEnv \<Rightarrow> uuid \<Rightarrow> ('w, unit) dbC" where
  "dbDeleteServer env i = deleteRow (gm_servers (db_gorm env)) (\<lambda>s. msv_ID s = i)"

section \<open>Tables and columns\<close>

definition dbNewColumn :: "uuid \<Rightarrow> uuid \<Rightarrow> int \<Rightarrow> ColumnInput \<Rightarrow> MetaForeignColumn" where
  "dbNewColumn i tableID pos c =
     \<lparr>mcl_ID = i, mcl_TableID = tableID, mcl_Name = ci_Name c,
      mcl_DataType = (if ci_DataType c = [] then ''text'' else ci_DataType c), mcl_RemoteName = ci_RemoteName c,
      mcl_Nullable = (case ci_Nullable c of Some b \<Rightarrow> b | None \<Rightarrow> True), mcl_Position = pos\<rparr>"

text \<open>The loop over the columns of a request; \<open>k\<close> is the index of the first one.\<close>

fun dbNewColumns :: "'w gorm \<Rightarrow> uuid \<Rightarrow> nat \<Rightarrow> ColumnInput list \<Rightarrow> ('w, Column list) dbC" where
  "dbNewColumns g tableID k [] = retC []"
| "dbNewColumns g tableID k (c # cs) =
     (if ci_Name c = [] then dbNewColumns g tableID (Suc k) cs
      else bindC dbNewUUID (\<lambda>i.
        bindC (inDB (gt_create (gm_columns g)
          (dbNewColumn i tableID (if ci_Position c = 0 then int k else ci_Position c) c))) (\<lambda>row.
        bindC (dbNewColumns g tableID (Suc k) cs) (\<lambda>cols. retC (toColumn row # cols)))))"

definition dbCreateTable :: "'w dbEnv \<Rightarrow> CreateTableRequest \<Rightarrow> ('w, Table \<times> Column list) dbC" where
  "dbCreateTable env req =
     (if ctr_ServerName req = [] \<or> ctr_TableName req = [] then
        failC (Errorf ''serverName and tableName are required'')
      else bindC (dbGetServerByName env (ctr_ServerName req)) (\<lambda>srv.
        inTransaction (db_gorm env)
          (bindC dbNewUUID (\<lambda>i.
           bindC (inDB (gt_create (gm_tables (db_gorm env))
             \<lparr>mtb_ID = i, mtb_ServerID = s_ID srv, mtb_SchemaName = orPublic (ctr_SchemaName req),
              mtb_Name = ctr_TableName req, mtb_RemoteName = ctr_RemoteName req,
              mtb_KeyColumns = encodeKeyColumns (case ctr_KeyColumns req of Some ks \<Rightarrow> ks | None \<Rightarrow> []),
              mtb_Options = toJSONRaw (objectOr (ctr_Options req))\<rparr>)) (\<lambda>row.
           bindC (dbNewColumns (db_gorm env) (mtb_ID row) 0 (ctr_Columns req)) (\<lambda>cols.
             retC (toTable row (s_Name srv), cols)))))))"

definition dbListTables :: "'w dbEnv \<Rightarrow> ('w, Table list) dbC" where
  "dbListTables env =
     bindC (inDB (gt_find (gm_tables (db_gorm env)) (\<lambda>_. True))) (\<lambda>rows.
     bindC (preloadServers (db_gorm env) (map mtb_ServerID rows)) (\<lambda>server.
       retC (map (\<lambda>t. toTable t (msv_Name (server (mtb_ServerID t)))) rows)))"

definition dbColumnsOf :: "'w dbEnv \<Rightarrow> uuid \<Rightarrow> ('w, Column list) dbC" where
  "dbColumnsOf env i =
     bindC (inDB (gt_find (gm_columns (db_gorm env)) (\<lambda>c. mcl_TableID c = i))) (\<lambda>rows. retC (map toColumn rows))"

definition dbListColumns :: "'w dbEnv \<Rightarrow> string \<Rightarrow> string \<Rightarrow> ('w, Column list) dbC" where
  "dbListColumns env schema table =
     bindC (firstRow (gm_tables (db_gorm env)) (\<lambda>t. mtb_SchemaName t = schema \<and> mtb_Name t = table)) (\<lambda>t.
       dbColumnsOf env (mtb_ID t))"

definition enabledOrFail :: "Server \<Rightarrow> ('w, unit) dbC" where
  "enabledOrFail srv =
     (if s_Enabled srv then retC () else failC (Errorf (''server '' @ quoteGo (s_Name srv) @ '' is disabled'')))"

definition dbResolveTable :: "'w dbEnv \<Rightarrow> string \<Rightarrow> string \<Rightarrow> ('w, ResolvedTable) dbC" where
  "dbResolveTable env schema table =
     bindC (firstRow (gm_tables (db_gorm env)) (\<lambda>t. mtb_SchemaName t = schema \<and> mtb_Name t = table)) (\<lambda>row.
     bindC (preloadServers (db_gorm env) [mtb_ServerID row]) (\<lambda>server.
       let srv = toServer (server (mtb_ServerID row))
       in bindC (enabledOrFail srv) (\<lambda>_.
          bindC (dbListColumns env schema table) (\<lambda>cols.
            retC \<lparr>rt_Table = toTable row (s_Name srv), rt_Server = srv, rt_Columns = cols\<rparr>))))"

definition dbGetTableByID :: "'w dbEnv \<Rightarrow> uuid \<Rightarrow> ('w, Table) dbC" where
  "dbGetTableByID env i =
     bindC (firstRow (gm_tables (db_gorm env)) (\<lambda>t. mtb_ID t = i)) (\<lambda>row.
     bindC (preloadServers (db_gorm env) [mtb_ServerID row]) (\<lambda>server.
       retC (toTable row (msv_Name (server (mtb_ServerID row))))))"

text \<open>The updates of a request: the row with the changed columns, and whether there are any.\<close>

definition dbUpdateTable :: "'w dbEnv \<Rightarrow> uuid \<Rightarrow> UpdateTableRequest \<Rightarrow> ('w, Table) dbC" where
  "dbUpdateTable env i req =
     bindC (dbGetTableByID env i) (\<lambda>tbl.
       let t1 = (case utr_RemoteName req of Some n \<Rightarrow> tbl\<lparr>t_RemoteName := n\<rparr> | None \<Rightarrow> tbl);
           t2 = (case utr_KeyColumns req of Some ks \<Rightarrow> t1\<lparr>t_KeyColumns := ks\<rparr> | None \<Rightarrow> t1);
           t3 = (if utr_Options req \<noteq> RawEmpty then t2\<lparr>t_Options := utr_Options req\<rparr> else t2)
       in if utr_RemoteName req = None \<and> utr_KeyColumns req = None \<and> utr_Options req = RawEmpty then retC t3
          else bindC (inDB (gt_updates (gm_tables (db_gorm env)) i (\<lambda>r.
            let r = (case utr_RemoteName req of Some n \<Rightarrow> r\<lparr>mtb_RemoteName := n\<rparr> | None \<Rightarrow> r);
                r = (case utr_KeyColumns req of Some ks \<Rightarrow> r\<lparr>mtb_KeyColumns := encodeKeyColumns ks\<rparr> | None \<Rightarrow> r)
            in if utr_Options req \<noteq> RawEmpty then r\<lparr>mtb_Options := toJSONRaw (utr_Options req)\<rparr> else r))) (\<lambda>_. retC t3))"

definition dbDeleteTable :: "'w dbEnv \<Rightarrow> uuid \<Rightarrow> ('w, unit) dbC" where
  "dbDeleteTable env i = deleteRow (gm_tables (db_gorm env)) (\<lambda>t. mtb_ID t = i)"

definition dbListColumnsByTableID :: "'w dbEnv \<Rightarrow> uuid \<Rightarrow> ('w, Column list) dbC" where
  "dbListColumnsByTableID env i = dbColumnsOf env i"

definition dbGetColumnByID :: "'w dbEnv \<Rightarrow> uuid \<Rightarrow> ('w, Column) dbC" where
  "dbGetColumnByID env i =
     bindC (firstRow (gm_columns (db_gorm env)) (\<lambda>c. mcl_ID c = i)) (\<lambda>row. retC (toColumn row))"

definition dbCreateColumn :: "'w dbEnv \<Rightarrow> uuid \<Rightarrow> ColumnInput \<Rightarrow> ('w, Column) dbC" where
  "dbCreateColumn env tableID req =
     (if ci_Name req = [] then failC (Errorf ''name is required'')
      else bindC (dbGetTableByID env tableID) (\<lambda>_.
        bindC dbNewUUID (\<lambda>i.
        bindC (inDB (gt_create (gm_columns (db_gorm env)) (dbNewColumn i tableID (ci_Position req) req))) (\<lambda>row.
          retC (toColumn row)))))"

definition dbUpdateColumn :: "'w dbEnv \<Rightarrow> uuid \<Rightarrow> UpdateColumnRequest \<Rightarrow> ('w, Column) dbC" where
  "dbUpdateColumn env i req =
     bindC (dbGetColumnByID env i) (\<lambda>col.
       let c1 = (case ucr_DataType req of Some x \<Rightarrow> col\<lparr>c_DataType := x\<rparr> | None \<Rightarrow> col);
           c2 = (case ucr_RemoteName req of Some x \<Rightarrow> c1\<lparr>c_RemoteName := x\<rparr> | None \<Rightarrow> c1);
           c3 = (case ucr_Nullable req of Some x \<Rightarrow> c2\<lparr>c_Nullable := x\<rparr> | None \<Rightarrow> c2);
           c4 = (case ucr_Position req of Some x \<Rightarrow> c3\<lparr>c_Position := x\<rparr> | None \<Rightarrow> c3)
       in if ucr_DataType req = None \<and> ucr_RemoteName req = None \<and> ucr_Nullable req = None \<and> ucr_Position req = None
          then retC c4
          else bindC (inDB (gt_updates (gm_columns (db_gorm env)) i (\<lambda>r.
            let r = (case ucr_DataType req of Some x \<Rightarrow> r\<lparr>mcl_DataType := x\<rparr> | None \<Rightarrow> r);
                r = (case ucr_RemoteName req of Some x \<Rightarrow> r\<lparr>mcl_RemoteName := x\<rparr> | None \<Rightarrow> r);
                r = (case ucr_Nullable req of Some x \<Rightarrow> r\<lparr>mcl_Nullable := x\<rparr> | None \<Rightarrow> r)
            in (case ucr_Position req of Some x \<Rightarrow> r\<lparr>mcl_Position := x\<rparr> | None \<Rightarrow> r)))) (\<lambda>_. retC c4))"

definition dbDeleteColumn :: "'w dbEnv \<Rightarrow> uuid \<Rightarrow> ('w, unit) dbC" where
  "dbDeleteColumn env i = deleteRow (gm_columns (db_gorm env)) (\<lambda>c. mcl_ID c = i)"

section \<open>Functions\<close>

definition dbCreateFunction :: "'w dbEnv \<Rightarrow> CreateFunctionRequest \<Rightarrow> ('w, Function) dbC" where
  "dbCreateFunction env req =
     (if cfr_ServerName req = [] \<or> cfr_Name req = [] \<or> cfr_Operation req = [] then
        failC (Errorf ''serverName, name and operation are required'')
      else bindC (dbGetServerByName env (cfr_ServerName req)) (\<lambda>srv.
        bindC dbNewUUID (\<lambda>i.
        bindC (inDB (gt_create (gm_functions (db_gorm env))
          \<lparr>mfn_ID = i, mfn_ServerID = s_ID srv, mfn_SchemaName = orPublic (cfr_SchemaName req), mfn_Name = cfr_Name req,
           mfn_Operation = cfr_Operation req, mfn_RemotePath = cfr_RemotePath req, mfn_Method = cfr_Method req,
           mfn_Options = toJSONRaw (objectOr (cfr_Options req))\<rparr>)) (\<lambda>row.
          retC (toFunction row (s_Name srv))))))"

definition dbListFunctions :: "'w dbEnv \<Rightarrow> ('w, Function list) dbC" where
  "dbListFunctions env =
     bindC (inDB (gt_find (gm_functions (db_gorm env)) (\<lambda>_. True))) (\<lambda>rows.
     bindC (preloadServers (db_gorm env) (map mfn_ServerID rows)) (\<lambda>server.
       retC (map (\<lambda>f. toFunction f (msv_Name (server (mfn_ServerID f)))) rows)))"

definition dbResolveFunction :: "'w dbEnv \<Rightarrow> string \<Rightarrow> string \<Rightarrow> ('w, ResolvedFunction) dbC" where
  "dbResolveFunction env schema name =
     bindC (firstRow (gm_functions (db_gorm env)) (\<lambda>f. mfn_SchemaName f = schema \<and> mfn_Name f = name)) (\<lambda>row.
     bindC (preloadServers (db_gorm env) [mfn_ServerID row]) (\<lambda>server.
       let srv = toServer (server (mfn_ServerID row))
       in bindC (enabledOrFail srv) (\<lambda>_. retC \<lparr>rf_Function = toFunction row (s_Name srv), rf_Server = srv\<rparr>)))"

definition dbServerCredential :: "'w dbEnv \<Rightarrow> Server \<Rightarrow> ('w, row option) dbC" where
  "dbServerCredential env srv =
     (case s_CredentialRef srv of
        None \<Rightarrow> retC None
      | Some ref \<Rightarrow> bindC (dbResolveCredential env ref) (\<lambda>data. retC (Some data)))"

definition dbGetFunctionByID :: "'w dbEnv \<Rightarrow> uuid \<Rightarrow> ('w, Function) dbC" where
  "dbGetFunctionByID env i =
     bindC (firstRow (gm_functions (db_gorm env)) (\<lambda>f. mfn_ID f = i)) (\<lambda>row.
     bindC (preloadServers (db_gorm env) [mfn_ServerID row]) (\<lambda>server.
       retC (toFunction row (msv_Name (server (mfn_ServerID row))))))"

definition dbUpdateFunction :: "'w dbEnv \<Rightarrow> uuid \<Rightarrow> UpdateFunctionRequest \<Rightarrow> ('w, Function) dbC" where
  "dbUpdateFunction env i req =
     bindC (dbGetFunctionByID env i) (\<lambda>fn.
       let f1 = (case ufr_Operation req of Some x \<Rightarrow> fn\<lparr>f_Operation := x\<rparr> | None \<Rightarrow> fn);
           f2 = (case ufr_RemotePath req of Some x \<Rightarrow> f1\<lparr>f_RemotePath := x\<rparr> | None \<Rightarrow> f1);
           f3 = (case ufr_Method req of Some x \<Rightarrow> f2\<lparr>f_Method := x\<rparr> | None \<Rightarrow> f2);
           f4 = (if ufr_Options req \<noteq> RawEmpty then f3\<lparr>f_Options := ufr_Options req\<rparr> else f3)
       in if ufr_Operation req = None \<and> ufr_RemotePath req = None \<and> ufr_Method req = None \<and> ufr_Options req = RawEmpty
          then retC f4
          else bindC (inDB (gt_updates (gm_functions (db_gorm env)) i (\<lambda>r.
            let r = (case ufr_Operation req of Some x \<Rightarrow> r\<lparr>mfn_Operation := x\<rparr> | None \<Rightarrow> r);
                r = (case ufr_RemotePath req of Some x \<Rightarrow> r\<lparr>mfn_RemotePath := x\<rparr> | None \<Rightarrow> r);
                r = (case ufr_Method req of Some x \<Rightarrow> r\<lparr>mfn_Method := x\<rparr> | None \<Rightarrow> r)
            in if ufr_Options req \<noteq> RawEmpty then r\<lparr>mfn_Options := toJSONRaw (ufr_Options req)\<rparr> else r))) (\<lambda>_. retC f4))"

definition dbDeleteFunction :: "'w dbEnv \<Rightarrow> uuid \<Rightarrow> ('w, unit) dbC" where
  "dbDeleteFunction env i = deleteRow (gm_functions (db_gorm env)) (\<lambda>f. mfn_ID f = i)"

section \<open>Export (export.go)\<close>

definition rawMap :: "raw \<Rightarrow> row" where
  "rawMap r = (case r of RawJSON v \<Rightarrow> nodeOptions v | _ \<Rightarrow> [])"

definition credRefCount :: "Server list \<Rightarrow> uuid \<Rightarrow> nat" where
  "credRefCount servers i = length (filter (\<lambda>s. s_CredentialRef s = Some i) servers)"

text \<open>The secrets of a credential, read once; \<open>m\<close> holds the ones read so far.\<close>

definition exportCred :: "'w dbEnv \<Rightarrow> uuid \<Rightarrow> (uuid \<times> row) list \<Rightarrow> ('w, row \<times> (uuid \<times> row) list) dbC" where
  "exportCred env i m =
     (case map_of m i of
        Some data \<Rightarrow> retC (data, m)
      | None \<Rightarrow> bindC (dbResolveCredential env i) (\<lambda>data. retC (data, AList.update i data m)))"

definition exportServer :: "Server \<Rightarrow> row \<Rightarrow> DeclServer" where
  "exportServer srv cred =
     \<lparr>ds_Name = s_Name srv, ds_Protocol = s_Protocol srv, ds_Credential = cred, ds_Enabled = Some (s_Enabled srv),
      ds_Options = rawMap (s_Options srv)\<rparr>"

text \<open>The loop over the servers; a credential that several servers share is left out.\<close>

fun exportServers :: "'w dbEnv \<Rightarrow> Server list \<Rightarrow> Server list \<Rightarrow> (uuid \<times> row) list \<Rightarrow> ('w, DeclServer list) dbC" where
  "exportServers env servers [] m = retC []"
| "exportServers env servers (srv # srvs) m =
     (case s_CredentialRef srv of
        None \<Rightarrow> bindC (exportServers env servers srvs m) (\<lambda>ds. retC (exportServer srv [] # ds))
      | Some i \<Rightarrow>
          bindC (exportCred env i m) (\<lambda>(data, m').
          bindC (exportServers env servers srvs m') (\<lambda>ds.
            retC (exportServer srv (if credRefCount servers i = 1 then data else []) # ds))))"

definition exportColumn :: "nat \<Rightarrow> Column \<Rightarrow> DeclColumn" where
  "exportColumn k c =
     \<lparr>dcl_Name = c_Name c, dcl_DataType = c_DataType c, dcl_RemoteName = c_RemoteName c,
      dcl_Nullable = Some (c_Nullable c), dcl_Position = (if c_Position c = 0 then int k else c_Position c)\<rparr>"

definition exportTable :: "'w dbEnv \<Rightarrow> Table \<Rightarrow> ('w, DeclTable) dbC" where
  "exportTable env tbl =
     bindC (dbListColumns env (t_SchemaName tbl) (t_TableName tbl)) (\<lambda>cols.
       retC \<lparr>dt_Server = t_ServerName tbl, dt_Schema = t_SchemaName tbl, dt_Name = t_TableName tbl,
             dt_RemoteName = t_RemoteName tbl, dt_KeyColumns = t_KeyColumns tbl, dt_Options = rawMap (t_Options tbl),
             dt_Columns = map (\<lambda>(k, c). exportColumn k c) (zip [0..<length cols] cols)\<rparr>)"

definition exportFunction :: "Function \<Rightarrow> DeclFunction" where
  "exportFunction fn =
     \<lparr>df_Server = f_ServerName fn, df_Schema = f_SchemaName fn, df_Name = f_Name fn, df_Operation = f_Operation fn,
      df_RemotePath = f_RemotePath fn, df_Method = f_Method fn, df_Options = rawMap (f_Options fn)\<rparr>"

definition exportDeclarative :: "'w dbEnv \<Rightarrow> ('w, DeclarativeDoc) dbC" where
  "exportDeclarative env =
     bindC (dbListServers env) (\<lambda>servers.
     bindC (dbListTables env) (\<lambda>tbls.
     bindC (dbListFunctions env) (\<lambda>fns.
     bindC (exportServers env servers servers []) (\<lambda>ds.
     bindC (collectC (exportTable env) tbls) (\<lambda>dts.
       retC \<lparr>dd_Credentials = [], dd_Servers = ds, dd_Tables = dts, dd_Functions = map exportFunction fns\<rparr>)))))"

section \<open>Import (import.go)\<close>

definition credentialRow :: "CredentialRecord \<Rightarrow> err + MetaCredential" where
  "credentialRow c =
     bindE (decodePayload (crr_Payload c)) (\<lambda>payload.
       Inr \<lparr>mcr_ID = crr_ID c, mcr_Name = crr_Name c, mcr_Payload = payload, mcr_CreatedAt = crr_CreatedAt c\<rparr>)"

definition serverRow :: "ServerRecord \<Rightarrow> MetaServer" where
  "serverRow s =
     \<lparr>msv_ID = svr_ID s, msv_Name = svr_Name s, msv_Protocol = svr_Protocol s,
      msv_Options = toJSONRaw (nodeToRaw (svr_Options s)), msv_CredentialRef = svr_CredentialRef s,
      msv_Enabled = svr_Enabled s, msv_UpdatedAt = svr_UpdatedAt s\<rparr>"

definition tableRow :: "TableRecord \<Rightarrow> MetaForeignTable" where
  "tableRow t =
     \<lparr>mtb_ID = tbr_ID t, mtb_ServerID = tbr_ServerID t, mtb_SchemaName = tbr_SchemaName t, mtb_Name = tbr_TableName t,
      mtb_RemoteName = tbr_RemoteName t, mtb_KeyColumns = encodeKeyColumns (tbr_KeyColumns t),
      mtb_Options = toJSONRaw (nodeToRaw (tbr_Options t))\<rparr>"

definition columnRow :: "ColumnRecord \<Rightarrow> MetaForeignColumn" where
  "columnRow c =
     \<lparr>mcl_ID = clr_ID c, mcl_TableID = clr_TableID c, mcl_Name = clr_Name c, mcl_DataType = clr_DataType c,
      mcl_RemoteName = clr_RemoteName c, mcl_Nullable = clr_Nullable c, mcl_Position = clr_Position c\<rparr>"

definition functionRow :: "FunctionRecord \<Rightarrow> MetaForeignFunction" where
  "functionRow f =
     \<lparr>mfn_ID = fnr_ID f, mfn_ServerID = fnr_ServerID f, mfn_SchemaName = fnr_SchemaName f, mfn_Name = fnr_Name f,
      mfn_Operation = fnr_Operation f, mfn_RemotePath = fnr_RemotePath f, mfn_Method = fnr_Method f,
      mfn_Options = toJSONRaw (nodeToRaw (fnr_Options f))\<rparr>"

definition createRow :: "('w, 'r) gormTable \<Rightarrow> 'r \<Rightarrow> ('w, unit) dbC" where
  "createRow t r = bindC (inDB (gt_create t r)) (\<lambda>_. retC ())"

definition deleteAll :: "('w, 'r) gormTable \<Rightarrow> ('w, unit) dbC" where
  "deleteAll t = bindC (inDB (gt_delete t (\<lambda>_. True))) (\<lambda>_. retC ())"

text \<open>The function that runs in the transaction, and the transaction.\<close>

definition replaceRows :: "'w gorm \<Rightarrow> snapshot \<Rightarrow> ('w, unit) dbC" where
  "replaceRows g snap =
       (bindC (deleteAll (gm_functions g)) (\<lambda>_.
        bindC (deleteAll (gm_columns g)) (\<lambda>_.
        bindC (deleteAll (gm_tables g)) (\<lambda>_.
        bindC (deleteAll (gm_servers g)) (\<lambda>_.
        bindC (deleteAll (gm_credentials g)) (\<lambda>_.
        bindC (eachC (\<lambda>c. bindC (liftC (credentialRow c)) (createRow (gm_credentials g))) (sn_Credentials snap)) (\<lambda>_.
        bindC (eachC (\<lambda>s. createRow (gm_servers g) (serverRow s)) (sn_Servers snap)) (\<lambda>_.
        bindC (eachC (\<lambda>t. createRow (gm_tables g) (tableRow t)) (sn_Tables snap)) (\<lambda>_.
        bindC (eachC (\<lambda>c. createRow (gm_columns g) (columnRow c)) (sn_Columns snap)) (\<lambda>_.
        eachC (\<lambda>f. createRow (gm_functions g) (functionRow f)) (sn_Functions snap)))))))))))"

definition replaceSnapshot :: "'w gorm \<Rightarrow> snapshot \<Rightarrow> ('w, unit) dbC" where
  "replaceSnapshot g snap = inTransaction g (replaceRows g snap)"

definition dbCompileEnv :: "'w dbEnv \<Rightarrow> 'w \<Rightarrow> compileEnv" where
  "dbCompileEnv env w =
     \<lparr>ce_vault = db_vault env, ce_nonce = db_nonce env, ce_now = db_now env w, ce_getenv = db_getenv env\<rparr>"

definition dbCompile :: "'w dbEnv \<Rightarrow> declarativeDoc \<Rightarrow> ('w, snapshot) dbC" where
  "dbCompile env doc s =
     (case compileDeclarative (dbCompileEnv env (dbs_world s)) doc (dbs_next s) of
        Inl e \<Rightarrow> (Inl e, s)
      | Inr (snap, next') \<Rightarrow> (Inr snap, s\<lparr>dbs_next := next'\<rparr>))"

definition dbImportDoc :: "'w dbEnv \<Rightarrow> DeclarativeDoc \<Rightarrow> string \<Rightarrow> ('w, DeclarativeDoc) dbC" where
  "dbImportDoc env doc mode0 =
     (let mode = (if mode0 = [] then ''replace'' else mode0)
      in if mode = ''merge'' then
           bindC (exportDeclarative env) (\<lambda>current. liftC (MergeDeclarativeDocs [current, doc]))
         else if mode \<noteq> ''replace'' then failC (Errorf (''unsupported import mode '' @ quoteGo mode))
         else retC doc)"

definition dbImportDeclarative :: "'w dbEnv \<Rightarrow> DeclarativeDoc \<Rightarrow> string \<Rightarrow> ('w, Result) dbC" where
  "dbImportDeclarative env doc mode =
     bindC (dbImportDoc env doc mode) (\<lambda>merged.
     bindC (dbCompile env (declarativeFromImporter merged)) (\<lambda>snap.
     bindC (replaceSnapshot (db_gorm env) snap) (\<lambda>_. retC (CountResult merged))))"

section \<open>Opening\<close>

text \<open>\<open>New\<close> and \<open>Ping\<close>; \<open>connect\<close>, \<open>ping\<close> and \<open>close\<close> act on a connection, \<open>migrate\<close> is \<open>AutoMigrate\<close> of the five entities.\<close>

definition dbNew ::
  "(dialect \<Rightarrow> string \<Rightarrow> ('w, err, 'db) comp) \<Rightarrow> ('db \<Rightarrow> ('w, err, unit) comp) \<Rightarrow> ('db \<Rightarrow> 'w \<Rightarrow> 'w) \<Rightarrow>
   ('db \<Rightarrow> ('w, err, unit) comp) \<Rightarrow> (string \<Rightarrow> string) \<Rightarrow> string \<Rightarrow> ('w, err, 'db) comp"
where
  "dbNew connect ping close migrate getenv dsn =
     bindC (openDB connect ping dsn) (\<lambda>gdb w.
       if AutoMigrateEnabled getenv then
         (case migrate gdb w of
            (Inl e, w1) \<Rightarrow> (Inl (Wrapf ''auto migrate: '' e []), close gdb w1)
          | (Inr _, w1) \<Rightarrow> (Inr gdb, w1))
       else (Inr gdb, w))"

definition dbPing ::
  "(dialect \<Rightarrow> string \<Rightarrow> ('w, err, 'db) comp) \<Rightarrow> ('db \<Rightarrow> ('w, err, unit) comp) \<Rightarrow> ('db \<Rightarrow> 'w \<Rightarrow> 'w) \<Rightarrow> string \<Rightarrow>
   ('w, err, unit) comp"
where
  "dbPing connect ping close dsn =
     bindC (openDB connect ping dsn) (\<lambda>gdb w. (case ping gdb w of (r, w1) \<Rightarrow> (r, close gdb w1)))"

text \<open>The store as the engine uses it.\<close>

definition dbMetaStore :: "'w dbEnv \<Rightarrow> 'w dbStore store" where
  "dbMetaStore env =
     \<lparr>st_ListServers = dbListServers env, st_ListTables = dbListTables env, st_ListFunctions = dbListFunctions env,
      st_ListColumns = dbListColumns env, st_ResolveTable = dbResolveTable env,
      st_ResolveFunction = dbResolveFunction env, st_ServerCredential = dbServerCredential env\<rparr>"

end
