(* ===== verification/DbFacts.thy ===== *)
theory DbFacts
  imports DbStore StoreInvariants "HOL-Library.Product_Lexorder"
begin

text \<open>
  The database store against the file store. What GORM is documented to do is stated as predicates on the
  record of its calls: reading gives the rows that satisfy the condition, in order; creating a row replaces
  zero values by the defaults of the entity's tags and respects its unique indexes; a transaction that is rolled back
  leaves no trace. Under the laws of reading, a database that holds the rows of a snapshot answers every call of the
  engine as the file store does.
\<close>

section \<open>Sorting\<close>

lemma sorted_key_unique:
  fixes key :: "'a \<Rightarrow> 'k :: linorder"
  assumes "mset xs = mset ys" "sorted (map key xs)" "sorted (map key ys)" "distinct (map key xs)"
  shows "xs = ys"
proof -
  have "mset (map key xs) = mset (map key ys)" using assms(1) by (metis mset_map)
  then have keys: "map key xs = map key ys"
    using properties_for_sort [of "map key xs" "map key ys"] properties_for_sort [of "map key ys" "map key ys"] assms(2,3) by simp
  moreover have "inj_on key (set xs \<union> set ys)"
    using assms(1,4) mset_eq_setD [OF assms(1)] by (simp add: distinct_map)
  ultimately show ?thesis by (metis map_inj_on)
qed

lemma insort_lex:
  fixes f :: "'a \<Rightarrow> 'k :: linorder" and g :: "'a \<Rightarrow> 'l :: linorder"
  assumes "sorted (map (\<lambda>x. (f x, g x)) zs)" "\<forall>z\<in>set zs. g y \<le> g z"
  shows "sorted (map (\<lambda>x. (f x, g x)) (insort_key f y zs))"
  using assms by (induction zs) (auto simp: set_insort_key)

lemma sort_sort_lex:
  fixes f :: "'a \<Rightarrow> 'k :: linorder" and g :: "'a \<Rightarrow> 'l :: linorder"
  shows "sorted (map (\<lambda>x. (f x, g x)) (sort_key f (sort_key g xs)))"
proof -
  have "sorted (map g ys) \<Longrightarrow> sorted (map (\<lambda>x. (f x, g x)) (sort_key f ys))" for ys
    by (induction ys) (auto simp: insort_lex)
  then show ?thesis by simp
qed

section \<open>Reading\<close>

text \<open>\<open>First\<close> gives some row that satisfies the condition, \<open>Find\<close> all of them in the order of \<open>key\<close>; reading
  changes nothing.\<close>

definition readsRows :: "('w, 'r) gormTable \<Rightarrow> ('w \<Rightarrow> 'r list) \<Rightarrow> ('r \<Rightarrow> 'k :: linorder) \<Rightarrow> bool" where
  "readsRows t rows key \<longleftrightarrow>
     (\<forall>p w. \<exists>r. gt_first t p w = (Inr r, w) \<and>
        (case r of None \<Rightarrow> \<forall>x\<in>set (rows w). \<not> p x | Some x \<Rightarrow> x \<in> set (rows w) \<and> p x)) \<and>
     (\<forall>p w. \<exists>rs. gt_find t p w = (Inr rs, w) \<and> mset rs = mset (filter p (rows w)) \<and> sorted (map key rs))"

text \<open>The rows of the five tables.\<close>

record 'w dbRows =
  dr_credentials :: "'w \<Rightarrow> MetaCredential list"
  dr_servers :: "'w \<Rightarrow> MetaServer list"
  dr_tables :: "'w \<Rightarrow> MetaForeignTable list"
  dr_columns :: "'w \<Rightarrow> MetaForeignColumn list"
  dr_functions :: "'w \<Rightarrow> MetaForeignFunction list"

text \<open>What is assumed of reading: a read of a working connection succeeds and leaves the database alone, and \<open>ORDER BY\<close> compares
  bytes, as SQLite and the C collation of PostgreSQL do; under another collation lists can come in another order.\<close>

definition gormReads :: "'w gorm \<Rightarrow> 'w dbRows \<Rightarrow> bool" where
  "gormReads g rows \<longleftrightarrow>
     readsRows (gm_credentials g) (dr_credentials rows) mcr_Name \<and>
     readsRows (gm_servers g) (dr_servers rows) msv_Name \<and>
     readsRows (gm_tables g) (dr_tables rows) (\<lambda>t. (mtb_SchemaName t, mtb_Name t)) \<and>
     readsRows (gm_columns g) (dr_columns rows) (\<lambda>c. (mcl_Position c, mcl_Name c)) \<and>
     readsRows (gm_functions g) (dr_functions rows) (\<lambda>f. (mfn_SchemaName f, mfn_Name f))"

text \<open>The database holds a snapshot: its rows are the snapshot's records, in any order.\<close>

definition dbHolds :: "'w dbRows \<Rightarrow> 'w \<Rightarrow> snapshot \<Rightarrow> bool" where
  "dbHolds rows w d \<longleftrightarrow>
     mset (map Inr (dr_credentials rows w)) = mset (map credentialRow (sn_Credentials d)) \<and>
     mset (dr_servers rows w) = mset (map serverRow (sn_Servers d)) \<and>
     mset (dr_tables rows w) = mset (map tableRow (sn_Tables d)) \<and>
     mset (dr_columns rows w) = mset (map columnRow (sn_Columns d)) \<and>
     mset (dr_functions rows w) = mset (map functionRow (sn_Functions d))"

text \<open>\<open>First\<close> on rows that are the images of records with a key: the image of the record the file store finds.\<close>

lemma firstRow_holds:
  assumes reads: "readsRows t rows ord" and holds: "mset (rows (dbs_world s)) = mset (map h xs)"
    and dist: "distinct (map f xs)" and p: "\<And>x. p (h x) \<longleftrightarrow> f x = k"
  shows "firstRow t p s = (orNotFound (map_option h (find (\<lambda>x. f x = k) xs)), s)"
proof -
  from reads obtain r where r: "gt_first t p (dbs_world s) = (Inr r, dbs_world s)"
    "case r of None \<Rightarrow> \<forall>x\<in>set (rows (dbs_world s)). \<not> p x | Some x \<Rightarrow> x \<in> set (rows (dbs_world s)) \<and> p x"
    unfolding readsRows_def by blast
  have set: "set (rows (dbs_world s)) = h ` set xs" using mset_eq_setD [OF holds] by simp
  have "r = map_option h (find (\<lambda>x. f x = k) xs)"
  proof (cases r)
    case None
    with r(2) set have "\<forall>x\<in>set xs. f x \<noteq> k" using p by auto
    then show ?thesis using None by (simp add: find_None_iff)
  next
    case (Some y)
    with r(2) set p obtain x where x: "x \<in> set xs" "y = h x" "f x = k" by auto
    then have "find (\<lambda>z. f z = k) xs = Some x" using find_unique [OF dist x(1)] by simp
    then show ?thesis using Some x by simp
  qed
  then show ?thesis
    using r(1) by (simp add: firstRow_def bindC_def inDB_def liftC_def)
qed

lemma find_holds:
  assumes reads: "readsRows t rows ord" and holds: "mset (rows (dbs_world s)) = mset (map h xs)"
  obtains rs where "inDB (gt_find t p) s = (Inr rs, s)" "mset rs = mset (map h (filter (\<lambda>x. p (h x)) xs))" "sorted (map ord rs)"
proof -
  from reads obtain rs where rs: "gt_find t p (dbs_world s) = (Inr rs, dbs_world s)"
    "mset rs = mset (filter p (rows (dbs_world s)))" "sorted (map ord rs)" unfolding readsRows_def by blast
  have "mset (filter p (rows (dbs_world s))) = mset (filter p (map h xs))" using holds by (metis mset_filter)
  also have "filter p (map h xs) = map h (filter (\<lambda>x. p (h x)) xs)" by (simp add: filter_map comp_def)
  finally show ?thesis using that rs by (simp add: inDB_def)
qed

text \<open>All rows in order are the records sorted by any key that orders them the same way.\<close>

lemma find_sorted:
  assumes reads: "readsRows t rows ord" and holds: "mset (rows (dbs_world s)) = mset (map h xs)"
    and perm: "mset ys = mset (filter (\<lambda>x. p (h x)) xs)" and sorted: "sorted (map (\<lambda>x. ord (h x)) ys)"
    and dist: "distinct (map (\<lambda>x. ord (h x)) ys)"
  shows "inDB (gt_find t p) s = (Inr (map h ys), s)"
proof -
  obtain rs where rs: "inDB (gt_find t p) s = (Inr rs, s)" "mset rs = mset (map h (filter (\<lambda>x. p (h x)) xs))"
    "sorted (map ord rs)" by (rule find_holds [OF reads holds])
  have m: "mset (map h ys) = mset rs" using perm rs(2) by (metis mset_map)
  have "map h ys = rs" using sorted_key_unique [OF m _ rs(3)] sorted dist by (simp add: comp_def)
  with rs(1) show ?thesis by simp
qed

section \<open>Writing\<close>

text \<open>
  What the tags of the entities say. \<open>Create\<close> leaves a field with a zero value and a \<open>default\<close> tag to its default, and
  the row it fills in has that value; \<open>primaryKey\<close> and \<open>uniqueIndex\<close> forbid two rows that agree there. The index
  \<open>idx_meta_columns_table_name\<close> is declared for the name of a column only, those of tables and functions for schema and name.
\<close>

definition orTag :: "'a \<Rightarrow> 'a \<Rightarrow> 'a \<Rightarrow> 'a" where
  "orTag zero dflt x = (if x = zero then dflt else x)"

definition serverDefaults :: "MetaServer \<Rightarrow> MetaServer" where
  "serverDefaults r =
     r\<lparr>msv_Options := orTag RawEmpty (RawJSON (VObj [])) (msv_Options r), msv_Enabled := orTag False True (msv_Enabled r)\<rparr>"

definition tableDefaults :: "MetaForeignTable \<Rightarrow> MetaForeignTable" where
  "tableDefaults r =
     r\<lparr>mtb_SchemaName := orTag [] ''public'' (mtb_SchemaName r),
       mtb_KeyColumns := orTag RawEmpty (RawJSON (VArr [])) (mtb_KeyColumns r),
       mtb_Options := orTag RawEmpty (RawJSON (VObj [])) (mtb_Options r)\<rparr>"

definition columnDefaults :: "MetaForeignColumn \<Rightarrow> MetaForeignColumn" where
  "columnDefaults r =
     r\<lparr>mcl_DataType := orTag [] ''text'' (mcl_DataType r), mcl_Nullable := orTag False True (mcl_Nullable r),
       mcl_Position := orTag 0 0 (mcl_Position r)\<rparr>"

definition functionDefaults :: "MetaForeignFunction \<Rightarrow> MetaForeignFunction" where
  "functionDefaults r =
     r\<lparr>mfn_SchemaName := orTag [] ''public'' (mfn_SchemaName r), mfn_Options := orTag RawEmpty (RawJSON (VObj [])) (mfn_Options r)\<rparr>"

definition credentialClash :: "MetaCredential \<Rightarrow> MetaCredential \<Rightarrow> bool" where
  "credentialClash a b \<longleftrightarrow> mcr_ID a = mcr_ID b \<or> mcr_Name a = mcr_Name b"

definition serverClash :: "MetaServer \<Rightarrow> MetaServer \<Rightarrow> bool" where
  "serverClash a b \<longleftrightarrow> msv_ID a = msv_ID b \<or> msv_Name a = msv_Name b"

definition tableClash :: "MetaForeignTable \<Rightarrow> MetaForeignTable \<Rightarrow> bool" where
  "tableClash a b \<longleftrightarrow> mtb_ID a = mtb_ID b \<or> mtb_SchemaName a = mtb_SchemaName b \<and> mtb_Name a = mtb_Name b"

definition columnClash :: "MetaForeignColumn \<Rightarrow> MetaForeignColumn \<Rightarrow> bool" where
  "columnClash a b \<longleftrightarrow> mcl_ID a = mcl_ID b \<or> mcl_Name a = mcl_Name b"

definition functionClash :: "MetaForeignFunction \<Rightarrow> MetaForeignFunction \<Rightarrow> bool" where
  "functionClash a b \<longleftrightarrow> mfn_ID a = mfn_ID b \<or> mfn_SchemaName a = mfn_SchemaName b \<and> mfn_Name a = mfn_Name b"

text \<open>The rows of the five tables together.\<close>

record dbContent =
  dc_credentials :: "MetaCredential list"
  dc_servers :: "MetaServer list"
  dc_tables :: "MetaForeignTable list"
  dc_columns :: "MetaForeignColumn list"
  dc_functions :: "MetaForeignFunction list"

definition contentOf :: "'w dbRows \<Rightarrow> 'w \<Rightarrow> dbContent" where
  "contentOf rows w =
     \<lparr>dc_credentials = dr_credentials rows w, dc_servers = dr_servers rows w, dc_tables = dr_tables rows w,
      dc_columns = dr_columns rows w, dc_functions = dr_functions rows w\<rparr>"

text \<open>A successful \<open>Create\<close> adds the row with its defaults, which clashes with no row that was there, and changes
  no other table; a successful \<open>Delete\<close> leaves no row that satisfies the condition, and no table gains
  a row (some lose rows by cascading). Any call may fail.\<close>

definition createsRows ::
  "('w, 'r) gormTable \<Rightarrow> ('w \<Rightarrow> dbContent) \<Rightarrow> (dbContent \<Rightarrow> 'r list) \<Rightarrow> (('r list \<Rightarrow> 'r list) \<Rightarrow> dbContent \<Rightarrow> dbContent) \<Rightarrow>
   ('r \<Rightarrow> 'r) \<Rightarrow> ('r \<Rightarrow> 'r \<Rightarrow> bool) \<Rightarrow> bool"
where
  "createsRows t content get upd dflt clash \<longleftrightarrow>
     (\<forall>r w r' w'. gt_create t r w = (Inr r', w') \<longrightarrow>
        r' = dflt r \<and> (\<forall>x\<in>set (get (content w)). \<not> clash x r') \<and>
        content w' = upd (\<lambda>rs. rs @ [r']) (content w))"

definition fewerRows :: "dbContent \<Rightarrow> dbContent \<Rightarrow> bool" where
  "fewerRows a b \<longleftrightarrow>
     set (dc_credentials a) \<subseteq> set (dc_credentials b) \<and> set (dc_servers a) \<subseteq> set (dc_servers b) \<and>
     set (dc_tables a) \<subseteq> set (dc_tables b) \<and> set (dc_columns a) \<subseteq> set (dc_columns b) \<and>
     set (dc_functions a) \<subseteq> set (dc_functions b)"

definition deletesRows :: "('w, 'r) gormTable \<Rightarrow> ('w \<Rightarrow> dbContent) \<Rightarrow> (dbContent \<Rightarrow> 'r list) \<Rightarrow> bool" where
  "deletesRows t content get \<longleftrightarrow>
     (\<forall>p w n w'. gt_delete t p w = (Inr n, w') \<longrightarrow>
        (\<forall>x\<in>set (get (content w')). \<not> p x) \<and> fewerRows (content w') (content w))"

definition gormWrites :: "'w gorm \<Rightarrow> ('w \<Rightarrow> dbContent) \<Rightarrow> bool" where
  "gormWrites g content \<longleftrightarrow>
     createsRows (gm_credentials g) content dc_credentials dc_credentials_update (\<lambda>r. r) credentialClash \<and>
     createsRows (gm_servers g) content dc_servers dc_servers_update serverDefaults serverClash \<and>
     createsRows (gm_tables g) content dc_tables dc_tables_update tableDefaults tableClash \<and>
     createsRows (gm_columns g) content dc_columns dc_columns_update columnDefaults columnClash \<and>
     createsRows (gm_functions g) content dc_functions dc_functions_update functionDefaults functionClash \<and>
     deletesRows (gm_credentials g) content dc_credentials \<and> deletesRows (gm_servers g) content dc_servers \<and>
     deletesRows (gm_tables g) content dc_tables \<and> deletesRows (gm_columns g) content dc_columns \<and>
     deletesRows (gm_functions g) content dc_functions"

text \<open>Transactions: \<open>saved\<close> is what the database would be rolled back to. Calls on tables do not change it, \<open>begin\<close>
  sets it, a rollback and a failed commit go back to it, a successful commit keeps the content.\<close>

definition keepsSaved :: "('w \<Rightarrow> dbContent) \<Rightarrow> ('w, 'r) gormTable \<Rightarrow> bool" where
  "keepsSaved saved t \<longleftrightarrow>
     (\<forall>r w. saved (snd (gt_create t r w)) = saved w) \<and> (\<forall>p w. saved (snd (gt_delete t p w)) = saved w)"

definition gormTransacts :: "'w gorm \<Rightarrow> ('w \<Rightarrow> dbContent) \<Rightarrow> ('w \<Rightarrow> dbContent) \<Rightarrow> bool" where
  "gormTransacts g content saved \<longleftrightarrow>
     (\<forall>w. content (snd (gm_begin g w)) = content w) \<and>
     (\<forall>w w'. gm_begin g w = (Inr (), w') \<longrightarrow> saved w' = content w) \<and>
     (\<forall>w. content (snd (gm_rollback g w)) = saved w) \<and>
     (\<forall>w w'. gm_commit g w = (Inr (), w') \<longrightarrow> content w' = content w) \<and>
     (\<forall>w e w'. gm_commit g w = (Inl e, w') \<longrightarrow> content w' = saved w) \<and>
     keepsSaved saved (gm_credentials g) \<and> keepsSaved saved (gm_servers g) \<and> keepsSaved saved (gm_tables g) \<and>
     keepsSaved saved (gm_columns g) \<and> keepsSaved saved (gm_functions g)"

end
