(* ===== verification/DbMemory.thy ===== *)
theory DbMemory
  imports DbFacts
begin

text \<open>
  A database in memory that satisfies the laws of GORM: the content, and what a rollback goes back to. It shows that the
  laws can hold together, and the store runs on it.
\<close>

record memDB =
  md_now :: dbContent
  md_saved :: dbContent

text \<open>Foreign keys: rows of missing servers and tables go with them.\<close>

definition cascade :: "dbContent \<Rightarrow> dbContent" where
  "cascade c =
     (let servers = map msv_ID (dc_servers c);
          tables = filter (\<lambda>t. mtb_ServerID t \<in> set servers) (dc_tables c)
      in c\<lparr>dc_tables := tables,
           dc_columns := filter (\<lambda>x. mcl_TableID x \<in> mtb_ID ` set tables) (dc_columns c),
           dc_functions := filter (\<lambda>f. mfn_ServerID f \<in> set servers) (dc_functions c)\<rparr>)"

definition memTable ::
  "(dbContent \<Rightarrow> 'r list) \<Rightarrow> (('r list \<Rightarrow> 'r list) \<Rightarrow> dbContent \<Rightarrow> dbContent) \<Rightarrow> ('r \<Rightarrow> uuid) \<Rightarrow> ('r \<Rightarrow> 'k :: linorder) \<Rightarrow>
   ('r \<Rightarrow> 'r) \<Rightarrow> ('r \<Rightarrow> 'r \<Rightarrow> bool) \<Rightarrow> (memDB, 'r) gormTable"
where
  "memTable get upd ident key dflt clash =
     \<lparr>gt_create = (\<lambda>r w.
        if list_ex (\<lambda>x. clash x (dflt r)) (get (md_now w)) then (Inl (Errorf ''UNIQUE constraint failed''), w)
        else (Inr (dflt r), w\<lparr>md_now := upd (\<lambda>rs. rs @ [dflt r]) (md_now w)\<rparr>)),
      gt_first = (\<lambda>p w. (Inr (find p (get (md_now w))), w)),
      gt_find = (\<lambda>p w. (Inr (sort_key key (filter p (get (md_now w)))), w)),
      gt_updates = (\<lambda>i f w. (Inr (), w\<lparr>md_now := upd (map (\<lambda>r. if ident r = i then f r else r)) (md_now w)\<rparr>)),
      gt_delete = (\<lambda>p w. (Inr (length (filter p (get (md_now w)))),
        w\<lparr>md_now := cascade (upd (filter (\<lambda>r. \<not> p r)) (md_now w))\<rparr>))\<rparr>"

definition memGorm :: "memDB gorm" where
  "memGorm =
     \<lparr>gm_credentials = memTable dc_credentials dc_credentials_update mcr_ID mcr_Name (\<lambda>r. r) credentialClash,
      gm_servers = memTable dc_servers dc_servers_update msv_ID msv_Name serverDefaults serverClash,
      gm_tables = memTable dc_tables dc_tables_update mtb_ID (\<lambda>t. (mtb_SchemaName t, mtb_Name t)) tableDefaults tableClash,
      gm_columns = memTable dc_columns dc_columns_update mcl_ID (\<lambda>c. (mcl_Position c, mcl_Name c)) columnDefaults columnClash,
      gm_functions = memTable dc_functions dc_functions_update mfn_ID (\<lambda>f. (mfn_SchemaName f, mfn_Name f)) functionDefaults functionClash,
      gm_begin = (\<lambda>w. (Inr (), w\<lparr>md_saved := md_now w\<rparr>)),
      gm_commit = (\<lambda>w. (Inr (), w)),
      gm_rollback = (\<lambda>w. (Inr (), w\<lparr>md_now := md_saved w\<rparr>))\<rparr>"

definition memRows :: "memDB dbRows" where
  "memRows =
     \<lparr>dr_credentials = \<lambda>w. dc_credentials (md_now w), dr_servers = \<lambda>w. dc_servers (md_now w),
      dr_tables = \<lambda>w. dc_tables (md_now w), dr_columns = \<lambda>w. dc_columns (md_now w),
      dr_functions = \<lambda>w. dc_functions (md_now w)\<rparr>"

lemma memTable_reads: "readsRows (memTable get upd i key dflt clash) (\<lambda>w. get (md_now w)) key"
  by (auto simp: readsRows_def memTable_def find_None_iff find_Some_iff split: option.split)

lemma memGorm_reads: "gormReads memGorm memRows"
  unfolding gormReads_def memGorm_def memRows_def by (simp add: memTable_reads)

lemma memTable_creates: "createsRows (memTable get upd i key dflt clash) md_now get upd dflt clash"
  by (auto simp: createsRows_def memTable_def list_ex_iff split: if_splits)

lemma memTable_deletes:
  assumes "\<And>p c. set (get (cascade (upd (filter p) c))) \<subseteq> {x \<in> set (get c). p x}"
    and "\<And>p c. fewerRows (cascade (upd (filter p) c)) c"
  shows "deletesRows (memTable get upd i key dflt clash) md_now get"
  using assms by (fastforce simp: deletesRows_def memTable_def)

lemma memGorm_writes: "gormWrites memGorm md_now"
  unfolding gormWrites_def memGorm_def
  by (simp add: memTable_creates, intro conjI; rule memTable_deletes) (auto simp: cascade_def fewerRows_def Let_def)

lemma memTable_keeps: "keepsSaved md_saved (memTable get upd i key dflt clash)"
  by (auto simp: keepsSaved_def memTable_def)

lemma memGorm_transacts: "gormTransacts memGorm md_now md_saved"
  unfolding gormTransacts_def memGorm_def by (simp add: memTable_keeps)

end
