(* ===== verification/DbEquiv.thy ===== *)
theory DbEquiv
  imports DbMemory Reload
begin

text \<open>
  Reading from the database store and from the file store is the same: when the rows of the database are the
  records of the file store's snapshot, every call the engine makes gives the same result on both stores, errors included.
\<close>

section \<open>Records and rows\<close>

lemma toServer_row [simp]: "toServer (serverRow r) = serverModel r"
  by (simp add: toServer_def serverRow_def serverModel_def rawJSON_def toJSONRaw_def nodeToRaw_def)

lemma decode_encode_keys [simp]: "decodeKeyColumns (encodeKeyColumns ks) = ks"
  by (induction ks) (auto simp: decodeKeyColumns_def encodeKeyColumns_def list_all_iff)

lemma toTable_row [simp]: "toTable (tableRow r) n = (tableModel r)\<lparr>t_ServerName := n\<rparr>"
  by (simp add: toTable_def tableRow_def tableModel_def rawJSON_def toJSONRaw_def nodeToRaw_def)

lemma toColumn_row [simp]: "toColumn (columnRow r) = columnModel r"
  by (simp add: toColumn_def columnRow_def columnModel_def)

lemma toFunction_row [simp]: "toFunction (functionRow r) n = (functionModel r)\<lparr>f_ServerName := n\<rparr>"
  by (simp add: toFunction_def functionRow_def functionModel_def rawJSON_def toJSONRaw_def nodeToRaw_def)

lemma row_fields [simp]:
  "msv_ID (serverRow r) = svr_ID r" "msv_Name (serverRow r) = svr_Name r"
  "mtb_ID (tableRow t) = tbr_ID t" "mtb_ServerID (tableRow t) = tbr_ServerID t"
  "mtb_SchemaName (tableRow t) = tbr_SchemaName t" "mtb_Name (tableRow t) = tbr_TableName t"
  "mcl_ID (columnRow c) = clr_ID c" "mcl_TableID (columnRow c) = clr_TableID c"
  "mcl_Name (columnRow c) = clr_Name c" "mcl_Position (columnRow c) = clr_Position c"
  "mfn_ID (functionRow f) = fnr_ID f" "mfn_ServerID (functionRow f) = fnr_ServerID f"
  "mfn_SchemaName (functionRow f) = fnr_SchemaName f" "mfn_Name (functionRow f) = fnr_Name f"
  by (simp_all add: serverRow_def tableRow_def columnRow_def functionRow_def)

lemma model_fields [simp]:
  "s_Name (serverModel r) = svr_Name r" "s_Enabled (serverModel r) = svr_Enabled r"
  "t_SchemaName (tableModel t) = tbr_SchemaName t" "t_TableName (tableModel t) = tbr_TableName t"
  "c_Position (columnModel c) = clr_Position c" "c_Name (columnModel c) = clr_Name c"
  "f_SchemaName (functionModel f) = fnr_SchemaName f" "f_Name (functionModel f) = fnr_Name f"
  by (simp_all add: serverModel_def tableModel_def columnModel_def functionModel_def)

lemma sort_key_map: "sort_key f (map g xs) = map g (sort_key (\<lambda>x. f (g x)) xs)"
proof -
  have "insort_key f (g x) (map g ys) = map g (insort_key (\<lambda>x. f (g x)) x ys)" for x ys by (induction ys) auto
  then show ?thesis by (induction xs) auto
qed

section \<open>The two states\<close>

text \<open>The settings of the two stores agree, and the database holds the snapshot of the file store, which
  satisfies its invariants; no table has two columns of one name.\<close>

definition sameSettings :: "'w dbEnv \<Rightarrow> 'w dbRows \<Rightarrow> 'v fileEnv \<Rightarrow> bool" where
  "sameSettings env rows fenv \<longleftrightarrow> gormReads (db_gorm env) rows \<and> db_vault env = fe_vault fenv"

definition sameMetadata :: "'w dbRows \<Rightarrow> 'w dbStore \<Rightarrow> 'v fileStore \<Rightarrow> bool" where
  "sameMetadata rows s t \<longleftrightarrow>
     dbHolds rows (dbs_world s) (st_data t) \<and> storeOk True (st_data t) (st_next t) \<and>
     distinct (map (\<lambda>c. (clr_TableID c, clr_Name c)) (sn_Columns (st_data t)))"

lemma sameMetadata_holds:
  assumes "sameMetadata rows s t"
  shows "mset (map Inr (dr_credentials rows (dbs_world s))) = mset (map credentialRow (sn_Credentials (st_data t)))"
    "mset (dr_servers rows (dbs_world s)) = mset (map serverRow (sn_Servers (st_data t)))"
    "mset (dr_tables rows (dbs_world s)) = mset (map tableRow (sn_Tables (st_data t)))"
    "mset (dr_columns rows (dbs_world s)) = mset (map columnRow (sn_Columns (st_data t)))"
    "mset (dr_functions rows (dbs_world s)) = mset (map functionRow (sn_Functions (st_data t)))"
  using assms unfolding sameMetadata_def dbHolds_def by blast+

lemma sameMetadata_ok:
  assumes "sameMetadata rows s t"
  shows "distinct (map crr_ID (sn_Credentials (st_data t)))" "distinct (map svr_ID (sn_Servers (st_data t)))"
    "distinct (map tbr_ID (sn_Tables (st_data t)))" "distinct (map clr_ID (sn_Columns (st_data t)))"
    "distinct (map fnr_ID (sn_Functions (st_data t)))" "distinct (map svr_Name (sn_Servers (st_data t)))"
    "distinct (map (\<lambda>r. (tbr_SchemaName r, tbr_TableName r)) (sn_Tables (st_data t)))"
    "distinct (map (\<lambda>r. (fnr_SchemaName r, fnr_Name r)) (sn_Functions (st_data t)))"
    "tbr_ServerID ` set (sn_Tables (st_data t)) \<subseteq> svr_ID ` set (sn_Servers (st_data t))"
    "fnr_ServerID ` set (sn_Functions (st_data t)) \<subseteq> svr_ID ` set (sn_Servers (st_data t))"
  using assms by (auto simp: sameMetadata_def storeOk_defs idsOk_def)

lemma sameSettings_reads:
  assumes "sameSettings env rows fenv"
  shows "readsRows (gm_credentials (db_gorm env)) (dr_credentials rows) mcr_Name"
    "readsRows (gm_servers (db_gorm env)) (dr_servers rows) msv_Name"
    "readsRows (gm_tables (db_gorm env)) (dr_tables rows) (\<lambda>t. (mtb_SchemaName t, mtb_Name t))"
    "readsRows (gm_columns (db_gorm env)) (dr_columns rows) (\<lambda>c. (mcl_Position c, mcl_Name c))"
    "readsRows (gm_functions (db_gorm env)) (dr_functions rows) (\<lambda>f. (mfn_SchemaName f, mfn_Name f))"
  using assms unfolding sameSettings_def gormReads_def by blast+

section \<open>Reading in the database\<close>

lemma bindC_run: "m s = (Inr x, s') \<Longrightarrow> bindC m k s = k x s'"
  by (simp add: bindC_def)

lemma firstRow_bind:
  assumes "firstRow t p s = (orNotFound r, s)"
  shows "bindC (firstRow t p) k s = (case r of None \<Rightarrow> (Inl ErrNotFound, s) | Some x \<Rightarrow> k x s)"
  using assms by (simp add: bindC_def orNotFound_def split: option.split)

lemma preload_holds:
  assumes "sameSettings env rows fenv" "sameMetadata rows s t"
    and ids: "set ids \<subseteq> svr_ID ` set (sn_Servers (st_data t))"
  obtains f where "preloadServers (db_gorm env) ids s = (Inr f, s)"
    "\<And>i. i \<in> set ids \<Longrightarrow> \<exists>r. find (\<lambda>r. svr_ID r = i) (sn_Servers (st_data t)) = Some r \<and> f i = serverRow r"
proof (cases "ids = []")
  case True
  then show ?thesis using that by (simp add: preloadServers_def retC_def)
next
  case False
  let ?xs = "sn_Servers (st_data t)"
  obtain rs where rs: "inDB (gt_find (gm_servers (db_gorm env)) (\<lambda>s. msv_ID s \<in> set ids)) s = (Inr rs, s)"
    "mset rs = mset (map serverRow (filter (\<lambda>x. msv_ID (serverRow x) \<in> set ids) ?xs))"
    by (rule find_holds [OF sameSettings_reads(2) [OF assms(1)] sameMetadata_holds(2) [OF assms(2)]])
  have "mset (map msv_ID rs) = mset (map svr_ID (filter (\<lambda>x. svr_ID x \<in> set ids) ?xs))"
    using arg_cong [OF rs(2), of "image_mset msv_ID"] by (simp add: image_mset.compositionality comp_def)
  then have dist: "distinct (map msv_ID rs)"
    using sameMetadata_ok(2) [OF assms(2)] by (metis mset_eq_imp_distinct_iff distinct_map_filter)
  have "\<exists>r. find (\<lambda>r. svr_ID r = i) ?xs = Some r \<and> serverOf rs i = serverRow r" if i: "i \<in> set ids" for i
  proof -
    from i ids obtain r where r: "r \<in> set ?xs" "svr_ID r = i" by auto
    have "serverRow r \<in> set rs" using mset_eq_setD [OF rs(2)] r i by auto
    from find_unique [OF dist this] find_unique [OF sameMetadata_ok(2) [OF assms(2)] r(1)] r(2)
    show ?thesis by (simp add: serverOf_def)
  qed
  moreover have "preloadServers (db_gorm env) ids s = (Inr (serverOf rs), s)"
    using False rs(1) by (simp add: preloadServers_def bindC_run retC_def)
  ultimately show ?thesis using that by blast
qed

lemma preload_one:
  assumes "sameSettings env rows fenv" "sameMetadata rows s t" "i \<in> svr_ID ` set (sn_Servers (st_data t))"
  obtains f r where "preloadServers (db_gorm env) [i] s = (Inr f, s)" "f i = serverRow r"
    "find (\<lambda>r. svr_ID r = i) (sn_Servers (st_data t)) = Some r"
proof -
  have "set [i] \<subseteq> svr_ID ` set (sn_Servers (st_data t))" using assms(3) by simp
  from preload_holds [OF assms(1,2) this] obtain f where
    "preloadServers (db_gorm env) [i] s = (Inr f, s)"
    "\<exists>r. find (\<lambda>r. svr_ID r = i) (sn_Servers (st_data t)) = Some r \<and> f i = serverRow r" by (metis list.set_intros(1))
  then show ?thesis using that by blast
qed

section \<open>The operations\<close>

lemma dbListServers_same:
  assumes "sameSettings env rows fenv" "sameMetadata rows s t"
  shows "dbListServers env s = (fst (ListServers t), s)"
proof -
  let ?ys = "sort_key svr_Name (sn_Servers (st_data t))"
  have "inDB (gt_find (gm_servers (db_gorm env)) (\<lambda>_. True)) s = (Inr (map serverRow ?ys), s)"
    using sameMetadata_ok(6) [OF assms(2)]
    by (intro find_sorted [OF sameSettings_reads(2) [OF assms(1)] sameMetadata_holds(2) [OF assms(2)]])
      (auto simp: distinct_map)
  then show ?thesis
    by (simp add: dbListServers_def bindC_run retC_def ListServers_def readData_def sort_key_map comp_def)
qed

lemma dbColumnsOf_same:
  assumes "sameSettings env rows fenv" "sameMetadata rows s t"
  shows "dbColumnsOf env i s = (Inr (columnsForTableLocked (st_data t) i), s)"
proof -
  let ?cs = "filter (\<lambda>c. clr_TableID c = i) (sn_Columns (st_data t))"
  let ?ys = "sort_key clr_Position (sort_key clr_Name ?cs)"
  have "distinct (map clr_Name ?cs)"
    using assms(2) by (auto simp: sameMetadata_def distinct_map inj_on_def)
  then have "distinct (map (\<lambda>c. (clr_Position c, clr_Name c)) ?ys)"
    by (auto simp: distinct_map inj_on_def)
  then have "inDB (gt_find (gm_columns (db_gorm env)) (\<lambda>c. mcl_TableID c = i)) s = (Inr (map columnRow ?ys), s)"
    by (intro find_sorted [OF sameSettings_reads(4) [OF assms(1)] sameMetadata_holds(4) [OF assms(2)]])
      (simp_all add: sort_sort_lex)
  then show ?thesis
    by (simp add: dbColumnsOf_def bindC_run retC_def columnsForTableLocked_def sortColumns_def sort_key_map comp_def)
qed

lemma firstTable_same:
  assumes "sameSettings env rows fenv" "sameMetadata rows s t"
  shows "firstRow (gm_tables (db_gorm env)) (\<lambda>x. mtb_SchemaName x = schema \<and> mtb_Name x = table) s =
    (orNotFound (map_option tableRow (findTable (st_data t) schema table)), s)"
proof -
  have "findTable (st_data t) schema table =
      find (\<lambda>x. (tbr_SchemaName x, tbr_TableName x) = (schema, table)) (sn_Tables (st_data t))"
    by (simp add: findTable_def)
  then show ?thesis
    using firstRow_holds [OF sameSettings_reads(3) [OF assms(1)] sameMetadata_holds(3) [OF assms(2)] sameMetadata_ok(7) [OF assms(2)],
      of "\<lambda>x. mtb_SchemaName x = schema \<and> mtb_Name x = table" "(schema, table)"] by simp
qed

lemma firstFunction_same:
  assumes "sameSettings env rows fenv" "sameMetadata rows s t"
  shows "firstRow (gm_functions (db_gorm env)) (\<lambda>x. mfn_SchemaName x = schema \<and> mfn_Name x = name) s =
    (orNotFound (map_option functionRow (find (\<lambda>x. fnr_SchemaName x = schema \<and> fnr_Name x = name) (sn_Functions (st_data t)))), s)"
  using firstRow_holds [OF sameSettings_reads(5) [OF assms(1)] sameMetadata_holds(5) [OF assms(2)] sameMetadata_ok(8) [OF assms(2)],
    of "\<lambda>x. mfn_SchemaName x = schema \<and> mfn_Name x = name" "(schema, name)"] by simp

lemma dbListColumns_same:
  assumes "sameSettings env rows fenv" "sameMetadata rows s t"
  shows "dbListColumns env schema table s = (fst (ListColumns schema table t), s)"
  by (simp add: dbListColumns_def firstRow_bind [OF firstTable_same [OF assms]] ListColumns_def readData_def orNotFound_def
      dbColumnsOf_same [OF assms] split: option.split)

text \<open>The server of a table or function is read with it; its name is the one the file store shows.\<close>

lemma enabledOrFail_bind:
  "bindC (enabledOrFail srv) k s =
     (if s_Enabled srv then k () s else (Inl (Errorf (''server '' @ quoteGo (s_Name srv) @ '' is disabled'')), s))"
  by (simp add: enabledOrFail_def bindC_def retC_def failC_def)

lemma dbResolveTable_same:
  assumes "sameSettings env rows fenv" "sameMetadata rows s t"
  shows "dbResolveTable env schema table s = (fst (ResolveTable schema table t), s)"
proof (cases "findTable (st_data t) schema table")
  case None
  then show ?thesis
    by (simp add: dbResolveTable_def firstRow_bind [OF firstTable_same [OF assms]] ResolveTable_def readData_def orNotFound_def bindE_def)
next
  case (Some tb)
  then have "tb \<in> set (sn_Tables (st_data t))" by (auto simp: findTable_def find_Some_iff)
  then have "tbr_ServerID tb \<in> svr_ID ` set (sn_Servers (st_data t))" using sameMetadata_ok(9) [OF assms(2)] by auto
  from preload_one [OF assms this] obtain f r where f:
    "preloadServers (db_gorm env) [tbr_ServerID tb] s = (Inr f, s)" "f (tbr_ServerID tb) = serverRow r"
    "find (\<lambda>r. svr_ID r = tbr_ServerID tb) (sn_Servers (st_data t)) = Some r" by blast
  have "dbListColumns env schema table s = (Inr (columnsForTableLocked (st_data t) (tbr_ID tb)), s)"
    using dbListColumns_same [OF assms, of schema table] Some by (simp add: ListColumns_def readData_def orNotFound_def)
  then show ?thesis
    using Some f by (simp add: dbResolveTable_def firstRow_bind [OF firstTable_same [OF assms]] ResolveTable_def readData_def
        orNotFound_def bindE_def enabledOrFail_bind enabledServer_def Let_def retC_def bindC_run)
qed

lemma dbResolveFunction_same:
  assumes "sameSettings env rows fenv" "sameMetadata rows s t"
  shows "dbResolveFunction env schema name s = (fst (ResolveFunction schema name t), s)"
proof (cases "find (\<lambda>x. fnr_SchemaName x = schema \<and> fnr_Name x = name) (sn_Functions (st_data t))")
  case None
  then show ?thesis
    by (simp add: dbResolveFunction_def firstRow_bind [OF firstFunction_same [OF assms]] ResolveFunction_def readData_def orNotFound_def bindE_def)
next
  case (Some fn)
  then have "fn \<in> set (sn_Functions (st_data t))" by (auto simp: find_Some_iff)
  then have "fnr_ServerID fn \<in> svr_ID ` set (sn_Servers (st_data t))" using sameMetadata_ok(10) [OF assms(2)] by auto
  from preload_one [OF assms this] obtain f r where
    "preloadServers (db_gorm env) [fnr_ServerID fn] s = (Inr f, s)" "f (fnr_ServerID fn) = serverRow r"
    "find (\<lambda>r. svr_ID r = fnr_ServerID fn) (sn_Servers (st_data t)) = Some r" by blast
  with Some show ?thesis
    by (simp add: dbResolveFunction_def firstRow_bind [OF firstFunction_same [OF assms]] ResolveFunction_def readData_def
        orNotFound_def bindE_def enabledOrFail_bind enabledServer_def Let_def retC_def bindC_run)
qed

text \<open>Lists name the server of each row.\<close>

lemma preload_list:
  assumes "sameSettings env rows fenv" "sameMetadata rows s t"
    and refs: "key ` set xs \<subseteq> svr_ID ` set (sn_Servers (st_data t))"
  obtains f where "preloadServers (db_gorm env) (map key xs) s = (Inr f, s)"
    "\<And>x. x \<in> set xs \<Longrightarrow> msv_Name (f (key x)) = serverNameOf (serverNames (sn_Servers (st_data t))) (key x)"
proof -
  have "set (map key xs) \<subseteq> svr_ID ` set (sn_Servers (st_data t))" using refs by simp
  from preload_holds [OF assms(1,2) this] obtain f where f: "preloadServers (db_gorm env) (map key xs) s = (Inr f, s)"
    "\<And>i. i \<in> set (map key xs) \<Longrightarrow> \<exists>r. find (\<lambda>r. svr_ID r = i) (sn_Servers (st_data t)) = Some r \<and> f i = serverRow r" by blast
  have "msv_Name (f (key x)) = serverNameOf (serverNames (sn_Servers (st_data t))) (key x)" if x: "x \<in> set xs" for x
    using f(2) [of "key x"] x refs serverNameOf_locked [OF sameMetadata_ok(2) [OF assms(2)], of "key x"]
    by (fastforce simp: serverNameLocked_def)
  with f(1) show ?thesis using that by blast
qed

lemma dbListTables_same:
  assumes "sameSettings env rows fenv" "sameMetadata rows s t"
  shows "dbListTables env s = (fst (ListTables t), s)"
proof -
  let ?ys = "sort_key tbr_SchemaName (sort_key tbr_TableName (sn_Tables (st_data t)))"
  have "inDB (gt_find (gm_tables (db_gorm env)) (\<lambda>_. True)) s = (Inr (map tableRow ?ys), s)"
    using sameMetadata_ok(7) [OF assms(2)]
    by (intro find_sorted [OF sameSettings_reads(3) [OF assms(1)] sameMetadata_holds(3) [OF assms(2)]])
      (simp_all add: sort_sort_lex distinct_map)
  moreover have "tbr_ServerID ` set ?ys \<subseteq> svr_ID ` set (sn_Servers (st_data t))"
    using sameMetadata_ok(9) [OF assms(2)] by simp
  from preload_list [OF assms this] obtain f where "preloadServers (db_gorm env) (map tbr_ServerID ?ys) s = (Inr f, s)"
    "\<And>x. x \<in> set ?ys \<Longrightarrow> msv_Name (f (tbr_ServerID x)) = serverNameOf (serverNames (sn_Servers (st_data t))) (tbr_ServerID x)"
    by blast
  ultimately show ?thesis
    by (simp add: dbListTables_def bindC_run retC_def ListTables_def readData_def sort_key_map comp_def cong: map_cong)
qed

lemma dbListFunctions_same:
  assumes "sameSettings env rows fenv" "sameMetadata rows s t"
  shows "dbListFunctions env s = (fst (ListFunctions t), s)"
proof -
  let ?ys = "sort_key fnr_SchemaName (sort_key fnr_Name (sn_Functions (st_data t)))"
  have "inDB (gt_find (gm_functions (db_gorm env)) (\<lambda>_. True)) s = (Inr (map functionRow ?ys), s)"
    using sameMetadata_ok(8) [OF assms(2)]
    by (intro find_sorted [OF sameSettings_reads(5) [OF assms(1)] sameMetadata_holds(5) [OF assms(2)]])
      (simp_all add: sort_sort_lex distinct_map)
  moreover have "fnr_ServerID ` set ?ys \<subseteq> svr_ID ` set (sn_Servers (st_data t))"
    using sameMetadata_ok(10) [OF assms(2)] by simp
  from preload_list [OF assms this] obtain f where "preloadServers (db_gorm env) (map fnr_ServerID ?ys) s = (Inr f, s)"
    "\<And>x. x \<in> set ?ys \<Longrightarrow> msv_Name (f (fnr_ServerID x)) = serverNameOf (serverNames (sn_Servers (st_data t))) (fnr_ServerID x)"
    by blast
  ultimately show ?thesis
    by (simp add: dbListFunctions_def bindC_run retC_def ListFunctions_def readData_def sort_key_map comp_def cong: map_cong)
qed

text \<open>A payload is stored as bytes in the database and as text in the file store.\<close>

definition credentialImage :: "CredentialRecord \<Rightarrow> MetaCredential" where
  "credentialImage c =
     \<lparr>mcr_ID = crr_ID c, mcr_Name = crr_Name c, mcr_Payload = projr (decodePayload (crr_Payload c)), mcr_CreatedAt = crr_CreatedAt c\<rparr>"

lemma credentialRow_image: "credentialRow c = Inr r \<Longrightarrow> r = credentialImage c \<and> decodePayload (crr_Payload c) = Inr (mcr_Payload r)"
  by (auto simp: credentialRow_def credentialImage_def bindE_def split: sum.splits)

lemma credentials_holds:
  assumes "sameMetadata rows s t"
  shows "mset (dr_credentials rows (dbs_world s)) = mset (map credentialImage (sn_Credentials (st_data t)))"
    and "c \<in> set (sn_Credentials (st_data t)) \<Longrightarrow> decodePayload (crr_Payload c) = Inr (mcr_Payload (credentialImage c))"
proof -
  note holds = sameMetadata_holds(1) [OF assms]
  have row: "credentialRow c = Inr (credentialImage c)" if c: "c \<in> set (sn_Credentials (st_data t))" for c
  proof -
    have "credentialRow c \<in> Inr ` set (dr_credentials rows (dbs_world s))" using c mset_eq_setD [OF holds] by auto
    then obtain r where "credentialRow c = Inr r" by auto
    with credentialRow_image [OF this] show ?thesis by simp
  qed
  then show "c \<in> set (sn_Credentials (st_data t)) \<Longrightarrow> decodePayload (crr_Payload c) = Inr (mcr_Payload (credentialImage c))"
    using credentialRow_image by blast
  have "map credentialRow (sn_Credentials (st_data t)) = map Inr (map credentialImage (sn_Credentials (st_data t)))"
    using row by simp
  with holds have "image_mset (Inr :: _ \<Rightarrow> err + MetaCredential) (mset (dr_credentials rows (dbs_world s))) = image_mset Inr (mset (map credentialImage (sn_Credentials (st_data t))))"
    by (simp only: mset_map)
  then show "mset (dr_credentials rows (dbs_world s)) = mset (map credentialImage (sn_Credentials (st_data t)))"
    by (rule injD [OF multiset.inj_map [OF inj_Inr]])
qed

lemma dbResolveCredential_same:
  assumes "sameSettings env rows fenv" "sameMetadata rows s t"
  shows "dbResolveCredential env i s = (fst (ResolveCredential fenv i t), s)"
proof -
  have first: "firstRow (gm_credentials (db_gorm env)) (\<lambda>c. mcr_ID c = i) s =
      (orNotFound (map_option credentialImage (find (\<lambda>c. crr_ID c = i) (sn_Credentials (st_data t)))), s)"
    by (rule firstRow_holds [OF sameSettings_reads(1) [OF assms(1)] credentials_holds(1) [OF assms(2)] sameMetadata_ok(1) [OF assms(2)]])
      (simp add: credentialImage_def)
  show ?thesis
  proof (cases "find (\<lambda>c. crr_ID c = i) (sn_Credentials (st_data t))")
    case None
    then show ?thesis
      by (simp add: dbResolveCredential_def firstRow_bind [OF first] ResolveCredential_def readData_def)
  next
    case (Some c)
    then have "decodePayload (crr_Payload c) = Inr (mcr_Payload (credentialImage c))"
      using credentials_holds(2) [OF assms(2)] by (auto simp: find_Some_iff)
    with Some assms(1) show ?thesis
      by (simp add: dbResolveCredential_def firstRow_bind [OF first] ResolveCredential_def readData_def bindE_def liftC_def sameSettings_def)
  qed
qed

lemma dbServerCredential_same:
  assumes "sameSettings env rows fenv" "sameMetadata rows s t"
  shows "dbServerCredential env srv s = (fst (ServerCredential fenv srv t), s)"
proof -
  have "snd (ResolveCredential fenv i t) = t" for i by (simp add: ResolveCredential_def readData_def)
  then show ?thesis
    using dbResolveCredential_same [OF assms]
    by (auto simp: dbServerCredential_def ServerCredential_def bindC_def retC_def split: option.split prod.split sum.split)
qed

text \<open>The calls of the admin API that read one record.\<close>

lemma dbGetServerByID_same:
  assumes "sameSettings env rows fenv" "sameMetadata rows s t"
  shows "dbGetServerByID env i s = (fst (GetServerByID i t), s)"
  using firstRow_bind [OF firstRow_holds [OF sameSettings_reads(2) [OF assms(1)] sameMetadata_holds(2) [OF assms(2)] sameMetadata_ok(2) [OF assms(2)]],
    of "\<lambda>r. msv_ID r = i" i "\<lambda>row. retC (toServer row)"]
  by (auto simp: dbGetServerByID_def GetServerByID_def readData_def orNotFound_def retC_def split: option.splits)

lemma dbGetServerByName_same:
  assumes "sameSettings env rows fenv" "sameMetadata rows s t"
  shows "dbGetServerByName env n s = (fst (GetServerByName n t), s)"
  using firstRow_bind [OF firstRow_holds [OF sameSettings_reads(2) [OF assms(1)] sameMetadata_holds(2) [OF assms(2)] sameMetadata_ok(6) [OF assms(2)]],
    of "\<lambda>r. msv_Name r = n" n "\<lambda>row. retC (toServer row)"]
  by (auto simp: dbGetServerByName_def GetServerByName_def readData_def orNotFound_def retC_def split: option.splits)

lemma dbGetColumnByID_same:
  assumes "sameSettings env rows fenv" "sameMetadata rows s t"
  shows "dbGetColumnByID env i s = (fst (GetColumnByID i t), s)"
  using firstRow_bind [OF firstRow_holds [OF sameSettings_reads(4) [OF assms(1)] sameMetadata_holds(4) [OF assms(2)] sameMetadata_ok(4) [OF assms(2)]],
    of "\<lambda>r. mcl_ID r = i" i "\<lambda>row. retC (toColumn row)"]
  by (auto simp: dbGetColumnByID_def GetColumnByID_def readData_def orNotFound_def retC_def split: option.splits)

lemma dbGetTableByID_same:
  assumes "sameSettings env rows fenv" "sameMetadata rows s t"
  shows "dbGetTableByID env i s = (fst (GetTableByID i t), s)"
proof -
  have first: "firstRow (gm_tables (db_gorm env)) (\<lambda>r. mtb_ID r = i) s =
      (orNotFound (map_option tableRow (find (\<lambda>r. tbr_ID r = i) (sn_Tables (st_data t)))), s)"
    by (rule firstRow_holds [OF sameSettings_reads(3) [OF assms(1)] sameMetadata_holds(3) [OF assms(2)] sameMetadata_ok(3) [OF assms(2)]]) simp
  show ?thesis
  proof (cases "find (\<lambda>r. tbr_ID r = i) (sn_Tables (st_data t))")
    case None
    then show ?thesis by (simp add: dbGetTableByID_def firstRow_bind [OF first] GetTableByID_def readData_def orNotFound_def)
  next
    case (Some tb)
    then have "tbr_ServerID tb \<in> svr_ID ` set (sn_Servers (st_data t))"
      using sameMetadata_ok(9) [OF assms(2)] by (auto simp: find_Some_iff)
    from preload_one [OF assms this] obtain f r where "preloadServers (db_gorm env) [tbr_ServerID tb] s = (Inr f, s)"
      "f (tbr_ServerID tb) = serverRow r" "find (\<lambda>r. svr_ID r = tbr_ServerID tb) (sn_Servers (st_data t)) = Some r" by blast
    with Some show ?thesis
      by (simp add: dbGetTableByID_def firstRow_bind [OF first] GetTableByID_def readData_def orNotFound_def bindC_run retC_def serverNameLocked_def)
  qed
qed

lemma dbGetFunctionByID_same:
  assumes "sameSettings env rows fenv" "sameMetadata rows s t"
  shows "dbGetFunctionByID env i s = (fst (GetFunctionByID i t), s)"
proof -
  have first: "firstRow (gm_functions (db_gorm env)) (\<lambda>r. mfn_ID r = i) s =
      (orNotFound (map_option functionRow (find (\<lambda>r. fnr_ID r = i) (sn_Functions (st_data t)))), s)"
    by (rule firstRow_holds [OF sameSettings_reads(5) [OF assms(1)] sameMetadata_holds(5) [OF assms(2)] sameMetadata_ok(5) [OF assms(2)]]) simp
  show ?thesis
  proof (cases "find (\<lambda>r. fnr_ID r = i) (sn_Functions (st_data t))")
    case None
    then show ?thesis by (simp add: dbGetFunctionByID_def firstRow_bind [OF first] GetFunctionByID_def readData_def orNotFound_def)
  next
    case (Some fn)
    then have "fnr_ServerID fn \<in> svr_ID ` set (sn_Servers (st_data t))"
      using sameMetadata_ok(10) [OF assms(2)] by (auto simp: find_Some_iff)
    from preload_one [OF assms this] obtain f r where "preloadServers (db_gorm env) [fnr_ServerID fn] s = (Inr f, s)"
      "f (fnr_ServerID fn) = serverRow r" "find (\<lambda>r. svr_ID r = fnr_ServerID fn) (sn_Servers (st_data t)) = Some r" by blast
    with Some show ?thesis
      by (simp add: dbGetFunctionByID_def firstRow_bind [OF first] GetFunctionByID_def readData_def orNotFound_def bindC_run retC_def serverNameLocked_def)
  qed
qed

text \<open>The columns of a table that does not exist: none in the database, an error of the file store.\<close>

lemma dbListColumnsByTableID_same:
  assumes "sameSettings env rows fenv" "sameMetadata rows s t"
  shows "if i \<in> tbr_ID ` set (sn_Tables (st_data t))
    then dbListColumnsByTableID env i s = (fst (ListColumnsByTableID i t), s)
    else dbListColumnsByTableID env i s = (Inr [], s) \<and> ListColumnsByTableID i t = (Inl ErrNotFound, t)"
proof (cases "i \<in> tbr_ID ` set (sn_Tables (st_data t))")
  case True
  then have "tableIndexLocked (st_data t) i \<noteq> None" by (auto simp: tableIndexLocked_def indexOf_None)
  then show ?thesis
    using True by (simp add: dbListColumnsByTableID_def dbColumnsOf_same [OF assms] ListColumnsByTableID_def readData_def)
next
  case False
  then have "tableIndexLocked (st_data t) i = None" by (auto simp: tableIndexLocked_def indexOf_None)
  moreover have "columnsForTableLocked (st_data t) i = []"
  proof -
    have "clr_TableID ` set (sn_Columns (st_data t)) \<subseteq> tbr_ID ` set (sn_Tables (st_data t))"
      using assms(2) by (auto simp: sameMetadata_def storeOk_defs)
    then have "filter (\<lambda>c. clr_TableID c = i) (sn_Columns (st_data t)) = []" using False by (auto simp: filter_empty_conv)
    then show ?thesis by (simp add: columnsForTableLocked_def sortColumns_def)
  qed
  ultimately show ?thesis
    using False by (simp add: dbListColumnsByTableID_def dbColumnsOf_same [OF assms] ListColumnsByTableID_def readData_def)
qed

section \<open>Equivalence\<close>

text \<open>Two stores answer every call of the engine alike, errors included, and reading changes neither state.\<close>

definition storesAgree :: "'w store \<Rightarrow> 'w \<Rightarrow> 'v store \<Rightarrow> 'v \<Rightarrow> bool" where
  "storesAgree a s b t \<longleftrightarrow>
     (\<exists>r. st_ListServers a s = (r, s) \<and> st_ListServers b t = (r, t)) \<and>
     (\<exists>r. st_ListTables a s = (r, s) \<and> st_ListTables b t = (r, t)) \<and>
     (\<exists>r. st_ListFunctions a s = (r, s) \<and> st_ListFunctions b t = (r, t)) \<and>
     (\<forall>schema table. \<exists>r. st_ListColumns a schema table s = (r, s) \<and> st_ListColumns b schema table t = (r, t)) \<and>
     (\<forall>schema table. \<exists>r. st_ResolveTable a schema table s = (r, s) \<and> st_ResolveTable b schema table t = (r, t)) \<and>
     (\<forall>schema name. \<exists>r. st_ResolveFunction a schema name s = (r, s) \<and> st_ResolveFunction b schema name t = (r, t)) \<and>
     (\<forall>srv. \<exists>r. st_ServerCredential a srv s = (r, s) \<and> st_ServerCredential b srv t = (r, t))"

lemma readData_same: "readData f t = (fst (readData f t), t)"
  by (simp add: readData_def)

lemma same_stores_agree:
  assumes "sameSettings env rows fenv" "sameMetadata rows s t"
  shows "storesAgree (dbMetaStore env) s (fileMetaStore fenv) t"
proof -
  have cred: "ServerCredential fenv srv t = (fst (ServerCredential fenv srv t), t)" for srv
    by (simp add: ServerCredential_def ResolveCredential_def readData_def bindC_def retC_def split: option.split sum.split)
  have "ListServers t = (fst (ListServers t), t)" "ListTables t = (fst (ListTables t), t)" "ListFunctions t = (fst (ListFunctions t), t)"
    "ListColumns schema table t = (fst (ListColumns schema table t), t)" "ResolveTable schema table t = (fst (ResolveTable schema table t), t)"
    "ResolveFunction schema name t = (fst (ResolveFunction schema name t), t)" for schema table name
    unfolding ListServers_def ListTables_def ListFunctions_def ListColumns_def ResolveTable_def ResolveFunction_def by (rule readData_same)+
  note db = dbListServers_same [OF assms] dbListTables_same [OF assms] dbListFunctions_same [OF assms] dbListColumns_same [OF assms]
    dbResolveTable_same [OF assms] dbResolveFunction_same [OF assms] dbServerCredential_same [OF assms]
  show ?thesis
    unfolding storesAgree_def dbMetaStore_def fileMetaStore_def store.simps db
    by (intro conjI allI exI) (fact refl | fact)+
qed

text \<open>C8: The database store and the file store are equivalent to read from: when the rows of the database are the records of the
  file store's snapshot in any order, which satisfies the store's invariants and has no two columns of one name in a table, and
  the database answers queries as SQL does (a read succeeds and gives the rows that satisfy the condition, in the order of their
  bytes), then every call of the engine,
  the lookups of a server by id or name and of a table, a column or a function by id, and the resolution of a credential give
  the same result on both, the errors for what is missing or disabled included, and change nothing. Listing the columns of a
  table by its id agrees for a table that exists; for one that does not, the database store answers with no columns and the file
  store with not found.\<close>

theorem db_store_equivalent:
  assumes "sameSettings env rows fenv" "sameMetadata rows s t"
  shows "storesAgree (dbMetaStore env) s (fileMetaStore fenv) t \<and>
    (\<forall>i. dbGetServerByID env i s = (fst (GetServerByID i t), s)) \<and>
    (\<forall>n. dbGetServerByName env n s = (fst (GetServerByName n t), s)) \<and>
    (\<forall>i. dbGetTableByID env i s = (fst (GetTableByID i t), s)) \<and>
    (\<forall>i. dbGetColumnByID env i s = (fst (GetColumnByID i t), s)) \<and>
    (\<forall>i. dbGetFunctionByID env i s = (fst (GetFunctionByID i t), s)) \<and>
    (\<forall>i. dbResolveCredential env i s = (fst (ResolveCredential fenv i t), s)) \<and>
    (\<forall>i. if i \<in> tbr_ID ` set (sn_Tables (st_data t))
       then dbListColumnsByTableID env i s = (fst (ListColumnsByTableID i t), s)
       else dbListColumnsByTableID env i s = (Inr [], s) \<and> ListColumnsByTableID i t = (Inl ErrNotFound, t))"
  using same_stores_agree [OF assms] dbGetServerByID_same [OF assms] dbGetServerByName_same [OF assms] dbGetTableByID_same [OF assms]
    dbGetColumnByID_same [OF assms] dbGetFunctionByID_same [OF assms] dbResolveCredential_same [OF assms]
    dbListColumnsByTableID_same [OF assms] by blast

text \<open>A database in memory with the rows of a snapshot.\<close>

definition memOf :: "snapshot \<Rightarrow> memDB" where
  "memOf d =
     (let c = \<lparr>dc_credentials = map credentialImage (sn_Credentials d), dc_servers = map serverRow (sn_Servers d),
               dc_tables = map tableRow (sn_Tables d), dc_columns = map columnRow (sn_Columns d),
               dc_functions = map functionRow (sn_Functions d)\<rparr>
      in \<lparr>md_now = c, md_saved = c\<rparr>)"

definition memEnv :: "memDB dbEnv" where
  "memEnv =
     \<lparr>db_gorm = memGorm, db_vault = fe_vault storeEnv, db_nonce = fe_nonce storeEnv, db_now = (\<lambda>_. 0), db_getenv = fe_getenv storeEnv\<rparr>"

definition memStore :: "unit fileStore \<Rightarrow> memDB dbStore" where
  "memStore t = \<lparr>dbs_next = st_next t, dbs_world = memOf (st_data t)\<rparr>"

lemma memEnv_same: "sameSettings memEnv memRows storeEnv"
  by (simp add: sameSettings_def memEnv_def memGorm_reads)

lemma memStore_same:
  assumes "storeOk True (st_data t) (st_next t)" "\<forall>c\<in>set (sn_Credentials (st_data t)). isOk (decodePayload (crr_Payload c))"
    and "distinct (map (\<lambda>c. (clr_TableID c, clr_Name c)) (sn_Columns (st_data t)))"
  shows "sameMetadata memRows (memStore t) t"
proof -
  have "map credentialRow (sn_Credentials (st_data t)) = map Inr (map credentialImage (sn_Credentials (st_data t)))"
    using assms(2) by (auto simp: credentialRow_def credentialImage_def bindE_def isOk_def split: sum.splits)
  then have "mset (map Inr (map credentialImage (sn_Credentials (st_data t)))) = mset (map credentialRow (sn_Credentials (st_data t)))"
    by (rule arg_cong [OF sym])
  then show ?thesis using assms(1,3)
    by (simp add: sameMetadata_def dbHolds_def memStore_def memOf_def memRows_def Let_def)
qed

theorem db_store_equivalent_witness:
  "storesAgree (dbMetaStore memEnv) (memStore storeWithTable) (fileMetaStore storeEnv) storeWithTable \<and>
   map_sum id (\<lambda>rt. map c_Name (rt_Columns rt)) (fst (dbResolveTable memEnv ''public'' ''users'' (memStore storeWithTable))) =
     Inr [''name'', ''id'']"
proof -
  have "storeOk True (st_data storeWithTable) (st_next storeWithTable)"
    "\<forall>c\<in>set (sn_Credentials (st_data storeWithTable)). isOk (decodePayload (crr_Payload c))"
    "distinct (map (\<lambda>c. (clr_TableID c, clr_Name c)) (sn_Columns (st_data storeWithTable)))" by code_simp+
  from db_store_equivalent [OF memEnv_same memStore_same [OF this]]
  have "storesAgree (dbMetaStore memEnv) (memStore storeWithTable) (fileMetaStore storeEnv) storeWithTable" by blast
  moreover have "map_sum id (\<lambda>rt. map c_Name (rt_Columns rt)) (fst (dbResolveTable memEnv ''public'' ''users'' (memStore storeWithTable))) =
     Inr [''name'', ''id'']" by code_simp
  ultimately show ?thesis by blast
qed

end
