(* ===== verification/DbImport.thy ===== *)
theory DbImport
  imports DbEquiv DbMemory
begin

text \<open>
  Import into the database: the transaction around the replacement of all rows makes it atomic, a successful import leaves the
  rows of the compiled document with the defaults of the entities' tags and the uniqueness their indexes demand, and
  where the tags change nothing the database then answers as a file store that imported the same document.
\<close>

section \<open>Success\<close>

text \<open>What a successful computation did.\<close>

lemma bindC_ok: "bindC m f s = (Inr x, s') \<longleftrightarrow> (\<exists>y s1. m s = (Inr y, s1) \<and> f y s1 = (Inr x, s'))"
  by (auto simp: bindC_def split: sum.splits prod.splits)

lemma liftC_ok: "liftC r s = (Inr x, s') \<longleftrightarrow> r = Inr x \<and> s' = s"
  by (auto simp: liftC_def)

lemma retC_ok: "retC y s = (Inr x, s') \<longleftrightarrow> y = x \<and> s' = s"
  by (auto simp: retC_def)

lemma inDB_ok: "inDB f s = (Inr x, s') \<longleftrightarrow> (\<exists>w. f (dbs_world s) = (Inr x, w) \<and> s' = s\<lparr>dbs_world := w\<rparr>)"
  by (auto simp: inDB_def split: prod.splits)

lemma createRow_ok:
  "createRow t r s = (Inr (), s') \<longleftrightarrow> (\<exists>r' w. gt_create t r (dbs_world s) = (Inr r', w) \<and> s' = s\<lparr>dbs_world := w\<rparr>)"
  by (auto simp: createRow_def bindC_ok inDB_ok retC_ok)

lemmas success = bindC_ok liftC_ok retC_ok inDB_ok createRow_ok

section \<open>Loops that create rows\<close>

text \<open>A table of the content: reading and updating it.\<close>

locale row_table =
  fixes get :: "dbContent \<Rightarrow> 'r list" and upd :: "('r list \<Rightarrow> 'r list) \<Rightarrow> dbContent \<Rightarrow> dbContent"
  assumes get_upd [simp]: "get (upd f c) = f (get c)"
    and upd_upd [simp]: "upd f (upd g c) = upd (\<lambda>rs. f (g rs)) c"
    and upd_same [simp]: "upd (\<lambda>rs. rs) c = c"
begin

lemma creates_loop:
  assumes "createsRows t content get upd dflt clash"
    and "eachC (\<lambda>x. bindC (liftC (h x)) (createRow t)) xs s = (Inr (), s')"
    and "sorted_wrt (\<lambda>a b. \<not> clash a b) (get (content (dbs_world s)))"
  shows "\<exists>rs. map h xs = map Inr rs \<and> dbs_next s' = dbs_next s \<and>
    content (dbs_world s') = upd (\<lambda>ys. ys @ map dflt rs) (content (dbs_world s)) \<and>
    sorted_wrt (\<lambda>a b. \<not> clash a b) (get (content (dbs_world s')))"
  using assms(2,3)
proof (induction xs arbitrary: s)
  case Nil
  then show ?case by (simp add: retC_def)
next
  case (Cons x xs)
  then obtain r r' w where r: "h x = Inr r" "gt_create t r (dbs_world s) = (Inr r', w)"
    and rest: "eachC (\<lambda>x. bindC (liftC (h x)) (createRow t)) xs (s\<lparr>dbs_world := w\<rparr>) = (Inr (), s')"
    by (auto simp: success)
  have step: "r' = dflt r" "\<forall>x\<in>set (get (content (dbs_world s))). \<not> clash x r'"
    "content w = upd (\<lambda>rs. rs @ [r']) (content (dbs_world s))"
    using assms(1) r(2) by (auto simp: createsRows_def)
  then have "sorted_wrt (\<lambda>a b. \<not> clash a b) (get (content (dbs_world (s\<lparr>dbs_world := w\<rparr>))))"
    using Cons.prems(2) by (simp add: sorted_wrt_append)
  from Cons.IH [OF rest this] obtain rs where "map h xs = map Inr rs" "dbs_next s' = dbs_next s"
    "content (dbs_world s') = upd (\<lambda>ys. ys @ map dflt rs) (content w)"
    "sorted_wrt (\<lambda>a b. \<not> clash a b) (get (content (dbs_world s')))" by auto
  with r(1) step show ?case by (intro exI [of _ "r # rs"]) simp
qed

lemma creates_all:
  assumes "createsRows t content get upd dflt clash"
    and "eachC (\<lambda>x. createRow t (h x)) xs s = (Inr (), s')"
    and "get (content (dbs_world s)) = []"
  shows "dbs_next s' = dbs_next s"
    "content (dbs_world s') = upd (\<lambda>ys. ys @ map (\<lambda>x. dflt (h x)) xs) (content (dbs_world s))"
    "sorted_wrt (\<lambda>a b. \<not> clash a b) (map (\<lambda>x. dflt (h x)) xs)"
proof -
  have "(\<lambda>x. bindC (liftC (Inr (h x))) (createRow t)) = (\<lambda>x. createRow t (h x))"
    by (simp add: fun_eq_iff bindC_def liftC_def)
  with creates_loop [OF assms(1), of "\<lambda>x. Inr (h x)" xs s s'] assms(2,3) obtain rs where
    rs: "map (\<lambda>x. Inr (h x) :: err + 'r) xs = map Inr rs" "dbs_next s' = dbs_next s"
    "content (dbs_world s') = upd (\<lambda>ys. ys @ map dflt rs) (content (dbs_world s))"
    "sorted_wrt (\<lambda>a b. \<not> clash a b) (get (content (dbs_world s')))" by auto
  have "rs = map h xs"
    using arg_cong [OF rs(1), of "map projr"] by (simp add: comp_def)
  then show "dbs_next s' = dbs_next s"
    "content (dbs_world s') = upd (\<lambda>ys. ys @ map (\<lambda>x. dflt (h x)) xs) (content (dbs_world s))"
    "sorted_wrt (\<lambda>a b. \<not> clash a b) (map (\<lambda>x. dflt (h x)) xs)"
    using rs assms(3) by (simp_all add: comp_def)
qed

text \<open>In memory the loop succeeds when there is no clash.\<close>

lemma mem_creates:
  assumes "map h xs = map Inr rs" "sorted_wrt (\<lambda>a b. \<not> clash a b) (get (md_now (dbs_world s)) @ map dflt rs)"
  shows "eachC (\<lambda>x. bindC (liftC (h x)) (createRow (memTable get upd ident key dflt clash))) xs s =
    (Inr (), s\<lparr>dbs_world := (dbs_world s)\<lparr>md_now := upd (\<lambda>ys. ys @ map dflt rs) (md_now (dbs_world s))\<rparr>\<rparr>)"
  using assms
proof (induction xs arbitrary: rs s)
  case Nil
  then show ?case by (simp add: retC_def)
next
  case (Cons x xs)
  then obtain r rs' where r: "rs = r # rs'" "h x = Inr r" "map h xs = map Inr rs'" by (cases rs) auto
  let ?s = "s\<lparr>dbs_world := (dbs_world s)\<lparr>md_now := upd (\<lambda>ys. ys @ [dflt r]) (md_now (dbs_world s))\<rparr>\<rparr>"
  have "\<not> list_ex (\<lambda>y. clash y (dflt r)) (get (md_now (dbs_world s)))"
    using Cons.prems(2) r(1) by (auto simp: sorted_wrt_append list_ex_iff)
  then have "bindC (liftC (h x)) (createRow (memTable get upd ident key dflt clash)) s = (Inr (), ?s)"
    using r(2) by (simp add: bindC_def liftC_def createRow_def inDB_def memTable_def retC_def)
  moreover have "sorted_wrt (\<lambda>a b. \<not> clash a b) (get (md_now (dbs_world ?s)) @ map dflt rs')"
    using Cons.prems(2) r(1) by simp
  ultimately show ?case using Cons.IH [OF r(3), of ?s] r(1) by (simp add: bindC_def)
qed

lemma mem_creates_all:
  assumes "sorted_wrt (\<lambda>a b. \<not> clash a b) (map (\<lambda>x. dflt (h x)) xs)" "get (md_now (dbs_world s)) = []"
  shows "eachC (\<lambda>x. createRow (memTable get upd ident key dflt clash) (h x)) xs s =
    (Inr (), s\<lparr>dbs_world := (dbs_world s)\<lparr>md_now := upd (\<lambda>ys. ys @ map (\<lambda>x. dflt (h x)) xs) (md_now (dbs_world s))\<rparr>\<rparr>)"
proof -
  have eq: "(\<lambda>x. bindC (liftC (Inr (h x))) (createRow (memTable get upd ident key dflt clash))) =
      (\<lambda>x. createRow (memTable get upd ident key dflt clash) (h x))"
    by (simp add: fun_eq_iff bindC_def liftC_def)
  have "map (\<lambda>x. Inr (h x) :: err + 'r) xs = map Inr (map h xs)" by simp
  from mem_creates [OF this, where key = key and ident = ident and clash = clash and dflt = dflt and s = s] assms
  show ?thesis unfolding eq by (simp add: comp_def)
qed

end

interpretation credential_rows: row_table dc_credentials dc_credentials_update
  by unfold_locales auto

interpretation server_rows: row_table dc_servers dc_servers_update
  by unfold_locales auto

interpretation table_rows: row_table dc_tables dc_tables_update
  by unfold_locales auto

interpretation column_rows: row_table dc_columns dc_columns_update
  by unfold_locales auto

interpretation function_rows: row_table dc_functions dc_functions_update
  by unfold_locales auto

lemma deleteAll_step:
  assumes "deletesRows t content get" "deleteAll t s = (Inr (), s')"
  shows "get (content (dbs_world s')) = []" "fewerRows (content (dbs_world s')) (content (dbs_world s))"
    "dbs_next s' = dbs_next s"
proof -
  obtain n w where "gt_delete t (\<lambda>_. True) (dbs_world s) = (Inr n, w)" "s' = s\<lparr>dbs_world := w\<rparr>"
    using assms(2) by (auto simp: deleteAll_def success)
  with assms(1) have "\<forall>x\<in>set (get (content (dbs_world s'))). False" "fewerRows (content (dbs_world s')) (content (dbs_world s))"
    "dbs_next s' = dbs_next s" unfolding deletesRows_def by fastforce+
  then show "get (content (dbs_world s')) = []" "fewerRows (content (dbs_world s')) (content (dbs_world s))"
    "dbs_next s' = dbs_next s" by auto
qed

lemma fewerRows_empty:
  assumes "fewerRows a b"
  shows "dc_credentials b = [] \<Longrightarrow> dc_credentials a = []" "dc_servers b = [] \<Longrightarrow> dc_servers a = []"
    "dc_tables b = [] \<Longrightarrow> dc_tables a = []" "dc_columns b = [] \<Longrightarrow> dc_columns a = []"
    "dc_functions b = [] \<Longrightarrow> dc_functions a = []"
  using assms by (auto simp: fewerRows_def)

section \<open>Transactions\<close>

text \<open>A computation that does not change what a rollback goes back to.\<close>

definition savesC :: "('w \<Rightarrow> dbContent) \<Rightarrow> ('w, 'a) dbC \<Rightarrow> bool" where
  "savesC saved m \<longleftrightarrow> (\<forall>s. saved (dbs_world (snd (m s))) = saved (dbs_world s))"

lemma savesC_bind [intro]:
  assumes "savesC saved m" "\<And>x. savesC saved (f x)"
  shows "savesC saved (bindC m f)"
  unfolding savesC_def
proof
  fix s
  obtain r s1 where m: "m s = (r, s1)" by fastforce
  then have "saved (dbs_world s1) = saved (dbs_world s)" using assms(1) unfolding savesC_def by (metis snd_conv)
  with m assms(2) show "saved (dbs_world (snd (bindC m f s))) = saved (dbs_world s)"
    by (cases r) (simp_all add: bindC_def savesC_def)
qed

lemma savesC_simps [simp]: "savesC saved (retC x)" "savesC saved (failC e)" "savesC saved (liftC r)"
  by (simp_all add: savesC_def retC_def failC_def liftC_def)

lemma savesC_inDB: "(\<And>w. saved (snd (f w)) = saved w) \<Longrightarrow> savesC saved (inDB f)"
  by (simp add: savesC_def inDB_def split: prod.split) (metis snd_conv)

lemma savesC_rows:
  assumes "keepsSaved saved t"
  shows "savesC saved (createRow t r)" "savesC saved (deleteAll t)"
  using assms unfolding createRow_def deleteAll_def keepsSaved_def by (auto intro!: savesC_bind savesC_inDB)

lemma savesC_each [intro]: "(\<And>x. savesC saved (f x)) \<Longrightarrow> savesC saved (eachC f xs)"
  by (induction xs) auto

lemma inTransaction_error:
  assumes "gormTransacts g content saved" "savesC saved fn" "inTransaction g fn s = (Inl e, s')"
  shows "content (dbs_world s') = content (dbs_world s)"
proof -
  obtain r w where b: "gm_begin g (dbs_world s) = (r, w)" by fastforce
  have w: "content w = content (dbs_world s)" using assms(1) b unfolding gormTransacts_def by (metis snd_conv)
  show ?thesis
  proof (cases r)
    case (Inl e')
    with assms(3) b w show ?thesis by (auto simp: inTransaction_def bindC_def inDB_def)
  next
    case (Inr u)
    let ?s1 = "s\<lparr>dbs_world := w\<rparr>"
    obtain r2 s2 where f: "fn ?s1 = (r2, s2)" by fastforce
    have "saved w = content (dbs_world s)" using assms(1) b Inr unfolding gormTransacts_def by simp
    moreover have "saved (dbs_world s2) = saved w" using assms(2) f unfolding savesC_def by (metis dbStore.select_convs(2) dbStore.surjective dbStore.update_convs(2) snd_conv)
    ultimately have s2: "saved (dbs_world s2) = content (dbs_world s)" by simp
    have rolled: "content (snd (gm_rollback g (dbs_world s2))) = saved (dbs_world s2)"
      "\<And>e w'. gm_commit g (dbs_world s2) = (Inl e, w') \<Longrightarrow> content w' = saved (dbs_world s2)"
      using assms(1) unfolding gormTransacts_def by blast+
    show ?thesis
    proof (cases r2)
      case (Inl e2)
      with assms(3) b Inr f s2 rolled(1) show ?thesis
        by (auto simp: inTransaction_def attemptC_def failC_def bindC_def inDB_def split: prod.splits)
    next
      case (Inr x)
      with assms(3) b \<open>r = Inr u\<close> f s2 rolled(2) show ?thesis
        by (auto simp: inTransaction_def attemptC_def bindC_def inDB_def retC_def split: prod.splits sum.splits)
    qed
  qed
qed

lemma inTransaction_ok:
  assumes "gormTransacts g content saved" "inTransaction g fn s = (Inr x, s')"
  obtains w s2 where "content w = content (dbs_world s)" "fn (s\<lparr>dbs_world := w\<rparr>) = (Inr x, s2)"
    "content (dbs_world s') = content (dbs_world s2)" "dbs_next s' = dbs_next s2"
proof -
  from assms(2) obtain u w where b: "gm_begin g (dbs_world s) = (Inr u, w)"
    and rest: "attemptC fn (\<lambda>r. case r of Inl e \<Rightarrow> attemptC (inDB (gm_rollback g)) (\<lambda>_. failC e)
      | Inr x \<Rightarrow> bindC (inDB (gm_commit g)) (\<lambda>_. retC x)) (s\<lparr>dbs_world := w\<rparr>) = (Inr x, s')"
    by (auto simp: inTransaction_def success)
  obtain s2 where fn: "fn (s\<lparr>dbs_world := w\<rparr>) = (Inr x, s2)" "bindC (inDB (gm_commit g)) (\<lambda>_. retC x) s2 = (Inr x, s')"
    using rest by (auto simp: attemptC_def failC_def success split: sum.splits prod.splits)
  then obtain w' where c: "gm_commit g (dbs_world s2) = (Inr (), w')" "s' = s2\<lparr>dbs_world := w'\<rparr>" by (auto simp: success)
  have "content w = content (dbs_world s)" using assms(1) b unfolding gormTransacts_def by (metis snd_conv)
  moreover have "content w' = content (dbs_world s2)" using assms(1) c(1) unfolding gormTransacts_def by blast
  ultimately show ?thesis using that fn(1) c(2) by simp
qed

section \<open>Replacing all rows\<close>

text \<open>The rows of a snapshot, with the defaults of the tags.\<close>

definition importedContent :: "MetaCredential list \<Rightarrow> snapshot \<Rightarrow> dbContent" where
  "importedContent creds snap =
     \<lparr>dc_credentials = creds, dc_servers = map (\<lambda>r. serverDefaults (serverRow r)) (sn_Servers snap),
      dc_tables = map (\<lambda>r. tableDefaults (tableRow r)) (sn_Tables snap),
      dc_columns = map (\<lambda>r. columnDefaults (columnRow r)) (sn_Columns snap),
      dc_functions = map (\<lambda>r. functionDefaults (functionRow r)) (sn_Functions snap)\<rparr>"

definition noClashes :: "dbContent \<Rightarrow> bool" where
  "noClashes c \<longleftrightarrow>
     sorted_wrt (\<lambda>a b. \<not> credentialClash a b) (dc_credentials c) \<and> sorted_wrt (\<lambda>a b. \<not> serverClash a b) (dc_servers c) \<and>
     sorted_wrt (\<lambda>a b. \<not> tableClash a b) (dc_tables c) \<and> sorted_wrt (\<lambda>a b. \<not> columnClash a b) (dc_columns c) \<and>
     sorted_wrt (\<lambda>a b. \<not> functionClash a b) (dc_functions c)"

lemma replaceSnapshot_ok:
  assumes "gormWrites g content" "gormTransacts g content saved" "replaceSnapshot g snap s = (Inr (), s')"
  shows "\<exists>creds. map credentialRow (sn_Credentials snap) = map Inr creds \<and>
    content (dbs_world s') = importedContent creds snap \<and> noClashes (importedContent creds snap) \<and> dbs_next s' = dbs_next s"
proof -
  from assms(1) have
    c: "createsRows (gm_credentials g) content dc_credentials dc_credentials_update (\<lambda>r. r) credentialClash"
      "createsRows (gm_servers g) content dc_servers dc_servers_update serverDefaults serverClash"
      "createsRows (gm_tables g) content dc_tables dc_tables_update tableDefaults tableClash"
      "createsRows (gm_columns g) content dc_columns dc_columns_update columnDefaults columnClash"
      "createsRows (gm_functions g) content dc_functions dc_functions_update functionDefaults functionClash"
    and d: "deletesRows (gm_credentials g) content dc_credentials" "deletesRows (gm_servers g) content dc_servers"
      "deletesRows (gm_tables g) content dc_tables" "deletesRows (gm_columns g) content dc_columns"
      "deletesRows (gm_functions g) content dc_functions"
    unfolding gormWrites_def by blast+
  from assms(3) obtain w t where t: "content (dbs_world s') = content (dbs_world t)" "dbs_next s' = dbs_next t"
    and body: "replaceRows g snap (s\<lparr>dbs_world := w\<rparr>) = (Inr (), t)"
    unfolding replaceSnapshot_def by (rule inTransaction_ok [OF assms(2)])
  from body obtain s1 s2 s3 s4 s5 s6 s7 s8 s9 where
    del: "deleteAll (gm_functions g) (s\<lparr>dbs_world := w\<rparr>) = (Inr (), s1)" "deleteAll (gm_columns g) s1 = (Inr (), s2)"
      "deleteAll (gm_tables g) s2 = (Inr (), s3)" "deleteAll (gm_servers g) s3 = (Inr (), s4)"
      "deleteAll (gm_credentials g) s4 = (Inr (), s5)"
    and cre: "eachC (\<lambda>c. bindC (liftC (credentialRow c)) (createRow (gm_credentials g))) (sn_Credentials snap) s5 = (Inr (), s6)"
      "eachC (\<lambda>s. createRow (gm_servers g) (serverRow s)) (sn_Servers snap) s6 = (Inr (), s7)"
      "eachC (\<lambda>t. createRow (gm_tables g) (tableRow t)) (sn_Tables snap) s7 = (Inr (), s8)"
      "eachC (\<lambda>c. createRow (gm_columns g) (columnRow c)) (sn_Columns snap) s8 = (Inr (), s9)"
      "eachC (\<lambda>f. createRow (gm_functions g) (functionRow f)) (sn_Functions snap) s9 = (Inr (), t)"
    by (auto simp: replaceRows_def bindC_ok)
  note D = deleteAll_step [OF d(5) del(1)] deleteAll_step [OF d(4) del(2)] deleteAll_step [OF d(3) del(3)]
    deleteAll_step [OF d(2) del(4)] deleteAll_step [OF d(1) del(5)]
  have empty: "content (dbs_world s5) = \<lparr>dc_credentials = [], dc_servers = [], dc_tables = [], dc_columns = [], dc_functions = []\<rparr>"
    using D fewerRows_empty [OF D(5)] fewerRows_empty [OF D(8)] fewerRows_empty [OF D(11)] fewerRows_empty [OF D(14)]
    by (intro dbContent.equality) simp_all
  from credential_rows.creates_loop [OF c(1) cre(1)] empty obtain creds where creds:
    "map credentialRow (sn_Credentials snap) = map Inr creds" "dbs_next s6 = dbs_next s5"
    "content (dbs_world s6) = \<lparr>dc_credentials = creds, dc_servers = [], dc_tables = [], dc_columns = [], dc_functions = []\<rparr>"
    "sorted_wrt (\<lambda>a b. \<not> credentialClash a b) creds" by auto
  note S = server_rows.creates_all [OF c(2) cre(2)]
  have s7: "content (dbs_world s7) = (content (dbs_world s6))\<lparr>dc_servers := map (\<lambda>r. serverDefaults (serverRow r)) (sn_Servers snap)\<rparr>"
    using S(2) creds(3) by simp
  note T = table_rows.creates_all [OF c(3) cre(3)]
  have s8: "content (dbs_world s8) = (content (dbs_world s7))\<lparr>dc_tables := map (\<lambda>r. tableDefaults (tableRow r)) (sn_Tables snap)\<rparr>"
    using T(2) s7 creds(3) by simp
  note C = column_rows.creates_all [OF c(4) cre(4)]
  have s9: "content (dbs_world s9) = (content (dbs_world s8))\<lparr>dc_columns := map (\<lambda>r. columnDefaults (columnRow r)) (sn_Columns snap)\<rparr>"
    using C(2) s8 s7 creds(3) by simp
  note F = function_rows.creates_all [OF c(5) cre(5)]
  have t': "content (dbs_world t) = importedContent creds snap"
    using F(2) s9 s8 s7 creds(3) by (simp add: importedContent_def)
  have "dbs_next t = dbs_next s"
    using D(3,6,9,12,15) creds(2,3) S(1) T(1) C(1) F(1) s7 s8 s9 by simp
  moreover have "noClashes (importedContent creds snap)"
    using creds(3,4) S(3) T(3) C(3) F(3) s7 s8 s9 by (simp add: noClashes_def importedContent_def)
  ultimately show ?thesis using creds(1) t t' by auto
qed

text \<open>In memory every snapshot without clashes replaces all rows.\<close>

lemma mem_deleteAll:
  "deleteAll (memTable get upd ident key dflt clash) s =
    (Inr (), s\<lparr>dbs_world := (dbs_world s)\<lparr>md_now := cascade (upd (filter (\<lambda>r. False)) (md_now (dbs_world s)))\<rparr>\<rparr>)"
  by (simp add: deleteAll_def memTable_def bindC_def inDB_def retC_def)

lemma mem_replace:
  assumes creds: "map credentialRow (sn_Credentials snap) = map Inr creds" and ok: "noClashes (importedContent creds snap)"
  shows "\<exists>w. replaceSnapshot memGorm snap s = (Inr (), s\<lparr>dbs_world := w\<rparr>) \<and> md_now w = importedContent creds snap"
proof -
  let ?s = "s\<lparr>dbs_world := (dbs_world s)\<lparr>md_saved := md_now (dbs_world s)\<rparr>\<rparr>"
  note c = ok [unfolded noClashes_def importedContent_def dbContent.select_convs]
  have "replaceRows memGorm snap ?s = (Inr (), ?s\<lparr>dbs_world := (dbs_world ?s)\<lparr>md_now := importedContent creds snap\<rparr>\<rparr>)"
    unfolding replaceRows_def memGorm_def gorm.select_convs
    using c by (simp add: bindC_def mem_deleteAll cascade_def Let_def credential_rows.mem_creates [OF creds] server_rows.mem_creates_all
        table_rows.mem_creates_all column_rows.mem_creates_all function_rows.mem_creates_all importedContent_def)
  moreover have "inDB (gm_begin memGorm) s = (Inr (), ?s)" "inDB (gm_commit memGorm) t = (Inr (), t)" for t
    by (simp_all add: inDB_def memGorm_def)
  ultimately show ?thesis
    by (intro exI [of _ "(dbs_world ?s)\<lparr>md_now := importedContent creds snap\<rparr>"])
      (simp add: replaceSnapshot_def inTransaction_def attemptC_def bindC_def retC_def)
qed

section \<open>Atomicity\<close>

text \<open>Reading leaves the content alone, even when it fails.\<close>

definition readOnly :: "('w \<Rightarrow> dbContent) \<Rightarrow> ('w, 'r) gormTable \<Rightarrow> bool" where
  "readOnly content t \<longleftrightarrow>
     (\<forall>p w. content (snd (gt_first t p w)) = content w) \<and> (\<forall>p w. content (snd (gt_find t p w)) = content w)"

definition gormReadOnly :: "'w gorm \<Rightarrow> ('w \<Rightarrow> dbContent) \<Rightarrow> bool" where
  "gormReadOnly g content \<longleftrightarrow>
     readOnly content (gm_credentials g) \<and> readOnly content (gm_servers g) \<and> readOnly content (gm_tables g) \<and>
     readOnly content (gm_columns g) \<and> readOnly content (gm_functions g)"

lemma savesC_read:
  assumes "readOnly content t"
  shows "savesC content (inDB (gt_find t p))" "savesC content (firstRow t p)"
  using assms unfolding readOnly_def firstRow_def by (auto intro!: savesC_bind savesC_inDB)

lemma savesC_if: "savesC c a \<Longrightarrow> savesC c b \<Longrightarrow> savesC c (if q then a else b)"
  by simp

lemma savesC_collect: "(\<And>x. savesC saved (f x)) \<Longrightarrow> savesC saved (collectC f xs)"
  by (induction xs) (auto intro!: savesC_bind)

lemma gormReadOnly_tables:
  assumes "gormReadOnly g content"
  shows "readOnly content (gm_credentials g)" "readOnly content (gm_servers g)" "readOnly content (gm_tables g)"
    "readOnly content (gm_columns g)" "readOnly content (gm_functions g)"
  using assms by (auto simp: gormReadOnly_def)

lemma savesC_preload: "gormReadOnly g content \<Longrightarrow> savesC content (preloadServers g ids)"
  by (auto simp: preloadServers_def intro!: savesC_bind savesC_read gormReadOnly_tables)

lemma savesC_reads:
  assumes "gormReadOnly (db_gorm env) content"
  shows "savesC content (dbListServers env)" "savesC content (dbListTables env)" "savesC content (dbListFunctions env)"
    "savesC content (dbListColumns env schema table)" "savesC content (dbResolveCredential env i)"
  using assms
  by (auto simp: dbListServers_def dbListTables_def dbListFunctions_def dbListColumns_def dbColumnsOf_def dbResolveCredential_def
      intro!: savesC_bind savesC_read gormReadOnly_tables savesC_preload)

lemma savesC_exportCred: "gormReadOnly (db_gorm env) content \<Longrightarrow> savesC content (exportCred env i m)"
  by (auto simp: exportCred_def intro!: savesC_bind savesC_reads split: option.split)

lemma savesC_exportServers: "gormReadOnly (db_gorm env) content \<Longrightarrow> savesC content (exportServers env servers srvs m)"
proof (induction srvs arbitrary: m)
  case (Cons srv srvs)
  then show ?case by (cases "s_CredentialRef srv") (auto intro!: savesC_bind savesC_exportCred)
qed simp

lemma savesC_export: "gormReadOnly (db_gorm env) content \<Longrightarrow> savesC content (exportDeclarative env)"
  unfolding exportDeclarative_def exportTable_def
  by (intro savesC_bind savesC_reads savesC_exportServers savesC_collect) auto

lemma savesC_importDoc: "gormReadOnly (db_gorm env) content \<Longrightarrow> savesC content (dbImportDoc env doc mode)"
  unfolding dbImportDoc_def Let_def by (intro savesC_if savesC_bind savesC_export) auto

lemma savesC_compile: "savesC content (dbCompile env doc)"
  by (auto simp: savesC_def dbCompile_def split: sum.split)

lemma bindC_error:
  assumes "bindC m f s = (Inl e, s')"
  obtains "m s = (Inl e, s')" | x s1 where "m s = (Inr x, s1)" "f x s1 = (Inl e, s')"
  using assms by (auto simp: bindC_def split: sum.splits prod.splits)

lemma savesC_D: "savesC content m \<Longrightarrow> m s = (r, s') \<Longrightarrow> content (dbs_world s') = content (dbs_world s)"
  unfolding savesC_def by (metis snd_conv)

lemma replaceSnapshot_error:
  assumes "gormTransacts g content saved" "replaceSnapshot g snap s = (Inl e, s')"
  shows "content (dbs_world s') = content (dbs_world s)"
proof (rule inTransaction_error [OF assms(1) _ assms(2) [unfolded replaceSnapshot_def]])
  have keeps: "keepsSaved saved (gm_credentials g)" "keepsSaved saved (gm_servers g)" "keepsSaved saved (gm_tables g)"
    "keepsSaved saved (gm_columns g)" "keepsSaved saved (gm_functions g)" using assms by (auto simp: gormTransacts_def)
  show "savesC saved (replaceRows g snap)" unfolding replaceRows_def
    by (intro savesC_bind savesC_each savesC_rows savesC_simps keeps)
qed

text \<open>C10: An import into the database is atomic: when it fails, in the export of the current metadata, in the merge, in the
  compilation, at any row of the replacement or at the commit, the rows are those from before. A transaction is assumed to do
  what the database documents: a rollback, or a commit that fails, goes back to the rows at its beginning.\<close>

theorem db_import_atomic:
  assumes "gormReadOnly (db_gorm env) content" "gormTransacts (db_gorm env) content saved"
    and "dbImportDeclarative env doc mode s = (Inl e, s')"
  shows "content (dbs_world s') = content (dbs_world s)"
proof -
  note saves = savesC_D [OF savesC_importDoc [OF assms(1)]] savesC_D [OF savesC_compile]
  from assms(3) consider "dbImportDoc env doc mode s = (Inl e, s')"
    | merged s1 where "dbImportDoc env doc mode s = (Inr merged, s1)"
      "dbCompile env (declarativeFromImporter merged) s1 = (Inl e, s')"
    | merged s1 snap s2 where "dbImportDoc env doc mode s = (Inr merged, s1)"
      "dbCompile env (declarativeFromImporter merged) s1 = (Inr snap, s2)" "replaceSnapshot (db_gorm env) snap s2 = (Inl e, s')"
    unfolding dbImportDeclarative_def by (elim bindC_error) (auto simp: retC_def)
  then show ?thesis by cases (use saves replaceSnapshot_error [OF assms(2)] in metis)+
qed

section \<open>What the tags impose\<close>

lemma foldE_concat:
  assumes "\<And>x s s'. f x s = Inr s' \<Longrightarrow> g s' = g s @ h x"
  shows "foldE f xs s = Inr s' \<Longrightarrow> g s' = g s @ concat (map h xs)"
  using assms by (induction f xs s rule: foldE.induct) (auto split: sum.splits)

text \<open>The columns of a document that the compilation keeps.\<close>

definition docColumns :: "DeclarativeDoc \<Rightarrow> DeclColumn list" where
  "docColumns doc = concat (map (\<lambda>t. filter (\<lambda>c. TrimSpace (dcl_Name c) \<noteq> []) (dt_Columns t)) (dd_Tables doc))"

abbreviation columnFacts :: "ColumnRecord \<Rightarrow> string \<times> bool \<times> bool" where
  "columnFacts r \<equiv> (clr_Name r, clr_Nullable r, clr_DataType r = [])"

lemma compileColumns_facts:
  "map columnFacts (fst (compileColumns i k cs n)) =
     map (\<lambda>c. (dcl_Name c, dcl_Nullable c \<noteq> Some False, False)) (filter (\<lambda>c. TrimSpace (dcl_Name c) \<noteq> []) cs)"
proof (induction i k cs n rule: compileColumns.induct)
  case (2 i k c cs n)
  show ?case
  proof (cases "TrimSpace (dcl_Name c) = []")
    case False
    obtain rs m where rs: "compileColumns i (Suc k) cs (Suc n) = (rs, m)" by fastforce
    have "(case dcl_Nullable c of Some b \<Rightarrow> b | None \<Rightarrow> True) \<longleftrightarrow> dcl_Nullable c \<noteq> Some False"
      by (simp split: option.split)
    with 2(2) [OF False] False rs show ?thesis by simp
  qed (use 2 in simp)
qed simp

lemma compileTable_facts:
  assumes "compileTable t c = Inr c'"
  shows "map columnFacts (sn_Columns (cp_out c')) = map columnFacts (sn_Columns (cp_out c)) @
      map (\<lambda>c. (dcl_Name c, dcl_Nullable c \<noteq> Some False, False)) (filter (\<lambda>c. TrimSpace (dcl_Name c) \<noteq> []) (dt_Columns t))"
    "map tbr_SchemaName (sn_Tables (cp_out c')) = map tbr_SchemaName (sn_Tables (cp_out c)) @ [schemaOr (dt_Schema t)]"
proof -
  obtain i where "map_of (cp_servers c) (TrimSpace (dt_Server t)) = Some i" "TrimSpace (dt_Server t) \<noteq> []" "TrimSpace (dt_Name t) \<noteq> []"
    using assms by (auto simp: compileTable_def Let_def split: if_splits option.splits)
  moreover obtain cols m where "compileColumns (Suc (cp_next c)) 0 (dt_Columns t) (Suc (cp_next c)) = (cols, m)" by fastforce
  moreover from this have "map columnFacts cols =
      map (\<lambda>c. (dcl_Name c, dcl_Nullable c \<noteq> Some False, False)) (filter (\<lambda>c. TrimSpace (dcl_Name c) \<noteq> []) (dt_Columns t))"
    using compileColumns_facts [of "Suc (cp_next c)" 0 "dt_Columns t" "Suc (cp_next c)"] by simp
  ultimately show "map columnFacts (sn_Columns (cp_out c')) = map columnFacts (sn_Columns (cp_out c)) @
      map (\<lambda>c. (dcl_Name c, dcl_Nullable c \<noteq> Some False, False)) (filter (\<lambda>c. TrimSpace (dcl_Name c) \<noteq> []) (dt_Columns t))"
    "map tbr_SchemaName (sn_Tables (cp_out c')) = map tbr_SchemaName (sn_Tables (cp_out c)) @ [schemaOr (dt_Schema t)]"
    using assms by (auto simp: compileTable_def Let_def)
qed

lemma compileServer_enabled:
  assumes "compileServer env x c = Inr c'"
  shows "map svr_Enabled (sn_Servers (cp_out c')) = map svr_Enabled (sn_Servers (cp_out c)) @ [fs_Enabled x \<noteq> Some False]"
  using assms by (auto simp: compileServer_def Let_def serverCredRef_lists split: if_splits sum.splits option.split)

lemma schemaOr_nonempty: "schemaOr s \<noteq> []"
  by (simp add: schemaOr_def Let_def)

lemma compile_facts:
  assumes "compileDeclarative env (declarativeFromImporter doc) n = Inr (snap, m)"
  shows "map svr_Enabled (sn_Servers snap) = map (\<lambda>s. ds_Enabled s \<noteq> Some False) (dd_Servers doc)"
    "map columnFacts (sn_Columns snap) = map (\<lambda>c. (dcl_Name c, dcl_Nullable c \<noteq> Some False, False)) (docColumns doc)"
    "\<forall>t\<in>set (sn_Tables snap). tbr_SchemaName t \<noteq> []" "\<forall>f\<in>set (sn_Functions snap). fnr_SchemaName f \<noteq> []"
proof -
  from assms obtain c1 c2 c3 c4 where
    c: "foldE (compileCredential env) (dd_Credentials doc) (startCompiler n) = Inr c1"
      "foldE (compileServer env) (fd_Servers (declarativeFromImporter doc)) c1 = Inr c2"
      "foldE compileTable (dd_Tables doc) c2 = Inr c3" "foldE compileFunction (dd_Functions doc) c3 = Inr c4" "snap = cp_out c4"
    by (elim compileDeclarative_steps) (simp add: declarativeFromImporter_def)
  let ?s = "\<lambda>c. map svr_Enabled (sn_Servers (cp_out c))" and ?c = "\<lambda>c. map columnFacts (sn_Columns (cp_out c))"
    and ?t = "\<lambda>c. map tbr_SchemaName (sn_Tables (cp_out c))" and ?f = "\<lambda>c. map (\<lambda>f. (fnr_SchemaName f, fnr_Name f)) (sn_Functions (cp_out c))"
  have c1: "?s c1 = []" "?c c1 = []" "?t c1 = []" "?f c1 = []"
    using foldE_same [where g = ?s, OF _ c(1)] foldE_same [where g = ?c, OF _ c(1)] foldE_same [where g = ?t, OF _ c(1)]
      foldE_same [where g = ?f, OF _ c(1)] by (simp_all add: compileCredential_lists startCompiler_def emptySnapshot_def)
  have c2: "?s c2 = map (\<lambda>x. fs_Enabled x \<noteq> Some False) (fd_Servers (declarativeFromImporter doc))" "?c c2 = []" "?t c2 = []" "?f c2 = []"
    using foldE_map [where g = ?s, OF _ c(2)] foldE_same [where g = ?c, OF _ c(2)] foldE_same [where g = ?t, OF _ c(2)]
      foldE_same [where g = ?f, OF _ c(2)] c1 by (simp_all add: compileServer_lists compileServer_enabled)
  have c3: "?s c3 = ?s c2" "?c c3 = map (\<lambda>c. (dcl_Name c, dcl_Nullable c \<noteq> Some False, False)) (docColumns doc)"
    "?t c3 = map (\<lambda>t. schemaOr (dt_Schema t)) (dd_Tables doc)" "?f c3 = []"
    using foldE_same [where g = ?s, OF _ c(3)] foldE_concat [where g = ?c, OF compileTable_facts(1) c(3)]
      foldE_map [where g = ?t, OF compileTable_facts(2) c(3)] foldE_same [where g = ?f, OF _ c(3)] c2
    by (simp_all add: compileTable_lists docColumns_def map_concat comp_def)
  have c4: "?s c4 = ?s c3" "?c c4 = ?c c3" "?t c4 = ?t c3" "?f c4 = map (\<lambda>f. (schemaOr (df_Schema f), TrimSpace (df_Name f))) (dd_Functions doc)"
    using foldE_same [where g = ?s, OF _ c(4)] foldE_same [where g = ?c, OF _ c(4)] foldE_same [where g = ?t, OF _ c(4)]
      foldE_map [where g = ?f, OF compileFunction_lists(1) c(4)] c3 by (simp_all add: compileFunction_lists)
  show "map svr_Enabled (sn_Servers snap) = map (\<lambda>s. ds_Enabled s \<noteq> Some False) (dd_Servers doc)"
    using c2(1) c3(1) c4(1) c(5) by (simp add: declarativeFromImporter_def comp_def)
  show "map columnFacts (sn_Columns snap) = map (\<lambda>c. (dcl_Name c, dcl_Nullable c \<noteq> Some False, False)) (docColumns doc)"
    using c3(2) c4(2) c(5) by simp
  show "\<forall>t\<in>set (sn_Tables snap). tbr_SchemaName t \<noteq> []"
  proof
    fix t assume "t \<in> set (sn_Tables snap)"
    then have "tbr_SchemaName t \<in> set (?t c4)" using c(5) by simp
    then show "tbr_SchemaName t \<noteq> []" unfolding c4(3) c3(3) using schemaOr_nonempty by (auto dest: sym)
  qed
  show "\<forall>f\<in>set (sn_Functions snap). fnr_SchemaName f \<noteq> []"
  proof
    fix f assume "f \<in> set (sn_Functions snap)"
    then have "(fnr_SchemaName f, fnr_Name f) \<in> set (?f c4)" using c(5) by simp
    then show "fnr_SchemaName f \<noteq> []" unfolding c4(4) using schemaOr_nonempty by (auto dest: sym)
  qed
qed

text \<open>The result of a successful import, in any mode and in replace mode.\<close>

lemma dbImport_any:
  assumes "gormWrites (db_gorm env) content" "gormTransacts (db_gorm env) content saved"
    and "dbImportDeclarative env doc mode s = (Inr r, s')"
  shows "\<exists>merged s1 snap m creds. dbImportDoc env doc mode s = (Inr merged, s1) \<and>
    compileDeclarative (dbCompileEnv env (dbs_world s1)) (declarativeFromImporter merged) (dbs_next s1) = Inr (snap, m) \<and>
    r = CountResult merged \<and> dbs_next s' = m \<and> map credentialRow (sn_Credentials snap) = map Inr creds \<and>
    content (dbs_world s') = importedContent creds snap \<and> noClashes (importedContent creds snap)"
proof -
  obtain merged s1 snap m where doc: "dbImportDoc env doc mode s = (Inr merged, s1)"
    and c: "compileDeclarative (dbCompileEnv env (dbs_world s1)) (declarativeFromImporter merged) (dbs_next s1) = Inr (snap, m)"
    and rep: "replaceSnapshot (db_gorm env) snap (s1\<lparr>dbs_next := m\<rparr>) = (Inr (), s')" and r: "r = CountResult merged"
    using assms(3) unfolding dbImportDeclarative_def success dbCompile_def
    by (elim exE conjE) (simp split: sum.splits prod.splits)
  from replaceSnapshot_ok [OF assms(1,2) rep] doc c r show ?thesis by auto
qed

lemma dbImportDoc_replace: "dbImportDoc env doc ''replace'' s = (Inr doc, s)" "dbImportDoc env doc [] s = (Inr doc, s)"
  by (simp_all add: dbImportDoc_def retC_def)

lemma dbImport_ok:
  assumes "gormWrites (db_gorm env) content" "gormTransacts (db_gorm env) content saved"
    and "dbImportDeclarative env doc ''replace'' s = (Inr r, s')"
  shows "\<exists>snap m creds. compileDeclarative (dbCompileEnv env (dbs_world s)) (declarativeFromImporter doc) (dbs_next s) = Inr (snap, m) \<and>
    r = CountResult doc \<and> dbs_next s' = m \<and> map credentialRow (sn_Credentials snap) = map Inr creds \<and>
    content (dbs_world s') = importedContent creds snap \<and> noClashes (importedContent creds snap)"
  using dbImport_any [OF assms] by (auto simp: dbImportDoc_replace)

lemma noClashes_distinct:
  assumes "noClashes c"
  shows "distinct (map mcr_Name (dc_credentials c))" "distinct (map msv_Name (dc_servers c))"
    "distinct (map (\<lambda>t. (mtb_SchemaName t, mtb_Name t)) (dc_tables c))" "distinct (map mcl_Name (dc_columns c))"
    "distinct (map (\<lambda>f. (mfn_SchemaName f, mfn_Name f)) (dc_functions c))"
proof -
  have *: "distinct (map f xs)" if "sorted_wrt (\<lambda>a b. \<not> clash a b) xs" "\<And>a b. f a = f b \<Longrightarrow> clash a b" for f :: "'a \<Rightarrow> 'k" and clash xs
    using that(1) by (induction xs) (use that(2) in force)+
  from assms show "distinct (map mcr_Name (dc_credentials c))" "distinct (map msv_Name (dc_servers c))"
    "distinct (map (\<lambda>t. (mtb_SchemaName t, mtb_Name t)) (dc_tables c))" "distinct (map mcl_Name (dc_columns c))"
    "distinct (map (\<lambda>f. (mfn_SchemaName f, mfn_Name f)) (dc_functions c))"
    unfolding noClashes_def
    by (auto intro!: * [of credentialClash] * [of serverClash] * [of tableClash] * [of columnClash] * [of functionClash]
        simp: credentialClash_def serverClash_def tableClash_def columnClash_def functionClash_def)
qed

lemma import_tags:
  assumes "gormWrites (db_gorm env) content" "gormTransacts (db_gorm env) content saved"
    and "dbImportDeclarative env doc mode s = (Inr r, s')"
  shows "\<exists>merged s1. dbImportDoc env doc mode s = (Inr merged, s1) \<and>
    map msv_Enabled (dc_servers (content (dbs_world s'))) = map (\<lambda>_. True) (dd_Servers merged) \<and>
    map (\<lambda>c. (mcl_Name c, mcl_Nullable c)) (dc_columns (content (dbs_world s'))) = map (\<lambda>c. (dcl_Name c, True)) (docColumns merged) \<and>
    distinct (map dcl_Name (docColumns merged))"
proof -
  from dbImport_any [OF assms] obtain merged s1 snap m creds where
    doc: "dbImportDoc env doc mode s = (Inr merged, s1)"
    and c: "compileDeclarative (dbCompileEnv env (dbs_world s1)) (declarativeFromImporter merged) (dbs_next s1) = Inr (snap, m)"
    and content: "content (dbs_world s') = importedContent creds snap" "noClashes (importedContent creds snap)" by blast
  have names: "map clr_Name (sn_Columns snap) = map dcl_Name (docColumns merged)"
  proof -
    have "map clr_Name (sn_Columns snap) = map fst (map columnFacts (sn_Columns snap))" by simp
    also have "\<dots> = map dcl_Name (docColumns merged)" unfolding compile_facts(2) [OF c] by simp
    finally show ?thesis .
  qed
  have "map mcl_Name (dc_columns (importedContent creds snap)) = map clr_Name (sn_Columns snap)"
    by (simp add: importedContent_def columnDefaults_def columnRow_def comp_def)
  then have "distinct (map dcl_Name (docColumns merged))" using noClashes_distinct(4) [OF content(2)] names by simp
  moreover have "map (\<lambda>c. (mcl_Name c, mcl_Nullable c)) (dc_columns (importedContent creds snap)) =
      map (\<lambda>n. (n, True)) (map clr_Name (sn_Columns snap))"
    by (simp add: importedContent_def columnDefaults_def columnRow_def orTag_def)
  moreover have "map msv_Enabled (dc_servers (importedContent creds snap)) = map (\<lambda>_. True) (dd_Servers merged)"
  proof -
    have "length (sn_Servers snap) = length (dd_Servers merged)" using arg_cong [OF compile_facts(1) [OF c], of length] by simp
    then have "map (\<lambda>_. True) (sn_Servers snap) = map (\<lambda>_. True) (dd_Servers merged)" by (simp add: map_replicate_const)
    then show ?thesis by (simp add: importedContent_def serverDefaults_def orTag_def comp_def)
  qed
  ultimately show ?thesis using content(1) doc names by (simp add: comp_def)
qed

text \<open>C18: What the tags of the entities impose on an import into the database, in any mode. A successful import leaves one row
  for every server and every column of the document that it imports (in replace mode the given one, in merge mode the merged
  one), the columns in the order of the document, and then every server is enabled and every column nullable, whatever the
  document says, because GORM leaves a false value with the default \<open>true\<close> to the default. And an import only succeeds when
  no two columns of that whole document have one name, because the unique index for a column's table and name is declared for
  the name alone.\<close>

theorem db_import_tags:
  assumes "gormWrites (db_gorm env) content" "gormTransacts (db_gorm env) content saved"
    and "dbImportDeclarative env doc mode s = (Inr r, s')"
  shows "\<exists>merged s1. dbImportDoc env doc mode s = (Inr merged, s1) \<and> (mode \<in> {[], ''replace''} \<longrightarrow> merged = doc) \<and>
    map msv_Enabled (dc_servers (content (dbs_world s'))) = map (\<lambda>_. True) (dd_Servers merged) \<and>
    map (\<lambda>c. (mcl_Name c, mcl_Nullable c)) (dc_columns (content (dbs_world s'))) = map (\<lambda>c. (dcl_Name c, True)) (docColumns merged) \<and>
    distinct (map dcl_Name (docColumns merged))"
proof -
  from import_tags [OF assms] obtain merged s1 where m: "dbImportDoc env doc mode s = (Inr merged, s1)"
    "map msv_Enabled (dc_servers (content (dbs_world s'))) = map (\<lambda>_. True) (dd_Servers merged)"
    "map (\<lambda>c. (mcl_Name c, mcl_Nullable c)) (dc_columns (content (dbs_world s'))) = map (\<lambda>c. (dcl_Name c, True)) (docColumns merged)"
    "distinct (map dcl_Name (docColumns merged))" by blast
  have "mode \<in> {[], ''replace''} \<longrightarrow> merged = doc" using m(1) by (auto simp: dbImportDoc_replace)
  with m show ?thesis by blast
qed

section \<open>The same import into both stores\<close>

text \<open>A document on which the defaults change nothing: no server is disabled, no column is declared not null.\<close>

definition tagSafe :: "DeclarativeDoc \<Rightarrow> bool" where
  "tagSafe doc \<longleftrightarrow>
     list_all (\<lambda>s. ds_Enabled s \<noteq> Some False) (dd_Servers doc) \<and>
     list_all (\<lambda>c. dcl_Nullable c \<noteq> Some False) (docColumns doc)"

lemma importedContent_safe:
  assumes "compileDeclarative env (declarativeFromImporter doc) n = Inr (snap, m)" "tagSafe doc"
  shows "dc_servers (importedContent creds snap) = map serverRow (sn_Servers snap)"
    "dc_tables (importedContent creds snap) = map tableRow (sn_Tables snap)"
    "dc_columns (importedContent creds snap) = map columnRow (sn_Columns snap)"
    "dc_functions (importedContent creds snap) = map functionRow (sn_Functions snap)"
proof -
  note facts = compile_facts [OF assms(1)]
  have "set (map svr_Enabled (sn_Servers snap)) \<subseteq> {True}" unfolding facts(1) using assms(2) by (auto simp: tagSafe_def list_all_iff)
  then show "dc_servers (importedContent creds snap) = map serverRow (sn_Servers snap)"
    by (auto simp: importedContent_def serverDefaults_def serverRow_def orTag_def toJSONRaw_def nodeToRaw_def)
  have "set (map columnFacts (sn_Columns snap)) \<subseteq> UNIV \<times> {True} \<times> {False}" unfolding facts(2)
    using assms(2) by (auto simp: tagSafe_def list_all_iff)
  then show "dc_columns (importedContent creds snap) = map columnRow (sn_Columns snap)"
    by (auto simp: importedContent_def columnDefaults_def columnRow_def orTag_def)
  show "dc_tables (importedContent creds snap) = map tableRow (sn_Tables snap)"
    using facts(3) by (auto simp: importedContent_def tableDefaults_def tableRow_def orTag_def toJSONRaw_def nodeToRaw_def encodeKeyColumns_def)
  show "dc_functions (importedContent creds snap) = map functionRow (sn_Functions snap)"
    using facts(4) by (auto simp: importedContent_def functionDefaults_def functionRow_def orTag_def toJSONRaw_def nodeToRaw_def)
qed

lemma import_replace_next:
  assumes "compileDeclarative (compileEnvOf env (st_world t)) (declarativeFromImporter doc) (st_next t) = Inr (snap, m)"
  shows "st_data (snd (ImportDeclarative env doc ''replace'' t)) = snap" "st_next (snd (ImportDeclarative env doc ''replace'' t)) = m"
proof -
  have prep: "importPrepare env doc ''replace'' t = (Inr (doc, snap), t\<lparr>st_next := m\<rparr>)"
    using assms by (simp add: importPrepare_def readData_def importDoc_def bindC_def compileIn_def retC_def)
  obtain r s1 where w: "withLock env (setData (\<lambda>_. snap)) (t\<lparr>st_next := m\<rparr>) = (r, s1)" by fastforce
  have "st_data s1 = snap" "st_next s1 = m"
    using withLock_state [of env "setData (\<lambda>_. snap)" "t\<lparr>st_next := m\<rparr>"] w by simp_all
  then show "st_data (snd (ImportDeclarative env doc ''replace'' t)) = snap" "st_next (snd (ImportDeclarative env doc ''replace'' t)) = m"
    using prep w by (simp_all add: ImportDeclarative_def importCommit_def bindC_def retC_def split: sum.split)
qed

lemma credentials_images: "map credentialRow cs = map Inr rs \<Longrightarrow> rs = map credentialImage cs"
  by (induction cs arbitrary: rs) (auto dest!: credentialRow_image)

lemma import_same:
  assumes "gormWrites (db_gorm env) (contentOf rows)" "gormTransacts (db_gorm env) (contentOf rows) saved"
    and "dbCompileEnv env (dbs_world s) = compileEnvOf fenv (st_world t)" "dbs_next s = st_next t" "tagSafe doc"
    and "dbImportDeclarative env doc ''replace'' s = (Inr r, s')"
  shows "sameMetadata rows s' (snd (ImportDeclarative fenv doc ''replace'' t))"
proof -
  from dbImport_ok [OF assms(1,2,6)] obtain snap m creds where
    c: "compileDeclarative (compileEnvOf fenv (st_world t)) (declarativeFromImporter doc) (st_next t) = Inr (snap, m)"
    and creds: "map credentialRow (sn_Credentials snap) = map Inr creds"
    and content: "contentOf rows (dbs_world s') = importedContent creds snap" "noClashes (importedContent creds snap)"
    unfolding assms(3,4) by blast
  note safe = importedContent_safe [OF c assms(5), of creds]
  note names = noClashes_distinct [OF content(2), unfolded safe]
  have rows: "dr_credentials rows (dbs_world s') = creds" "dr_servers rows (dbs_world s') = map serverRow (sn_Servers snap)"
    "dr_tables rows (dbs_world s') = map tableRow (sn_Tables snap)" "dr_columns rows (dbs_world s') = map columnRow (sn_Columns snap)"
    "dr_functions rows (dbs_world s') = map functionRow (sn_Functions snap)"
    using arg_cong [OF content(1), of dc_credentials] arg_cong [OF content(1), of dc_servers] arg_cong [OF content(1), of dc_tables]
      arg_cong [OF content(1), of dc_columns] arg_cong [OF content(1), of dc_functions] safe
    by (simp_all add: contentOf_def importedContent_def)
  have "dbHolds rows (dbs_world s') snap"
    unfolding dbHolds_def rows using creds by simp
  moreover have "map mcr_Name creds = map crr_Name (sn_Credentials snap)"
    unfolding credentials_images [OF creds] by (simp add: credentialImage_def)
  then have "storeNames snap"
    using names by (simp add: storeNames_def importedContent_def comp_def)
  moreover have "distinct (map (\<lambda>c. (clr_TableID c, clr_Name c)) (sn_Columns snap))"
    using names(4) by (auto simp: distinct_map inj_on_def)
  moreover have "storeRefs snap m" using compile_storeOk [OF c] by simp
  ultimately show ?thesis
    by (simp add: sameMetadata_def import_replace_next [OF c] storeOk_def)
qed

text \<open>C9: Importing a document in replace mode into the database or into the file store comes to the same, where the tags of
  the entities change nothing: for a document that disables no server and declares no column not null, a successful import with
  the mode replace into the database leaves it with the metadata that the import of the document into a file store leaves in memory, with the same identifiers and
  credentials, so that every call of the engine then has the same result on both. The two use one vault, one clock and one
  source of identifiers. Nothing is said of merge mode, in which the two differ: the export of the database that is merged
  drops the credentials that several servers share.\<close>

theorem db_import_same_as_file:
  assumes "sameSettings env rows fenv" "gormWrites (db_gorm env) (contentOf rows)" "gormTransacts (db_gorm env) (contentOf rows) saved"
    and "dbCompileEnv env (dbs_world s) = compileEnvOf fenv (st_world t)" "dbs_next s = st_next t" "tagSafe doc"
    and "dbImportDeclarative env doc ''replace'' s = (Inr r, s')"
  shows "storesAgree (dbMetaStore env) s' (fileMetaStore fenv) (snd (ImportDeclarative fenv doc ''replace'' t))"
  by (rule same_stores_agree [OF assms(1) import_same [OF assms(2-7)]])

section \<open>Examples\<close>

text \<open>Two tables of a server with a credential; the columns, the enabled flag and the nullable flag vary.\<close>

definition shopDoc :: "bool option \<Rightarrow> bool option \<Rightarrow> string \<Rightarrow> DeclarativeDoc" where
  "shopDoc enabled nullable column =
     \<lparr>dd_Credentials = [], dd_Servers = [\<lparr>ds_Name = ''pg'', ds_Protocol = ''postgres'', ds_Credential = [(''dsn'', VStr ''x'')],
        ds_Enabled = enabled, ds_Options = []\<rparr>],
      dd_Tables = map (\<lambda>(t, c). \<lparr>dt_Server = ''pg'', dt_Schema = ''shop'', dt_Name = t, dt_RemoteName = [], dt_KeyColumns = [c],
        dt_Options = [], dt_Columns = [\<lparr>dcl_Name = c, dcl_DataType = ''uuid'', dcl_RemoteName = [], dcl_Nullable = nullable,
          dcl_Position = 0\<rparr>]\<rparr>) [(''users'', ''id''), (''orders'', column)],
      dd_Functions = []\<rparr>"

lemma memContent: "contentOf memRows = md_now"
  by (simp add: fun_eq_iff contentOf_def memRows_def)

lemma memGorm_readOnly: "gormReadOnly memGorm md_now"
  by (simp add: gormReadOnly_def readOnly_def memGorm_def memTable_def)

lemma memEnv_gorm: "db_gorm memEnv = memGorm"
  by (simp add: memEnv_def)

text \<open>In memory a document is imported when its compilation has no clashes.\<close>

lemma mem_import:
  assumes "compileDeclarative (dbCompileEnv memEnv (dbs_world s)) (declarativeFromImporter doc) (dbs_next s) = Inr (snap, m)"
    and "list_all (\<lambda>c. isOk (credentialRow c)) (sn_Credentials snap)"
    and "noClashes (importedContent (map credentialImage (sn_Credentials snap)) snap)"
  shows "\<exists>s'. dbImportDeclarative memEnv doc ''replace'' s = (Inr (CountResult doc), s') \<and>
    md_now (dbs_world s') = importedContent (map credentialImage (sn_Credentials snap)) snap"
proof -
  have "credentialRow c = Inr (credentialImage c)" if c: "c \<in> set (sn_Credentials snap)" for c
  proof -
    from assms(2) c obtain r where r: "credentialRow c = Inr r"
      by (cases "credentialRow c") (auto simp: list_all_iff isOk_def)
    with credentialRow_image [OF r] show ?thesis by simp
  qed
  then have "map credentialRow (sn_Credentials snap) = map Inr (map credentialImage (sn_Credentials snap))" by simp
  from mem_replace [OF this assms(3), of "s\<lparr>dbs_next := m\<rparr>"] assms(1) show ?thesis
    by (auto simp: dbImportDeclarative_def dbImportDoc_def Let_def bindC_def retC_def dbCompile_def memEnv_gorm)
qed

definition startStore :: "memDB dbStore" where
  "startStore = memStore (emptyStore 0 ())"

definition shopSnapshot :: "bool option \<Rightarrow> bool option \<Rightarrow> string \<Rightarrow> snapshot" where
  "shopSnapshot enabled nullable column =
     (case compileDeclarative (dbCompileEnv memEnv (dbs_world startStore)) (declarativeFromImporter (shopDoc enabled nullable column)) 0 of
        Inr (snap, m) \<Rightarrow> snap | Inl e \<Rightarrow> emptySnapshot)"

lemma shop_import:
  assumes "isOk (compileDeclarative (dbCompileEnv memEnv (dbs_world startStore)) (declarativeFromImporter (shopDoc enabled nullable column)) 0)"
    and "list_all (\<lambda>c. isOk (credentialRow c)) (sn_Credentials (shopSnapshot enabled nullable column))"
    and "noClashes (importedContent (map credentialImage (sn_Credentials (shopSnapshot enabled nullable column))) (shopSnapshot enabled nullable column))"
  shows "\<exists>s'. dbImportDeclarative memEnv (shopDoc enabled nullable column) ''replace'' startStore =
      (Inr (CountResult (shopDoc enabled nullable column)), s')"
proof -
  obtain m where "compileDeclarative (dbCompileEnv memEnv (dbs_world startStore)) (declarativeFromImporter (shopDoc enabled nullable column))
      (dbs_next startStore) = Inr (shopSnapshot enabled nullable column, m)"
    using assms(1) by (auto simp: shopSnapshot_def isOk_def startStore_def memStore_def emptyStore_def split: sum.splits)
  from mem_import [OF this assms(2,3)] show ?thesis by blast
qed

theorem db_import_atomic_witness:
  "\<exists>e s'. dbImportDeclarative memEnv (shopDoc None None ''id'') ''replace'' (memStore storeWithTable) = (Inl e, s') \<and>
     md_now (dbs_world s') = md_now (memOf (st_data storeWithTable))"
proof -
  have "\<not> distinct (map dcl_Name (docColumns (shopDoc None None ''id'')))" by code_simp
  then have "dbImportDeclarative memEnv (shopDoc None None ''id'') ''replace'' (memStore storeWithTable) \<noteq> (Inr r, s')" for r s'
    using import_tags [of memEnv md_now md_saved, unfolded memEnv_gorm, OF memGorm_writes memGorm_transacts,
        of "shopDoc None None ''id''" "''replace''"] by (fastforce simp: dbImportDoc_replace)
  then obtain e s' where e: "dbImportDeclarative memEnv (shopDoc None None ''id'') ''replace'' (memStore storeWithTable) = (Inl e, s')"
    by (metis old.sum.exhaust surj_pair)
  from db_import_atomic [of memEnv md_now md_saved, unfolded memEnv_gorm, OF memGorm_readOnly memGorm_transacts e] e
  show ?thesis by (auto simp: memStore_def)
qed

theorem db_import_tags_witness:
  "\<exists>r s'. dbImportDeclarative memEnv (shopDoc (Some False) (Some False) ''number'') ''replace'' startStore = (Inr r, s') \<and>
     map msv_Enabled (dc_servers (md_now (dbs_world s'))) = [True] \<and>
     map (\<lambda>c. (mcl_Name c, mcl_Nullable c)) (dc_columns (md_now (dbs_world s'))) = [(''id'', True), (''number'', True)]"
proof -
  have "isOk (compileDeclarative (dbCompileEnv memEnv (dbs_world startStore)) (declarativeFromImporter (shopDoc (Some False) (Some False) ''number'')) 0)"
    "list_all (\<lambda>c. isOk (credentialRow c)) (sn_Credentials (shopSnapshot (Some False) (Some False) ''number''))"
    "noClashes (importedContent (map credentialImage (sn_Credentials (shopSnapshot (Some False) (Some False) ''number'')))
      (shopSnapshot (Some False) (Some False) ''number''))" by code_simp+
  from shop_import [OF this] obtain r s' where
    r: "dbImportDeclarative memEnv (shopDoc (Some False) (Some False) ''number'') ''replace'' startStore = (Inr r, s')" by blast
  moreover have "map (\<lambda>_. True) (dd_Servers (shopDoc (Some False) (Some False) ''number'')) = [True]"
    "map (\<lambda>c. (dcl_Name c, True)) (docColumns (shopDoc (Some False) (Some False) ''number'')) = [(''id'', True), (''number'', True)]"
    by code_simp+
  moreover note db_import_tags [of memEnv md_now md_saved, unfolded memEnv_gorm, OF memGorm_writes memGorm_transacts r]
  ultimately show ?thesis by auto
qed

theorem db_import_same_as_file_witness:
  "\<exists>r s'. dbImportDeclarative memEnv (shopDoc None None ''number'') ''replace'' startStore = (Inr r, s') \<and>
     storesAgree (dbMetaStore memEnv) s' (fileMetaStore storeEnv)
       (snd (ImportDeclarative storeEnv (shopDoc None None ''number'') ''replace'' (emptyStore 0 ()))) \<and> re_Tables r = 2"
proof -
  have "isOk (compileDeclarative (dbCompileEnv memEnv (dbs_world startStore)) (declarativeFromImporter (shopDoc None None ''number'')) 0)"
    "list_all (\<lambda>c. isOk (credentialRow c)) (sn_Credentials (shopSnapshot None None ''number''))"
    "noClashes (importedContent (map credentialImage (sn_Credentials (shopSnapshot None None ''number''))) (shopSnapshot None None ''number''))"
    and tags: "tagSafe (shopDoc None None ''number'')" and two: "re_Tables (CountResult (shopDoc None None ''number'')) = 2" by code_simp+
  from shop_import [OF this(1-3)] obtain s' where
    r: "dbImportDeclarative memEnv (shopDoc None None ''number'') ''replace'' startStore = (Inr (CountResult (shopDoc None None ''number'')), s')" by blast
  have start: "dbCompileEnv memEnv (dbs_world startStore) = compileEnvOf storeEnv (st_world (emptyStore 0 ()))"
    "dbs_next startStore = st_next (emptyStore 0 ())"
    by (simp_all add: dbCompileEnv_def compileEnvOf_def memEnv_def storeEnv_def memStore_def startStore_def emptyStore_def)
  have laws: "gormWrites (db_gorm memEnv) (contentOf memRows)" "gormTransacts (db_gorm memEnv) (contentOf memRows) md_saved"
    unfolding memContent memEnv_gorm by (rule memGorm_writes, rule memGorm_transacts)
  from db_import_same_as_file [OF memEnv_same laws start tags r] r two show ?thesis by blast
qed

end
