(* ===== verification/FileDriver.thy ===== *)
theory FileDriver
  imports DriverApi
begin

text \<open>
  The file driver (\<open>internal/driver/file/file.go\<close>): a table is a file under the server's
  \<open>rootPath\<close>, read whole on every select. The operating system and the decoders of CSV,
  JSON, YAML and XLSX files are the fields of a record \<open>filesys\<close>; what the driver makes of
  the decoded data is modelled here.
\<close>

record ('w, 'x) filesys =
  fs_isDir :: "string \<Rightarrow> ('w, err, bool) comp"
  fs_read :: "string \<Rightarrow> ('w, err, string) comp"
  fs_csv :: "string \<Rightarrow> ('w, err, string list list) comp"
  fs_json :: "string \<Rightarrow> raw"
  fs_yaml :: "string \<Rightarrow> raw"
  fs_open_xlsx :: "string \<Rightarrow> ('w, err, 'x) comp"
  fs_sheet_index :: "'x \<Rightarrow> string \<Rightarrow> err + int"
  fs_sheet_rows :: "'x \<Rightarrow> string \<Rightarrow> err + string list list"

section \<open>Paths and formats\<close>

definition extFormatOf :: "string \<Rightarrow> string" where
  "extFormatOf ext =
     (if ext = ''.csv'' then ''csv''
      else if ext = ''.json'' then ''json''
      else if ext = ''.yaml'' \<or> ext = ''.yml'' then ''yaml''
      else if ext = ''.xlsx'' \<or> ext = ''.xlsm'' then ''xlsx''
      else if ext = ''.ndjson'' \<or> ext = ''.jsonl'' then ''ndjson''
      else ''csv'')"

definition filePath :: "string \<Rightarrow> ResolvedTable \<Rightarrow> err + string \<times> string" where
  "filePath rootPath resolved =
     (let name = RemoteTableName (rt_Table resolved);
          path = pathJoin rootPath name
      in case ParseServerOptions FileTableOptionsFields (t_Options (rt_Table resolved)) of
           (_, Some e) \<Rightarrow> Inl e
         | (topts, None) \<Rightarrow>
             let fmt = ToLower (TrimSpace (strField topts ''format''))
             in Inr (path, if fmt = [] then extFormatOf (ToLower (pathExt name)) else fmt))"

section \<open>Readers\<close>

definition readCSVFile :: "('w, 'x) filesys \<Rightarrow> string \<Rightarrow> ('w, err, row list) comp" where
  "readCSVFile fs path = bindC (fs_csv fs path) (\<lambda>records. retC (csvRows records))"

definition readYAMLFile :: "('w, 'x) filesys \<Rightarrow> string \<Rightarrow> ('w, err, row list) comp" where
  "readYAMLFile fs path = bindC (fs_read fs path) (\<lambda>txt. liftC (rowsOrRow (fs_yaml fs txt)))"

definition readJSONFile :: "('w, 'x) filesys \<Rightarrow> string \<Rightarrow> ('w, err, row list) comp" where
  "readJSONFile fs path = bindC (fs_read fs path) (\<lambda>txt. liftC (rowsOrRow (fs_json fs txt)))"

definition readNDJSONFile :: "('w, 'x) filesys \<Rightarrow> string \<Rightarrow> ('w, err, row list) comp" where
  "readNDJSONFile fs path =
     bindC (fs_read fs path) (\<lambda>txt. liftC (ndjsonRows (fs_json fs) (Split txt (char_of (10 :: nat)))))"

definition resolveXLSXSheet :: "('w, 'x) filesys \<Rightarrow> 'x \<Rightarrow> string \<Rightarrow> err + string" where
  "resolveXLSXSheet fs f tableName =
     (let tableName = TrimSpace tableName
      in if tableName = [] then Inl (Errorf ''xlsx: table name is required (must match sheet name)'')
         else (case fs_sheet_index fs f tableName of
                 Inl _ \<Rightarrow> Inl (Errorf (''xlsx: sheet '' @ quoteGo tableName @ '' not found''))
               | Inr idx \<Rightarrow>
                   if idx < 0 then Inl (Errorf (''xlsx: sheet '' @ quoteGo tableName @ '' not found''))
                   else Inr tableName))"

definition xlsxRow :: "string list \<Rightarrow> string list \<Rightarrow> row" where
  "xlsxRow hdr rec =
     buildMap [] (filter (\<lambda>kv. fst kv \<noteq> []) (zip (map TrimSpace hdr) (map VStr rec)))"

definition readXLSXFile :: "('w, 'x) filesys \<Rightarrow> string \<Rightarrow> string \<Rightarrow> ('w, err, row list) comp" where
  "readXLSXFile fs path tableName =
     bindC (fs_open_xlsx fs path) (\<lambda>f.
       liftC (case resolveXLSXSheet fs f tableName of
                Inl e \<Rightarrow> Inl e
              | Inr sheet \<Rightarrow>
                  (case fs_sheet_rows fs f sheet of
                     Inl e \<Rightarrow> Inl e
                   | Inr [] \<Rightarrow> Inr []
                   | Inr (hdr # recs) \<Rightarrow> Inr (filter (\<lambda>r. r \<noteq> []) (map (xlsxRow hdr) recs)))))"

section \<open>The driver\<close>

definition fileApplyFilters :: "row list \<Rightarrow> Filter list \<Rightarrow> Filter list list \<Rightarrow> row list" where
  "fileApplyFilters rows filters orGroups =
     (if filters = [] \<and> orGroups = [] then rows
      else filter (\<lambda>r. MatchQuery r filters orGroups) rows)"

definition fileLoad :: "('w, 'x) filesys \<Rightarrow> string \<Rightarrow> ResolvedTable \<Rightarrow> ('w, err, row list) comp" where
  "fileLoad fs rootPath resolved =
     bindC (liftC (filePath rootPath resolved)) (\<lambda>(path, fmt).
       if fmt = ''json'' then readJSONFile fs path
       else if fmt = ''yaml'' \<or> fmt = ''yml'' then readYAMLFile fs path
       else if fmt = ''xlsx'' then readXLSXFile fs path (t_TableName (rt_Table resolved))
       else if fmt = ''ndjson'' then readNDJSONFile fs path
       else readCSVFile fs path)"

definition fileSelect ::
  "('w, 'x) filesys \<Rightarrow> string \<Rightarrow> SelectRequest \<Rightarrow> ('w, err, row list) comp" where
  "fileSelect fs rootPath req =
     bindC (fileLoad fs rootPath (sr_Resolved req)) (\<lambda>rows.
       let cols = rt_Columns (sr_Resolved req);
           rows = fileApplyFilters rows (MapFilters (sr_Filters req) cols)
                    (mapOrGroups (sr_OrGroups req) cols);
           rows = applySelect rows (sr_Select req);
           rows = pageRows (sr_Offset req) (sr_Limit req) rows
       in retC (MapRowsFromRemote rows cols))"

definition fileDriver :: "('w, 'x) filesys \<Rightarrow> string \<Rightarrow> 'w driver" where
  "fileDriver fs rootPath =
     \<lparr>d_select = fileSelect fs rootPath,
      d_insert = (\<lambda>_. failC ErrNotSupported),
      d_update = (\<lambda>_. failC ErrNotSupported),
      d_upsert = (\<lambda>_. failC ErrNotSupported),
      d_delete = (\<lambda>_. failC ErrNotSupported),
      d_invoke = (\<lambda>_. failC ErrNotSupported),
      d_count = None\<rparr>"

definition fileNew :: "('w, 'x) filesys \<Rightarrow> 'w Factory" where
  "fileNew fs srv cred =
     (case ParseServerOptions FileServerOptionsFields (s_Options srv) of
        (_, Some e) \<Rightarrow> failC e
      | (opts, None) \<Rightarrow>
          let root = TrimSpace (strField opts ''rootPath'')
          in if root = [] then
               failC (Errorf (''file server '' @ quoteGo (s_Name srv) @ '' requires options.rootPath''))
             else (\<lambda>w. case fs_isDir fs root w of
                     (Inl e, w') \<Rightarrow> (Inl (Wrapf ''file rootPath: '' e ''''), w')
                   | (Inr isDir, w') \<Rightarrow>
                       if \<not> isDir then (Inl (Errorf ''file rootPath must be a directory''), w')
                       else (Inr (fileDriver fs root), w')))"

section \<open>The contract\<close>

definition fileKeep :: "SelectRequest \<Rightarrow> row \<Rightarrow> bool" where
  "fileKeep req r =
     (let cols = rt_Columns (sr_Resolved req)
      in MatchQuery r (MapFilters (sr_Filters req) cols) (mapOrGroups (sr_OrGroups req) cols))"

lemma fileApplyFilters_filter: "fileApplyFilters rows fs gs = filter (\<lambda>r. MatchQuery r fs gs) rows"
  by (simp add: fileApplyFilters_def MatchQuery_def)

lemma fileKeep_eq:
  "fileKeep req = (\<lambda>r. MatchQuery r (MapFilters (sr_Filters req) (rt_Columns (sr_Resolved req)))
     (mapOrGroups (sr_OrGroups req) (rt_Columns (sr_Resolved req))))"
  by (simp add: fileKeep_def fun_eq_iff Let_def)

interpretation file_ro: read_only_driver "fileDriver fs rootPath" "fileLoad fs rootPath" fileKeep
  for fs :: "('w, 'x) filesys" and rootPath
  by unfold_locales
    (auto simp: fileDriver_def fileSelect_def fileApplyFilters_filter fileKeep_eq Let_def)

section \<open>Properties\<close>

text \<open>A concrete directory with one CSV file, for the examples.\<close>

definition exampleFiles :: "(unit, unit) filesys" where
  "exampleFiles =
     \<lparr>fs_isDir = (\<lambda>_. retC True), fs_read = (\<lambda>_. retC ''''),
      fs_csv = (\<lambda>_. retC [[''id'', ''full_name''], [''1'', ''ann''], [''2'', ''bo''], [''3'', ''cy'']]),
      fs_json = (\<lambda>_. RawEmpty), fs_yaml = (\<lambda>_. RawEmpty),
      fs_open_xlsx = (\<lambda>_. retC ()), fs_sheet_index = (\<lambda>_ _. Inr 0), fs_sheet_rows = (\<lambda>_ _. Inr [])\<rparr>"

definition exampleSelect :: "SelectRequest" where
  "exampleSelect =
     \<lparr>sr_Resolved = exampleResolved ProtocolFile ''people.csv'', sr_Select = [], sr_Filters = [],
      sr_OrGroups = [], sr_Order = [], sr_Limit = 0, sr_Offset = 0\<rparr>"

lemmas example_file_defs = exampleFiles_def exampleSelect_def exampleResolved_def exampleServer_def
  exampleColumns_def

text \<open>C32: paging through a file loses and repeats nothing: when reading the file does not change it,
  the first \<open>m\<close> pages of size \<open>n\<close>, put together, are the first \<open>m * n\<close> rows of the unpaged
  result, in order, with the same filters and projection.\<close>

theorem file_select_pages:
  assumes "fileLoad fs root (sr_Resolved req) w = (Inr stored, w)" and "n > 0"
    and "d_select (fileDriver fs root) (req\<lparr>sr_Limit := 0, sr_Offset := 0\<rparr>) w = (Inr rows, w)"
    and "\<And>k. k < m \<Longrightarrow>
      d_select (fileDriver fs root) (req\<lparr>sr_Limit := int n, sr_Offset := int (k * n)\<rparr>) w = (Inr (page k), w)"
  shows "concat (map page [0..<m]) = take (m * n) rows"
  using assms by (rule file_ro.select_pages)

lemma exampleFiles_load:
  "fileLoad exampleFiles ''/d'' (sr_Resolved exampleSelect) () =
     (Inr [[(''id'', VStr ''1''), (''full_name'', VStr ''ann'')], [(''id'', VStr ''2''), (''full_name'', VStr ''bo'')],
           [(''id'', VStr ''3''), (''full_name'', VStr ''cy'')]], ())"
  by code_simp

theorem file_select_pages_witness:
  "\<exists>page rows. concat (map page [0..<2]) = take (2 * 2) rows \<and> length rows = 3 \<and>
     d_select (fileDriver exampleFiles ''/d'') exampleSelect () = (Inr rows, ())"
proof -
  let ?sel = "\<lambda>l o'. d_select (fileDriver exampleFiles ''/d'') (exampleSelect\<lparr>sr_Limit := l, sr_Offset := o'\<rparr>) ()"
  let ?rows = "projr (fst (?sel 0 0))"
  have "concat (map (\<lambda>k. projr (fst (?sel 2 (int (k * 2))))) [0..<2]) = take (2 * 2) ?rows"
  proof (rule file_select_pages [OF exampleFiles_load, of 2])
    show "?sel 0 0 = (Inr ?rows, ())" by code_simp
    show "?sel (int 2) (int (k * 2)) = (Inr (projr (fst (?sel 2 (int (k * 2))))), ())" if "k < 2" for k
      using exampleFiles_load by (simp add: file_ro.select_eq comp_defs)
  qed simp
  moreover have "length ?rows = 3" "d_select (fileDriver exampleFiles ''/d'') exampleSelect () = (Inr ?rows, ())"
    by code_simp+
  ultimately show ?thesis by blast
qed

text \<open>The count of a file table is the number of rows of the file that satisfy the filters,
  whatever projection, order, limit and offset the request carries.\<close>

theorem file_count:
  "Count (fileDriver fs root) req w =
     (case fileLoad fs root (sr_Resolved req) w of
        (Inl e, w') \<Rightarrow> (Inl e, w')
      | (Inr stored, w') \<Rightarrow> (Inr (int (length (filter (fileKeep req) stored))), w'))"
  by (simp add: file_ro.count_eq comp_defs split: prod.split sum.split)

text \<open>The file driver parses \<open>order=\<close> but ignores it: the answer to a select does not depend
  on the order the client asks for.\<close>

theorem file_select_ignores_order:
  "d_select (fileDriver fs root) (req\<lparr>sr_Order := ord\<rparr>) = d_select (fileDriver fs root) req"
  by (rule file_ro.select_order_irrelevant)

text \<open>Selecting a renamed column by its local name gives empty rows: the file driver projects
  before it renames, so a column whose remote name differs from its local name is dropped when no
  file column happens to be called like the local name.\<close>

theorem file_select_renamed_column_lost:
  assumes "fileLoad fs root (sr_Resolved req) w = (Inr stored, w')"
    and "list_all (\<lambda>r. map_of r col = None) stored"
    and "sr_Select req = [col]" "sr_Limit req = 0" "sr_Offset req = 0"
  shows "d_select (fileDriver fs root) req w = (Inr (map (\<lambda>_. []) (filter (fileKeep req) stored)), w')"
proof -
  have "applySelect (filter (fileKeep req) stored) [col] = map (\<lambda>_. []) (filter (fileKeep req) stored)"
    using assms(2) by (auto simp: applySelect_def list_all_iff map_filter_simps)
  with assms show ?thesis
    by (simp add: file_ro.select_ok_iff pageRows_drop_take MapRowsFromRemote_def comp_def)
qed

theorem file_select_renamed_column_lost_witness:
  "d_select (fileDriver exampleFiles ''/d'') (exampleSelect\<lparr>sr_Select := [''name'']\<rparr>) () = (Inr [[], [], []], ())"
  using file_select_renamed_column_lost [of exampleFiles "''/d''" "exampleSelect\<lparr>sr_Select := [''name'']\<rparr>"
      "()" _ "()" "''name''"] exampleFiles_load
  by (simp add: example_file_defs fileKeep_eq MatchQuery_def MapFilters_def mapOrGroups_def)
end
