(* ===== verification/S3Driver.thy ===== *)
theory S3Driver
  imports DriverApi
begin

text \<open>
  The s3 driver (\<open>internal/driver/s3/s3.go\<close>). The AWS SDK is a record of parameters: making a
  client from the load options, listing a prefix and reading an object. What the driver
  passes to the SDK and makes of the answers is modelled here.
\<close>

record ('w, 'c) s3sdk =
  s3_load :: "string option \<Rightarrow> (string \<times> string \<times> string) option \<Rightarrow> ('w, err, 'c) comp"
  s3_list :: "'c \<Rightarrow> string \<Rightarrow> string \<Rightarrow> ('w, err, (string option \<times> val) list) comp"
  s3_get :: "'c \<Rightarrow> string \<Rightarrow> string \<Rightarrow> ('w, err, string) comp"
  s3_json :: "string \<Rightarrow> raw"
  s3_csv :: "string \<Rightarrow> err + string list list"

section \<open>Configuration\<close>

definition S3ServerOptionsFields :: "(string \<times> fkind) list" where
  "S3ServerOptionsFields = [(''region'', FStr), (''bucket'', FStr)]"

definition awsRegion :: "string \<Rightarrow> row option \<Rightarrow> string" where
  "awsRegion region cred =
     (let region = TrimSpace region
      in case cred of
           Some c \<Rightarrow> if region = [] then TrimSpace (Sprint (getAny c ''region'')) else region
         | None \<Rightarrow> region)"

definition awsStatic :: "row option \<Rightarrow> (string \<times> string \<times> string) option" where
  "awsStatic cred =
     (case cred of
        None \<Rightarrow> None
      | Some c \<Rightarrow>
          let sid = TrimSpace (Sprint (getAny c ''accessKeyId''));
              secret = TrimSpace (Sprint (getAny c ''secretAccessKey''))
          in if sid \<noteq> [] \<and> secret \<noteq> []
             then Some (sid, secret, TrimSpace (Sprint (getAny c ''sessionToken''))) else None)"

definition loadAWSConfig :: "('w, 'c) s3sdk \<Rightarrow> string \<Rightarrow> row option \<Rightarrow> ('w, err, 'c) comp" where
  "loadAWSConfig sdk region cred =
     s3_load sdk (strPtr (awsRegion region cred)) (awsStatic cred)"

section \<open>Reading objects\<close>

definition filepathExt :: "string \<Rightarrow> string" where
  "filepathExt path = (case LastIndex path ''.'' of Some i \<Rightarrow> drop i path | None \<Rightarrow> [])"

definition extFormat :: "string \<Rightarrow> string" where
  "extFormat key =
     (let ext = ToLower (filepathExt key)
      in if ext = ''.csv'' then ''csv''
         else if ext = ''.json'' then ''json''
         else if ext = ''.ndjson'' \<or> ext = ''.jsonl'' then ''ndjson''
         else [])"

definition objectPrefix :: "ResolvedTable \<Rightarrow> string \<times> string" where
  "objectPrefix resolved =
     (let topts = fst (ParseServerOptions S3TableOptionsFields (t_Options (rt_Table resolved)));
          prefix = TrimSpace (strField topts ''prefix'');
          prefix = (if prefix = [] then RemoteTableName (rt_Table resolved) else prefix)
      in (prefix, ToLower (TrimSpace (strField topts ''format''))))"

definition parseCSV :: "('w, 'c) s3sdk \<Rightarrow> string \<Rightarrow> err + row list" where
  "parseCSV sdk data = (case s3_csv sdk data of Inl e \<Rightarrow> Inl e | Inr records \<Rightarrow> Inr (csvRows records))"

definition readObject ::
  "('w, 'c) s3sdk \<Rightarrow> 'c \<Rightarrow> string \<Rightarrow> string \<Rightarrow> string \<Rightarrow> ('w, err, row list) comp" where
  "readObject sdk client bucket key fmt =
     bindC (s3_get sdk client bucket key) (\<lambda>data.
       liftC (if fmt = ''json'' then rowsOrRow (s3_json sdk data)
              else if fmt = ''ndjson'' \<or> fmt = ''jsonl''
              then ndjsonRows (s3_json sdk) (Split data (char_of (10 :: nat)))
              else parseCSV sdk data))"

section \<open>The driver\<close>

definition s3FilterOk :: "row \<Rightarrow> Filter \<Rightarrow> bool" where
  "s3FilterOk r f \<longleftrightarrow> \<not> (Sprint (getAny r (fl_Column f)) \<noteq> fl_Value f \<and> fl_Op f = OpEq)"

definition s3ApplyFilters :: "row list \<Rightarrow> Filter list \<Rightarrow> row list" where
  "s3ApplyFilters rows filters =
     (if filters = [] then rows else filter (\<lambda>r. list_all (s3FilterOk r) filters) rows)"

definition finishSelect :: "row list \<Rightarrow> SelectRequest \<Rightarrow> row list" where
  "finishSelect rows req =
     (let rows = s3ApplyFilters rows (MapFilters (sr_Filters req) (rt_Columns (sr_Resolved req)));
          rows = applySelect rows (sr_Select req);
          rows = pageRows (sr_Offset req) (sr_Limit req) rows
      in MapRowsFromRemote rows (rt_Columns (sr_Resolved req)))"

definition s3Load :: "('w, 'c) s3sdk \<Rightarrow> 'c \<Rightarrow> string \<Rightarrow> ResolvedTable \<Rightarrow> ('w, err, row list) comp" where
  "s3Load sdk client bucket resolved =
     (let (prefix, fmt) = objectPrefix resolved;
          fmt = (if fmt = [] \<and> Contains prefix ''.'' then extFormat prefix else fmt)
      in if fmt \<noteq> [] then readObject sdk client bucket prefix fmt
         else bindC (s3_list sdk client bucket prefix) (\<lambda>objs.
                retC (List.map_filter
                  (\<lambda>(key, size). map_option (\<lambda>k. [(''key'', VStr k), (''size'', size)]) key) objs)))"

definition s3Driver :: "('w, 'c) s3sdk \<Rightarrow> 'c \<Rightarrow> string \<Rightarrow> 'w driver" where
  "s3Driver sdk client bucket =
     \<lparr>d_select = (\<lambda>req. bindC (s3Load sdk client bucket (sr_Resolved req))
                          (\<lambda>rows. retC (finishSelect rows req))),
      d_insert = (\<lambda>_. failC ErrNotSupported),
      d_update = (\<lambda>_. failC ErrNotSupported),
      d_upsert = (\<lambda>_. failC ErrNotSupported),
      d_delete = (\<lambda>_. failC ErrNotSupported),
      d_invoke = (\<lambda>_. failC ErrNotSupported),
      d_count = None\<rparr>"

definition s3New :: "('w, 'c) s3sdk \<Rightarrow> 'w Factory" where
  "s3New sdk srv cred =
     (case ParseServerOptions S3ServerOptionsFields (s_Options srv) of
        (_, Some e) \<Rightarrow> failC e
      | (opts, None) \<Rightarrow>
          let bucket = TrimSpace (strField opts ''bucket'')
          in if bucket = [] then
               failC (Errorf (''s3 server '' @ quoteGo (s_Name srv) @ '' requires options.bucket''))
             else bindC (loadAWSConfig sdk (strField opts ''region'') cred)
                    (\<lambda>client. retC (s3Driver sdk client bucket)))"

section \<open>The contract\<close>

definition s3Keep :: "SelectRequest \<Rightarrow> row \<Rightarrow> bool" where
  "s3Keep req r = list_all (s3FilterOk r) (MapFilters (sr_Filters req) (rt_Columns (sr_Resolved req)))"

lemma s3ApplyFilters_filter: "s3ApplyFilters rows fs = filter (\<lambda>r. list_all (s3FilterOk r) fs) rows"
  by (simp add: s3ApplyFilters_def)

lemma s3Keep_eq:
  "s3Keep req = (\<lambda>r. list_all (s3FilterOk r) (MapFilters (sr_Filters req) (rt_Columns (sr_Resolved req))))"
  by (simp add: s3Keep_def fun_eq_iff)

interpretation s3_ro: read_only_driver "s3Driver sdk client bucket" "s3Load sdk client bucket" s3Keep
  for sdk :: "('w, 'c) s3sdk" and client bucket
  by unfold_locales
    (auto simp: s3Driver_def finishSelect_def s3ApplyFilters_filter s3Keep_eq Let_def)

section \<open>Properties\<close>

text \<open>The s3 driver honours equality filters only: on an object store the filters \<open>neq\<close>, \<open>gt\<close>,
  \<open>in\<close>, \<open>like\<close>, \<open>is\<close> and every \<open>or=\<close> group are silently dropped, so the result and the count
  are those of the request with just its \<open>eq\<close> filters.\<close>

theorem s3_only_eq_filters:
  "let req' = req\<lparr>sr_Filters := filter (\<lambda>f. fl_Op f = OpEq) (sr_Filters req), sr_OrGroups := [], sr_Order := []\<rparr>
   in d_select (s3Driver sdk client bucket) req = d_select (s3Driver sdk client bucket) req' \<and>
      Count (s3Driver sdk client bucket) req = Count (s3Driver sdk client bucket) req'"
proof -
  let ?req = "req\<lparr>sr_Filters := filter (\<lambda>f. fl_Op f = OpEq) (sr_Filters req), sr_OrGroups := [], sr_Order := []\<rparr>"
  have keep: "s3Keep ?req = s3Keep req"
    by (auto simp: s3Keep_def MapFilters_map list_all_iff s3FilterOk_def fun_eq_iff)
  show ?thesis
    by (simp add: Let_def s3_ro.select_eq s3_ro.count_eq keep)
qed

text \<open>A credential that lacks a field does not fall back to the SDK's defaults: the missing value
  prints as \<open><nil>\<close>, so the region is \<open><nil>\<close> and the static keys \<open><nil>\<close> are used in place of
  the default credential chain; only a server without any credential uses the defaults.\<close>

theorem aws_missing_fields:
  "loadAWSConfig sdk [] None = s3_load sdk None None \<and>
   loadAWSConfig sdk [] (Some []) = s3_load sdk (Some ''<nil>'') (Some (''<nil>'', ''<nil>'', ''<nil>''))"
proof -
  have "TrimSpace ''<nil>'' = ''<nil>''" "TrimSpace [] = []" by code_simp+
  then show ?thesis
    by (simp add: loadAWSConfig_def awsRegion_def awsStatic_def strPtr_def getAny_def Let_def)
qed
end
