(* ===== verification/HttpDriver.thy ===== *)
theory HttpDriver
  imports HttpAuth DriverApi
begin

text \<open>
  The http driver (\<open>internal/driver/http\<close>), the option merging of \<open>internal/driver/httpwrap\<close> and the
  presets built on it (airtable, notion, firebase, sheets). The HTTP client is the parameter
  \<open>httpClient\<close>; URLs are texts, and \<open>hc_check\<close> says whether \<open>http.NewRequest\<close> rejects one.
\<close>

section \<open>Server options\<close>

record HTTPServerOptions =
  ho_Endpoint :: string
  ho_BasePath :: string
  ho_Auth :: "HTTPAuth option"
  ho_Headers :: "(string \<times> string) list"

definition readAuth :: "row \<Rightarrow> HTTPAuth option" where
  "readAuth kvs =
     (case storedField (FStruct HTTPAuthFields) kvs ''auth'' of
        Some (VObj akvs) \<Rightarrow>
          Some \<lparr>ha_Type = strField akvs ''type'',
                ha_Options = (case storedField FAnyMap akvs ''options'' of Some v \<Rightarrow> valRow v | None \<Rightarrow> [])\<rparr>
      | _ \<Rightarrow> None)"

definition readHTTPServerOptions :: "row \<Rightarrow> HTTPServerOptions" where
  "readHTTPServerOptions kvs =
     \<lparr>ho_Endpoint = strField kvs ''endpoint'', ho_BasePath = strField kvs ''basePath'',
      ho_Auth = readAuth kvs, ho_Headers = strMapField kvs ''headers''\<rparr>"

record httpDriverState =
  hd_baseURL :: string
  hd_basePath :: string
  hd_auth :: "HTTPAuth option"
  hd_headers :: "(string \<times> string) list"

text \<open>The authentication of \<open>New\<close>: merged options, or every credential field as a header.\<close>

definition driverAuth :: "HTTPAuth option \<Rightarrow> row option \<Rightarrow> HTTPAuth option" where
  "driverAuth authCfg cred =
     (case (authCfg, cred) of
        (Some a, Some c) \<Rightarrow> Some \<lparr>ha_Type = ha_Type a, ha_Options = MergeCredentialIntoOptions (ha_Options a) c\<rparr>
      | (None, Some c) \<Rightarrow> Some \<lparr>ha_Type = ''UNIVERSAL'', ha_Options = c\<rparr>
      | (a, None) \<Rightarrow> a)"

section \<open>Requests\<close>

definition tableResourcePath :: "httpDriverState \<Rightarrow> ResolvedTable \<Rightarrow> string" where
  "tableResourcePath d resolved =
     (let remote = RemoteTableName (rt_Table resolved);
          schema = t_SchemaName (rt_Table resolved);
          remote = (if schema \<noteq> [] \<and> schema \<noteq> ''public'' then schema @ ''/'' @ remote else remote);
          remote = (if hd_basePath d \<noteq> [] then Trim (hd_basePath d) ''/'' @ ''/'' @ TrimPrefix remote ''/'' else remote)
      in ''/'' @ TrimPrefix (TrimSpace remote) ''/'')"

definition applyHeaderMaps :: "(string \<times> string) list list \<Rightarrow> Header \<Rightarrow> Header" where
  "applyHeaderMaps layers h =
     foldl (foldl (\<lambda>h (k, v). let k = TrimSpace k; v = TrimSpace v
                              in if k = [] \<or> v = [] then h else headerSet k v h)) h layers"

definition headerOptions :: "raw \<Rightarrow> (string \<times> string) list" where
  "headerOptions r =
     (case ParseServerOptions HTTPHeaderFields r of
        (_, Some e) \<Rightarrow> []
      | (opts, None) \<Rightarrow> strMapField opts ''headers'')"

definition setRequestHeaders :: "httpDriverState \<Rightarrow> (string \<times> string) list \<Rightarrow> Header" where
  "setRequestHeaders d extra = applyHeaderMaps [hd_headers d, extra] []"

definition withQuery :: "string \<Rightarrow> Values \<Rightarrow> string" where
  "withQuery path q = (if q \<noteq> [] then path @ ''?'' @ valuesEncode q else path)"

text \<open>
  The steps every operation shares: check the request, set the driver's and the table's headers, then
  \<open>hdr\<close>, then the authentication, and send it.
\<close>

definition sendRequest ::
  "'w httpClient \<Rightarrow> httpDriverState \<Rightarrow> string \<Rightarrow> string \<Rightarrow> raw \<Rightarrow> (Header \<Rightarrow> Header) \<Rightarrow>
   (string \<times> string) list \<Rightarrow> ('w, err, HTTPResponse) comp"
where
  "sendRequest client d method url rbody hdr extra =
     (case hc_check client method url of
        Some e \<Rightarrow> failC e
      | None \<Rightarrow>
          bindC (ApplyHTTPAuth client (hd_auth d) (hdr (setRequestHeaders d extra))) (\<lambda>h.
            hc_do client \<lparr>hq_Method = method, hq_URL = url, hq_Header = h, hq_Text = [], hq_Body = rbody\<rparr>))"

definition accept :: "Header \<Rightarrow> Header" where
  "accept = headerSet ''Accept'' ''application/json''"

definition contentJSON :: "Header \<Rightarrow> Header" where
  "contentJSON = headerSet ''Content-Type'' ''application/json''"

definition httpError :: "string \<Rightarrow> string \<Rightarrow> HTTPResponse \<Rightarrow> err" where
  "httpError op path resp =
     Errorf (''http '' @ op @ '' '' @ path @ '': '' @ hr_Text resp @ '' '' @ hr_Body resp)"

definition okStatus :: "HTTPResponse \<Rightarrow> bool" where
  "okStatus resp \<longleftrightarrow> 200 \<le> hr_Status resp \<and> hr_Status resp < 300"

definition parseJSONRows :: "raw \<Rightarrow> err + row list" where
  "parseJSONRows r =
     (case unmarshalRows r of
        Inr rows \<Rightarrow> Inr rows
      | Inl _ \<Rightarrow> (case unmarshalRow r of Inr one \<Rightarrow> Inr [one] | Inl _ \<Rightarrow> Inl (Errorf ''invalid json response'')))"

definition parseOneRow :: "raw \<Rightarrow> Column list \<Rightarrow> err + row option" where
  "parseOneRow r cols =
     (case parseJSONRows r of
        Inl e \<Rightarrow> Inl e
      | Inr [] \<Rightarrow> Inr None
      | Inr rows \<Rightarrow> Inr (Some (hd (MapRowsFromRemote rows cols))))"

definition isConflictStatus :: "HTTPResponse \<Rightarrow> bool" where
  "isConflictStatus resp \<longleftrightarrow>
     hr_Status resp = 409 \<or> hr_Status resp = 422 \<or>
     (let s = ToLower (hr_Body resp)
      in Contains s ''duplicate'' \<or> Contains s ''unique'' \<or> Contains s ''already exists'')"

section \<open>Operations\<close>

definition selectValues :: "SelectRequest \<Rightarrow> Values" where
  "selectValues req =
     (let q = FiltersToQueryValues (MapFilters (sr_Filters req) (rt_Columns (sr_Resolved req)));
          q = (if sr_Select req \<noteq> [] then valuesSet ''select'' (Join (sr_Select req) '','') q else q);
          q = foldl (\<lambda>q o'. valuesAdd ''order'' (o_Column o' @ (if o_Desc o' then ''.desc'' else ''.asc'')) q)
                q (sr_Order req);
          q = (if sr_Limit req > 0 then valuesSet ''limit'' (decInt (sr_Limit req)) q else q);
          q = (if sr_Offset req > 0 then valuesSet ''offset'' (decInt (sr_Offset req)) q else q)
      in q)"

definition httpSelect :: "'w httpClient \<Rightarrow> httpDriverState \<Rightarrow> SelectRequest \<Rightarrow> ('w, err, row list) comp" where
  "httpSelect client d req =
     (let path = withQuery (tableResourcePath d (sr_Resolved req)) (selectValues req)
      in bindC (sendRequest client d ''GET'' (hd_baseURL d @ path) RawEmpty accept
             (headerOptions (t_Options (rt_Table (sr_Resolved req))))) (\<lambda>resp.
           liftC (if hr_Status resp \<ge> 400 then Inl (httpError ''select'' path resp)
                  else (case parseJSONRows (hr_JSON resp) of
                          Inl e \<Rightarrow> Inl e
                        | Inr rows \<Rightarrow> Inr (MapRowsFromRemote rows (rt_Columns (sr_Resolved req)))))))"

definition httpPost ::
  "'w httpClient \<Rightarrow> httpDriverState \<Rightarrow> RowRequest \<Rightarrow> (Header \<Rightarrow> Header) \<Rightarrow> ('w, err, HTTPResponse) comp" where
  "httpPost client d req hdr =
     sendRequest client d ''POST'' (hd_baseURL d @ tableResourcePath d (rr_Resolved req))
       (RawJSON (VObj (MapRowToRemote (rr_Row req) (rt_Columns (rr_Resolved req)))))
       (\<lambda>h. hdr (accept (contentJSON h))) (headerOptions (t_Options (rt_Table (rr_Resolved req))))"

definition httpInsert :: "'w httpClient \<Rightarrow> httpDriverState \<Rightarrow> RowRequest \<Rightarrow> ('w, err, row option) comp" where
  "httpInsert client d req =
     bindC (httpPost client d req
         (if rr_PreferRepresentation req then headerSet ''Prefer'' ''return=representation'' else id)) (\<lambda>resp.
       liftC (if \<not> okStatus resp then
                Inl (httpError ''insert'' (tableResourcePath d (rr_Resolved req)) resp)
              else if \<not> rr_PreferRepresentation req \<or> hr_Body resp = [] then Inr None
              else parseOneRow (hr_JSON resp) (rt_Columns (rr_Resolved req))))"

definition httpUpdate :: "'w httpClient \<Rightarrow> httpDriverState \<Rightarrow> RowRequest \<Rightarrow> ('w, err, int) comp" where
  "httpUpdate client d req =
     (let cols = rt_Columns (rr_Resolved req);
          setRow = filter (\<lambda>kv. fst kv \<notin> set (t_KeyColumns (rt_Table (rr_Resolved req)))) (MapRowToRemote (rr_Row req) cols);
          path = withQuery (tableResourcePath d (rr_Resolved req)) (FiltersToQueryValues (MapFilters (rr_Filters req) cols))
      in bindC (sendRequest client d ''PATCH'' (hd_baseURL d @ path) (RawJSON (VObj setRow)) contentJSON
             (headerOptions (t_Options (rt_Table (rr_Resolved req))))) (\<lambda>resp.
           liftC (if \<not> okStatus resp then Inl (httpError ''update'' path resp) else Inr 1)))"

definition errIfZero :: "int \<Rightarrow> err option" where
  "errIfZero n = (if n = 0 then Some (Errorf ''upsert conflict but update affected 0 rows'') else None)"

definition httpUpsert ::
  "'w httpClient \<Rightarrow> httpDriverState \<Rightarrow> RowRequest \<Rightarrow> ('w, err, bool \<times> row option) comp" where
  "httpUpsert client d req =
     bindC (httpPost client d req (headerSet ''Prefer''
         (if rr_PreferRepresentation req then ''return=representation,resolution=merge-duplicates''
          else ''return=minimal,resolution=merge-duplicates''))) (\<lambda>resp.
       if okStatus resp then
         (let created = (hr_Status resp = 201)
          in if rr_PreferRepresentation req \<and> hr_Body resp \<noteq> []
             then liftC (case parseOneRow (hr_JSON resp) (rt_Columns (rr_Resolved req)) of
                           Inl e \<Rightarrow> Inl e | Inr ret \<Rightarrow> Inr (created, ret))
             else retC (created, None))
       else if \<not> isConflictStatus resp then
         failC (httpError ''upsert'' (tableResourcePath d (rr_Resolved req)) resp)
       else bindC (httpUpdate client d req) (\<lambda>n.
              liftC (case errIfZero n of Some e \<Rightarrow> Inl e | None \<Rightarrow> Inr (False, None))))"

definition httpDelete :: "'w httpClient \<Rightarrow> httpDriverState \<Rightarrow> DeleteRequest \<Rightarrow> ('w, err, int) comp" where
  "httpDelete client d req =
     (let path = withQuery (tableResourcePath d (dr_Resolved req))
                   (FiltersToQueryValues (MapFilters (dr_Filters req) (rt_Columns (dr_Resolved req))))
      in bindC (sendRequest client d ''DELETE'' (hd_baseURL d @ path) RawEmpty id
             (headerOptions (t_Options (rt_Table (dr_Resolved req))))) (\<lambda>resp.
           liftC (if \<not> okStatus resp then Inl (httpError ''delete'' path resp) else Inr 1)))"

definition invokePath :: "httpDriverState \<Rightarrow> string \<Rightarrow> string" where
  "invokePath d path =
     (let path = (if HasPrefix path ''/'' then path else ''/'' @ path)
      in if hd_basePath d \<noteq> [] then ''/'' @ Trim (hd_basePath d) ''/'' @ path else path)"

definition invokeURL :: "'w httpClient \<Rightarrow> string \<Rightarrow> (string \<times> string) list \<Rightarrow> err + string" where
  "invokeURL client fullURL query =
     (if query = [] then Inr fullURL
      else (case hc_parseURL client fullURL of
              Inl e \<Rightarrow> Inl e
            | Inr (base, q) \<Rightarrow>
                Inr (base @ ''?'' @ valuesEncode (foldl (\<lambda>q (k, v). valuesSet k v q) q query))))"

definition httpInvoke :: "'w httpClient \<Rightarrow> httpDriverState \<Rightarrow> InvokeRequest \<Rightarrow> ('w, err, val) comp" where
  "httpInvoke client d req =
     (let fn = rf_Function (ir_Resolved req);
          path = invokePath d (f_RemotePath fn);
          method = ToUpper (TrimSpace (f_Method fn));
          method = (if method = [] then ''POST'' else method);
          hasBody = (ir_Body req \<noteq> None \<and> method \<noteq> ''GET'' \<and> method \<noteq> ''HEAD'')
      in if f_RemotePath fn = [] then failC (Errorf ''function remote_path required'')
         else bindC (liftC (invokeURL client (hd_baseURL d @ path) (ir_Query req))) (\<lambda>fullURL.
           bindC (sendRequest client d method fullURL
               (case ir_Body req of Some b \<Rightarrow> if hasBody then RawJSON (VObj b) else RawEmpty | None \<Rightarrow> RawEmpty)
               (\<lambda>h. accept (if hasBody then contentJSON h else h)) (headerOptions (f_Options fn))) (\<lambda>resp.
             liftC (if hr_Status resp \<ge> 400 then Inl (httpError ''invoke'' path resp)
                    else if hr_Body resp = [] then Inr VNil
                    else (case hr_JSON resp of RawJSON v \<Rightarrow> Inr v | _ \<Rightarrow> Inr (VStr (hr_Body resp)))))))"

definition httpDriver :: "'w httpClient \<Rightarrow> httpDriverState \<Rightarrow> 'w driver" where
  "httpDriver client d =
     \<lparr>d_select = httpSelect client d, d_insert = httpInsert client d, d_update = httpUpdate client d,
      d_upsert = httpUpsert client d, d_delete = httpDelete client d, d_invoke = httpInvoke client d,
      d_count = None\<rparr>"

definition httpNew :: "'w httpClient \<Rightarrow> 'w Factory" where
  "httpNew client srv cred =
     (case ParseServerOptions HTTPServerOptionsFields (s_Options srv) of
        (_, Some e) \<Rightarrow> failC e
      | (kvs, None) \<Rightarrow>
          let opts = readHTTPServerOptions kvs
          in if TrimSpace (ho_Endpoint opts) = [] then
               failC (Errorf (''http server '' @ quoteGo (s_Name srv) @ '' requires options.endpoint''))
             else retC (httpDriver client
               \<lparr>hd_baseURL = TrimSuffix (TrimSpace (ho_Endpoint opts)) ''/'',
                hd_basePath = TrimSpace (ho_BasePath opts),
                hd_auth = driverAuth (ho_Auth opts) cred,
                hd_headers = ho_Headers opts\<rparr>))"

section \<open>Default options (httpwrap)\<close>

definition mergeStringMaps :: "(string \<times> string) list list \<Rightarrow> (string \<times> string) list" where
  "mergeStringMaps layers =
     foldl (foldl (\<lambda>out (k, v). if k \<noteq> [] \<and> v \<noteq> [] then AList.update k v out else out)) [] layers"

text \<open>\<open>json.Marshal\<close> of the option struct: \<open>omitempty\<close> fields are left out when empty.\<close>

definition marshalAuth :: "HTTPAuth \<Rightarrow> val" where
  "marshalAuth a =
     VObj ([(''type'', VStr (ha_Type a))] @
       (if ha_Options a = [] then [] else [(''options'', VObj (ha_Options a))]))"

definition marshalHTTPServerOptions :: "HTTPServerOptions \<Rightarrow> raw" where
  "marshalHTTPServerOptions o' =
     RawJSON (VObj ([(''endpoint'', VStr (ho_Endpoint o'))] @
       (if ho_BasePath o' = [] then [] else [(''basePath'', VStr (ho_BasePath o'))]) @
       (case ho_Auth o' of None \<Rightarrow> [] | Some a \<Rightarrow> [(''auth'', marshalAuth a)]) @
       (if ho_Headers o' = [] then []
        else [(''headers'', VObj (map (\<lambda>(k, v). (k, VStr v)) (ho_Headers o')))])))"

definition MergeHTTPServerOptions :: "raw \<Rightarrow> HTTPServerOptions \<Rightarrow> err + raw" where
  "MergeHTTPServerOptions r defaults =
     (case ParseServerOptions HTTPServerOptionsFields r of
        (_, Some e) \<Rightarrow> Inl e
      | (kvs, None) \<Rightarrow>
          let b = readHTTPServerOptions kvs
          in Inr (marshalHTTPServerOptions
            \<lparr>ho_Endpoint = (if ho_Endpoint b = [] then ho_Endpoint defaults else ho_Endpoint b),
             ho_BasePath = (if ho_BasePath b = [] then ho_BasePath defaults else ho_BasePath b),
             ho_Auth = (case ho_Auth b of None \<Rightarrow> ho_Auth defaults | Some a \<Rightarrow> Some a),
             ho_Headers = mergeStringMaps [ho_Headers defaults, ho_Headers b]\<rparr>))"

definition NewHTTPDriver :: "'w httpClient \<Rightarrow> HTTPServerOptions \<Rightarrow> 'w Factory" where
  "NewHTTPDriver client defaults srv cred =
     (case MergeHTTPServerOptions (s_Options srv) defaults of
        Inl e \<Rightarrow> failC e
      | Inr merged \<Rightarrow> httpNew client (srv\<lparr>s_Options := merged\<rparr>) cred)"

definition BearerAuthFromCred :: "row option \<Rightarrow> string list \<Rightarrow> HTTPAuth option" where
  "BearerAuthFromCred cred keys =
     (case cred of
        None \<Rightarrow> None
      | Some c \<Rightarrow>
          (case find (\<lambda>key. case map_of c key of Some v \<Rightarrow> TrimSpace (Sprint v) \<noteq> [] | None \<Rightarrow> False) keys of
             None \<Rightarrow> None
           | Some key \<Rightarrow> Some \<lparr>ha_Type = ''BEARER_TOKEN'', ha_Options = [(''token'', VStr (Sprint (getAny c key)))]\<rparr>))"

section \<open>Presets (airtable, notion, firebase, sheets)\<close>

text \<open>What the presets share: the default endpoint and headers, and a bearer token from the credential.\<close>

definition presetDriver ::
  "'w httpClient \<Rightarrow> string \<Rightarrow> (string \<times> string) list \<Rightarrow> string list \<Rightarrow> (string \<Rightarrow> string) \<Rightarrow> 'w Factory" where
  "presetDriver client endpoint headers keys missing srv cred =
     (case BearerAuthFromCred cred keys of
        None \<Rightarrow> failC (Errorf (missing (quoteGo (s_Name srv))))
      | Some a \<Rightarrow>
          NewHTTPDriver client \<lparr>ho_Endpoint = endpoint, ho_BasePath = [], ho_Auth = Some a, ho_Headers = headers\<rparr> srv cred)"

definition orDefault :: "string \<Rightarrow> string \<Rightarrow> string" where
  "orDefault s d = (if TrimSpace s = [] then d else TrimSpace s)"

definition presetFields :: "(string \<times> fkind) list" where
  "presetFields = [(''endpoint'', FStr), (''headers'', FStrMap)]"

definition airtableNew :: "'w httpClient \<Rightarrow> 'w Factory" where
  "airtableNew client srv cred =
     (case ParseServerOptions presetFields (s_Options srv) of
        (_, Some e) \<Rightarrow> failC e
      | (opts, None) \<Rightarrow>
          presetDriver client (orDefault (strField opts ''endpoint'') ''https://api.airtable.com/v0'')
            (strMapField opts ''headers'') [''token'', ''personalAccessToken'', ''apiKey'', ''accessToken'']
            (\<lambda>n. ''airtable server '' @ n @ '' requires credential token or options.auth'') srv cred)"

definition sheetsNew :: "'w httpClient \<Rightarrow> 'w Factory" where
  "sheetsNew client srv cred =
     (case ParseServerOptions presetFields (s_Options srv) of
        (_, Some e) \<Rightarrow> failC e
      | (opts, None) \<Rightarrow>
          presetDriver client (orDefault (strField opts ''endpoint'') ''https://sheets.googleapis.com/v4'')
            (strMapField opts ''headers'') [''accessToken'', ''token'', ''oauthToken'']
            (\<lambda>n. ''sheets server '' @ n @ '' requires credential accessToken or options.auth'') srv cred)"

definition NotionServerOptionsFields :: "(string \<times> fkind) list" where
  "NotionServerOptionsFields = [(''endpoint'', FStr), (''notionVersion'', FStr), (''headers'', FStrMap)]"

definition notionNew :: "'w httpClient \<Rightarrow> 'w Factory" where
  "notionNew client srv cred =
     (case ParseServerOptions NotionServerOptionsFields (s_Options srv) of
        (_, Some e) \<Rightarrow> failC e
      | (opts, None) \<Rightarrow>
          presetDriver client (orDefault (strField opts ''endpoint'') ''https://api.notion.com/v1'')
            (foldl (\<lambda>h (k, v). AList.update k v h)
              [(''Notion-Version'', orDefault (strField opts ''notionVersion'') ''2022-06-28'')]
              (strMapField opts ''headers''))
            [''token'', ''integrationToken'', ''apiKey'']
            (\<lambda>n. ''notion server '' @ n @ '' requires credential token or options.auth'') srv cred)"

definition FirebaseServerOptionsFields :: "(string \<times> fkind) list" where
  "FirebaseServerOptionsFields = [(''projectId'', FStr), (''database'', FStr), (''endpoint'', FStr)]"

definition firebaseProject :: "row \<Rightarrow> row option \<Rightarrow> string" where
  "firebaseProject opts cred =
     (let project = TrimSpace (strField opts ''projectId'')
      in case cred of
           Some c \<Rightarrow> if project = [] then TrimSpace (Sprint (getAny c ''projectId'')) else project
         | None \<Rightarrow> project)"

definition firebaseNew :: "'w httpClient \<Rightarrow> 'w Factory" where
  "firebaseNew client srv cred =
     (case ParseServerOptions FirebaseServerOptionsFields (s_Options srv) of
        (_, Some e) \<Rightarrow> failC e
      | (opts, None) \<Rightarrow>
          let endpoint = TrimSpace (strField opts ''endpoint'');
              project = firebaseProject opts cred;
              url = (if endpoint \<noteq> [] then endpoint
                     else ''https://firestore.googleapis.com/v1/projects/'' @ project @ ''/databases/'' @
                       orDefault (strField opts ''database'') ''(default)'' @ ''/documents'')
          in if endpoint = [] \<and> project = [] then
               failC (Errorf (''firebase server '' @ quoteGo (s_Name srv) @
                 '' requires options.projectId or credential.projectId''))
             else presetDriver client url [] [''accessToken'', ''token'', ''idToken'']
                 (\<lambda>n. ''firebase server '' @ n @
                   '' requires credential accessToken (or configure options.auth)'') srv cred)"

section \<open>Lemmas\<close>

text \<open>Marshalled options read back as they were.\<close>

lemma strings_kindOk:
  "list_all (\<lambda>kv. case snd kv of VNil \<Rightarrow> True | VStr s \<Rightarrow> True | _ \<Rightarrow> False) (map (\<lambda>(k, v). (k, VStr v)) m)"
  by (induction m) auto

lemma strings_back:
  "map (\<lambda>kv. (fst kv, case snd kv of VStr s \<Rightarrow> s | _ \<Rightarrow> [])) (map (\<lambda>(k, v). (k, VStr v)) m) = m"
  by (induction m) auto

lemma read_marshalled_auth:
  assumes "distinct (map fst (ha_Options a))"
  shows "kindOk (FStruct HTTPAuthFields) (marshalAuth a)"
    and "marshalAuth a = VObj akvs \<Longrightarrow>
      \<lparr>ha_Type = strField akvs ''type'',
       ha_Options = (case storedField FAnyMap akvs ''options'' of Some v \<Rightarrow> valRow v | None \<Rightarrow> [])\<rparr> = a"
  using assms
  by (auto simp: marshalAuth_def HTTPAuthFields_def EqualFold_def ToLower_def toLowerC_def baseKindOk_def
      strField_def storedField_def valRow_def buildMap_distinct_id split: if_splits)

text \<open>Options whose maps have distinct keys: what the merge of options produces.\<close>

definition wfOptions :: "HTTPServerOptions \<Rightarrow> bool" where
  "wfOptions opts \<longleftrightarrow>
     distinct (map fst (ho_Headers opts)) \<and>
     (case ho_Auth opts of Some a \<Rightarrow> distinct (map fst (ha_Options a)) | None \<Rightarrow> True)"

lemmas json_eval = EqualFold_def ToLower_def toLowerC_def baseKindOk_def strField_def storedField_def

lemma marshalled_simps:
  "r = marshalHTTPServerOptions opts \<Longrightarrow> ParseServerOptions HTTPServerOptionsFields r = (rawEntries r, unmarshalErr (FStruct HTTPServerOptionsFields) r)"
  by (simp add: ParseServerOptions_def marshalHTTPServerOptions_def)

lemma unmarshal_marshalled:
  assumes "wfOptions opts"
  shows "unmarshalErr (FStruct HTTPServerOptionsFields) (marshalHTTPServerOptions opts) = None"
proof -
  have "kindOk (FStruct HTTPAuthFields) (marshalAuth a)" if "ho_Auth opts = Some a" for a
    using that assms read_marshalled_auth(1) by (simp add: wfOptions_def)
  then show ?thesis
    using strings_kindOk [of "ho_Headers opts"]
    by (simp add: unmarshalErr_def marshalHTTPServerOptions_def HTTPServerOptionsFields_def json_eval
        split: option.split)
qed

lemma readAuth_marshalled:
  assumes "wfOptions opts"
  shows "readAuth (rawEntries (marshalHTTPServerOptions opts)) = ho_Auth opts"
proof (cases "ho_Auth opts")
  case None
  then show ?thesis
    by (simp add: readAuth_def rawEntries_def marshalHTTPServerOptions_def json_eval)
next
  case (Some a)
  obtain akvs where m: "marshalAuth a = VObj akvs" by (simp add: marshalAuth_def)
  have "kindOk (FStruct HTTPAuthFields) (VObj akvs)"
    using read_marshalled_auth(1) [of a] Some assms m by (simp add: wfOptions_def)
  moreover have "\<lparr>ha_Type = strField akvs ''type'',
       ha_Options = (case storedField FAnyMap akvs ''options'' of Some v \<Rightarrow> valRow v | None \<Rightarrow> [])\<rparr> = a"
    using read_marshalled_auth(2) [of a] Some assms m by (simp add: wfOptions_def)
  ultimately show ?thesis
    using Some m
    by (simp add: readAuth_def rawEntries_def marshalHTTPServerOptions_def EqualFold_def ToLower_def
        toLowerC_def storedField_def del: kindOk.simps)
qed

lemma read_marshalled:
  assumes "wfOptions opts"
  shows "readHTTPServerOptions (rawEntries (marshalHTTPServerOptions opts)) = opts"
proof -
  have "strMapField (rawEntries (marshalHTTPServerOptions opts)) ''headers'' = ho_Headers opts"
    using assms strings_kindOk [of "ho_Headers opts"] strings_back [of "ho_Headers opts"]
    by (simp add: strMapField_def rawEntries_def marshalHTTPServerOptions_def json_eval wfOptions_def
        buildMap_distinct_id split: option.split)
  then show ?thesis
    using readAuth_marshalled [OF assms]
    by (simp add: readHTTPServerOptions_def)
      (simp add: rawEntries_def marshalHTTPServerOptions_def json_eval split: option.split)
qed

lemma distinct_mergeStringMaps [simp]: "distinct (map fst (mergeStringMaps layers))"
proof -
  have inner: "distinct (map fst out) \<Longrightarrow>
      distinct (map fst (foldl (\<lambda>out (k, v). if k \<noteq> [] \<and> v \<noteq> [] then AList.update k v out else out) out m))"
    for out and m :: "(string \<times> string) list"
    by (induction m arbitrary: out) (auto simp: distinct_keys_update)
  have "distinct (map fst out) \<Longrightarrow>
      distinct (map fst (foldl (foldl (\<lambda>out (k, v). if k \<noteq> [] \<and> v \<noteq> [] then AList.update k v out else out)) out layers))"
    for out
    by (induction layers arbitrary: out) (auto simp: inner)
  then show ?thesis by (simp add: mergeStringMaps_def)
qed

lemma distinct_readAuth: "readAuth kvs = Some a \<Longrightarrow> distinct (map fst (ha_Options a))"
  by (auto simp: readAuth_def valRow_def distinct_buildMap split: option.splits val.splits)

text \<open>Reading back the printed columns, order and bounds.\<close>

lemma parseSelect_print:
  assumes "sel \<noteq> []" "list_all (\<lambda>c. c \<noteq> [] \<and> list_all (\<lambda>x. \<not> isSpace x \<and> x \<noteq> CHR '','' \<and> x \<noteq> CHR ''('') c) sel"
  shows "TrimSpace (Join sel '','') = Join sel '',''" "Join sel '','' \<noteq> []" "parseSelect (Join sel '','') = sel"
proof -
  have h: "hd sel \<in> set sel" "last sel \<in> set sel" using assms(1) by auto
  then have ne: "hd sel \<noteq> []" "last sel \<noteq> []" using assms(2) by (auto simp: list_all_iff)
  then have ends: "\<not> isSpace (hd (hd sel))" "\<not> isSpace (last (last sel))"
    using assms(2) h by (auto simp: list_all_iff)
  show "Join sel '','' \<noteq> []" using last_Join [OF assms(1) ne(2)] by auto
  show "TrimSpace (Join sel '','') = Join sel '',''"
    using hd_Join [OF assms(1) ne(1), of "'',''"] last_Join [OF assms(1) ne(2), of "'',''"] ends
    by (intro TrimSpace_id) auto
  have "Split (Join sel '','') (CHR '','') = sel"
    using assms by (intro Split_Join) (auto simp: list_all_iff)
  moreover have "map TrimSpace sel = sel"
    using assms(2) by (intro map_idI TrimSpace_no_space) (auto simp: list_all_iff)
  moreover have "filter (\<lambda>p. p \<noteq> [] \<and> \<not> Contains p ''('') sel = sel"
    using assms(2) by (intro filter_True) (auto simp: list_all_iff)
  ultimately show "parseSelect (Join sel '','') = sel" by (simp add: parseSelect_def)
qed

definition printOrder :: "OrderSpec \<Rightarrow> string" where
  "printOrder o' = o_Column o' @ (if o_Desc o' then ''.desc'' else ''.asc'')"

lemma suffix_asc: "\<not> HasSuffix (s @ ''.asc'') ''.desc''"
  by (auto simp: HasSuffix_iff append_eq_append_conv2 append_eq_Cons_conv)

lemma parseOrder_print:
  assumes "o_Column o' \<noteq> []" "list_all (\<lambda>x. \<not> isSpace x \<and> x \<noteq> CHR '','') (o_Column o')"
  shows "TrimSpace (printOrder o') = printOrder o'" "printOrder o' \<noteq> []"
    and "List.map_filter parseOrderPart (Split (printOrder o') (CHR '','')) = [o']"
proof -
  have sp: "\<not> isSpace x \<and> x \<noteq> CHR '',''" if "x \<in> set (printOrder o')" for x
    using that assms(2) by (auto simp: printOrder_def list_all_iff isSpace_def split: if_splits)
  then show t: "TrimSpace (printOrder o') = printOrder o'" by (intro TrimSpace_no_space) auto
  have c: "TrimSpace (o_Column o') = o_Column o'"
    using assms(2) by (intro TrimSpace_no_space) (auto simp: list_all_iff)
  show "printOrder o' \<noteq> []" by (simp add: printOrder_def)
  have "parseOrderPart (printOrder o') = Some o'"
    using assms(1) t c suffix_asc [of "o_Column o'"]
    by (cases "o_Desc o'") (auto simp: parseOrderPart_def printOrder_def Let_def)
  moreover have "Split (printOrder o') (CHR '','') = [printOrder o']"
    using sp by (intro Split_char_free) auto
  ultimately show "List.map_filter parseOrderPart (Split (printOrder o') (CHR '','')) = [o']"
    by (simp add: List.map_filter_simps)
qed

lemma decInt_no_space: "x \<in> set (decInt n) \<Longrightarrow> \<not> isSpace x"
  using decNat_digits [of "nat n"] decNat_digits [of "nat (- n)"]
  by (auto simp: decInt_def list_all_iff isDigit_def isSpace_def split: if_splits)

lemma parseNonNeg_decInt:
  assumes "0 \<le> n" "n < 2 ^ 63"
  shows "parseNonNeg (decInt n) = n"
proof -
  have "TrimSpace (decInt n) = decInt n" by (intro TrimSpace_no_space decInt_no_space)
  moreover have "decInt n \<noteq> []" by (simp add: decInt_def)
  moreover have "Atoi (decInt n) = Some n" using assms by (intro Atoi_decInt) auto
  ultimately show ?thesis using assms by (simp add: parseNonNeg_def)
qed

text \<open>The parameters a select sets, beside its filters.\<close>

lemma selectValues_params:
  assumes "distinct (map fl_Column fs)"
    and "list_all (\<lambda>f. fl_Op f \<in> set filterOps \<and> fl_Column f \<notin> set reservedParams) fs"
    and "fs = MapFilters (sr_Filters req) (rt_Columns (sr_Resolved req))" "length (sr_Order req) \<le> 1"
  shows "parseFilters (selectValues req) = fs" "valuesGet (selectValues req) ''or'' = []"
    and "valuesGet (selectValues req) ''select'' = Join (sr_Select req) '',''"
    and "valuesGet (selectValues req) ''order'' = (case sr_Order req of [] \<Rightarrow> [] | o' # _ \<Rightarrow> printOrder o')"
    and "valuesGet (selectValues req) ''limit'' = (if sr_Limit req > 0 then decInt (sr_Limit req) else [])"
    and "valuesGet (selectValues req) ''offset'' = (if sr_Offset req > 0 then decInt (sr_Offset req) else [])"
proof -
  note pf = printed_filters [OF assms(1,2)]
  consider "sr_Order req = []" | o' where "sr_Order req = [o']"
    using assms(4) by (cases "sr_Order req") auto
  note cases = this
  note simps = selectValues_def valuesSet_def valuesAdd_def valuesGet_def update_conv' assms(3) [symmetric]
    pf(2) reserved_names printOrder_def Let_def
  show "parseFilters (selectValues req) = fs"
    using cases by cases (auto simp: simps parseFilters_reserved pf(1))
  show "valuesGet (selectValues req) ''or'' = []" using cases by cases (auto simp: simps)
  show "valuesGet (selectValues req) ''select'' = Join (sr_Select req) '',''"
    using cases by cases (auto simp: simps)
  show "valuesGet (selectValues req) ''order'' = (case sr_Order req of [] \<Rightarrow> [] | o' # _ \<Rightarrow> printOrder o')"
    using cases by cases (auto simp: simps)
  show "valuesGet (selectValues req) ''limit'' = (if sr_Limit req > 0 then decInt (sr_Limit req) else [])"
    using cases by cases (auto simp: simps)
  show "valuesGet (selectValues req) ''offset'' = (if sr_Offset req > 0 then decInt (sr_Offset req) else [])"
    using cases by cases (auto simp: simps)
qed

section \<open>Properties\<close>

text \<open>The query string of the http driver's select means what the request means: read by this
  program's own parser it gives back the columns, the filters (under their remote names, and in the order in which the map of the
  query values was filled), the order, the limit and the offset, for requests with at most one order column, one filter per column, and names
  that are not reserved parameters.\<close>

theorem http_select_query_roundtrip:
  assumes "distinct (map fl_Column (MapFilters (sr_Filters req) (rt_Columns (sr_Resolved req))))"
    and "list_all (\<lambda>f. fl_Op f \<in> set filterOps \<and> fl_Column f \<notin> set reservedParams)
           (MapFilters (sr_Filters req) (rt_Columns (sr_Resolved req)))"
    and "list_all (\<lambda>c. c \<noteq> [] \<and> list_all (\<lambda>x. \<not> isSpace x \<and> x \<noteq> CHR '','' \<and> x \<noteq> CHR ''('') c) (sr_Select req)"
    and "list_all (\<lambda>o'. o_Column o' \<noteq> [] \<and> list_all (\<lambda>x. \<not> isSpace x \<and> x \<noteq> CHR '','') (o_Column o')) (sr_Order req)"
    and "length (sr_Order req) \<le> 1"
    and "0 \<le> sr_Limit req" "sr_Limit req < 2 ^ 63" "0 \<le> sr_Offset req" "sr_Offset req < 2 ^ 63"
  shows "ParseQuery (selectValues req) =
    \<lparr>q_Select = sr_Select req, q_Filters = MapFilters (sr_Filters req) (rt_Columns (sr_Resolved req)),
     q_OrGroups = [], q_Order = sr_Order req, q_Limit = sr_Limit req, q_Offset = sr_Offset req\<rparr>"
proof -
  let ?fs = "MapFilters (sr_Filters req) (rt_Columns (sr_Resolved req))"
  note ps = selectValues_params [OF assms(1,2) refl assms(5)]
  have sel: "(let sel = TrimSpace (Join (sr_Select req) '','') in if sel \<noteq> [] then parseSelect sel else []) = sr_Select req"
    using parseSelect_print [OF _ assms(3)] by (cases "sr_Select req = []") auto
  have ord: "(let ord = TrimSpace (case sr_Order req of [] \<Rightarrow> [] | o' # _ \<Rightarrow> printOrder o')
       in if ord \<noteq> [] then List.map_filter parseOrderPart (Split ord (CHR '','')) else []) = sr_Order req"
    using parseOrder_print assms(4,5) by (cases "sr_Order req") auto
  show ?thesis
    using assms(6-9) by (simp add: ParseQuery_def ps sel ord parseNonNeg_decInt) (simp add: parseNonNeg_def)
qed
theorem http_select_query_roundtrip_witness:
  "ParseQuery (selectValues
      \<lparr>sr_Resolved = exampleResolved ''http'' ''people'', sr_Select = [''id'', ''name''], sr_Filters = [mkFilter ''age'' OpGte ''18''],
       sr_OrGroups = [], sr_Order = [\<lparr>o_Column = ''age'', o_Desc = True\<rparr>], sr_Limit = 10, sr_Offset = 20\<rparr>) =
    \<lparr>q_Select = [''id'', ''name''], q_Filters = [mkFilter ''age'' OpGte ''18''], q_OrGroups = [],
     q_Order = [\<lparr>o_Column = ''age'', o_Desc = True\<rparr>], q_Limit = 10, q_Offset = 20\<rparr>"
proof -
  have m: "MapFilters [mkFilter ''age'' OpGte ''18''] (rt_Columns (exampleResolved ''http'' ''people'')) = [mkFilter ''age'' OpGte ''18'']"
    by code_simp
  show ?thesis
    by (subst http_select_query_roundtrip) (simp_all add: m filterOps_def reservedParams_def isSpace_def)
qed

text \<open>Two things a select asks for are lost on the way: with two order columns the upstream server,
  reading the query string as this program reads one, orders by the first column only, and the \<open>or\<close>
  groups of a request do not reach the query string (nor that of a delete) at all.\<close>

theorem http_query_loses:
  "q_Order (ParseQuery (selectValues (req\<lparr>sr_Filters := [], sr_Order := [\<lparr>o_Column = ''a'', o_Desc = d\<rparr>, o2]\<rparr>)))
     = [\<lparr>o_Column = ''a'', o_Desc = d\<rparr>] \<and>
   httpSelect client st (req\<lparr>sr_OrGroups := gs\<rparr>) = httpSelect client st req \<and>
   httpDelete client st (dreq\<lparr>dr_OrGroups := gs\<rparr>) = httpDelete client st dreq"
proof -
  have o1: "valuesGet (selectValues (req\<lparr>sr_Filters := [], sr_Order := [\<lparr>o_Column = ''a'', o_Desc = d\<rparr>, o2]\<rparr>)) ''order''
      = printOrder \<lparr>o_Column = ''a'', o_Desc = d\<rparr>"
    by (simp add: selectValues_def valuesSet_def valuesAdd_def valuesGet_def update_conv' MapFilters_map
        FiltersToQueryValues_def printOrder_def Let_def)
  note p = parseOrder_print [of "\<lparr>o_Column = ''a'', o_Desc = d\<rparr>"]
  have r: "sr_Resolved (req\<lparr>sr_OrGroups := gs\<rparr>) = sr_Resolved req"
    "selectValues (req\<lparr>sr_OrGroups := gs\<rparr>) = selectValues req"
    by (simp_all add: selectValues_def Let_def)
  have "httpSelect client st (req\<lparr>sr_OrGroups := gs\<rparr>) = httpSelect client st req"
    unfolding httpSelect_def r ..
  moreover have "httpDelete client st (dreq\<lparr>dr_OrGroups := gs\<rparr>) = httpDelete client st dreq"
    by (simp add: httpDelete_def Let_def)
  moreover have "q_Order (ParseQuery (selectValues
      (req\<lparr>sr_Filters := [], sr_Order := [\<lparr>o_Column = ''a'', o_Desc = d\<rparr>, o2]\<rparr>))) = [\<lparr>o_Column = ''a'', o_Desc = d\<rparr>]"
    using p by (simp add: ParseQuery_def o1 isSpace_def)
  ultimately show ?thesis by simp
qed

text \<open>A delete without filters addresses the whole collection: \<open>DELETE\<close> on the table's path, with no query
  string, and any 2xx answer counts as one affected row.\<close>

lemma http_unfiltered_delete:
  assumes "dr_Filters dreq = []" "hd_auth st = None" "\<And>m u. hc_check client m u = None"
  shows "httpDelete client st dreq =
      bindC (hc_do client \<lparr>hq_Method = ''DELETE'', hq_URL = hd_baseURL st @ tableResourcePath st (dr_Resolved dreq),
          hq_Header = setRequestHeaders st (headerOptions (t_Options (rt_Table (dr_Resolved dreq)))),
          hq_Text = [], hq_Body = RawEmpty\<rparr>) (\<lambda>resp.
        liftC (if okStatus resp then Inr 1
               else Inl (httpError ''delete'' (tableResourcePath st (dr_Resolved dreq)) resp)))"
  using assms
  by (simp add: httpDelete_def sendRequest_def ApplyHTTPAuth_def MapFilters_map
      FiltersToQueryValues_def withQuery_def Let_def) (rule arg_cong2 [where f = bindC]; auto)

text \<open>The upsert request, and the \<open>PATCH\<close> that follows a conflict.\<close>

definition upsertRequest :: "httpDriverState \<Rightarrow> RowRequest \<Rightarrow> HTTPRequest" where
  "upsertRequest st req =
     \<lparr>hq_Method = ''POST'', hq_URL = hd_baseURL st @ tableResourcePath st (rr_Resolved req),
      hq_Header = headerSet ''Prefer'' (if rr_PreferRepresentation req
           then ''return=representation,resolution=merge-duplicates''
           else ''return=minimal,resolution=merge-duplicates'')
         (accept (contentJSON (setRequestHeaders st (headerOptions (t_Options (rt_Table (rr_Resolved req))))))),
      hq_Text = [], hq_Body = RawJSON (VObj (MapRowToRemote (rr_Row req) (rt_Columns (rr_Resolved req))))\<rparr>"

definition conflictPatch :: "httpDriverState \<Rightarrow> RowRequest \<Rightarrow> HTTPRequest" where
  "conflictPatch st req =
     \<lparr>hq_Method = ''PATCH'', hq_URL = hd_baseURL st @ tableResourcePath st (rr_Resolved req),
      hq_Header = contentJSON (setRequestHeaders st (headerOptions (t_Options (rt_Table (rr_Resolved req))))),
      hq_Text = [],
      hq_Body = RawJSON (VObj (filter (\<lambda>kv. fst kv \<notin> set (t_KeyColumns (rt_Table (rr_Resolved req))))
        (MapRowToRemote (rr_Row req) (rt_Columns (rr_Resolved req)))))\<rparr>"

text \<open>An upsert without filters (the engine never gives one) that the upstream answers with a conflict is
  repeated as a \<open>PATCH\<close> of the whole collection: the second request has the table's path and no query
  string, its body has lost the key columns that could identify the row, and it reports success as soon as
  the upstream answers 2xx.\<close>

theorem http_upsert_conflict_patches_all:
  assumes "rr_Filters req = []" "hd_auth st = None" "\<And>m u. hc_check client m u = None"
    and "hc_do client (upsertRequest st req) w = (Inr conflict, wa)"
    and "isConflictStatus conflict" "\<not> okStatus conflict"
    and "hc_do client (conflictPatch st req) wa = (Inr answer, wb)"
  shows "httpUpsert client st req w =
    (if okStatus answer then Inr (False, None)
     else Inl (httpError ''update'' (tableResourcePath st (rr_Resolved req)) answer), wb)"
  using assms
  by (simp add: httpUpsert_def httpPost_def httpUpdate_def sendRequest_def ApplyHTTPAuth_def MapFilters_map
      upsertRequest_def conflictPatch_def FiltersToQueryValues_def withQuery_def errIfZero_def Let_def comp_defs)

text \<open>An upstream that answers every \<open>POST\<close> with a conflict and every other request with 204, and keeps
  the requests it gets.\<close>

definition conflictClient :: "HTTPRequest list httpClient" where
  "conflictClient =
     \<lparr>hc_check = (\<lambda>m u. None),
      hc_do = (\<lambda>rq log. (Inr \<lparr>hr_Status = (if hq_Method rq = ''POST'' then 409 else 204), hr_Text = ''409 Conflict'',
                               hr_Body = [], hr_JSON = RawEmpty\<rparr>, log @ [rq])),
      hc_parseURL = (\<lambda>u. Inr (u, []))\<rparr>"

definition exampleState :: httpDriverState where
  "exampleState = \<lparr>hd_baseURL = ''https://api.example'', hd_basePath = ''v1'', hd_auth = None, hd_headers = []\<rparr>"

definition exampleUpsert :: RowRequest where
  "exampleUpsert =
     \<lparr>rr_Resolved = exampleResolved ''http'' ''people'', rr_Row = [(''id'', VInt 1), (''name'', VStr ''Ann'')],
      rr_Filters = [], rr_OrGroups = [], rr_PreferRepresentation = True, rr_PreferUpsert = True, rr_Returning = []\<rparr>"

theorem http_upsert_conflict_patches_all_witness:
  "httpUpsert conflictClient exampleState exampleUpsert [] =
     (Inr (False, None), [upsertRequest exampleState exampleUpsert, conflictPatch exampleState exampleUpsert])"
  by (subst http_upsert_conflict_patches_all
      [where wa = "[upsertRequest exampleState exampleUpsert]" and
        conflict = "\<lparr>hr_Status = 409, hr_Text = ''409 Conflict'', hr_Body = [], hr_JSON = RawEmpty\<rparr>" and
        wb = "[upsertRequest exampleState exampleUpsert, conflictPatch exampleState exampleUpsert]" and
        answer = "\<lparr>hr_Status = 204, hr_Text = ''409 Conflict'', hr_Body = [], hr_JSON = RawEmpty\<rparr>"])
    (simp_all add: conflictClient_def exampleState_def exampleUpsert_def upsertRequest_def conflictPatch_def
      isConflictStatus_def okStatus_def)

text \<open>What the presets and every other driver built on http run with: the server's own endpoint, base
  path and authentication where they are set and the defaults where they are not, the credential overlaid
  on the authentication, and the default headers overridden by the server's (blank ones dropped). The
  detour through marshalled JSON changes nothing.\<close>

lemma NewHTTPDriver_options:
  assumes "ParseServerOptions HTTPServerOptionsFields (s_Options srv) = (kvs, None)"
    and "case ho_Auth defaults of Some a \<Rightarrow> distinct (map fst (ha_Options a)) | None \<Rightarrow> True"
  shows "NewHTTPDriver client defaults srv cred =
    (let b = readHTTPServerOptions kvs;
         endpoint = (if ho_Endpoint b = [] then ho_Endpoint defaults else ho_Endpoint b);
         basePath = (if ho_BasePath b = [] then ho_BasePath defaults else ho_BasePath b);
         auth = (if ho_Auth b = None then ho_Auth defaults else ho_Auth b)
     in if TrimSpace endpoint = [] then
          failC (Errorf (''http server '' @ quoteGo (s_Name srv) @ '' requires options.endpoint''))
        else retC (httpDriver client
          \<lparr>hd_baseURL = TrimSuffix (TrimSpace endpoint) ''/'', hd_basePath = TrimSpace basePath,
           hd_auth = driverAuth auth cred, hd_headers = mergeStringMaps [ho_Headers defaults, ho_Headers b]\<rparr>))"
proof -
  let ?b = "readHTTPServerOptions kvs"
  let ?o = "\<lparr>ho_Endpoint = (if ho_Endpoint ?b = [] then ho_Endpoint defaults else ho_Endpoint ?b),
             ho_BasePath = (if ho_BasePath ?b = [] then ho_BasePath defaults else ho_BasePath ?b),
             ho_Auth = (case ho_Auth ?b of None \<Rightarrow> ho_Auth defaults | Some a \<Rightarrow> Some a),
             ho_Headers = mergeStringMaps [ho_Headers defaults, ho_Headers ?b]\<rparr>"
  have wf: "wfOptions ?o"
    using assms(2) distinct_readAuth
    by (auto simp: wfOptions_def readHTTPServerOptions_def split: option.splits)
  have m: "MergeHTTPServerOptions (s_Options srv) defaults = Inr (marshalHTTPServerOptions ?o)"
    by (simp add: MergeHTTPServerOptions_def assms(1) Let_def)
  show ?thesis
    unfolding NewHTTPDriver_def m
    by (simp add: httpNew_def marshalled_simps [OF refl] unmarshal_marshalled [OF wf] read_marshalled [OF wf] Let_def
        split: option.split)
qed

text \<open>The credential fields the presets look for.\<close>

definition tokenKeys :: "string list" where
  "tokenKeys =
     [''token'', ''personalAccessToken'', ''apiKey'', ''accessToken'', ''integrationToken'', ''idToken'', ''oauthToken'']"

lemma BearerAuth_None:
  assumes "case cred of None \<Rightarrow> True | Some c \<Rightarrow> \<forall>k\<in>set tokenKeys.
      (case map_of c k of Some v \<Rightarrow> TrimSpace (Sprint v) = [] | None \<Rightarrow> True)"
    and "set keys \<subseteq> set tokenKeys"
  shows "BearerAuthFromCred cred keys = None"
proof (cases cred)
  case (Some c)
  then have "find (\<lambda>key. case map_of c key of Some v \<Rightarrow> TrimSpace (Sprint v) \<noteq> [] | None \<Rightarrow> False) keys = None"
    using assms by (fastforce simp: find_None_iff split: option.splits)
  then show ?thesis using Some by (simp add: BearerAuthFromCred_def)
qed (simp add: BearerAuthFromCred_def)

text \<open>The presets insist on a token in the credential: without one each of them refuses the server,
  whatever its options say, so also when they carry the \<open>auth\<close> section that the error messages offer as
  the alternative.\<close>

theorem presets_ignore_options_auth:
  assumes "case cred of None \<Rightarrow> True | Some c \<Rightarrow> \<forall>k\<in>set tokenKeys.
      (case map_of c k of Some v \<Rightarrow> TrimSpace (Sprint v) = [] | None \<Rightarrow> True)"
  shows "\<not> isOk (fst (airtableNew client srv cred w)) \<and> \<not> isOk (fst (sheetsNew client srv cred w)) \<and>
    \<not> isOk (fst (notionNew client srv cred w)) \<and> \<not> isOk (fst (firebaseNew client srv cred w))"
  by (auto simp: airtableNew_def sheetsNew_def notionNew_def firebaseNew_def presetDriver_def Let_def
      BearerAuth_None [OF assms] tokenKeys_def failC_def isOk_def split: prod.split option.split)

theorem presets_ignore_options_auth_witness:
  "\<not> isOk (fst (airtableNew conflictClient (exampleServer ''airtable'' (RawJSON (VObj
      [(''auth'', VObj [(''type'', VStr ''BEARER_TOKEN''), (''options'', VObj [(''token'', VStr ''t'')])])]))) None []))"
  using presets_ignore_options_auth
    [of None conflictClient "exampleServer ''airtable'' (RawJSON (VObj
      [(''auth'', VObj [(''type'', VStr ''BEARER_TOKEN''), (''options'', VObj [(''token'', VStr ''t'')])])]))" "[]"]
  by simp

text \<open>Firebase looks for \<open>accessToken\<close> before \<open>token\<close>, but the token it sends is the field \<open>token\<close>: the
  overlay of the credential on the bearer options replaces the access token it had chosen.\<close>

theorem firebase_token_wins:
  assumes "TrimSpace a \<noteq> []" "t \<noteq> []"
  shows "firebaseNew client (exampleServer ''firebase'' (RawJSON (VObj [(''projectId'', VStr ''p'')])))
      (Some [(''accessToken'', VStr a), (''token'', VStr t)]) =
    retC (httpDriver client
      \<lparr>hd_baseURL = ''https://firestore.googleapis.com/v1/projects/p/databases/(default)/documents'',
       hd_basePath = [],
       hd_auth = Some \<lparr>ha_Type = ''BEARER_TOKEN'', ha_Options = [(''token'', VStr t), (''accessToken'', VStr a)]\<rparr>,
       hd_headers = []\<rparr>)"
proof -
  let ?c = "[(''accessToken'', VStr a), (''token'', VStr t)]"
  have b: "BearerAuthFromCred (Some ?c) [''accessToken'', ''token'', ''idToken''] =
      Some \<lparr>ha_Type = ''BEARER_TOKEN'', ha_Options = [(''token'', VStr a)]\<rparr>"
    using assms by (simp add: BearerAuthFromCred_def getAny_def)
  have m: "MergeCredentialIntoOptions [(''token'', VStr a)] ?c = [(''token'', VStr t), (''accessToken'', VStr a)]"
    using assms by (simp add: MergeCredentialIntoOptions_def secretKeys_def overlaySecret_def overlayOther_def
        findKey_def usable_def)
  let ?srv = "exampleServer ''firebase'' (RawJSON (VObj [(''projectId'', VStr ''p'')]))"
  have p: "ParseServerOptions FirebaseServerOptionsFields (s_Options ?srv) = ([(''projectId'', VStr ''p'')], None)"
    "ParseServerOptions HTTPServerOptionsFields (s_Options ?srv) = ([(''projectId'', VStr ''p'')], None)"
    by code_simp+
  have tp: "TrimSpace ''p'' = ''p''" by code_simp
  have pr: "firebaseProject [(''projectId'', VStr ''p'')] (Some ?c) = ''p''"
    "strField [(''projectId'', VStr ''p'')] ''endpoint'' = []" "orDefault (strField [(''projectId'', VStr ''p'')] ''database'') ''(default)'' = ''(default)''"
    by (simp_all add: firebaseProject_def json_eval orDefault_def tp Let_def)
  have o: "readHTTPServerOptions [(''projectId'', VStr ''p'')] =
      \<lparr>ho_Endpoint = [], ho_BasePath = [], ho_Auth = None, ho_Headers = []\<rparr>"
    by code_simp
  have t: "TrimSpace ''https://firestore.googleapis.com/v1/projects/p/databases/(default)/documents'' =
      ''https://firestore.googleapis.com/v1/projects/p/databases/(default)/documents''"
    "TrimSuffix ''https://firestore.googleapis.com/v1/projects/p/databases/(default)/documents'' ''/'' =
      ''https://firestore.googleapis.com/v1/projects/p/databases/(default)/documents''"
    by code_simp+
  show ?thesis
    by (simp add: firebaseNew_def p pr presetDriver_def b NewHTTPDriver_options [OF p(2)] o t driverAuth_def m
        mergeStringMaps_def)
qed

theorem firebase_token_wins_witness:
  "\<exists>st. firebaseNew conflictClient (exampleServer ''firebase'' (RawJSON (VObj [(''projectId'', VStr ''p'')])))
      (Some [(''accessToken'', VStr ''aaa''), (''token'', VStr ''ttt'')]) = retC (httpDriver conflictClient st) \<and>
    (\<exists>h. ApplyHTTPAuth conflictClient (hd_auth st) [] = retC h \<and> headerGet h ''Authorization'' = ''Bearer ttt'')"
proof -
  have t: "TrimSpace ''aaa'' \<noteq> []" by code_simp
  have h: "ApplyHTTPAuth conflictClient
      (Some \<lparr>ha_Type = ''BEARER_TOKEN'', ha_Options = (''token'', VStr ''ttt'') # rest\<rparr>) [] =
      retC (headerSet ''Authorization'' ''Bearer ttt'' [])" for rest
    by (simp add: ApplyHTTPAuth_def strOpt_def)
  show ?thesis
    unfolding firebase_token_wins [OF t, of "''ttt''", simplified]
    by (rule exI, rule conjI, rule refl, unfold httpDriverState.simps, rule exI, rule conjI, rule h,
        rule headerGet_headerSet)
qed
end
