(* ===== verification/RedisDriver.thy ===== *)
theory RedisDriver
  imports DriverApi
begin

text \<open>
  The redis driver (\<open>internal/driver/redis/redis.go\<close>). The client library is a record of parameters: parsing a URL,
  opening a client with options, and the commands the driver sends. A scan gives the keys its iterator yields, or the
  iterator's error; \<open>GET\<close> of a missing key (\<open>redis.Nil\<close>) is \<open>None\<close>; what \<open>DEL\<close> counts is not read by the driver.
\<close>

record redisOptions =
  ro_Addr :: string
  ro_Username :: string
  ro_Password :: string
  ro_DB :: int

record ('w, 'o, 'c) redissdk =
  rd_parseURL :: "string \<Rightarrow> err + 'o"
  rd_newURL :: "'o \<Rightarrow> 'w \<Rightarrow> 'c \<times> 'w"
  rd_new :: "redisOptions \<Rightarrow> 'w \<Rightarrow> 'c \<times> 'w"
  rd_ping :: "'c \<Rightarrow> ('w, err, unit) comp"
  rd_close :: "'c \<Rightarrow> 'w \<Rightarrow> 'w"
  rd_scan :: "'c \<Rightarrow> string \<Rightarrow> ('w, err, string list) comp"
  rd_get :: "'c \<Rightarrow> string \<Rightarrow> ('w, err, string option) comp"
  rd_hgetall :: "'c \<Rightarrow> string \<Rightarrow> ('w, err, (string \<times> string) list) comp"
  rd_hset :: "'c \<Rightarrow> string \<Rightarrow> (string \<times> string) list \<Rightarrow> ('w, err, unit) comp"
  rd_set :: "'c \<Rightarrow> string \<Rightarrow> string \<Rightarrow> ('w, err, unit) comp"
  rd_del :: "'c \<Rightarrow> string \<Rightarrow> ('w, err, unit) comp"
  rd_json :: "string \<Rightarrow> raw"
  rd_marshal :: "row \<Rightarrow> err + string"

section \<open>Opening\<close>

definition RedisServerOptionsFields :: "(string \<times> fkind) list" where
  "RedisServerOptionsFields = [(''addr'', FStr), (''url'', FStr), (''db'', FInt), (''username'', FStr)]"

definition dbField :: "row \<Rightarrow> string \<Rightarrow> int" where
  "dbField kvs name =
     (case storedField FInt kvs name of
        Some (VInt i) \<Rightarrow> i
      | Some (VNum t) \<Rightarrow> (case Atoi t of Some i \<Rightarrow> i | None \<Rightarrow> 0)
      | _ \<Rightarrow> 0)"

text \<open>The options of a server without a URL; a field the credential lacks prints as \<open><nil>\<close>.\<close>

definition redisOpts :: "row \<Rightarrow> row option \<Rightarrow> redisOptions" where
  "redisOpts opts cred =
     (let addr = TrimSpace (strField opts ''addr'');
          addr = (case cred of
                    Some c \<Rightarrow> if addr = [] then TrimSpace (Sprint (getAny c ''addr'')) else addr
                  | None \<Rightarrow> addr);
          addr = (if addr = [] then ''localhost:6379'' else addr);
          pass = (case cred of Some c \<Rightarrow> Sprint (getAny c ''password'') | None \<Rightarrow> [])
      in \<lparr>ro_Addr = addr, ro_Username = TrimSpace (strField opts ''username''), ro_Password = pass,
          ro_DB = dbField opts ''db''\<rparr>)"

definition redisClient :: "('w, 'o, 'c) redissdk \<Rightarrow> row \<Rightarrow> row option \<Rightarrow> ('w, err, 'c) comp" where
  "redisClient sdk opts cred =
     (let u = TrimSpace (strField opts ''url'')
      in if u \<noteq> [] then
           bindC (liftC (rd_parseURL sdk u)) (\<lambda>opt w. case rd_newURL sdk opt w of (c, w1) \<Rightarrow> (Inr c, w1))
         else (\<lambda>w. case rd_new sdk (redisOpts opts cred) w of (c, w1) \<Rightarrow> (Inr c, w1)))"

section \<open>Keys and rows\<close>

definition redisTableOpts :: "ResolvedTable \<Rightarrow> string \<times> string" where
  "redisTableOpts resolved =
     (let topts = fst (ParseServerOptions RedisTableOptionsFields (t_Options (rt_Table resolved)));
          prefix = TrimSpace (strField topts ''keyPrefix'');
          prefix = (if prefix = [] then RemoteTableName (rt_Table resolved) else prefix);
          prefix = (if prefix \<noteq> [] \<and> \<not> HasSuffix prefix '':'' then prefix @ '':'' else prefix);
          keyType = ToLower (TrimSpace (strField topts ''type''))
      in (prefix, if keyType = [] then ''hash'' else keyType))"

text \<open>\<open>readKey\<close>: \<open>None\<close> is a nil row, which the caller skips. JSON that is not an object is a row with the text.\<close>

definition readKey :: "('w, 'o, 'c) redissdk \<Rightarrow> 'c \<Rightarrow> string \<Rightarrow> string \<Rightarrow> ('w, err, row option) comp" where
  "readKey sdk c key keyType =
     (if keyType = ''string'' then
        bindC (rd_get sdk c key) (\<lambda>v. retC (map_option (\<lambda>s. [(''value'', VStr s)]) v))
      else if keyType = ''json'' then
        bindC (rd_get sdk c key) (\<lambda>v. retC
          (case v of
             None \<Rightarrow> None
           | Some s \<Rightarrow>
               if rd_json sdk s = RawJSON VNil then None
               else (case unmarshalRow (rd_json sdk s) of
                       Inl _ \<Rightarrow> Some [(''value'', VStr s)]
                     | Inr r \<Rightarrow> Some r)))
      else bindC (rd_hgetall sdk c key) (\<lambda>m. retC
             (if m = [] then None else Some (map (\<lambda>(k, v). (k, VStr v)) m))))"

definition keyFromRow :: "row \<Rightarrow> string list \<Rightarrow> string" where
  "keyFromRow r keyCols =
     (case (case keyCols of k # _ \<Rightarrow> map_of r k | [] \<Rightarrow> None) of
        Some v \<Rightarrow> Sprint v
      | None \<Rightarrow> (case map_of r ''id'' of Some v \<Rightarrow> Sprint v | None \<Rightarrow> decInt (int (length r))))"

definition rowFields :: "row \<Rightarrow> (string \<times> string) list" where
  "rowFields r = map (\<lambda>(k, v). (k, Sprint v)) r"

text \<open>A filter with an operator other than \<open>eq\<close> keeps every row.\<close>

definition redisFilterOk :: "row \<Rightarrow> Filter \<Rightarrow> bool" where
  "redisFilterOk r f \<longleftrightarrow>
     (fl_Op f = OpEq \<longrightarrow> (case map_of r (fl_Column f) of Some v \<Rightarrow> Sprint v = fl_Value f | None \<Rightarrow> False))"

definition redisApplyFilters :: "row list \<Rightarrow> Filter list \<Rightarrow> row list" where
  "redisApplyFilters rows filters =
     (if filters = [] then rows else filter (\<lambda>r. list_all (redisFilterOk r) filters) rows)"

section \<open>The operations\<close>

text \<open>The loop over the keys of a table.\<close>

fun readKeys ::
  "('w, 'o, 'c) redissdk \<Rightarrow> 'c \<Rightarrow> string \<Rightarrow> string \<Rightarrow> string list \<Rightarrow> string list \<Rightarrow> ('w, err, row list) comp"
where
  "readKeys sdk c prefix keyType keyCols [] = retC []"
| "readKeys sdk c prefix keyType keyCols (key # keys) =
     bindC (readKey sdk c key keyType) (\<lambda>r.
     bindC (readKeys sdk c prefix keyType keyCols keys) (\<lambda>rows.
       retC (case r of
               None \<Rightarrow> rows
             | Some r \<Rightarrow>
                 let r = AList.update ''_key'' (VStr key) r;
                     r = (case keyCols of k # _ \<Rightarrow> AList.update k (VStr (TrimPrefix key prefix)) r | [] \<Rightarrow> r)
                 in r # rows)))"

definition redisLoad :: "('w, 'o, 'c) redissdk \<Rightarrow> 'c \<Rightarrow> ResolvedTable \<Rightarrow> ('w, err, row list) comp" where
  "redisLoad sdk c resolved =
     (let (prefix, keyType) = redisTableOpts resolved
      in bindC (rd_scan sdk c (prefix @ ''*''))
           (readKeys sdk c prefix keyType (t_KeyColumns (rt_Table resolved))))"

definition redisSelect :: "('w, 'o, 'c) redissdk \<Rightarrow> 'c \<Rightarrow> SelectRequest \<Rightarrow> ('w, err, row list) comp" where
  "redisSelect sdk c req =
     bindC (redisLoad sdk c (sr_Resolved req)) (\<lambda>rows.
       let rows = redisApplyFilters rows (MapFilters (sr_Filters req) (rt_Columns (sr_Resolved req)));
           rows = applySelect rows (sr_Select req);
           rows = pageRows (sr_Offset req) (sr_Limit req) rows
       in retC (MapRowsFromRemote rows (rt_Columns (sr_Resolved req))))"

definition redisInsert :: "('w, 'o, 'c) redissdk \<Rightarrow> 'c \<Rightarrow> RowRequest \<Rightarrow> ('w, err, row option) comp" where
  "redisInsert sdk c req =
     (let (prefix, keyType) = redisTableOpts (rr_Resolved req);
          r = MapRowToRemote (rr_Row req) (rt_Columns (rr_Resolved req));
          key = prefix @ keyFromRow r (t_KeyColumns (rt_Table (rr_Resolved req)))
      in bindC
           (if keyType = ''hash'' then rd_hset sdk c key (rowFields r)
            else if keyType = ''json'' then bindC (liftC (rd_marshal sdk r)) (rd_set sdk c key)
            else (case map_of r ''value'' of
                    Some v \<Rightarrow> rd_set sdk c key (Sprint v)
                  | None \<Rightarrow> failC (Errorf ''redis string insert requires value column'')))
           (\<lambda>_. retC (if rr_PreferRepresentation req
                      then Some (hd (MapRowsFromRemote [r] (rt_Columns (rr_Resolved req)))) else None)))"

definition redisUpdate :: "('w, 'o, 'c) redissdk \<Rightarrow> 'c \<Rightarrow> RowRequest \<Rightarrow> ('w, err, int) comp" where
  "redisUpdate sdk c req =
     (let (prefix, keyType) = redisTableOpts (rr_Resolved req)
      in if keyType \<noteq> ''hash'' then failC (Errorf ''redis update only supported for hash keys'')
         else (case MapFilters (rr_Filters req) (rt_Columns (rr_Resolved req)) of
                 [f] \<Rightarrow>
                   if fl_Op f \<noteq> OpEq then failC (Errorf ''redis update requires single eq filter on key column'')
                   else bindC (rd_hset sdk c (prefix @ fl_Value f)
                               (rowFields (MapRowToRemote (rr_Row req) (rt_Columns (rr_Resolved req))))) (\<lambda>_. retC 1)
               | _ \<Rightarrow> failC (Errorf ''redis update requires single eq filter on key column'')))"

definition redisUpsert :: "('w, 'o, 'c) redissdk \<Rightarrow> 'c \<Rightarrow> RowRequest \<Rightarrow> ('w, err, bool \<times> row option) comp" where
  "redisUpsert sdk c req = bindC (redisInsert sdk c req) (\<lambda>ret. retC (True, ret))"

text \<open>The loop over the filters; \<open>n\<close> counts the keys deleted so far.\<close>

fun deleteKeys :: "('w, 'o, 'c) redissdk \<Rightarrow> 'c \<Rightarrow> string \<Rightarrow> Filter list \<Rightarrow> int \<Rightarrow> ('w, err, int) comp" where
  "deleteKeys sdk c prefix [] n = retC n"
| "deleteKeys sdk c prefix (f # fs) n =
     (if fl_Op f \<noteq> OpEq then deleteKeys sdk c prefix fs n
      else bindC (rd_del sdk c (prefix @ fl_Value f)) (\<lambda>_. deleteKeys sdk c prefix fs (n + 1)))"

definition redisDelete :: "('w, 'o, 'c) redissdk \<Rightarrow> 'c \<Rightarrow> DeleteRequest \<Rightarrow> ('w, err, int) comp" where
  "redisDelete sdk c req =
     (let (prefix, _) = redisTableOpts (dr_Resolved req)
      in deleteKeys sdk c prefix (MapFilters (dr_Filters req) (rt_Columns (dr_Resolved req))) 0)"

definition redisDriver :: "('w, 'o, 'c) redissdk \<Rightarrow> 'c \<Rightarrow> 'w driver" where
  "redisDriver sdk c =
     \<lparr>d_select = redisSelect sdk c, d_insert = redisInsert sdk c, d_update = redisUpdate sdk c,
      d_upsert = redisUpsert sdk c, d_delete = redisDelete sdk c,
      d_invoke = (\<lambda>_. failC (OpNotSupported ''invoke'' ProtocolRedis)), d_count = None\<rparr>"

definition redisNew :: "('w, 'o, 'c) redissdk \<Rightarrow> 'w Factory" where
  "redisNew sdk srv cred =
     (case ParseServerOptions RedisServerOptionsFields (s_Options srv) of
        (_, Some e) \<Rightarrow> failC e
      | (opts, None) \<Rightarrow>
          bindC (redisClient sdk opts cred) (\<lambda>c w.
            (case rd_ping sdk c w of
               (Inl e, w1) \<Rightarrow> (Inl (Wrapf ''redis ping: '' e []), rd_close sdk c w1)
             | (Inr _, w1) \<Rightarrow> (Inr (redisDriver sdk c), w1))))"

end
