(* ===== verification/MongoDriver.thy ===== *)
theory MongoDriver
  imports DriverApi
begin

text \<open>
  The mongo driver (\<open>internal/driver/mongo/mongo.go\<close>). The client library is a record of parameters; a BSON document is
  a row, and reading a cursor to its end is part of \<open>mg_find\<close>. What the driver sends and makes of the answers is modelled here.
\<close>

record findOptions =
  fo_projection :: "row option"
  fo_limit :: "int option"
  fo_skip :: "int option"
  fo_sort :: "(string \<times> int) list option"

record ('w, 'c) mongosdk =
  mg_connect :: "string \<Rightarrow> ('w, err, 'c) comp"
  mg_ping :: "'c \<Rightarrow> ('w, err, unit) comp"
  mg_disconnect :: "'c \<Rightarrow> 'w \<Rightarrow> 'w"
  mg_find :: "'c \<Rightarrow> string \<Rightarrow> string \<Rightarrow> row \<Rightarrow> findOptions \<Rightarrow> ('w, err, row list) comp"
  mg_insertOne :: "'c \<Rightarrow> string \<Rightarrow> string \<Rightarrow> row \<Rightarrow> ('w, err, val) comp"
  mg_updateMany :: "'c \<Rightarrow> string \<Rightarrow> string \<Rightarrow> row \<Rightarrow> row \<Rightarrow> ('w, err, int) comp"
  mg_upsertOne :: "'c \<Rightarrow> string \<Rightarrow> string \<Rightarrow> row \<Rightarrow> row \<Rightarrow> ('w, err, int) comp"
  mg_deleteMany :: "'c \<Rightarrow> string \<Rightarrow> string \<Rightarrow> row \<Rightarrow> ('w, err, int) comp"

section \<open>Filters and projections\<close>

definition MongoServerOptionsFields :: "(string \<times> fkind) list" where
  "MongoServerOptionsFields = [(''uri'', FStr), (''database'', FStr)]"

text \<open>The condition of a filter; operators that are not listed become equality.\<close>

definition mongoCond :: "Filter \<Rightarrow> val" where
  "mongoCond f =
     (let op = fl_Op f; v = VStr (fl_Value f)
      in if op = OpNeq then VObj [(''$ne'', v)]
         else if op = OpGt then VObj [(''$gt'', v)]
         else if op = OpGte then VObj [(''$gte'', v)]
         else if op = OpLt then VObj [(''$lt'', v)]
         else if op = OpLte then VObj [(''$lte'', v)]
         else if op = OpIn then VObj [(''$in'', VArr (map VStr (Split (fl_Value f) (CHR '',''))))]
         else v)"

definition filtersToBSON :: "Filter list \<Rightarrow> row" where
  "filtersToBSON filters = buildMap [] (map (\<lambda>f. (fl_Column f, mongoCond f)) filters)"

definition projectBSON :: "string list \<Rightarrow> row option" where
  "projectBSON cols =
     (if cols = [] then None else Some (buildMap [(''_id'', VInt 0)] (map (\<lambda>c. (c, VInt 1)) cols)))"

definition sortBSON :: "OrderSpec list \<Rightarrow> (string \<times> int) list option" where
  "sortBSON order =
     (if order = [] then None else Some (map (\<lambda>o1. (o_Column o1, if o_Desc o1 then - 1 else 1)) order))"

section \<open>The operations\<close>

definition mongoCollection :: "ResolvedTable \<Rightarrow> err + string" where
  "mongoCollection resolved =
     (let topts = fst (ParseServerOptions MongoTableOptionsFields (t_Options (rt_Table resolved)));
          name = TrimSpace (strField topts ''collection'');
          name = (if name = [] then RemoteTableName (rt_Table resolved) else name)
      in if name = [] then Inl (Errorf ''mongo: collection name required'') else Inr name)"

definition mongoFindOptions :: "SelectRequest \<Rightarrow> findOptions" where
  "mongoFindOptions req =
     \<lparr>fo_projection = projectBSON (sr_Select req),
      fo_limit = (if sr_Limit req > 0 then Some (sr_Limit req) else None),
      fo_skip = (if sr_Offset req > 0 then Some (sr_Offset req) else None),
      fo_sort = sortBSON (sr_Order req)\<rparr>"

definition mongoSelect :: "('w, 'c) mongosdk \<Rightarrow> 'c \<Rightarrow> string \<Rightarrow> SelectRequest \<Rightarrow> ('w, err, row list) comp" where
  "mongoSelect sdk c db req =
     bindC (liftC (mongoCollection (sr_Resolved req))) (\<lambda>coll.
     bindC (mg_find sdk c db coll (filtersToBSON (MapFilters (sr_Filters req) (rt_Columns (sr_Resolved req))))
       (mongoFindOptions req)) (\<lambda>docs.
       retC (MapRowsFromRemote docs (rt_Columns (sr_Resolved req)))))"

definition mongoInsert :: "('w, 'c) mongosdk \<Rightarrow> 'c \<Rightarrow> string \<Rightarrow> RowRequest \<Rightarrow> ('w, err, row option) comp" where
  "mongoInsert sdk c db req =
     bindC (liftC (mongoCollection (rr_Resolved req))) (\<lambda>coll.
       let doc = MapRowToRemote (rr_Row req) (rt_Columns (rr_Resolved req))
       in bindC (mg_insertOne sdk c db coll doc) (\<lambda>i. retC
            (if rr_PreferRepresentation req
             then Some (hd (MapRowsFromRemote [AList.update ''_id'' i doc] (rt_Columns (rr_Resolved req))))
             else None)))"

definition mongoUpdate :: "('w, 'c) mongosdk \<Rightarrow> 'c \<Rightarrow> string \<Rightarrow> RowRequest \<Rightarrow> ('w, err, int) comp" where
  "mongoUpdate sdk c db req =
     bindC (liftC (mongoCollection (rr_Resolved req))) (\<lambda>coll.
       mg_updateMany sdk c db coll (filtersToBSON (MapFilters (rr_Filters req) (rt_Columns (rr_Resolved req))))
         [(''$set'', VObj (MapRowToRemote (rr_Row req) (rt_Columns (rr_Resolved req))))])"

text \<open>The filter of an upsert: the key columns that the document has.\<close>

definition upsertFilter :: "string list \<Rightarrow> row \<Rightarrow> row" where
  "upsertFilter keys doc = buildMap [] (List.map_filter (\<lambda>k. map_option (\<lambda>v. (k, v)) (map_of doc k)) keys)"

definition mongoUpsert :: "('w, 'c) mongosdk \<Rightarrow> 'c \<Rightarrow> string \<Rightarrow> RowRequest \<Rightarrow> ('w, err, bool \<times> row option) comp" where
  "mongoUpsert sdk c db req =
     bindC (liftC (mongoCollection (rr_Resolved req))) (\<lambda>coll.
       let doc = MapRowToRemote (rr_Row req) (rt_Columns (rr_Resolved req));
           keys = upsertFilter (t_KeyColumns (rt_Table (rr_Resolved req))) doc
       in if keys = [] then failC (Errorf ''mongo upsert requires key_columns'')
          else bindC (mg_upsertOne sdk c db coll keys [(''$set'', VObj doc)]) (\<lambda>n. retC
                 (n > 0, if rr_PreferRepresentation req
                         then Some (hd (MapRowsFromRemote [doc] (rt_Columns (rr_Resolved req)))) else None)))"

definition mongoDelete :: "('w, 'c) mongosdk \<Rightarrow> 'c \<Rightarrow> string \<Rightarrow> DeleteRequest \<Rightarrow> ('w, err, int) comp" where
  "mongoDelete sdk c db req =
     bindC (liftC (mongoCollection (dr_Resolved req))) (\<lambda>coll.
       mg_deleteMany sdk c db coll (filtersToBSON (MapFilters (dr_Filters req) (rt_Columns (dr_Resolved req)))))"

definition mongoDriver :: "('w, 'c) mongosdk \<Rightarrow> 'c \<Rightarrow> string \<Rightarrow> 'w driver" where
  "mongoDriver sdk c db =
     \<lparr>d_select = mongoSelect sdk c db, d_insert = mongoInsert sdk c db, d_update = mongoUpdate sdk c db,
      d_upsert = mongoUpsert sdk c db, d_delete = mongoDelete sdk c db,
      d_invoke = (\<lambda>_. failC (OpNotSupported ''invoke'' ProtocolMongo)), d_count = None\<rparr>"

text \<open>A field that the options leave out and the credential lacks prints as \<open><nil>\<close>.\<close>

definition optOrCred :: "row \<Rightarrow> row option \<Rightarrow> string \<Rightarrow> string" where
  "optOrCred opts cred field =
     (let v = TrimSpace (strField opts field)
      in case cred of
           Some c \<Rightarrow> if v = [] then TrimSpace (Sprint (getAny c field)) else v
         | None \<Rightarrow> v)"

definition mongoNew :: "('w, 'c) mongosdk \<Rightarrow> 'w Factory" where
  "mongoNew sdk srv cred =
     (case ParseServerOptions MongoServerOptionsFields (s_Options srv) of
        (_, Some e) \<Rightarrow> failC e
      | (opts, None) \<Rightarrow>
          let uri = optOrCred opts cred ''uri'';
              db = optOrCred opts cred ''database''
          in if uri = [] then
               failC (Errorf (''mongo server '' @ quoteGo (s_Name srv) @ '' requires options.uri or credential.uri''))
             else (\<lambda>w. case mg_connect sdk uri w of
                     (Inl e, w1) \<Rightarrow> (Inl (Wrapf ''mongo connect: '' e []), w1)
                   | (Inr c, w1) \<Rightarrow>
                       (case mg_ping sdk c w1 of
                          (Inl e, w2) \<Rightarrow> (Inl (Wrapf ''mongo ping: '' e []), mg_disconnect sdk c w2)
                        | (Inr _, w2) \<Rightarrow>
                            if db = [] then
                              (Inl (Errorf (''mongo server '' @ quoteGo (s_Name srv) @ '' requires options.database'')),
                               mg_disconnect sdk c w2)
                            else (Inr (mongoDriver sdk c db), w2))))"

end
