(* ===== verification/KvFacts.thy ===== *)
theory KvFacts
  imports RedisDriver MongoDriver
begin

text \<open>
  The redis and mongo drivers: what a row inserted into redis reads back as, and which parts of a request the two drivers ignore.
\<close>

section \<open>Columns that are not renamed\<close>

definition plainColumns :: "Column list \<Rightarrow> bool" where
  "plainColumns cols \<longleftrightarrow> list_all (\<lambda>c. RemoteColumnName c = c_Name c) cols"

lemma buildMap_same: "(\<And>k v. (k, v) \<in> set kvs \<Longrightarrow> v = k) \<Longrightarrow> (\<And>k v. (k, v) \<in> set acc \<Longrightarrow> v = k) \<Longrightarrow> (k, v) \<in> set (buildMap acc kvs) \<Longrightarrow> v = k"
proof (induction acc kvs rule: buildMap.induct)
  case (2 acc x y kvs)
  have "set (AList.update x y acc) \<subseteq> insert (x, y) (set acc)" by (induction acc) auto
  then show ?case using 2 by (metis (no_types, lifting) buildMap.simps(2) insertE list.set_intros subset_iff Pair_inject)
qed simp

lemma rename_plain:
  assumes "plainColumns cols"
  shows "rename (localToRemote cols) x = x" "rename (remoteToLocal cols) x = x"
proof -
  have "v = k" if "(k, v) \<in> set (localToRemote cols)" for k v
    using that assms unfolding localToRemote_def plainColumns_def list_all_iff by (rule_tac buildMap_same) auto
  moreover have "v = k" if "(k, v) \<in> set (remoteToLocal cols)" for k v
    using that assms unfolding remoteToLocal_def plainColumns_def list_all_iff by (rule_tac buildMap_same) auto
  ultimately show "rename (localToRemote cols) x = x" "rename (remoteToLocal cols) x = x"
    by (auto simp: rename_def split: option.split dest: map_of_SomeD)
qed

lemma maps_plain:
  assumes "plainColumns cols"
  shows "MapRowToRemote r cols = buildMap [] r" "MapRowsFromRemote rows cols = map (buildMap []) rows" "MapFilters fs cols = fs"
  using assms by (simp_all add: MapRowToRemote_def MapRowsFromRemote_def MapFilters_def rename_plain)

section \<open>Redis\<close>

text \<open>
  The commands on hashes as Redis documents them, while the connection is up. A key is missing, holds a hash, which is never
  empty, or holds a value of another type, on which the commands on hashes fail (\<open>WRONGTYPE\<close>). A scan of a pattern that ends
  in \<open>*\<close> and has no other special character yields the keys with that prefix, of whatever type, perhaps repeatedly.
\<close>

datatype redisKey = NoKey | HashKey "string \<rightharpoonup> string" | OtherKey

definition fieldsOf :: "redisKey \<Rightarrow> string \<rightharpoonup> string" where
  "fieldsOf v = (case v of HashKey h \<Rightarrow> h | _ \<Rightarrow> Map.empty)"

definition hashAt :: "('w \<Rightarrow> string \<Rightarrow> redisKey) \<Rightarrow> 'w \<Rightarrow> string \<Rightarrow> string \<rightharpoonup> string" where
  "hashAt content w key = fieldsOf (content w key)"

definition globFree :: "string \<Rightarrow> bool" where
  "globFree p \<longleftrightarrow> list_all (\<lambda>c. c \<notin> {CHR ''*'', CHR ''?'', CHR ''['', CHR '']'', CHR 0x5C}) p"

definition redisLaws :: "('w, 'o, 'c) redissdk \<Rightarrow> 'c \<Rightarrow> ('w \<Rightarrow> string \<Rightarrow> redisKey) \<Rightarrow> bool" where
  "redisLaws sdk c content \<longleftrightarrow>
     (\<forall>w key. content w key \<noteq> HashKey Map.empty) \<and>
     (\<forall>w key fs w'. rd_hset sdk c key fs w = (Inr (), w') \<longrightarrow>
        content w key \<noteq> OtherKey \<and> content w' = (content w)(key := HashKey (fieldsOf (content w key) ++ map_of (rev fs)))) \<and>
     (\<forall>w key. content w key = OtherKey \<longrightarrow> (\<exists>e. rd_hgetall sdk c key w = (Inl e, w))) \<and>
     (\<forall>w key. content w key \<noteq> OtherKey \<longrightarrow>
        (\<exists>m. rd_hgetall sdk c key w = (Inr m, w) \<and> distinct (map fst m) \<and> map_of m = fieldsOf (content w key))) \<and>
     (\<forall>w p. globFree p \<longrightarrow> (\<exists>ks. rd_scan sdk c (p @ ''*'') w = (Inr ks, w) \<and>
        set ks = {k. HasPrefix k p \<and> content w k \<noteq> NoKey}))"

lemma hset_hashes:
  assumes "redisLaws sdk c content" "rd_hset sdk c key fs w = (Inr u, w')"
  shows "hashAt content w' = (hashAt content w)(key := hashAt content w key ++ map_of (rev fs))"
    "content w' k = OtherKey \<Longrightarrow> content w k = OtherKey"
proof -
  have c: "content w' = (content w)(key := HashKey (fieldsOf (content w key) ++ map_of (rev fs)))"
    using assms by (cases u) (auto simp: redisLaws_def)
  then show "hashAt content w' = (hashAt content w)(key := hashAt content w key ++ map_of (rev fs))"
    by (simp add: fun_eq_iff hashAt_def fieldsOf_def [of "HashKey _"])
  show "content w' k = OtherKey \<Longrightarrow> content w k = OtherKey"
    by (simp add: c split: if_splits)
qed

lemma hashAt_nonempty:
  assumes "redisLaws sdk c content" shows "hashAt content w key \<noteq> Map.empty \<longleftrightarrow> content w key \<noteq> NoKey \<and> content w key \<noteq> OtherKey"
  using assms by (cases "content w key") (auto simp: redisLaws_def hashAt_def fieldsOf_def)

lemma hgetall_hashes:
  assumes "redisLaws sdk c content" "hashAt content w key \<noteq> Map.empty"
  obtains m where "rd_hgetall sdk c key w = (Inr m, w)" "distinct (map fst m)" "map_of m = hashAt content w key"
proof -
  have "content w key \<noteq> OtherKey" using hashAt_nonempty [OF assms(1), of w key] assms(2) by blast
  moreover have "content w key \<noteq> OtherKey \<longrightarrow>
      (\<exists>m. rd_hgetall sdk c key w = (Inr m, w) \<and> distinct (map fst m) \<and> map_of m = fieldsOf (content w key))"
    using assms(1) unfolding redisLaws_def by metis
  ultimately show ?thesis using that by (auto simp: hashAt_def)
qed

lemma scan_hashes:
  assumes "redisLaws sdk c content" "globFree p" "\<And>k. HasPrefix k p \<Longrightarrow> content w k \<noteq> OtherKey"
  obtains ks where "rd_scan sdk c (p @ ''*'') w = (Inr ks, w)" "set ks = {k. HasPrefix k p \<and> hashAt content w k \<noteq> Map.empty}"
proof -
  have "{k. HasPrefix k p \<and> hashAt content w k \<noteq> Map.empty} = {k. HasPrefix k p \<and> content w k \<noteq> NoKey}"
    using assms(3) hashAt_nonempty [OF assms(1), of w] by blast
  moreover have "\<exists>ks. rd_scan sdk c (p @ ''*'') w = (Inr ks, w) \<and> set ks = {k. HasPrefix k p \<and> content w k \<noteq> NoKey}"
    using assms(1,2) unfolding redisLaws_def by blast
  ultimately show ?thesis using that by metis
qed

text \<open>What a key of a hash table is read back as.\<close>

definition hashRow :: "string \<Rightarrow> string \<Rightarrow> (string \<rightharpoonup> string) \<Rightarrow> string \<Rightarrow> string \<rightharpoonup> val" where
  "hashRow prefix k h key x =
     (if x = k then Some (VStr (TrimPrefix key prefix))
      else if x = ''_key'' then Some (VStr key)
      else map_option VStr (h x))"

definition readsAs :: "string \<Rightarrow> string \<Rightarrow> (string \<Rightarrow> string \<rightharpoonup> string) \<Rightarrow> string list \<Rightarrow> row list \<Rightarrow> bool" where
  "readsAs prefix k h keys rows \<longleftrightarrow>
     list_all (\<lambda>r. distinct (map fst r)) rows \<and>
     map map_of rows = map (\<lambda>key. hashRow prefix k (h key) key) keys"

lemma map_of_VStr: "map_of (map (\<lambda>(k, v). (k, VStr v)) m) x = map_option VStr (map_of m x)"
  by (induction m) auto

lemma readKey_hash:
  assumes laws: "redisLaws sdk c content" and ne: "hashAt content w key \<noteq> Map.empty"
  obtains r where "readKey sdk c key ''hash'' w = (Inr (Some r), w)" "distinct (map fst r)"
    "map_of r = (\<lambda>x. map_option VStr (hashAt content w key x))"
proof -
  obtain m where m: "rd_hgetall sdk c key w = (Inr m, w)" "distinct (map fst m)" "map_of m = hashAt content w key"
    using hgetall_hashes [OF laws ne] .
  then have "m \<noteq> []" using ne by auto
  then have "readKey sdk c key ''hash'' w = (Inr (Some (map (\<lambda>(k, v). (k, VStr v)) m)), w)"
    using m by (simp add: readKey_def bindC_def retC_def)
  moreover have "map fst (map (\<lambda>(k, v). (k, VStr v)) m) = map fst m" by (induction m) auto
  then have "distinct (map fst (map (\<lambda>(k, v). (k, VStr v)) m))" by (simp only: m)
  ultimately show thesis by (rule that) (simp add: map_of_VStr m fun_eq_iff)
qed

lemma readKeys_hash:
  assumes laws: "redisLaws sdk c content"
  shows "(\<And>key. key \<in> set keys \<Longrightarrow> hashAt content w key \<noteq> Map.empty) \<Longrightarrow>
    \<exists>rows. readKeys sdk c prefix ''hash'' (k # ks) keys w = (Inr rows, w) \<and> readsAs prefix k (hashAt content w) keys rows"
proof (induction keys)
  case Nil
  then show ?case by (simp add: readsAs_def retC_def)
next
  case (Cons key keys)
  obtain r where r: "readKey sdk c key ''hash'' w = (Inr (Some r), w)" "distinct (map fst r)"
    "map_of r = (\<lambda>x. map_option VStr (hashAt content w key x))"
    using readKey_hash [OF laws] Cons.prems by (metis list.set_intros(1))
  obtain rows where rows: "readKeys sdk c prefix ''hash'' (k # ks) keys w = (Inr rows, w)" "readsAs prefix k (hashAt content w) keys rows"
    using Cons by (metis list.set_intros(2))
  let ?r = "AList.update k (VStr (TrimPrefix key prefix)) (AList.update ''_key'' (VStr key) r)"
  have "distinct (map fst ?r)" using r by (simp add: distinct_update)
  moreover have "map_of ?r = hashRow prefix k (hashAt content w key) key"
    by (simp add: update_conv' r fun_eq_iff hashRow_def)
  ultimately have "readsAs prefix k (hashAt content w) (key # keys) (?r # rows)"
    using rows by (simp add: readsAs_def)
  then show ?case using r rows by (simp add: bindC_def retC_def Let_def)
qed


lemma redisInsert_hash:
  assumes opts: "redisTableOpts (rr_Resolved req) = (prefix, ''hash'')"
    and plain: "plainColumns (rt_Columns (rr_Resolved req))"
    and keys: "t_KeyColumns (rt_Table (rr_Resolved req)) = k # ks"
    and d: "distinct (map fst (rr_Row req))" and v: "map_of (rr_Row req) k = Some v"
    and run: "redisInsert sdk c req w = (Inr r, w')"
  shows "\<exists>u. rd_hset sdk c (prefix @ Sprint v) (rowFields (rr_Row req)) w = (Inr u, w')"
proof -
  have r: "MapRowToRemote (rr_Row req) (rt_Columns (rr_Resolved req)) = rr_Row req"
    using d by (simp add: maps_plain [OF plain] buildMap_distinct_id)
  show ?thesis
    using run unfolding redisInsert_def opts Let_def r keys
    by (auto simp: keyFromRow_def v bindC_def retC_def split: prod.splits sum.splits)
qed

lemma map_of_rowFields: "distinct (map fst r) \<Longrightarrow> map_of (rev (rowFields r)) x = map_option Sprint (map_of r x)"
proof -
  have "map_of (rowFields r) x = map_option Sprint (map_of r x)" unfolding rowFields_def by (induction r) auto
  moreover have "map fst (rowFields r) = map fst r" unfolding rowFields_def by (induction r) auto
  ultimately show "distinct (map fst r) \<Longrightarrow> ?thesis" by (simp add: map_of_rev_distinct)
qed

text \<open>The request that reads the rows whose key column has the value.\<close>

definition byKey :: "ResolvedTable \<Rightarrow> string \<Rightarrow> string \<Rightarrow> SelectRequest" where
  "byKey resolved k v =
     \<lparr>sr_Resolved = resolved, sr_Select = [], sr_Filters = [\<lparr>fl_Column = k, fl_Op = OpEq, fl_Value = v\<rparr>],
      sr_OrGroups = [], sr_Order = [], sr_Limit = 0, sr_Offset = 0\<rparr>"

lemma pageRows_all: "pageRows 0 0 rows = rows"
  by (simp add: pageRows_def)

lemma redisSelect_byKey:
  assumes laws: "redisLaws sdk c content" and glob: "globFree prefix"
    and opts: "redisTableOpts resolved = (prefix, ''hash'')"
    and plain: "plainColumns (rt_Columns resolved)"
    and keys: "t_KeyColumns (rt_Table resolved) = k # ks"
    and types: "\<And>key. HasPrefix key prefix \<Longrightarrow> content w key \<noteq> OtherKey"
    and there: "hashAt content w (prefix @ v) \<noteq> Map.empty"
  shows "\<exists>rows. redisSelect sdk c (byKey resolved k v) w = (Inr rows, w) \<and> rows \<noteq> [] \<and>
    (\<forall>r \<in> set rows. map_of r = hashRow prefix k (hashAt content w (prefix @ v)) (prefix @ v))"
proof -
  obtain scanned where s: "rd_scan sdk c (prefix @ ''*'') w = (Inr scanned, w)"
    and set: "set scanned = {key. HasPrefix key prefix \<and> hashAt content w key \<noteq> Map.empty}"
    using scan_hashes [OF laws glob types] .
  then have "hashAt content w key \<noteq> Map.empty" if "key \<in> set scanned" for key using that by blast
  then obtain rows where r: "readKeys sdk c prefix ''hash'' (k # ks) scanned w = (Inr rows, w)"
    and as: "readsAs prefix k (hashAt content w) scanned rows"
    using readKeys_hash [OF laws] by meson
  let ?f = "\<lparr>fl_Column = k, fl_Op = OpEq, fl_Value = v\<rparr>"
  let ?out = "filter (\<lambda>r. redisFilterOk r ?f) rows"
  have "buildMap [] r = r" if "r \<in> set rows" for r
    using as that buildMap_distinct_id [of "[]" r] by (simp add: readsAs_def list_all_iff)
  then have ids: "map (buildMap []) ?out = ?out" by (intro map_idI) simp
  have run: "redisSelect sdk c (byKey resolved k v) w = (Inr ?out, w)"
    unfolding redisSelect_def redisLoad_def
    by (simp add: byKey_def opts keys s r bindC_def retC_def maps_plain [OF plain] redisApplyFilters_def applySelect_def
        pageRows_all ids)
  have maps: "map_of ` set rows = (\<lambda>key. hashRow prefix k (hashAt content w key) key) ` set scanned"
    using as unfolding readsAs_def by (metis list.set_map)
  have ok: "redisFilterOk r ?f \<longleftrightarrow> map_of r = hashRow prefix k (hashAt content w (prefix @ v)) (prefix @ v)" if "r \<in> set rows" for r
  proof -
    have "map_of r \<in> (\<lambda>key. hashRow prefix k (hashAt content w key) key) ` set scanned" using maps that by (metis imageI)
    then obtain key where key: "key \<in> set scanned" "map_of r = hashRow prefix k (hashAt content w key) key" by (rule imageE)
    from key(1) have "HasPrefix key prefix" unfolding set by blast
    then obtain t where t: "key = prefix @ t" unfolding HasPrefix_iff by blast
    have at: "hashRow prefix k h (prefix @ u) k = Some (VStr u)" for h u by (simp add: hashRow_def)
    then have "map_of r k = Some (VStr t)" using key t by simp
    then have "redisFilterOk r ?f \<longleftrightarrow> t = v" by (simp add: redisFilterOk_def)
    moreover have "map_of r = hashRow prefix k (hashAt content w (prefix @ v)) (prefix @ v) \<longleftrightarrow> t = v"
      using key t at by (metis option.inject val.inject(4))
    ultimately show ?thesis by simp
  qed
  have "prefix @ v \<in> set scanned" using set there by simp
  then obtain r0 where "r0 \<in> set rows" "map_of r0 = hashRow prefix k (hashAt content w (prefix @ v)) (prefix @ v)"
    using maps by (metis (mono_tags, lifting) imageE imageI)
  then have "?out \<noteq> []" using ok by (auto simp: filter_empty_conv)
  then show ?thesis using run ok by auto
qed


text \<open>C26: a row inserted into a redis hash table is found by its key, and every field of it reads back as its text; fields the hash
  had before and the row lacks stay, and only the column \<open>_key\<close> is the driver's own. This is for a table whose columns are not
  renamed and whose key prefix has no special character of a pattern, for a row with the first key column and with distinct
  columns, when no key with the prefix holds a value of another type, and while the connection is up; what the commands do
  is assumed as Redis documents it.\<close>

theorem redis_insert_select:
  assumes "redisLaws sdk c content" "globFree prefix"
    and "redisTableOpts (rr_Resolved req) = (prefix, ''hash'')"
    and "plainColumns (rt_Columns (rr_Resolved req))"
    and "t_KeyColumns (rt_Table (rr_Resolved req)) = k # ks"
    and "distinct (map fst (rr_Row req))" "map_of (rr_Row req) k = Some v"
    and "\<And>key. HasPrefix key prefix \<Longrightarrow> content w key \<noteq> OtherKey"
    and "redisInsert sdk c req w = (Inr r, w')"
  shows "\<exists>rows. redisSelect sdk c (byKey (rr_Resolved req) k (Sprint v)) w' = (Inr rows, w') \<and> rows \<noteq> [] \<and>
    (\<forall>row \<in> set rows. \<forall>x. x \<noteq> ''_key'' \<longrightarrow> map_of row x =
       map_option VStr (case map_of (rr_Row req) x of
         Some y \<Rightarrow> Some (Sprint y) | None \<Rightarrow> fieldsOf (content w (prefix @ Sprint v)) x))"
proof -
  obtain u where "rd_hset sdk c (prefix @ Sprint v) (rowFields (rr_Row req)) w = (Inr u, w')"
    using redisInsert_hash [OF assms(3-7,9)] by blast
  note h = hset_hashes [OF assms(1) this]
  then have at: "hashAt content w' (prefix @ Sprint v) x =
      (case map_of (rr_Row req) x of Some y \<Rightarrow> Some (Sprint y) | None \<Rightarrow> hashAt content w (prefix @ Sprint v) x)" for x
    by (simp add: map_add_def map_of_rowFields assms(6) split: option.split)
  then have there: "hashAt content w' (prefix @ Sprint v) \<noteq> Map.empty" using assms(7) by (metis option.distinct(1) option.simps(5))
  have types: "content w' key \<noteq> OtherKey" if "HasPrefix key prefix" for key
    using h(2) assms(8) that by blast
  obtain rows where rows: "redisSelect sdk c (byKey (rr_Resolved req) k (Sprint v)) w' = (Inr rows, w')" "rows \<noteq> []"
    and eq: "\<And>row. row \<in> set rows \<Longrightarrow> map_of row = hashRow prefix k (hashAt content w' (prefix @ Sprint v)) (prefix @ Sprint v)"
    using redisSelect_byKey [OF assms(1-5) types there] by blast
  have "map_of row x = map_option VStr (case map_of (rr_Row req) x of
      Some y \<Rightarrow> Some (Sprint y) | None \<Rightarrow> fieldsOf (content w (prefix @ Sprint v)) x)"
    if "row \<in> set rows" "x \<noteq> ''_key''" for row x
    using assms(7) by (auto simp: eq [OF that(1)] hashRow_def that at [unfolded hashAt_def [of content w]])
  then show ?thesis using rows by blast
qed

text \<open>Redis in memory: the fields of each key.\<close>

definition fieldsAt :: "(string \<times> (string \<times> string) list) list \<Rightarrow> string \<Rightarrow> (string \<times> string) list" where
  "fieldsAt w key = (case map_of w key of Some fs \<Rightarrow> fs | None \<Rightarrow> [])"

definition memRedis :: "((string \<times> (string \<times> string) list) list, unit, unit) redissdk" where
  "memRedis =
     \<lparr>rd_parseURL = (\<lambda>u. Inr ()), rd_newURL = (\<lambda>o1 w. ((), w)), rd_new = (\<lambda>o1 w. ((), w)), rd_ping = (\<lambda>c. retC ()),
      rd_close = (\<lambda>c w. w),
      rd_scan = (\<lambda>c p w. (Inr (filter (\<lambda>k. HasPrefix k (butlast p) \<and> fieldsAt w k \<noteq> []) (map fst w)), w)),
      rd_get = (\<lambda>c k. retC None),
      rd_hgetall = (\<lambda>c k w. (Inr (buildMap [] (rev (fieldsAt w k))), w)),
      rd_hset = (\<lambda>c k fs w. if fs = [] then (Inl ErrEOF, w) else (Inr (), AList.update k (buildMap (fieldsAt w k) fs) w)),
      rd_set = (\<lambda>c k v. retC ()), rd_del = (\<lambda>c k w. (Inr (), AList.delete k w)),
      rd_json = (\<lambda>t. RawJSON VNil), rd_marshal = (\<lambda>r. Inr [])\<rparr>"

definition memHashes :: "(string \<times> (string \<times> string) list) list \<Rightarrow> string \<Rightarrow> redisKey" where
  "memHashes w key = (if fieldsAt w key = [] then NoKey else HashKey (map_of (fieldsAt w key)))"

lemma memRedis_laws: "redisLaws memRedis () memHashes"
  unfolding redisLaws_def
proof (intro conjI allI impI)
  fix w :: "(string \<times> (string \<times> string) list) list" and key
  show "memHashes w key \<noteq> HashKey Map.empty" by (simp add: memHashes_def map_of_eq_empty_iff)
next
  fix w key fs w'
  assume h: "rd_hset memRedis () key fs w = (Inr (), w')"
  then have fs: "fs \<noteq> []" and w': "w' = AList.update key (buildMap (fieldsAt w key) fs) w"
    by (auto simp: memRedis_def split: if_splits)
  have "map_of (buildMap (fieldsAt w key) fs) \<noteq> Map.empty"
    using fs by (cases fs) (auto simp: map_of_buildMap fun_eq_iff map_add_def dest!: spec [of _ "fst (hd fs)"] split: option.splits)
  then have "buildMap (fieldsAt w key) fs \<noteq> []" by auto
  moreover have "fieldsAt w' = (fieldsAt w)(key := buildMap (fieldsAt w key) fs)"
    by (simp add: w' fun_eq_iff fieldsAt_def update_conv')
  ultimately show "memHashes w' = (memHashes w)(key := HashKey (fieldsOf (memHashes w key) ++ map_of (rev fs)))"
    by (auto simp: memHashes_def fun_eq_iff fieldsOf_def map_of_buildMap)
next
  fix w :: "(string \<times> (string \<times> string) list) list" and key
  show "\<exists>m. rd_hgetall memRedis () key w = (Inr m, w) \<and> distinct (map fst m) \<and> map_of m = fieldsOf (memHashes w key)"
    by (auto simp: memRedis_def memHashes_def fieldsOf_def fun_eq_iff distinct_buildMap map_of_buildMap_Nil)
next
  fix w p
  have "fieldsAt w k = [] \<or> k \<in> fst ` set w" for k
    by (cases "map_of w k") (auto simp: fieldsAt_def intro: map_of_SomeD rev_image_eqI)
  then show "\<exists>ks. rd_scan memRedis () (p @ ''*'') w = (Inr ks, w) \<and> set ks = {k. HasPrefix k p \<and> memHashes w k \<noteq> NoKey}"
    by (auto simp: memRedis_def memHashes_def)
qed (simp_all add: memHashes_def split: if_splits)

definition plainResolved :: ResolvedTable where
  "plainResolved = (exampleResolved ProtocolRedis ''session'')\<lparr>rt_Columns := []\<rparr>"

definition sessionInsert :: RowRequest where
  "sessionInsert =
     \<lparr>rr_Resolved = plainResolved, rr_Row = [(''id'', VInt 7), (''user'', VStr ''ann'')], rr_Filters = [], rr_OrGroups = [],
      rr_PreferRepresentation = False, rr_PreferUpsert = False, rr_Returning = []\<rparr>"

lemma redis_insert_select_witness:
  "\<exists>rows. redisSelect memRedis () (byKey plainResolved ''id'' ''7'') (snd (redisInsert memRedis () sessionInsert [(''session:7'', [(''ip'', ''::1'')])]))
     = (Inr rows, snd (redisInsert memRedis () sessionInsert [(''session:7'', [(''ip'', ''::1'')])])) \<and> rows \<noteq> [] \<and>
     (\<forall>row \<in> set rows. map_of row ''user'' = Some (VStr ''ann'') \<and> map_of row ''ip'' = Some (VStr ''::1''))"
proof -
  let ?w = "[(''session:7'', [(''ip'', ''::1'')])]"
  have "fst (redisInsert memRedis () sessionInsert ?w) = Inr None" by code_simp
  then have run: "redisInsert memRedis () sessionInsert ?w = (Inr None, snd (redisInsert memRedis () sessionInsert ?w))"
    by (metis prod.collapse)
  have opts: "redisTableOpts (rr_Resolved sessionInsert) = (''session:'', ''hash'')" by code_simp
  have r: "rr_Resolved sessionInsert = plainResolved" "rr_Row sessionInsert = [(''id'', VInt 7), (''user'', VStr ''ann'')]"
    by (simp_all add: sessionInsert_def)
  have key: "t_KeyColumns (rt_Table plainResolved) = ''id'' # []" "plainColumns (rt_Columns plainResolved)"
    by (simp_all add: plainResolved_def exampleResolved_def plainColumns_def)
  have seven: "Sprint (VInt 7) = ''7''" by code_simp
  have ip: "fieldsOf (memHashes ?w (''session:'' @ ''7'')) ''ip'' = Some ''::1''" by code_simp
  have types: "memHashes ?w key \<noteq> OtherKey" for key by (simp add: memHashes_def)
  have "globFree ''session:''" by (simp add: globFree_def)
  then obtain rows where rows: "redisSelect memRedis () (byKey plainResolved ''id'' ''7'') (snd (redisInsert memRedis () sessionInsert ?w))
      = (Inr rows, snd (redisInsert memRedis () sessionInsert ?w))" "rows \<noteq> []"
    and all: "\<forall>row \<in> set rows. \<forall>x. x \<noteq> ''_key'' \<longrightarrow> map_of row x = map_option VStr
       (case map_of (rr_Row sessionInsert) x of Some y \<Rightarrow> Some (Sprint y) | None \<Rightarrow> fieldsOf (memHashes ?w (''session:'' @ ''7'')) x)"
    using redis_insert_select [OF memRedis_laws _ opts _ _ _ _ types run, of "''id''" "[]" "VInt 7"]
    unfolding r seven using key by auto
  have "map_of row ''user'' = Some (VStr ''ann'') \<and> map_of row ''ip'' = Some (VStr ''::1'')" if "row \<in> set rows" for row
    using bspec [OF all that, THEN spec, of "''user''"] bspec [OF all that, THEN spec, of "''ip''"] ip by (simp add: r)
  then show ?thesis using rows by blast
qed

section \<open>What the drivers ignore\<close>

lemma MapFilters_same:
  "map (\<lambda>f. (fl_Op f, fl_Value f)) fs = map (\<lambda>f. (fl_Op f, fl_Value f)) gs \<Longrightarrow>
   map (\<lambda>f. (fl_Op f, fl_Value f)) (MapFilters fs cols) = map (\<lambda>f. (fl_Op f, fl_Value f)) (MapFilters gs cols)"
  by (cases "fs = []"; cases "gs = []") (simp_all add: MapFilters_def comp_def)

lemma deleteKeys_same:
  "map (\<lambda>f. (fl_Op f, fl_Value f)) fs = map (\<lambda>f. (fl_Op f, fl_Value f)) gs \<Longrightarrow>
   deleteKeys sdk c prefix fs n = deleteKeys sdk c prefix gs n"
proof (induction fs arbitrary: gs n)
  case (Cons f fs)
  then obtain g gs' where "gs = g # gs'" by (cases gs) auto
  then show ?case using Cons by simp
qed simp

text \<open>C27: the redis driver writes to the keys that the operators and values of the filters name; the columns of the filters
  make no difference to an update or a deletion.\<close>

theorem redis_columns_ignored:
  assumes "map (\<lambda>f. (fl_Op f, fl_Value f)) fs = map (\<lambda>f. (fl_Op f, fl_Value f)) gs"
  shows "redisUpdate sdk c (req\<lparr>rr_Filters := fs\<rparr>) = redisUpdate sdk c (req\<lparr>rr_Filters := gs\<rparr>) \<and>
    redisDelete sdk c (del\<lparr>dr_Filters := fs\<rparr>) = redisDelete sdk c (del\<lparr>dr_Filters := gs\<rparr>)"
proof
  let ?m = "\<lambda>fs. MapFilters fs (rt_Columns (rr_Resolved req))"
  have same: "map (\<lambda>f. (fl_Op f, fl_Value f)) (?m fs) = map (\<lambda>f. (fl_Op f, fl_Value f)) (?m gs)"
    by (rule MapFilters_same [OF assms])
  then consider "?m fs = []" "?m gs = []"
    | f g where "?m fs = [f]" "?m gs = [g]" "fl_Op f = fl_Op g" "fl_Value f = fl_Value g"
    | f f' fs' g g' gs' where "?m fs = f # f' # fs'" "?m gs = g # g' # gs'"
    by (cases "?m fs" rule: remdups_adj.cases; cases "?m gs" rule: remdups_adj.cases) auto
  then show "redisUpdate sdk c (req\<lparr>rr_Filters := fs\<rparr>) = redisUpdate sdk c (req\<lparr>rr_Filters := gs\<rparr>)"
    by cases (simp_all add: redisUpdate_def split: prod.split)
  show "redisDelete sdk c (del\<lparr>dr_Filters := fs\<rparr>) = redisDelete sdk c (del\<lparr>dr_Filters := gs\<rparr>)"
    by (simp add: redisDelete_def deleteKeys_same [OF MapFilters_same [OF assms]])
qed

definition sessionDelete :: DeleteRequest where
  "sessionDelete = \<lparr>dr_Resolved = plainResolved, dr_Filters = [], dr_OrGroups = []\<rparr>"

lemma redis_columns_ignored_witness:
  "redisDelete memRedis () (sessionDelete\<lparr>dr_Filters := [\<lparr>fl_Column = ''user'', fl_Op = OpEq, fl_Value = ''7''\<rparr>]\<rparr>) [(''session:7'', [(''user'', ''ann'')])]
     = (Inr 1, [])"
proof -
  have "redisDelete memRedis () (sessionDelete\<lparr>dr_Filters := [\<lparr>fl_Column = ''id'', fl_Op = OpEq, fl_Value = ''7''\<rparr>]\<rparr>) [(''session:7'', [(''user'', ''ann'')])]
     = (Inr 1, [])" by code_simp
  then show ?thesis
    using redis_columns_ignored [of "[\<lparr>fl_Column = ''user'', fl_Op = OpEq, fl_Value = ''7''\<rparr>]"
        "[\<lparr>fl_Column = ''id'', fl_Op = OpEq, fl_Value = ''7''\<rparr>]" memRedis "()" sessionInsert sessionDelete] by simp
qed

section \<open>Mongo\<close>

lemma map_of_conds: "map_of (map (\<lambda>f. (fl_Column f, mongoCond f)) fs) col = map_option mongoCond (find (\<lambda>f. fl_Column f = col) fs)"
  by (induction fs) auto

text \<open>C28: the mongo driver asks, of each column, the condition of the last filter on it; the or-groups of a request make no
  difference, so a deletion whose only condition is an or-group asks for every document.\<close>

theorem mongo_filters_sent:
  "map_of (filtersToBSON fs) col = map_option mongoCond (find (\<lambda>f. fl_Column f = col) (rev fs)) \<and>
   mongoSelect sdk c db (sel\<lparr>sr_OrGroups := gs\<rparr>) = mongoSelect sdk c db sel \<and>
   mongoUpdate sdk c db (req\<lparr>rr_OrGroups := gs\<rparr>) = mongoUpdate sdk c db req \<and>
   mongoDelete sdk c db (del\<lparr>dr_Filters := [], dr_OrGroups := gs\<rparr>) =
     bindC (liftC (mongoCollection (dr_Resolved del))) (\<lambda>coll. mg_deleteMany sdk c db coll [])"
proof (intro conjI)
  show "map_of (filtersToBSON fs) col = map_option mongoCond (find (\<lambda>f. fl_Column f = col) (rev fs))"
    unfolding filtersToBSON_def map_of_buildMap_Nil rev_map by (rule map_of_conds)
  show "mongoSelect sdk c db (sel\<lparr>sr_OrGroups := gs\<rparr>) = mongoSelect sdk c db sel"
    by (simp add: mongoSelect_def mongoFindOptions_def)
  show "mongoUpdate sdk c db (req\<lparr>rr_OrGroups := gs\<rparr>) = mongoUpdate sdk c db req" by (simp add: mongoUpdate_def)
  show "mongoDelete sdk c db (del\<lparr>dr_Filters := [], dr_OrGroups := gs\<rparr>) =
     bindC (liftC (mongoCollection (dr_Resolved del))) (\<lambda>coll. mg_deleteMany sdk c db coll [])"
    by (simp add: mongoDelete_def MapFilters_def filtersToBSON_def)
qed

end
