(* ===== verification/GenTypes.thy ===== *)
theory GenTypes
  imports FileStore
begin

text \<open>
  Type generation (\<open>internal/gentypes\<close>: meta.go, typescript.go): metadata is fetched from the admin API into a snapshot by
  schema, and printed as TypeScript. Go maps are association lists; the HTTP client and the JSON decoder are parameters.
\<close>

section \<open>Metadata (meta.go)\<close>

record MetaClient =
  mcli_BaseURL :: string
  mcli_APIKey :: string
  mcli_Token :: string

record ColumnMeta =
  cm_Name :: string
  cm_DataType :: string
  cm_RemoteName :: string
  cm_Nullable :: bool
  cm_Position :: int

record TableMeta =
  tm_SchemaName :: string
  tm_TableName :: string
  tm_RemoteName :: string
  tm_ServerName :: string
  tm_KeyColumns :: "string list"
  tm_Columns :: "ColumnMeta list"

record FunctionMeta =
  fm_SchemaName :: string
  fm_Name :: string
  fm_Operation :: string
  fm_ServerName :: string
  fm_Method :: string
  fm_RemotePath :: string

record SchemaTables =
  sct_Tables :: "(string \<times> TableMeta) list"
  sct_Functions :: "(string \<times> FunctionMeta) list"

type_synonym SchemaSnapshot = "(string \<times> SchemaTables) list"

text \<open>The client: making a request may fail; an answer is a status, its text and the outcome of reading the body. A body
  is decoded as tables, functions or columns.\<close>

record 'w metaHttp =
  mh_newRequest :: "string \<Rightarrow> err option"
  mh_do :: "string \<Rightarrow> (string \<times> string) list \<Rightarrow> ('w, err, int \<times> string \<times> (err + string)) comp"
  mh_tables :: "string \<Rightarrow> err + Table list"
  mh_functions :: "string \<Rightarrow> err + Function list"
  mh_columns :: "string \<Rightarrow> err + Column list"
  mh_uuidText :: "uuid \<Rightarrow> string"

definition metaHeaders :: "MetaClient \<Rightarrow> (string \<times> string) list" where
  "metaHeaders c =
     [(''Accept'', ''application/json'')] @
     (if mcli_APIKey c \<noteq> [] then [(''apikey'', mcli_APIKey c)] else []) @
     (if mcli_Token c \<noteq> [] then [(''Authorization'', ''Bearer '' @ mcli_Token c)] else [])"

definition getJSON :: "'w metaHttp \<Rightarrow> MetaClient \<Rightarrow> (string \<Rightarrow> err + 'a) \<Rightarrow> string \<Rightarrow> ('w, err, 'a) comp" where
  "getJSON http c decode url =
     (case mh_newRequest http url of
        Some e \<Rightarrow> failC e
      | None \<Rightarrow>
          bindC (mh_do http url (metaHeaders c)) (\<lambda>(status, statusText, body). liftC
            (bindE body (\<lambda>text.
               if status \<noteq> 200 then Inl (Errorf (''GET '' @ url @ '': '' @ statusText @ '': '' @ TrimSpace text))
               else decode text))))"

definition schemaAllowed :: "string \<Rightarrow> string list \<Rightarrow> bool" where
  "schemaAllowed name schemas \<longleftrightarrow> schemas = [] \<or> list_ex (\<lambda>s. TrimSpace s = name) schemas"

definition columnMeta :: "Column \<Rightarrow> ColumnMeta" where
  "columnMeta col =
     \<lparr>cm_Name = c_Name col, cm_DataType = c_DataType col, cm_RemoteName = RemoteColumnName col,
      cm_Nullable = c_Nullable col, cm_Position = c_Position col\<rparr>"

text \<open>Sorted by position, then name; \<open>sort.Slice\<close> leaves the order of equal columns open.\<close>

definition sortMeta :: "ColumnMeta list \<Rightarrow> ColumnMeta list" where
  "sortMeta cols = sort_key cm_Position (sort_key cm_Name cols)"

definition metaListColumns :: "'w metaHttp \<Rightarrow> MetaClient \<Rightarrow> string \<Rightarrow> uuid \<Rightarrow> ('w, err, ColumnMeta list) comp" where
  "metaListColumns http c base tableID =
     bindC (getJSON http c (mh_columns http) (base @ ''/admin/api/tables/'' @ mh_uuidText http tableID @ ''/columns''))
       (\<lambda>cols. retC (sortMeta (map columnMeta cols)))"

definition emptySchema :: SchemaTables where
  "emptySchema = \<lparr>sct_Tables = [], sct_Functions = []\<rparr>"

definition ensureSchema :: "SchemaSnapshot \<Rightarrow> string \<Rightarrow> SchemaTables" where
  "ensureSchema snap name = (case map_of snap name of Some st \<Rightarrow> st | None \<Rightarrow> emptySchema)"

definition orPublicName :: "string \<Rightarrow> string" where
  "orPublicName schema = (if schema = [] then ''public'' else schema)"

definition wrapC :: "string \<Rightarrow> ('w, err, 'a) comp \<Rightarrow> ('w, err, 'a) comp" where
  "wrapC pre m w = (case m w of (Inl e, w1) \<Rightarrow> (Inl (Wrapf pre e []), w1) | (Inr x, w1) \<Rightarrow> (Inr x, w1))"

definition tableMetaOf :: "string \<Rightarrow> Table \<Rightarrow> ColumnMeta list \<Rightarrow> TableMeta" where
  "tableMetaOf schema tbl cols =
     \<lparr>tm_SchemaName = schema, tm_TableName = t_TableName tbl, tm_RemoteName = RemoteTableName tbl,
      tm_ServerName = t_ServerName tbl, tm_KeyColumns = t_KeyColumns tbl, tm_Columns = cols\<rparr>"

fun fetchTables ::
  "'w metaHttp \<Rightarrow> MetaClient \<Rightarrow> string \<Rightarrow> string list \<Rightarrow> Table list \<Rightarrow> SchemaSnapshot \<Rightarrow> ('w, err, SchemaSnapshot) comp"
where
  "fetchTables http c base schemas [] snap = retC snap"
| "fetchTables http c base schemas (tbl # tbls) snap =
     (let schema = orPublicName (t_SchemaName tbl)
      in if \<not> schemaAllowed schema schemas then fetchTables http c base schemas tbls snap
         else bindC (wrapC (''columns for '' @ schema @ ''.'' @ t_TableName tbl @ '': '') (metaListColumns http c base (t_ID tbl)))
           (\<lambda>cols.
              let st = ensureSchema snap schema;
                  st = st\<lparr>sct_Tables := AList.update (t_TableName tbl) (tableMetaOf schema tbl cols) (sct_Tables st)\<rparr>
              in fetchTables http c base schemas tbls (AList.update schema st snap)))"

definition functionMetaOf :: "string \<Rightarrow> Function \<Rightarrow> FunctionMeta" where
  "functionMetaOf schema fn =
     \<lparr>fm_SchemaName = schema, fm_Name = f_Name fn, fm_Operation = f_Operation fn, fm_ServerName = f_ServerName fn,
      fm_Method = f_Method fn, fm_RemotePath = f_RemotePath fn\<rparr>"

definition addFunctionMeta :: "string list \<Rightarrow> SchemaSnapshot \<Rightarrow> Function \<Rightarrow> SchemaSnapshot" where
  "addFunctionMeta schemas snap fn =
     (let schema = orPublicName (f_SchemaName fn)
      in if \<not> schemaAllowed schema schemas then snap
         else let st = ensureSchema snap schema;
                  st = st\<lparr>sct_Functions := AList.update (f_Name fn) (functionMetaOf schema fn) (sct_Functions st)\<rparr>
              in AList.update schema st snap)"

definition TrimRightSlash :: "string \<Rightarrow> string" where
  "TrimRightSlash s = rev (dropWhile (\<lambda>c. c = CHR ''/'') (rev s))"

definition Fetch :: "'w metaHttp \<Rightarrow> MetaClient \<Rightarrow> string list \<Rightarrow> ('w, err, SchemaSnapshot) comp" where
  "Fetch http c schemas =
     (let base = TrimRightSlash (TrimSpace (mcli_BaseURL c))
      in if base = [] then failC (Errorf ''base URL is required'')
         else bindC (wrapC ''list tables: '' (getJSON http c (mh_tables http) (base @ ''/admin/api/tables''))) (\<lambda>tbls.
              bindC (wrapC ''list functions: '' (getJSON http c (mh_functions http) (base @ ''/admin/api/functions''))) (\<lambda>fns.
              bindC (fetchTables http c base schemas tbls []) (\<lambda>snap.
                retC (foldl (addFunctionMeta schemas) snap fns)))))"

section \<open>TypeScript (typescript.go)\<close>

definition nl :: string where
  "nl = [char_of (10 :: nat)]"

definition isTSLetter :: "char \<Rightarrow> bool" where
  "isTSLetter c \<longleftrightarrow> c = CHR ''_'' \<or> (CHR ''a'' \<le> c \<and> c \<le> CHR ''z'') \<or> (CHR ''A'' \<le> c \<and> c \<le> CHR ''Z'')"

definition isValidTSIdent :: "string \<Rightarrow> bool" where
  "isValidTSIdent s =
     (case s of
        [] \<Rightarrow> False
      | c # cs \<Rightarrow> isTSLetter c \<and> list_all (\<lambda>d. isTSLetter d \<or> (CHR ''0'' \<le> d \<and> d \<le> CHR ''9'')) cs)"

definition tsIdent :: "string \<Rightarrow> string" where
  "tsIdent name = (if name = [] then ''_'' else if isValidTSIdent name then name else quoteGo name)"

definition tsDataType :: "string \<Rightarrow> string" where
  "tsDataType dataType =
     (let t = ToLower (TrimSpace dataType)
      in if t \<in> set [''integer'', ''int'', ''bigint'', ''smallint'', ''numeric'', ''number'', ''float'', ''double'', ''decimal'']
         then ''number''
         else if t \<in> set [''boolean'', ''bool''] then ''boolean''
         else if t \<in> set [''json'', ''jsonb'', ''object''] then ''Json''
         else if t = ''array'' then ''Json[]''
         else ''string'')"

definition tsRowType :: "ColumnMeta \<Rightarrow> string" where
  "tsRowType col = (if cm_Nullable col then tsDataType (cm_DataType col) @ '' | null'' else tsDataType (cm_DataType col))"

definition writeField :: "string \<Rightarrow> string \<Rightarrow> string \<Rightarrow> bool \<Rightarrow> string" where
  "writeField indent name typ optional =
     indent @ tsIdent name @ (if optional then ''?: '' else '': '') @ typ @ nl"

definition writeTableTypes :: "TableMeta \<Rightarrow> string" where
  "writeTableTypes tm =
     (let cols = sortMeta (tm_Columns tm)
      in ''      '' @ tsIdent (tm_TableName tm) @ '': {'' @ nl @
         ''        Row: {'' @ nl @
         concat (map (\<lambda>col. writeField ''          '' (cm_Name col) (tsRowType col) False) cols) @
         ''        }'' @ nl @
         ''        Insert: {'' @ nl @
         concat (map (\<lambda>col. writeField ''          '' (cm_Name col) (tsRowType col)
                   (cm_Nullable col \<or> cm_Name col \<notin> set (tm_KeyColumns tm))) cols) @
         ''        }'' @ nl @
         ''        Update: {'' @ nl @
         concat (map (\<lambda>col. writeField ''          '' (cm_Name col) (tsRowType col) True) cols) @
         ''        }'' @ nl @
         ''      }'' @ nl)"

definition writeFunctionTypes :: "FunctionMeta \<Rightarrow> string" where
  "writeFunctionTypes fn =
     ''      '' @ tsIdent (fm_Name fn) @ '': {'' @ nl @
     ''        Args: Record<string, Json | undefined>'' @ nl @
     ''        Returns: Json'' @ nl @
     ''      }'' @ nl"

definition tsPrelude :: string where
  "tsPrelude =
     ''export type Json ='' @ nl @ ''  | string'' @ nl @ ''  | number'' @ nl @ ''  | boolean'' @ nl @ ''  | null'' @ nl @
     ''  | { [key: string]: Json | undefined }'' @ nl @ ''  | Json[]'' @ nl @ nl @
     ''export interface Database {'' @ nl"

text \<open>The loop \<open>for _, k := range sortedKeys(m)\<close>: the entries of a map in the order of their keys.\<close>

definition sortedEntries :: "(string \<times> 'a) list \<Rightarrow> (string \<times> 'a) list" where
  "sortedEntries m = map (\<lambda>k. (k, the (map_of m k))) (sort (map fst m))"

definition writeSchema :: "string \<Rightarrow> SchemaTables \<Rightarrow> string" where
  "writeSchema schema st =
     ''  '' @ tsIdent schema @ '': {'' @ nl @
     ''    Tables: {'' @ nl @
     concat (map (\<lambda>(_, t). writeTableTypes t) (sortedEntries (sct_Tables st))) @
     ''    }'' @ nl @
     ''    Functions: {'' @ nl @
     concat (map (\<lambda>(_, f). writeFunctionTypes f) (sortedEntries (sct_Functions st))) @
     ''    }'' @ nl @
     ''  }'' @ nl"

definition GenerateTypeScript :: "SchemaSnapshot option \<Rightarrow> string" where
  "GenerateTypeScript snap =
     (case snap of
        Some (s # ss) \<Rightarrow> tsPrelude @ concat (map (\<lambda>(schema, st). writeSchema schema st) (sortedEntries (s # ss))) @ ''}'' @ nl
      | _ \<Rightarrow> tsPrelude @ ''  public: {'' @ nl @ ''    Tables: Record<string, never>'' @ nl @
             ''    Functions: Record<string, never>'' @ nl @ ''  }'' @ nl @ ''}'' @ nl)"

end
