(* ===== verification/GenFacts.thy ===== *)
theory GenFacts
  imports GenTypes DriverApi
begin

text \<open>
  Type generation: what a fetched snapshot contains, and that the generated text depends on the content of the snapshot only, not
  on the order in which Go visits its maps or the admin API lists the columns.
\<close>

section \<open>The fetched snapshot\<close>

definition wfSchema :: "SchemaTables \<Rightarrow> bool" where
  "wfSchema st \<longleftrightarrow> distinct (map fst (sct_Tables st)) \<and> distinct (map fst (sct_Functions st)) \<and>
     list_all (\<lambda>(name, t). tm_TableName t = name) (sct_Tables st) \<and>
     list_all (\<lambda>(name, f). fm_Name f = name) (sct_Functions st)"

text \<open>Every schema is one of those asked for, and what it holds is of this schema and stands under its own name.\<close>

definition wfSnapshot :: "string list \<Rightarrow> SchemaSnapshot \<Rightarrow> bool" where
  "wfSnapshot schemas snap \<longleftrightarrow> distinct (map fst snap) \<and>
     list_all (\<lambda>(schema, st). schema \<noteq> [] \<and> schemaAllowed schema schemas \<and> wfSchema st \<and>
       list_all (\<lambda>(_, t). tm_SchemaName t = schema) (sct_Tables st) \<and>
       list_all (\<lambda>(_, f). fm_SchemaName f = schema) (sct_Functions st)) snap"

lemma list_all_update: "list_all (\<lambda>(k, v). P k v) m \<Longrightarrow> P k v \<Longrightarrow> list_all (\<lambda>(k, v). P k v) (AList.update k v m)"
  by (induction m) auto

lemma wfSnapshot_Nil: "wfSnapshot schemas []"
  by (simp add: wfSnapshot_def)

lemma wf_ensureSchema:
  assumes "wfSnapshot schemas snap"
  shows "wfSchema (ensureSchema snap schema)"
    "list_all (\<lambda>(_, t). tm_SchemaName t = schema) (sct_Tables (ensureSchema snap schema))"
    "list_all (\<lambda>(_, f). fm_SchemaName f = schema) (sct_Functions (ensureSchema snap schema))"
proof -
  have "(schema, st) \<in> set snap" if "map_of snap schema = Some st" for st using that by (rule map_of_SomeD)
  then show "wfSchema (ensureSchema snap schema)"
    "list_all (\<lambda>(_, t). tm_SchemaName t = schema) (sct_Tables (ensureSchema snap schema))"
    "list_all (\<lambda>(_, f). fm_SchemaName f = schema) (sct_Functions (ensureSchema snap schema))"
    using assms unfolding ensureSchema_def wfSnapshot_def
    by (auto simp: emptySchema_def wfSchema_def list_all_iff split: option.split)
qed

lemma wf_update:
  assumes "wfSnapshot schemas snap" "schema \<noteq> []" "schemaAllowed schema schemas" "wfSchema st"
    and "list_all (\<lambda>(_, t). tm_SchemaName t = schema) (sct_Tables st)"
    and "list_all (\<lambda>(_, f). fm_SchemaName f = schema) (sct_Functions st)"
  shows "wfSnapshot schemas (AList.update schema st snap)"
  using assms unfolding wfSnapshot_def by (auto intro!: list_all_update distinct_update)

lemma orPublicName_nonempty: "orPublicName s \<noteq> []"
  by (simp add: orPublicName_def)

lemma wf_addTable:
  assumes "wfSnapshot schemas snap" "schemaAllowed (orPublicName s) schemas"
  shows "wfSnapshot schemas (AList.update (orPublicName s)
    (let st = ensureSchema snap (orPublicName s)
     in st\<lparr>sct_Tables := AList.update (t_TableName tbl) (tableMetaOf (orPublicName s) tbl cols) (sct_Tables st)\<rparr>) snap)"
  using wf_ensureSchema [OF assms(1), of "orPublicName s"]
  by (intro wf_update [OF assms(1) orPublicName_nonempty assms(2)])
    (auto simp: Let_def wfSchema_def tableMetaOf_def intro!: list_all_update distinct_update)

lemma wf_addFunctionMeta:
  assumes "wfSnapshot schemas snap"
  shows "wfSnapshot schemas (addFunctionMeta schemas snap fn)"
proof (cases "schemaAllowed (orPublicName (f_SchemaName fn)) schemas")
  case True
  then show ?thesis
    using wf_ensureSchema [OF assms, of "orPublicName (f_SchemaName fn)"]
    by (auto simp: addFunctionMeta_def Let_def wfSchema_def functionMetaOf_def
        intro!: wf_update [OF assms orPublicName_nonempty] list_all_update distinct_update)
qed (simp add: addFunctionMeta_def assms)

lemma wf_fetchTables:
  "wfSnapshot schemas snap \<Longrightarrow> fetchTables http c base schemas tbls snap w = (Inr snap', w') \<Longrightarrow> wfSnapshot schemas snap'"
proof (induction tbls arbitrary: snap w)
  case (Cons tbl tbls)
  show ?case
  proof (cases "schemaAllowed (orPublicName (t_SchemaName tbl)) schemas")
    case True
    then obtain cols w1 where run: "fetchTables http c base schemas tbls (AList.update (orPublicName (t_SchemaName tbl))
      (let st = ensureSchema snap (orPublicName (t_SchemaName tbl))
       in st\<lparr>sct_Tables := AList.update (t_TableName tbl) (tableMetaOf (orPublicName (t_SchemaName tbl)) tbl cols) (sct_Tables st)\<rparr>)
      snap) w1 = (Inr snap', w')"
      using Cons.prems(2) by (auto simp: Let_def bindC_def split: sum.splits prod.splits)
    show ?thesis by (rule Cons.IH [OF wf_addTable [OF Cons.prems(1) True] run])
  qed (use Cons in \<open>simp add: Let_def\<close>)
qed (simp add: retC_def)

lemma wf_foldl: "wfSnapshot schemas snap \<Longrightarrow> wfSnapshot schemas (foldl (addFunctionMeta schemas) snap fns)"
  by (induction fns arbitrary: snap) (auto intro: wf_addFunctionMeta)

text \<open>C30: a fetched snapshot holds only schemas that were asked for, each once, and in them tables and functions of that schema,
  each once and under its own name.\<close>

theorem fetch_well_formed:
  assumes "Fetch http c schemas w = (Inr snap, w')"
  shows "wfSnapshot schemas snap"
  using assms unfolding Fetch_def
  by (auto simp: Let_def bindC_def retC_def failC_def split: if_splits sum.splits prod.splits
      dest!: wf_fetchTables [OF wfSnapshot_Nil] intro: wf_foldl)

section \<open>Independence of the order\<close>

text \<open>Maps with related entries: the order of the entries is free.\<close>

definition sameMap :: "('a \<Rightarrow> 'a \<Rightarrow> bool) \<Rightarrow> (string \<times> 'a) list \<Rightarrow> (string \<times> 'a) list \<Rightarrow> bool" where
  "sameMap R a b \<longleftrightarrow> distinct (map fst a) \<and> distinct (map fst b) \<and> set (map fst a) = set (map fst b) \<and>
     list_all (\<lambda>k. R (the (map_of a k)) (the (map_of b k))) (map fst a)"

definition sameTable :: "TableMeta \<Rightarrow> TableMeta \<Rightarrow> bool" where
  "sameTable a b \<longleftrightarrow> a\<lparr>tm_Columns := []\<rparr> = b\<lparr>tm_Columns := []\<rparr> \<and> mset (tm_Columns a) = mset (tm_Columns b) \<and>
     distinct (map cm_Name (tm_Columns a))"

definition sameSchema :: "SchemaTables \<Rightarrow> SchemaTables \<Rightarrow> bool" where
  "sameSchema a b \<longleftrightarrow> sameMap sameTable (sct_Tables a) (sct_Tables b) \<and> sameMap (=) (sct_Functions a) (sct_Functions b)"

lemma sortMeta_same:
  assumes "mset xs = mset ys" "distinct (map cm_Name xs)"
  shows "sortMeta xs = sortMeta ys"
proof -
  have "sort_key cm_Name xs = sort_key cm_Name ys"
    by (rule sort_key_inj_key_eq) (use assms in \<open>auto simp: distinct_map\<close>)
  then show ?thesis by (simp add: sortMeta_def)
qed

lemma writeTableTypes_same:
  assumes "sameTable a b" shows "writeTableTypes a = writeTableTypes b"
proof -
  have "sortMeta (tm_Columns a) = sortMeta (tm_Columns b)" using assms sortMeta_same by (simp add: sameTable_def)
  moreover have "tm_TableName a = tm_TableName b" "tm_KeyColumns a = tm_KeyColumns b"
    using assms by (cases a; cases b; simp add: sameTable_def)+
  ultimately show ?thesis by (simp add: writeTableTypes_def)
qed

lemma sortedEntries_same:
  assumes "sameMap R a b" "\<And>x y. R x y \<Longrightarrow> g x = g y"
  shows "map (\<lambda>(k, x). f k (g x)) (sortedEntries a) = map (\<lambda>(k, x). f k (g x)) (sortedEntries b)"
proof -
  have "mset (map fst a) = mset (map fst b)"
    using assms(1) unfolding sameMap_def by (metis set_eq_iff_mset_eq_distinct)
  then have "sort (map fst a) = sort (map fst b)" by (metis mset_sort properties_for_sort sorted_sort)
  moreover have "g (the (map_of a k)) = g (the (map_of b k))" if "k \<in> set (sort (map fst b))" for k
    using assms(1) that by (intro assms(2)) (simp only: sameMap_def list_all_iff set_sort)
  ultimately show ?thesis by (simp add: sortedEntries_def)
qed

lemma writeSchema_same: "sameSchema a b \<Longrightarrow> writeSchema schema a = writeSchema schema b"
  using sortedEntries_same [of sameTable "sct_Tables a" "sct_Tables b" writeTableTypes "\<lambda>_ x. x"]
    sortedEntries_same [of "(=)" "sct_Functions a" "sct_Functions b" writeFunctionTypes "\<lambda>_ x. x"]
  by (simp add: sameSchema_def writeSchema_def writeTableTypes_same)

text \<open>C29: two snapshots with the same content, whatever the order of their maps and of the columns of each table, give the same
  types.\<close>

theorem types_independent_of_order:
  assumes "sameMap sameSchema a b"
  shows "GenerateTypeScript (Some a) = GenerateTypeScript (Some b)"
proof (cases a)
  case Nil
  then show ?thesis using assms by (cases b) (simp_all add: sameMap_def)
next
  case (Cons x xs)
  then obtain y ys where b: "b = y # ys" using assms by (cases b) (simp_all add: sameMap_def)
  have "map (\<lambda>(schema, st). writeSchema schema st) (sortedEntries a) = map (\<lambda>(schema, st). writeSchema schema st) (sortedEntries b)"
    using sortedEntries_same [of sameSchema a b "\<lambda>st schema. writeSchema schema st" "\<lambda>schema h. h schema"] assms
    by (simp add: writeSchema_same fun_eq_iff)
  then show ?thesis by (simp add: GenerateTypeScript_def Cons b)
qed


section \<open>Example\<close>

definition exampleTableMeta :: "ColumnMeta list \<Rightarrow> TableMeta" where
  "exampleTableMeta cols =
     \<lparr>tm_SchemaName = ''public'', tm_TableName = ''users'', tm_RemoteName = ''users'', tm_ServerName = ''pg'',
      tm_KeyColumns = [''id''], tm_Columns = cols\<rparr>"

definition idMeta :: ColumnMeta where
  "idMeta = \<lparr>cm_Name = ''id'', cm_DataType = ''integer'', cm_RemoteName = ''id'', cm_Nullable = False, cm_Position = 1\<rparr>"

definition mailMeta :: ColumnMeta where
  "mailMeta = \<lparr>cm_Name = ''mail'', cm_DataType = ''text'', cm_RemoteName = ''mail'', cm_Nullable = True, cm_Position = 1\<rparr>"

lemma types_independent_of_order_witness:
  "GenerateTypeScript (Some [(''public'', \<lparr>sct_Tables = [(''users'', exampleTableMeta [idMeta, mailMeta])], sct_Functions = []\<rparr>), (''b'', emptySchema)])
   = GenerateTypeScript (Some [(''b'', emptySchema), (''public'', \<lparr>sct_Tables = [(''users'', exampleTableMeta [mailMeta, idMeta])], sct_Functions = []\<rparr>)])"
  by (rule types_independent_of_order)
    (auto simp: sameMap_def sameSchema_def sameTable_def exampleTableMeta_def idMeta_def mailMeta_def emptySchema_def)

definition exampleMetaHttp :: "unit metaHttp" where
  "exampleMetaHttp =
     \<lparr>mh_newRequest = (\<lambda>u. None), mh_do = (\<lambda>u hs. retC (200, ''200 OK'', Inr ''[]'')),
      mh_tables = (\<lambda>t. Inr [rt_Table (exampleResolved ProtocolRedis ''session'')]), mh_functions = (\<lambda>t. Inr []),
      mh_columns = (\<lambda>t. Inr []), mh_uuidText = decNat\<rparr>"

definition fetchedExample :: SchemaSnapshot where
  "fetchedExample =
     [(''public'', \<lparr>sct_Tables = [(''session'', \<lparr>tm_SchemaName = ''public'', tm_TableName = ''session'', tm_RemoteName = ''session'',
        tm_ServerName = ''srv'', tm_KeyColumns = [''id''], tm_Columns = []\<rparr>)], sct_Functions = []\<rparr>)]"

lemma fetch_well_formed_witness: "wfSnapshot [''public''] fetchedExample"
proof (rule fetch_well_formed)
  show "Fetch exampleMetaHttp \<lparr>mcli_BaseURL = ''http://h/'', mcli_APIKey = [], mcli_Token = []\<rparr> [''public''] ()
    = (Inr fetchedExample, ())" by code_simp
qed

end
