(* ===== verification/ServerMain.thy ===== *)
theory ServerMain
  imports Complex_Main AdminFacts StoreConfig
begin

text \<open>
  The process around the handlers: the observability middleware and its configuration
  (\<open>internal/observability/middleware.go\<close>, \<open>metrics.go\<close>), request logging (\<open>internal/httpx/middleware.go\<close>), what the
  parts read from the environment, and the start of the server (\<open>cmd/server/main.go\<close>). Clocks, the rate limiter, metrics and
  traces are parameters; a rate is a rational number, as no finite float64 is anything else.
\<close>

section \<open>Configuration\<close>

record obsConfig =
  oc_RequestTimeout :: duration
  oc_RateLimitRPS :: rat
  oc_RateLimitBurst :: int
  oc_MetricsEnabled :: bool
  oc_OTelEnabled :: bool
  oc_BreakerMaxFail :: int
  oc_BreakerCooldown :: duration

abbreviation (input) second :: int where "second \<equiv> 1000000000"

text \<open>A value that is empty or does not parse leaves the default.\<close>

definition envOrDefault :: "(string \<Rightarrow> string) \<Rightarrow> string \<Rightarrow> (string \<Rightarrow> 'a option) \<Rightarrow> 'a \<Rightarrow> 'a" where
  "envOrDefault getenv key parse dflt =
     (if getenv key = [] then dflt else (case parse (getenv key) of Some x \<Rightarrow> x | None \<Rightarrow> dflt))"

definition obsConfigFromEnv ::
  "(string \<Rightarrow> duration option) \<Rightarrow> (string \<Rightarrow> rat option) \<Rightarrow> (string \<Rightarrow> string) \<Rightarrow> obsConfig"
where
  "obsConfigFromEnv parseDuration parseFloat getenv =
     \<lparr>oc_RequestTimeout = envOrDefault getenv ''DATASPAN_REQUEST_TIMEOUT'' parseDuration (60 * second),
      oc_RateLimitRPS = envOrDefault getenv ''DATASPAN_RATE_LIMIT_RPS'' parseFloat 0,
      oc_RateLimitBurst = envOrDefault getenv ''DATASPAN_RATE_LIMIT_BURST'' Atoi 0,
      oc_MetricsEnabled = (getenv ''DATASPAN_METRICS'' = ''1''),
      oc_OTelEnabled = (getenv ''DATASPAN_OTEL'' = ''1''),
      oc_BreakerMaxFail = envOrDefault getenv ''DATASPAN_BREAKER_MAX_FAILS'' Atoi 5,
      oc_BreakerCooldown = 30 * second\<rparr>"

definition metaCacheTTLFromEnv :: "(string \<Rightarrow> duration option) \<Rightarrow> (string \<Rightarrow> string) \<Rightarrow> duration" where
  "metaCacheTTLFromEnv parseDuration getenv =
     (let raw = TrimSpace (getenv ''DATASPAN_META_CACHE_TTL'')
      in if raw = [] then 0
         else (case parseDuration raw of Some d \<Rightarrow> if d \<le> 0 then 0 else d | None \<Rightarrow> 0))"

definition NewGatewayFromEnv :: "(string \<Rightarrow> string) \<Rightarrow> Gateway" where
  "NewGatewayFromEnv getenv =
     NewGateway (getenv ''DATASPAN_ANON_KEY'') (getenv ''DATASPAN_SERVICE_KEY'') (getenv ''DATASPAN_JWT_SECRET'')"

definition NewAdminFromEnv :: "(string \<Rightarrow> string) \<Rightarrow> Admin" where
  "NewAdminFromEnv getenv = NewAdmin (getenv ''DATASPAN_ADMIN_KEY'')"

text \<open>The vault: \<open>decode\<close> is base64, \<open>aes\<close> the block cipher of a key in Galois/Counter mode.\<close>

definition NewVaultFromEnv ::
  "(string \<Rightarrow> err + string) \<Rightarrow> (string \<Rightarrow> err + Vault) \<Rightarrow> (string \<Rightarrow> string) \<Rightarrow> err + Vault"
where
  "NewVaultFromEnv decode aes getenv =
     (let keyB64 = TrimSpace (getenv ''DATASPAN_VAULT_KEY'')
      in if keyB64 = [] then Inl (Errorf ''DATASPAN_VAULT_KEY is required'')
         else (case decode keyB64 of
                 Inl e \<Rightarrow> Inl (Wrapf ''decode DATASPAN_VAULT_KEY: '' e [])
               | Inr key \<Rightarrow>
                   if length key \<noteq> 32 then
                     Inl (Errorf (''DATASPAN_VAULT_KEY must decode to 32 bytes, got '' @ decInt (int (length key))))
                   else aes key))"

section \<open>Middleware\<close>

datatype logLevel = LevelDebug | LevelInfo | LevelWarn | LevelError

text \<open>\<open>logx.Init\<close>: the level, whether the source is added, and whether the lines are JSON.\<close>

definition parseLevel :: "string \<Rightarrow> logLevel" where
  "parseLevel s =
     (let l = ToLower (TrimSpace s)
      in if l = ''debug'' then LevelDebug
         else if l = ''warn'' \<or> l = ''warning'' then LevelWarn
         else if l = ''error'' then LevelError
         else LevelInfo)"

definition logInit :: "(string \<Rightarrow> string) \<Rightarrow> logLevel \<times> bool \<times> bool" where
  "logInit getenv =
     (let level = parseLevel (getenv ''LOG_LEVEL'')
      in (level, level = LevelDebug, EqualFold (TrimSpace (getenv ''LOG_FORMAT'')) ''json''))"

text \<open>What the middleware uses: the limiter's \<open>Allow\<close>, a request with a deadline, the counters, traces and the log.\<close>

record 'w obsLib =
  ob_allow :: "rat \<Rightarrow> int \<Rightarrow> 'w \<Rightarrow> bool \<times> 'w"
  ob_deadline :: "duration \<Rightarrow> Request \<Rightarrow> Request"
  ob_count :: "string \<Rightarrow> string \<Rightarrow> string \<Rightarrow> 'w \<Rightarrow> 'w"
  ob_trace :: "'w handler \<Rightarrow> 'w handler"
  ob_log :: "logLevel \<Rightarrow> Request \<Rightarrow> nat \<Rightarrow> 'w \<Rightarrow> 'w"
  ob_metricsPage :: "'w handler"

definition onWorld :: "('w \<Rightarrow> 'w) \<Rightarrow> 'w eng \<Rightarrow> 'w eng" where
  "onWorld f s = s\<lparr>eg_world := f (eg_world s)\<rparr>"

definition Timeout :: "'w obsLib \<Rightarrow> duration \<Rightarrow> 'w handler \<Rightarrow> 'w handler" where
  "Timeout lib d nxt r s = (if d \<le> 0 then nxt r s else nxt (ob_deadline lib d r) s)"

definition limiterBurst :: "rat \<Rightarrow> int \<Rightarrow> int" where
  "limiterBurst rps burst = (if burst \<le> 0 then (if \<lfloor>rps\<rfloor> < 1 then 1 else \<lfloor>rps\<rfloor>) else burst)"

definition RateLimit :: "'w obsLib \<Rightarrow> rat \<Rightarrow> int \<Rightarrow> 'w handler \<Rightarrow> 'w handler" where
  "RateLimit lib rps burst nxt r s =
     (if rps \<le> 0 then nxt r s
      else (case ob_allow lib rps (limiterBurst rps burst) (eg_world s) of
              (ok, w) \<Rightarrow>
                if \<not> ok then (AdminApi.httpError ''rate limit exceeded'' 429, s\<lparr>eg_world := w\<rparr>)
                else nxt r (s\<lparr>eg_world := w\<rparr>)))"

text \<open>The recorders of logging and metrics see the status that is sent, 200 when none is.\<close>

definition recordedStatus :: "ResponseWriter \<Rightarrow> nat" where
  "recordedStatus w = (case sentStatus w of Some n \<Rightarrow> n | None \<Rightarrow> 200)"

definition normalizePath :: "string \<Rightarrow> string" where
  "normalizePath path = (if path = [] then ''/'' else path)"

definition MetricsHandler :: "'w obsLib \<Rightarrow> 'w handler \<Rightarrow> 'w handler" where
  "MetricsHandler lib nxt r s =
     (case nxt r s of
        (w, s1) \<Rightarrow> (w, onWorld (ob_count lib (r_Method r) (normalizePath (r_Path r)) (decNat (recordedStatus w))) s1))"

definition logLevelOf :: "nat \<Rightarrow> logLevel" where
  "logLevelOf status = (if status \<ge> 500 then LevelError else if status \<ge> 400 then LevelWarn else LevelInfo)"

definition Logging :: "'w obsLib \<Rightarrow> 'w handler \<Rightarrow> 'w handler" where
  "Logging lib nxt r s =
     (case nxt r s of
        (w, s1) \<Rightarrow> (w, onWorld (ob_log lib (logLevelOf (recordedStatus w)) r (recordedStatus w)) s1))"

definition obsMiddleware :: "'w obsLib \<Rightarrow> obsConfig \<Rightarrow> 'w handler \<Rightarrow> 'w handler" where
  "obsMiddleware lib cfg nxt =
     (let h = Timeout lib (oc_RequestTimeout cfg) nxt;
          h = RateLimit lib (oc_RateLimitRPS cfg) (oc_RateLimitBurst cfg) h;
          h = (if oc_MetricsEnabled cfg then MetricsHandler lib h else h)
      in if oc_OTelEnabled cfg then ob_trace lib h else h)"

section \<open>The start of the server\<close>

text \<open>What a start needs from outside: the libraries, opening the stores, and for a store that is open the parts that use it
  (the admin API, imports, the engine). The store is the world of the engine.\<close>

record ('w, 'p) mainLib =
  mn_parseDuration :: "string \<Rightarrow> duration option"
  mn_parseFloat :: "string \<Rightarrow> rat option"
  mn_decode :: "string \<Rightarrow> err + string"
  mn_aes :: "string \<Rightarrow> err + Vault"
  mn_newFile :: "Vault \<Rightarrow> string \<Rightarrow> ('p, err, 'w) comp"
  mn_newDB :: "Vault \<Rightarrow> string \<Rightarrow> ('p, err, 'w) comp"
  mn_admin :: "storeConfig \<Rightarrow> 'w adminEnv"
  mn_import :: "'w importEnv"
  mn_engine :: "'w engineEnv"
  mn_obs :: "'w obsLib"
  mn_jwt :: jwtLib
  mn_now :: "'w eng \<Rightarrow> int"

datatype 'w started = Exits int | Listens string "'w handler" "'w eng"

definition mainMux :: "('w, 'p) mainLib \<Rightarrow> obsConfig \<Rightarrow> storeConfig \<Rightarrow> 'w handler" where
  "mainMux lib obs cfg r s =
     (if oc_MetricsEnabled obs \<and> r_Path r = ''/metrics'' then ob_metricsPage (mn_obs lib) r s
      else serverMux (mn_admin lib cfg) (mn_import lib) (mn_engine lib) r s)"

definition mainHandler :: "('w, 'p) mainLib \<Rightarrow> (string \<Rightarrow> string) \<Rightarrow> storeConfig \<Rightarrow> 'w handler" where
  "mainHandler lib getenv cfg =
     (let obs = obsConfigFromEnv (mn_parseDuration lib) (mn_parseFloat lib) getenv
      in obsMiddleware (mn_obs lib) obs
           (CORS (Logging (mn_obs lib)
             (AdminAuth (NewAdminFromEnv getenv)
               (DataAuth (mn_jwt lib) (mn_now lib) (NewGatewayFromEnv getenv) (mainMux lib obs cfg))))))"

definition serverMain :: "('w, 'p) mainLib \<Rightarrow> (string \<Rightarrow> string) \<Rightarrow> 'p \<Rightarrow> 'w started \<times> 'p" where
  "serverMain lib getenv p =
     (case NewVaultFromEnv (mn_decode lib) (mn_aes lib) getenv of
        Inl e \<Rightarrow> (Exits 1, p)
      | Inr vault \<Rightarrow>
          (case LoadConfig getenv of
             Inl e \<Rightarrow> (Exits 1, p)
           | Inr cfg \<Rightarrow>
               (case newStore getenv (mn_newFile lib vault) (mn_newDB lib vault) cfg p of
                  (Inl e, p1) \<Rightarrow> (Exits 1, p1)
                | (Inr st, p1) \<Rightarrow>
                    let obs = obsConfigFromEnv (mn_parseDuration lib) (mn_parseFloat lib) getenv;
                        port = (if getenv ''PORT'' = [] then ''3020'' else getenv ''PORT'')
                    in (Listens ('':'' @ port) (mainHandler lib getenv cfg)
                          (NewEngine (oc_BreakerMaxFail obs) (oc_BreakerCooldown obs)
                             (metaCacheTTLFromEnv (mn_parseDuration lib) getenv) st), p1))))"

section \<open>What a start comes to\<close>

text \<open>C3: the server exits with status 1, or it listens on \<open>PORT\<close> (3020 when that is not set) with a vault whose key decodes to
  32 bytes, a store that was opened in one of the two modes, and a closed breaker and an empty pool.\<close>

theorem server_starts_or_exits:
  "case serverMain lib getenv p of
     (Exits n, _) \<Rightarrow> n = 1
   | (Listens addr h s, p') \<Rightarrow>
       addr = '':'' @ (if getenv ''PORT'' = [] then ''3020'' else getenv ''PORT'') \<and>
       \<not> br_open (eg_breaker s) \<and> br_failures (eg_breaker s) = 0 \<and> eg_pool s = newDriverPool \<and>
       (\<exists>key vault cfg. mn_decode lib (TrimSpace (getenv ''DATASPAN_VAULT_KEY'')) = Inr key \<and> length key = 32 \<and>
          mn_aes lib key = Inr vault \<and> LoadConfig getenv = Inr cfg \<and> sc_Mode cfg \<in> {ModeDB, ModeFile} \<and>
          h = mainHandler lib getenv cfg \<and>
          newStore getenv (mn_newFile lib vault) (mn_newDB lib vault) cfg p = (Inr (eg_world s), p'))"
proof -
  have vault: "\<exists>key. mn_decode lib (TrimSpace (getenv ''DATASPAN_VAULT_KEY'')) = Inr key \<and> length key = 32 \<and> mn_aes lib key = Inr vault"
    if "NewVaultFromEnv (mn_decode lib) (mn_aes lib) getenv = Inr vault" for vault
    using that by (auto simp: NewVaultFromEnv_def Let_def split: if_splits sum.splits)
  consider (exits) p1 where "serverMain lib getenv p = (Exits 1, p1)"
    | (listens) vault cfg st p1 where "NewVaultFromEnv (mn_decode lib) (mn_aes lib) getenv = Inr vault" "LoadConfig getenv = Inr cfg"
        "newStore getenv (mn_newFile lib vault) (mn_newDB lib vault) cfg p = (Inr st, p1)"
  proof (cases "NewVaultFromEnv (mn_decode lib) (mn_aes lib) getenv"; cases "LoadConfig getenv")
    fix vault cfg
    assume v: "NewVaultFromEnv (mn_decode lib) (mn_aes lib) getenv = Inr vault" "LoadConfig getenv = Inr cfg"
    obtain res p1 where n: "newStore getenv (mn_newFile lib vault) (mn_newDB lib vault) cfg p = (res, p1)" by fastforce
    show thesis
    proof (cases res)
      case (Inl e)
      with v n show thesis by (intro that(1) [of p1]) (simp add: serverMain_def)
    next
      case (Inr st)
      with v n show thesis by (intro that(2)) simp_all
    qed
  qed (simp_all add: serverMain_def that(1))
  then show ?thesis
  proof cases
    case listens
    from vault [OF listens(1)] obtain key where "mn_decode lib (TrimSpace (getenv ''DATASPAN_VAULT_KEY'')) = Inr key"
      "length key = 32" "mn_aes lib key = Inr vault" by blast
    with listens LoadConfig_mode [OF listens(2)] show ?thesis
      by (auto simp: serverMain_def NewEngine_def NewBreaker_def Let_def)
  qed simp
qed

section \<open>Requests without a key\<close>

text \<open>Requests that the handlers cannot tell apart when they check keys.\<close>

definition sameKeys :: "Request \<Rightarrow> Request \<Rightarrow> bool" where
  "sameKeys r r' \<longleftrightarrow> r_Method r' = r_Method r \<and> r_Path r' = r_Path r \<and> r_Header r' = r_Header r"

text \<open>Observing the server leaves an aspect of the world alone: the limiter, the counters, the log and the traces keep it, and
  neither the deadline nor a trace changes the request's method, path or headers.\<close>

definition obsKeeps :: "'w obsLib \<Rightarrow> ('w \<Rightarrow> 'm) \<Rightarrow> bool" where
  "obsKeeps lib meta \<longleftrightarrow>
     (\<forall>rps burst w. meta (snd (ob_allow lib rps burst w)) = meta w) \<and>
     (\<forall>m p st w. meta (ob_count lib m p st w) = meta w) \<and>
     (\<forall>l r st w. meta (ob_log lib l r st w) = meta w) \<and>
     (\<forall>d r. sameKeys r (ob_deadline lib d r)) \<and>
     (\<forall>nxt r s. \<exists>r' w. sameKeys r r' \<and> meta w = meta (eg_world s) \<and>
        fst (ob_trace lib nxt r s) = fst (nxt r' (s\<lparr>eg_world := w\<rparr>)) \<and>
        meta (eg_world (snd (ob_trace lib nxt r s))) = meta (eg_world (snd (nxt r' (s\<lparr>eg_world := w\<rparr>)))))"

text \<open>A handler that answers such a request with one of the statuses and keeps the aspect.\<close>

definition turnsAway :: "('w \<Rightarrow> 'm) \<Rightarrow> nat set \<Rightarrow> Request \<Rightarrow> 'w handler \<Rightarrow> bool" where
  "turnsAway meta sts r h \<longleftrightarrow>
     (\<forall>r' s. sameKeys r r' \<longrightarrow> (\<exists>st \<in> sts. sentStatus (fst (h r' s)) = Some st) \<and>
        meta (eg_world (snd (h r' s))) = meta (eg_world s))"

lemma sameKeys_trans: "sameKeys r r' \<Longrightarrow> sameKeys r' r'' \<Longrightarrow> sameKeys r r''"
  by (simp add: sameKeys_def)

lemma turnsAway_Timeout: "obsKeeps lib meta \<Longrightarrow> turnsAway meta sts r h \<Longrightarrow> turnsAway meta sts r (Timeout lib d h)"
proof -
  assume "obsKeeps lib meta"
  then have "sameKeys r' (ob_deadline lib d r')" for r' by (simp add: obsKeeps_def)
  then have "sameKeys r (ob_deadline lib d r')" if "sameKeys r r'" for r' using that sameKeys_trans by blast
  then show "turnsAway meta sts r h \<Longrightarrow> turnsAway meta sts r (Timeout lib d h)" by (auto simp: turnsAway_def Timeout_def)
qed

lemma httpError_status: "sentStatus (AdminApi.httpError msg code) = Some code"
  by (simp add: AdminApi.httpError_def writer_defs)

lemma turnsAwayD:
  "turnsAway meta sts r h \<Longrightarrow> sameKeys r r' \<Longrightarrow> h r' s = (w, s1) \<Longrightarrow>
   (\<exists>st \<in> sts. sentStatus w = Some st) \<and> meta (eg_world s1) = meta (eg_world s)"
  unfolding turnsAway_def by (metis fst_conv snd_conv)

lemma turnsAway_RateLimit:
  fixes lib :: "'w obsLib"
  assumes "obsKeeps lib meta" "turnsAway meta sts r h" "429 \<in> sts"
  shows "turnsAway meta sts r (RateLimit lib rps burst h)"
  unfolding turnsAway_def
proof (intro allI impI)
  fix r' and s :: "'w eng" assume same: "sameKeys r r'"
  obtain ok w where ok: "ob_allow lib rps (limiterBurst rps burst) (eg_world s) = (ok, w)" by fastforce
  then have "meta w = meta (eg_world s)" using assms(1) unfolding obsKeeps_def by (metis snd_conv)
  then show "(\<exists>st \<in> sts. sentStatus (fst (RateLimit lib rps burst h r' s)) = Some st) \<and>
      meta (eg_world (snd (RateLimit lib rps burst h r' s))) = meta (eg_world s)"
    using assms(2,3) same ok by (auto simp: turnsAway_def RateLimit_def httpError_status)
qed

lemma turnsAway_recorders:
  assumes "obsKeeps lib meta" "turnsAway meta sts r h"
  shows "turnsAway meta sts r (MetricsHandler lib h)" "turnsAway meta sts r (Logging lib h)"
proof -
  have "meta (ob_count lib m p st w) = meta w" "meta (ob_log lib l q n w) = meta w" for m p st l q n w
    using assms(1) by (simp_all add: obsKeeps_def)
  then show "turnsAway meta sts r (MetricsHandler lib h)" "turnsAway meta sts r (Logging lib h)"
    using turnsAwayD [OF assms(2)] unfolding turnsAway_def
    by (auto simp: MetricsHandler_def Logging_def onWorld_def split: prod.split)
qed

lemma turnsAway_trace:
  fixes lib :: "'w obsLib"
  assumes "obsKeeps lib meta" "turnsAway meta sts r h"
  shows "turnsAway meta sts r (ob_trace lib h)"
  unfolding turnsAway_def
proof (intro allI impI)
  fix r' and s :: "'w eng" assume same: "sameKeys r r'"
  obtain r'' w where t: "sameKeys r' r''" "meta w = meta (eg_world s)"
    "fst (ob_trace lib h r' s) = fst (h r'' (s\<lparr>eg_world := w\<rparr>))"
    "meta (eg_world (snd (ob_trace lib h r' s))) = meta (eg_world (snd (h r'' (s\<lparr>eg_world := w\<rparr>))))"
    using assms(1) unfolding obsKeeps_def by blast
  show "(\<exists>st \<in> sts. sentStatus (fst (ob_trace lib h r' s)) = Some st) \<and>
      meta (eg_world (snd (ob_trace lib h r' s))) = meta (eg_world s)"
    using turnsAwayD [OF assms(2) sameKeys_trans [OF same t(1)], of "s\<lparr>eg_world := w\<rparr>"] t
    by (metis (no_types, lifting) eng.select_convs(4) eng.surjective eng.update_convs(4) prod.collapse)
qed

lemma turnsAway_obs:
  "obsKeeps lib meta \<Longrightarrow> turnsAway meta sts r h \<Longrightarrow> 429 \<in> sts \<Longrightarrow> turnsAway meta sts r (obsMiddleware lib cfg h)"
  by (simp add: obsMiddleware_def Let_def turnsAway_trace turnsAway_recorders turnsAway_RateLimit turnsAway_Timeout)


lemma turnsAway_CORS:
  fixes meta :: "'w \<Rightarrow> 'm" and h :: "'w handler"
  assumes "turnsAway meta sts r h" "204 \<in> sts"
  shows "turnsAway meta sts r (CORS h)"
  unfolding turnsAway_def
proof (intro allI impI)
  fix r' and s :: "'w eng" assume same: "sameKeys r r'"
  show "(\<exists>st \<in> sts. sentStatus (fst (CORS h r' s)) = Some st) \<and> meta (eg_world (snd (CORS h r' s))) = meta (eg_world s)"
  proof (cases "r_Method r' = ''OPTIONS''")
    case True
    then show ?thesis using assms(2) by (simp add: CORS_def writer_defs)
  next
    case False
    then show ?thesis using assms(1) same by (simp add: turnsAway_def CORS_status CORS_state)
  qed
qed

text \<open>A request that lacks the key its path needs; a token is refused whatever the time is.\<close>

definition adminKeyless :: "Admin \<Rightarrow> Request \<Rightarrow> bool" where
  "adminKeyless a r \<longleftrightarrow> isAdminPath (r_Path r) \<and> am_Enabled a \<and> adminValidate a (AdminAPIKeyFromRequest r) \<noteq> None"

definition dataKeyless :: "jwtLib \<Rightarrow> Gateway \<Rightarrow> Request \<Rightarrow> bool" where
  "dataKeyless lib g r \<longleftrightarrow> isDataPath (r_Path r) \<and> gw_Enabled g \<and>
     (\<forall>t. \<not> isOk (Validate lib t g (headerGet (r_Header r) ''apikey'') (BearerToken (headerGet (r_Header r) ''Authorization''))))"

lemma AdminAPIKey_same: "sameKeys r r' \<Longrightarrow> AdminAPIKeyFromRequest r' = AdminAPIKeyFromRequest r"
  by (simp add: sameKeys_def AdminAPIKeyFromRequest_def Let_def)

lemma turnsAway_refusal:
  assumes "\<And>r' s. sameKeys r r' \<Longrightarrow> \<exists>w. h r' s = (w, s) \<and> sentStatus w = Some 401" "401 \<in> sts"
  shows "turnsAway meta sts r h"
  unfolding turnsAway_def using assms by (metis fst_conv snd_conv)

lemma AdminAuth_refuses:
  assumes "adminKeyless a r" "sameKeys r r'"
  shows "\<exists>w. AdminAuth a nxt r' s = (w, s) \<and> sentStatus w = Some 401"
proof -
  from assms(1) obtain e where e: "isAdminPath (r_Path r)" "am_Enabled a" "adminValidate a (AdminAPIKeyFromRequest r) = Some e"
    by (auto simp: adminKeyless_def)
  then have "\<not> errIs e ErrAdminAuthDisabled" by (blast dest: adminValidate_not_disabled)
  moreover have "r_Path r' = r_Path r" using assms(2) by (simp add: sameKeys_def)
  ultimately show ?thesis
    using e AdminAPIKey_same [OF assms(2)] by (simp add: AdminAuth_def WriteJSON_sent newWriter_def)
qed

lemma DataAuth_refuses:
  assumes "dataKeyless lib g r" "sameKeys r r'"
  shows "\<exists>w. AdminAuth a (DataAuth lib now g nxt) r' s = (w, s) \<and> sentStatus w = Some 401"
proof -
  from assms have path: "isDataPath (r_Path r')" "gw_Enabled g"
    and bad: "\<not> isOk (Validate lib (now s) g (headerGet (r_Header r') ''apikey'') (BearerToken (headerGet (r_Header r') ''Authorization'')))"
    by (simp_all add: dataKeyless_def sameKeys_def)
  from bad obtain e where e: "Validate lib (now s) g (headerGet (r_Header r') ''apikey'')
      (BearerToken (headerGet (r_Header r') ''Authorization'')) = Inl e"
    by (auto simp: isOk_def split: sum.splits)
  have "\<not> errIs e ErrAuthDisabled" by (rule Validate_not_disabled [OF path(2) e])
  moreover have "\<not> isAdminPath (r_Path r')" using isAdminPath_not_data path(1) by blast
  ultimately show ?thesis
    using path e by (simp add: AdminAuth_def DataAuth_def WriteError_auth)
qed

text \<open>C2: the server as it is started does not let a request without a key touch anything but its own bookkeeping: with an admin
  key (or an anonymous key) set in the environment, a request to the admin API without that key (or to the data API without
  a valid key and token) is answered with 401, with 429 when the rate limit is exceeded or with 204 when it is a preflight
  request, and what the limiter, the counters and the log keep of the world is kept.\<close>

theorem server_needs_key:
  assumes "serverMain lib getenv p = (Listens addr h s0, p')" "obsKeeps (mn_obs lib) meta"
    and "adminKeyless (NewAdminFromEnv getenv) r \<or> dataKeyless (mn_jwt lib) (NewGatewayFromEnv getenv) r"
  shows "sentStatus (fst (h r s)) \<in> {Some 204, Some 401, Some 429} \<and> meta (eg_world (snd (h r s))) = meta (eg_world s)"
proof -
  let ?auth = "\<lambda>mux. AdminAuth (NewAdminFromEnv getenv) (DataAuth (mn_jwt lib) (mn_now lib) (NewGatewayFromEnv getenv) mux)"
  have "turnsAway meta {204, 401, 429} r (?auth mux)" for mux
    using assms(3) by (intro turnsAway_refusal) (use AdminAuth_refuses DataAuth_refuses in blast, simp)
  then have "turnsAway meta {204, 401, 429} r (mainHandler lib getenv cfg)" for cfg
    unfolding mainHandler_def Let_def
    by (intro turnsAway_obs turnsAway_CORS turnsAway_recorders assms(2)) simp_all
  moreover obtain cfg where "h = mainHandler lib getenv cfg"
    using assms(1) by (auto simp: serverMain_def Let_def split: sum.splits prod.splits)
  ultimately show ?thesis unfolding turnsAway_def by (auto simp: sameKeys_def)
qed

section \<open>Rate limiting and cross-origin requests\<close>

lemma CORS_origin:
  "w_Sent (fst (CORS h r s)) \<noteq> None \<Longrightarrow> sentHeader (fst (CORS h r s)) ''Access-Control-Allow-Origin'' = ''*''"
proof -
  have cors: "headerGet (corsHeaders @ hs) ''Access-Control-Allow-Origin'' = ''*''" for hs
    by (simp add: corsHeaders_def headerGet_def EqualFold_def)
  obtain w s1 where "h r s = (w, s1)" by fastforce
  then show "w_Sent (fst (CORS h r s)) \<noteq> None \<Longrightarrow> sentHeader (fst (CORS h r s)) ''Access-Control-Allow-Origin'' = ''*''"
    using cors [of "[]"] cors
    by (cases "r_Method r = ''OPTIONS''"; cases "w_Sent w")
      (simp_all add: CORS_def sentHeader_def writer_defs case_prod_beta)
qed

text \<open>The rate limiter stands before the cross-origin middleware: while it refuses, every request, a preflight request as well,
  is answered with 429 and without the header that lets a browser read the answer; the answers to all other requests have it.\<close>

theorem rate_limited_without_cors:
  assumes "oc_RateLimitRPS cfg > 0" "\<not> oc_OTelEnabled cfg"
  shows "let (w, s') = obsMiddleware lib cfg (CORS h) r s
    in if fst (ob_allow lib (oc_RateLimitRPS cfg) (limiterBurst (oc_RateLimitRPS cfg) (oc_RateLimitBurst cfg)) (eg_world s))
       then w_Sent w \<noteq> None \<longrightarrow> sentHeader w ''Access-Control-Allow-Origin'' = ''*''
       else sentStatus w = Some 429 \<and> sentHeader w ''Access-Control-Allow-Origin'' = []"
proof -
  let ?lim = "RateLimit lib (oc_RateLimitRPS cfg) (oc_RateLimitBurst cfg) (Timeout lib (oc_RequestTimeout cfg) (CORS h))"
  have answer: "fst (obsMiddleware lib cfg (CORS h) r s) = fst (?lim r s)"
    using assms(2) by (simp add: obsMiddleware_def MetricsHandler_def Let_def split: prod.split)
  have refusal: "sentHeader (AdminApi.httpError msg code) ''Access-Control-Allow-Origin'' = []" for msg code
  proof -
    have "\<not> EqualFold ''X-Content-Type-Options'' ''Access-Control-Allow-Origin''" "\<not> EqualFold ''Content-Type'' ''Access-Control-Allow-Origin''"
      "\<not> EqualFold ''Content-Type'' ''X-Content-Type-Options''" by code_simp+
    then show ?thesis by (simp add: AdminApi.httpError_def writer_defs sentHeader_def headerGet_def)
  qed
  have origin: "w_Sent (fst (Timeout lib d (CORS h) r x)) \<noteq> None \<Longrightarrow>
      sentHeader (fst (Timeout lib d (CORS h) r x)) ''Access-Control-Allow-Origin'' = ''*''" for d x
    using CORS_origin [of h r x] CORS_origin [of h "ob_deadline lib d r" x] unfolding Timeout_def by presburger
  obtain ok w where ok: "ob_allow lib (oc_RateLimitRPS cfg) (limiterBurst (oc_RateLimitRPS cfg) (oc_RateLimitBurst cfg)) (eg_world s)
      = (ok, w)" by fastforce
  show ?thesis
  proof (cases ok)
    case True
    then have "fst (?lim r s) = fst (Timeout lib (oc_RequestTimeout cfg) (CORS h) r (s\<lparr>eg_world := w\<rparr>))"
      using ok assms(1) by (simp add: RateLimit_def)
    then show ?thesis unfolding case_prod_beta Let_def answer ok using True origin by simp
  next
    case False
    then have "fst (?lim r s) = AdminApi.httpError ''rate limit exceeded'' 429"
      using ok assms(1) by (simp add: RateLimit_def)
    then show ?thesis unfolding case_prod_beta Let_def answer ok using False by (simp add: httpError_status refusal)
  qed
qed

section \<open>Examples\<close>

definition exampleObs :: "unit fileStore obsLib" where
  "exampleObs =
     \<lparr>ob_allow = (\<lambda>_ _ w. (False, w)), ob_deadline = (\<lambda>_ r. r), ob_count = (\<lambda>_ _ _ w. w), ob_trace = (\<lambda>h. h),
      ob_log = (\<lambda>_ _ _ w. w), ob_metricsPage = (\<lambda>r s. (newWriter, s))\<rparr>"

definition exampleMain :: "(unit fileStore, unit) mainLib" where
  "exampleMain =
     \<lparr>mn_parseDuration = (\<lambda>_. None), mn_parseFloat = (\<lambda>_. None), mn_decode = Inr, mn_aes = (\<lambda>_. Inr exampleVault),
      mn_newFile = (\<lambda>_ _. retC storeWithTable), mn_newDB = (\<lambda>_ _. failC ErrEOF), mn_admin = (\<lambda>_. fileModeAdmin),
      mn_import = fileModeImport, mn_engine = fileModeEngine, mn_obs = exampleObs, mn_jwt = exampleJWT, mn_now = (\<lambda>_. 0)\<rparr>"

definition exampleGetenv :: "string \<Rightarrow> string" where
  "exampleGetenv key =
     (if key = ''DATASPAN_VAULT_KEY'' then replicate 32 (CHR ''k'') else if key = ''DATASPAN_STORE_MODE'' then ''file''
      else if key = ''DATASPAN_ADMIN_KEY'' then ''secret'' else [])"

lemma exampleObs_keeps: "obsKeeps exampleObs id"
  unfolding obsKeeps_def exampleObs_def sameKeys_def by simp (metis eng.surjective eng.update_convs(4))

theorem server_needs_key_witness:
  "case serverMain exampleMain exampleGetenv () of
     (Listens addr h s0, _) \<Rightarrow> addr = '':3020'' \<and>
       eg_world (snd (h (exampleRequest ''DELETE'' ''/admin/api/servers/u1'' []) s0)) = eg_world s0
   | _ \<Rightarrow> False"
proof -
  let ?r = "exampleRequest ''DELETE'' ''/admin/api/servers/u1'' []"
  have "(case serverMain exampleMain exampleGetenv () of (Listens addr h s0, _) \<Rightarrow> addr = '':3020'' | _ \<Rightarrow> False)"
    by code_simp
  then obtain h s0 p' where run: "serverMain exampleMain exampleGetenv () = (Listens '':3020'' h s0, p')"
    by (auto split: prod.splits started.splits)
  have "adminKeyless (NewAdminFromEnv exampleGetenv) ?r" by code_simp
  moreover have "obsKeeps (mn_obs exampleMain) id" by (simp add: exampleMain_def exampleObs_keeps)
  ultimately have "eg_world (snd (h ?r s0)) = eg_world s0" using server_needs_key [OF run] by fastforce
  then show ?thesis by (simp add: run)
qed

definition limitedConfig :: obsConfig where
  "limitedConfig =
     \<lparr>oc_RequestTimeout = 60 * second, oc_RateLimitRPS = 1, oc_RateLimitBurst = 0, oc_MetricsEnabled = False,
      oc_OTelEnabled = False, oc_BreakerMaxFail = 5, oc_BreakerCooldown = 30 * second\<rparr>"

theorem rate_limited_without_cors_witness:
  "sentStatus (fst (obsMiddleware exampleObs limitedConfig (CORS (\<lambda>r s. (newWriter, s))) (exampleRequest ''OPTIONS'' ''/'' [])
     (NewEngine 5 60 0 storeWithTable))) = Some 429"
proof -
  have "oc_RateLimitRPS limitedConfig > 0" "\<not> oc_OTelEnabled limitedConfig" by (simp_all add: limitedConfig_def)
  note at = rate_limited_without_cors [OF this, of exampleObs "\<lambda>r s. (newWriter, s)" "exampleRequest ''OPTIONS'' ''/'' []"
      "NewEngine 5 60 0 storeWithTable"]
  have "\<not> fst (ob_allow exampleObs rps b w)" for rps b w by (simp add: exampleObs_def)
  with at show ?thesis by (simp add: case_prod_beta Let_def)
qed

end
