(* ===== verification/CliApp.thy ===== *)
theory CliApp
  imports ServerMain GenTypes
begin

text \<open>
  The command line (\<open>cmd/cli/main.go\<close>, \<open>internal/cliapp\<close>): the dispatcher and the commands \<open>import\<close> and \<open>generate types\<close>
  around the importer and the type generator. What \<open>flag\<close> does with the arguments is modelled; files, the terminal, HTTP and the
  opening of a store are parameters. A run is an exit code and the world it leaves; messages on standard error and the log are
  left out. \<open>flag.ExitOnError\<close> exits with 0 after \<open>-h\<close> and with 2 after an error.
\<close>

section \<open>Flags\<close>

datatype flagKind = StrFlag | BoolFlag

datatype flagArg = NotFlag | Terminator | BadSyntax | FlagNamed string "string option"

text \<open>\<open>flag.FlagSet.parseOne\<close>: what the first argument is.\<close>

definition flagArgOf :: "string \<Rightarrow> flagArg" where
  "flagArgOf s =
     (case s of
        a # c # cs \<Rightarrow>
          if a \<noteq> CHR ''-'' then NotFlag
          else if s = ''--'' then Terminator
          else let name = (if c = CHR ''-'' then cs else c # cs)
               in if name = [] \<or> hd name = CHR ''-'' \<or> hd name = CHR ''='' then BadSyntax
                  else FlagNamed (takeWhile (\<lambda>d. d \<noteq> CHR ''='') name)
                         (case dropWhile (\<lambda>d. d \<noteq> CHR ''='') name of [] \<Rightarrow> None | _ # v \<Rightarrow> Some v)
      | _ \<Rightarrow> NotFlag)"

definition ParseBool :: "string \<Rightarrow> bool option" where
  "ParseBool s =
     (if s \<in> {''1'', ''t'', ''T'', ''true'', ''TRUE'', ''True''} then Some True
      else if s \<in> {''0'', ''f'', ''F'', ''false'', ''FALSE'', ''False''} then Some False else None)"

definition boolText :: "bool \<Rightarrow> string" where
  "boolText b = (if b then ''true'' else ''false'')"

text \<open>\<open>FlagSet.Parse\<close>: the values of the flags and the arguments that are left, or the code it exits with.\<close>

fun parseFlags ::
  "(string \<times> flagKind) list \<Rightarrow> (string \<times> string) list \<Rightarrow> string list \<Rightarrow> int + (string \<times> string) list \<times> string list"
where
  "parseFlags formal vals [] = Inr (vals, [])"
| "parseFlags formal vals (s # args) =
     (case flagArgOf s of
        NotFlag \<Rightarrow> Inr (vals, s # args)
      | Terminator \<Rightarrow> Inr (vals, args)
      | BadSyntax \<Rightarrow> Inl 2
      | FlagNamed name value \<Rightarrow>
          (case map_of formal name of
             None \<Rightarrow> Inl (if name = ''help'' \<or> name = ''h'' then 0 else 2)
           | Some BoolFlag \<Rightarrow>
               (case ParseBool (case value of Some v \<Rightarrow> v | None \<Rightarrow> ''true'') of
                  None \<Rightarrow> Inl 2
                | Some b \<Rightarrow> parseFlags formal (AList.update name (boolText b) vals) args)
           | Some StrFlag \<Rightarrow>
               (case value of
                  Some v \<Rightarrow> parseFlags formal (AList.update name v vals) args
                | None \<Rightarrow>
                    (case args of
                       [] \<Rightarrow> Inl 2
                     | v # args' \<Rightarrow> parseFlags formal (AList.update name v vals) args'))))"

definition flagVal :: "(string \<times> string) list \<Rightarrow> string \<Rightarrow> string" where
  "flagVal vals name = (case map_of vals name of Some v \<Rightarrow> v | None \<Rightarrow> [])"

section \<open>Surroundings (util.go)\<close>

record ('w, 'st) cliEnv =
  cl_getenv :: "string \<Rightarrow> string"
  cl_readStdin :: "('w, err, string) comp"
  cl_readFile :: "string \<Rightarrow> ('w, err, string) comp"
  cl_stdout :: "string \<Rightarrow> ('w, err, unit) comp"
  cl_writeFile :: "string \<Rightarrow> string \<Rightarrow> ('w, err, unit) comp"
  cl_isTerminal :: "'w \<Rightarrow> bool"
  cl_scanLine :: "('w, err, string) comp"
  cl_lib :: docLib
  cl_http :: "'w metaHttp"
  cl_decode :: "string \<Rightarrow> err + string"
  cl_aes :: "string \<Rightarrow> err + Vault"
  cl_newFile :: "Vault \<Rightarrow> string \<Rightarrow> ('w, err, 'st) comp"
  cl_newDB :: "Vault \<Rightarrow> string \<Rightarrow> ('w, err, 'st) comp"
  cl_import :: "DeclarativeDoc \<Rightarrow> string \<Rightarrow> ('st, err, Result) comp"
  cl_worldOf :: "'st \<Rightarrow> 'w"

definition cliReadInput :: "('w, 'st) cliEnv \<Rightarrow> string \<Rightarrow> ('w, err, string) comp" where
  "cliReadInput env path = (if path = ''-'' then cl_readStdin env else cl_readFile env path)"

definition cliWriteOutput :: "('w, 'st) cliEnv \<Rightarrow> string \<Rightarrow> string \<Rightarrow> ('w, err, unit) comp" where
  "cliWriteOutput env path text =
     (if path = [] \<or> path = ''-'' then cl_stdout env text else cl_writeFile env path text)"

definition envOr :: "(string \<Rightarrow> string) \<Rightarrow> string \<Rightarrow> string \<Rightarrow> string" where
  "envOr getenv key dflt = (let v = TrimSpace (getenv key) in if v \<noteq> [] then v else dflt)"

definition splitCSV :: "string \<Rightarrow> string list" where
  "splitCSV raw0 =
     (let raw = TrimSpace raw0
      in if raw = [] then [] else filter (\<lambda>p. p \<noteq> []) (map TrimSpace (Split raw (CHR '',''))))"

section \<open>The command import (import\_cmd.go)\<close>

definition importFlags :: "(string \<times> flagKind) list" where
  "importFlags =
     [(''kind'', StrFlag), (''input'', StrFlag), (''output'', StrFlag), (''dialect'', StrFlag), (''server-name'', StrFlag),
      (''endpoint'', StrFlag), (''schema'', StrFlag), (''mode'', StrFlag), (''apply'', BoolFlag)]"

definition importDefaults :: "(string \<times> string) list" where
  "importDefaults = [(''schema'', ''public''), (''mode'', ''replace''), (''apply'', ''false'')]"

definition resolveSQLDialect :: "('w, 'st) cliEnv \<Rightarrow> string \<Rightarrow> ('w, err, SQLDialect) comp" where
  "resolveSQLDialect env raw0 w =
     (let raw = TrimSpace raw0
      in if raw \<noteq> [] then (ParseSQLDialect raw, w)
         else if cl_isTerminal env w then
           (case cl_scanLine env w of
              (Inl e, w1) \<Rightarrow> (Inl (Wrapf ''read dialect: '' e []), w1)
            | (Inr line, w1) \<Rightarrow> (ParseSQLDialect line, w1))
         else (Inl (Errorf ''sql import requires -dialect postgres|mysql|sqlite''), w))"

definition applyImportToStore :: "('w, 'st) cliEnv \<Rightarrow> string \<Rightarrow> string \<Rightarrow> ('w, err, unit) comp" where
  "applyImportToStore env yaml mode =
     bindC (liftC (NewVaultFromEnv (cl_decode env) (cl_aes env) (cl_getenv env))) (\<lambda>vault.
     bindC (liftC (LoadConfig (cl_getenv env))) (\<lambda>cfg.
     bindC (newStore (cl_getenv env) (cl_newFile env vault) (cl_newDB env vault) cfg) (\<lambda>st w.
       (case ImportYAML (cl_lib env) (cl_import env) yaml mode st of
          (Inl e, st1) \<Rightarrow> (Inl e, cl_worldOf env st1)
        | (Inr result, st1) \<Rightarrow> (Inr (), cl_worldOf env st1)))))"

text \<open>The options of the conversion; the scan of the terminal for the dialect is the only effect.\<close>

definition cliConvertOptions :: "('w, 'st) cliEnv \<Rightarrow> (string \<times> string) list \<Rightarrow> string \<Rightarrow> ('w, err, ConvertOptions) comp" where
  "cliConvertOptions env vals raw =
     (let kind = TrimSpace (flagVal vals ''kind'');
          kind = (if kind = [] then DetectKind (flagVal vals ''input'') raw else kind);
          opts = \<lparr>co_Kind = kind, co_Input = raw, co_OpenAPI = \<lparr>oo_ServerName = [], oo_Endpoint = []\<rparr>, co_SQL = noSQL\<rparr>
      in if kind = KindOpenAPI then
           retC (opts\<lparr>co_OpenAPI := \<lparr>oo_ServerName = flagVal vals ''server-name'', oo_Endpoint = flagVal vals ''endpoint''\<rparr>\<rparr>)
         else if kind = KindSQL then
           bindC (resolveSQLDialect env (flagVal vals ''dialect'')) (\<lambda>d.
             retC (opts\<lparr>co_SQL := \<lparr>so_ServerName = flagVal vals ''server-name'', so_Schema = flagVal vals ''schema'', so_Dialect = d\<rparr>\<rparr>))
         else if kind = KindYAML then retC opts
         else failC (Errorf (quoteGo kind)))"

definition cliImport :: "('w, 'st) cliEnv \<Rightarrow> (string \<times> string) list \<Rightarrow> ('w, err, unit) comp" where
  "cliImport env vals =
     bindC (cliReadInput env (flagVal vals ''input'')) (\<lambda>raw.
     bindC (cliConvertOptions env vals raw) (\<lambda>opts.
     bindC (liftC (Convert (cl_lib env) opts)) (\<lambda>out.
     bindC (if flagVal vals ''apply'' = ''true'' then applyImportToStore env out (flagVal vals ''mode'') else retC ()) (\<lambda>_.
       cliWriteOutput env (flagVal vals ''output'') out))))"

text \<open>An error is reported with exit code 1.\<close>

definition exitCode :: "('w, err, unit) comp \<Rightarrow> 'w \<Rightarrow> int \<times> 'w" where
  "exitCode m w = (case m w of (Inl e, w1) \<Rightarrow> (1, w1) | (Inr _, w1) \<Rightarrow> (0, w1))"

definition runImport :: "('w, 'st) cliEnv \<Rightarrow> string list \<Rightarrow> 'w \<Rightarrow> int \<times> 'w" where
  "runImport env args w =
     (case parseFlags importFlags importDefaults args of
        Inl code \<Rightarrow> (code, w)
      | Inr (vals, rest) \<Rightarrow>
          if rest \<noteq> [] then (2, w)
          else if flagVal vals ''input'' = [] then (2, w)
          else exitCode (cliImport env vals) w)"

section \<open>The command generate (generate.go)\<close>

definition isTypeScript :: "string \<Rightarrow> bool" where
  "isTypeScript raw \<longleftrightarrow> ToLower (TrimSpace raw) \<in> {''typescript'', ''ts''}"

definition generateFlags :: "(string \<times> flagKind) list" where
  "generateFlags = map (\<lambda>n. (n, StrFlag)) [''lang'', ''url'', ''schema'', ''output'', ''apikey'', ''token'']"

definition generateDefaults :: "(string \<Rightarrow> string) \<Rightarrow> (string \<times> string) list" where
  "generateDefaults getenv =
     [(''lang'', ''typescript''), (''url'', envOr getenv ''DATASPAN_URL'' ''http://localhost:3020''), (''output'', ''-''),
      (''apikey'', getenv ''DATASPAN_ANON_KEY'')]"

definition generateClient :: "(string \<times> string) list \<Rightarrow> MetaClient" where
  "generateClient vals =
     (let apikey = TrimSpace (flagVal vals ''apikey'');
          token = TrimSpace (flagVal vals ''token'')
      in \<lparr>mcli_BaseURL = flagVal vals ''url'', mcli_APIKey = apikey, mcli_Token = (if token = [] then apikey else token)\<rparr>)"

definition cliGenerate :: "('w, 'st) cliEnv \<Rightarrow> (string \<times> string) list \<Rightarrow> ('w, err, unit) comp" where
  "cliGenerate env vals =
     bindC (Fetch (cl_http env) (generateClient vals) (splitCSV (flagVal vals ''schema''))) (\<lambda>snap.
       cliWriteOutput env (flagVal vals ''output'') (GenerateTypeScript (Some snap)))"

definition runGenerateTypes :: "('w, 'st) cliEnv \<Rightarrow> string list \<Rightarrow> 'w \<Rightarrow> int \<times> 'w" where
  "runGenerateTypes env args0 w =
     (let args = (case args0 of a # as \<Rightarrow> if isTypeScript a then as else args0 | [] \<Rightarrow> [])
      in case parseFlags generateFlags (generateDefaults (cl_getenv env)) args of
           Inl code \<Rightarrow> (code, w)
         | Inr (vals, rest) \<Rightarrow>
             if rest \<noteq> [] then (2, w)
             else if \<not> isTypeScript (flagVal vals ''lang'') then (2, w)
             else exitCode (cliGenerate env vals) w)"

definition runGenerate :: "('w, 'st) cliEnv \<Rightarrow> string list \<Rightarrow> 'w \<Rightarrow> int \<times> 'w" where
  "runGenerate env args w =
     (case args of
        [] \<Rightarrow> (2, w)
      | a # as \<Rightarrow> if a = ''types'' then runGenerateTypes env as w else (2, w))"

section \<open>The dispatcher (app.go)\<close>

definition isHelp :: "string \<Rightarrow> bool" where
  "isHelp arg \<longleftrightarrow> arg \<in> {''help'', ''-h'', ''--help''}"

definition RunCli :: "('w, 'st) cliEnv \<Rightarrow> string list \<Rightarrow> 'w \<Rightarrow> int \<times> 'w" where
  "RunCli env args w =
     (case args of
        [] \<Rightarrow> (2, w)
      | a # as \<Rightarrow>
          if isHelp a then (2, w)
          else if a = ''import'' then runImport env as w
          else if a = ''generate'' then runGenerate env as w
          else (2, w))"

section \<open>Lemmas\<close>

text \<open>Printing string flags, each as a name and the value in the next argument.\<close>

definition printFlags :: "(string \<times> string) list \<Rightarrow> string list" where
  "printFlags flags = concat (map (\<lambda>(n, v). [CHR ''-'' # n, v]) flags)"

definition flagName :: "string \<Rightarrow> bool" where
  "flagName n \<longleftrightarrow> n \<noteq> [] \<and> hd n \<noteq> CHR ''-'' \<and> CHR ''='' \<notin> set n"

lemma flagArgOf_printed:
  assumes "flagName n" shows "flagArgOf (CHR ''-'' # n) = FlagNamed n None"
proof -
  from assms obtain c cs where n: "n = c # cs" "c \<noteq> CHR ''-''" "c \<noteq> CHR ''=''" by (cases n) (auto simp: flagName_def)
  have d: "takeWhile (\<lambda>d. d \<noteq> CHR ''='') cs = cs" "dropWhile (\<lambda>d. d \<noteq> CHR ''='') cs = []"
    using assms n(1) by (auto simp: flagName_def takeWhile_eq_all_conv dropWhile_eq_Nil_conv)
  show ?thesis using n(2,3) by (simp add: flagArgOf_def n(1) d)
qed

lemma parseFlags_printed:
  "list_all (\<lambda>(n, v). flagName n \<and> map_of formal n = Some StrFlag) flags \<Longrightarrow>
   parseFlags formal vals (printFlags flags) = Inr (buildMap vals flags, [])"
  by (induction flags arbitrary: vals) (auto simp: printFlags_def flagArgOf_printed)

lemma importFlags_names: "map_of importFlags n = Some k \<Longrightarrow> flagName n"
  by (auto simp: importFlags_def flagName_def split: if_splits)

lemma exitCode_cases: "exitCode m w = (case m w of (Inl e, w1) \<Rightarrow> (1, w1) | (Inr u, w1) \<Rightarrow> (0, w1))"
  by (simp add: exitCode_def)

lemma exitCode_01: "fst (exitCode m w) \<in> {0, 1}"
  by (auto simp: exitCode_def split: prod.split sum.split)

section \<open>A grammar of the arguments\<close>

text \<open>A flag is named after one dash or two; a value follows an equals sign or, for a string, is the next argument.\<close>

definition flagText :: "string \<Rightarrow> string \<Rightarrow> string option \<Rightarrow> string" where
  "flagText dash n v = dash @ n @ (case v of None \<Rightarrow> [] | Some t \<Rightarrow> CHR ''='' # t)"

definition isDash :: "string \<Rightarrow> bool" where
  "isDash d \<longleftrightarrow> d = ''-'' \<or> d = ''--''"

text \<open>The arguments that set the given flags, in order.\<close>

inductive flagArgs :: "(string \<times> flagKind) list \<Rightarrow> string list \<Rightarrow> (string \<times> string) list \<Rightarrow> bool" for formal where
  no_flag: "flagArgs formal [] []"
| next_value: "map_of formal n = Some StrFlag \<Longrightarrow> isDash d \<Longrightarrow> flagArgs formal args flags \<Longrightarrow>
    flagArgs formal (flagText d n None # v # args) ((n, v) # flags)"
| own_value: "map_of formal n = Some StrFlag \<Longrightarrow> isDash d \<Longrightarrow> flagArgs formal args flags \<Longrightarrow>
    flagArgs formal (flagText d n (Some v) # args) ((n, v) # flags)"
| bool_flag: "map_of formal n = Some BoolFlag \<Longrightarrow> isDash d \<Longrightarrow> flagArgs formal args flags \<Longrightarrow>
    flagArgs formal (flagText d n None # args) ((n, ''true'') # flags)"
| bool_value: "map_of formal n = Some BoolFlag \<Longrightarrow> isDash d \<Longrightarrow> ParseBool v = Some b \<Longrightarrow> flagArgs formal args flags \<Longrightarrow>
    flagArgs formal (flagText d n (Some v) # args) ((n, boolText b) # flags)"

text \<open>All arguments are flags, with an optional terminator; or a request for help follows some flags.\<close>

inductive onlyFlags :: "(string \<times> flagKind) list \<Rightarrow> string list \<Rightarrow> (string \<times> string) list \<Rightarrow> bool" for formal where
  flags_end: "flagArgs formal args flags \<Longrightarrow> onlyFlags formal args flags"
| flags_terminator: "flagArgs formal args flags \<Longrightarrow> onlyFlags formal (args @ [''--'']) flags"

inductive helpFlag :: "(string \<times> flagKind) list \<Rightarrow> string list \<Rightarrow> bool" for formal where
  help_after: "flagArgs formal args flags \<Longrightarrow> isDash d \<Longrightarrow> n = ''help'' \<or> n = ''h'' \<Longrightarrow>
    helpFlag formal (args @ flagText d n v # rest)"

lemma flagArgOf_text:
  assumes "flagName n" "isDash d" shows "flagArgOf (flagText d n v) = FlagNamed n v"
proof -
  from assms(1) obtain c cs where n: "n = c # cs" "c \<noteq> CHR ''-''" "c \<noteq> CHR ''=''" by (cases n) (auto simp: flagName_def)
  have cs: "\<forall>x\<in>set cs. x \<noteq> CHR ''=''" using assms(1) n(1) by (auto simp: flagName_def)
  then have "takeWhile (\<lambda>d. d \<noteq> CHR ''='') (cs @ r) = cs @ takeWhile (\<lambda>d. d \<noteq> CHR ''='') r"
    "dropWhile (\<lambda>d. d \<noteq> CHR ''='') (cs @ r) = dropWhile (\<lambda>d. d \<noteq> CHR ''='') r" for r by simp_all
  moreover have "takeWhile (\<lambda>d. d \<noteq> CHR ''='') cs = cs" "dropWhile (\<lambda>d. d \<noteq> CHR ''='') cs = []"
    using cs by (simp_all add: takeWhile_eq_all_conv)
  ultimately have d: "takeWhile (\<lambda>d. d \<noteq> CHR ''='') (cs @ CHR ''='' # r) = cs" "dropWhile (\<lambda>d. d \<noteq> CHR ''='') (cs @ CHR ''='' # r) = CHR ''='' # r"
    "takeWhile (\<lambda>d. d \<noteq> CHR ''='') cs = cs" "dropWhile (\<lambda>d. d \<noteq> CHR ''='') cs = []" for r by simp_all
  show ?thesis using assms(2) n(2,3)
    by (cases v) (auto simp: flagText_def isDash_def flagArgOf_def n(1) d)
qed

lemma flagArgOf_named:
  assumes "flagArgOf s = FlagNamed n v"
  obtains d where "isDash d" "s = flagText d n v"
proof -
  from assms obtain c cs where s: "s = CHR ''-'' # c # cs" by (auto simp: flagArgOf_def split: list.splits if_splits)
  define name where "name = (if c = CHR ''-'' then cs else c # cs)"
  define d where "d = (if c = CHR ''-'' then ''--'' else ''-'')"
  have n: "n = takeWhile (\<lambda>d. d \<noteq> CHR ''='') name" "v = (case dropWhile (\<lambda>d. d \<noteq> CHR ''='') name of [] \<Rightarrow> None | _ # v \<Rightarrow> Some v)"
    using assms by (simp_all add: s flagArgOf_def name_def [symmetric] Let_def split: if_splits)
  have "dropWhile (\<lambda>d. d \<noteq> CHR ''='') name = (case v of None \<Rightarrow> [] | Some t \<Rightarrow> CHR ''='' # t)"
    unfolding n(2) using hd_dropWhile [of "\<lambda>d. d \<noteq> CHR ''=''" name]
    by (cases "dropWhile (\<lambda>d. d \<noteq> CHR ''='') name") (simp_all del: dropWhile_eq_Nil_conv)
  then have "name = n @ (case v of None \<Rightarrow> [] | Some t \<Rightarrow> CHR ''='' # t)"
    using n(1) takeWhile_dropWhile_id [of "\<lambda>d. d \<noteq> CHR ''=''" name] by simp
  then have "s = d @ (n @ (case v of None \<Rightarrow> [] | Some t \<Rightarrow> CHR ''='' # t))" "isDash d"
    by (simp_all add: s d_def name_def isDash_def split: if_splits)
  with that show ?thesis by (simp add: flagText_def)
qed

locale named_flags =
  fixes formal :: "(string \<times> flagKind) list"
  assumes names: "map_of formal n = Some k \<Longrightarrow> flagName n"
    and no_help: "map_of formal ''help'' = None" "map_of formal ''h'' = None"
begin

text \<open>The parser takes the flags of the grammar, whatever follows.\<close>

lemma parseFlags_args:
  assumes "flagArgs formal args flags"
  shows "parseFlags formal vals (args @ rest) = parseFlags formal (buildMap vals flags) rest"
  using assms
proof (induction arbitrary: vals)
  case (next_value n d args flags v)
  then show ?case using flagArgOf_text [OF names] by simp
next
  case (own_value n d args flags v)
  then show ?case using flagArgOf_text [OF names] by simp
next
  case (bool_flag n d args flags)
  then show ?case using flagArgOf_text [OF names] by (simp add: ParseBool_def boolText_def)
next
  case (bool_value n d v b args flags)
  then show ?case using flagArgOf_text [OF names] by simp
qed simp

lemma parseFlags_only: "onlyFlags formal args flags \<Longrightarrow> parseFlags formal vals args = Inr (buildMap vals flags, [])"
proof (induction rule: onlyFlags.induct)
  case (flags_end args flags)
  from parseFlags_args [OF this, of vals "[]"] show ?case by simp
next
  case (flags_terminator args flags)
  then show ?case by (simp add: parseFlags_args flagArgOf_def)
qed

lemma parseFlags_help:
  assumes "helpFlag formal args" shows "parseFlags formal vals args = Inl 0"
  using assms
proof cases
  case (help_after as flags d n v rest)
  have "flagName n" using help_after(4) by (auto simp: flagName_def)
  then show ?thesis using help_after no_help by (auto simp: parseFlags_args flagArgOf_text)
qed

text \<open>And it takes nothing else.\<close>

lemma flagArgs_first:
  assumes "parseFlags formal vals (s # args) = r" "flagArgOf s = FlagNamed n v" "map_of formal n = Some k" "r \<noteq> Inl 2"
  shows "\<exists>as' args' t. s # args = as' @ args' \<and> length args' < length (s # args) \<and>
    (\<forall>more fs. flagArgs formal more fs \<longrightarrow> flagArgs formal (as' @ more) ((n, t) # fs)) \<and>
    parseFlags formal (AList.update n t vals) args' = r"
proof -
  obtain d where d: "isDash d" "s = flagText d n v" using assms(2) by (rule flagArgOf_named)
  show ?thesis
  proof (cases k)
    case StrFlag
    show ?thesis
    proof (cases v)
      case (Some t)
      then show ?thesis using assms d StrFlag
        by (intro exI [of _ "[s]"] exI [of _ args] exI [of _ t]) (auto intro: flagArgs.own_value)
    next
      case None
      then obtain t args' where "args = t # args'" using assms StrFlag by (cases args) auto
      then show ?thesis using assms d StrFlag None
        by (intro exI [of _ "[s, t]"] exI [of _ args'] exI [of _ t]) (auto intro: flagArgs.next_value)
    qed
  next
    case BoolFlag
    then obtain b where b: "ParseBool (case v of Some t \<Rightarrow> t | None \<Rightarrow> ''true'') = Some b"
      "parseFlags formal (AList.update n (boolText b) vals) args = r"
      using assms by (auto split: option.splits)
    have "flagArgs formal more fs \<longrightarrow> flagArgs formal ([s] @ more) ((n, boolText b) # fs)" for more fs
    proof (cases v)
      case None
      with b(1) have "b" by (simp add: ParseBool_def)
      then show ?thesis using assms(3) d BoolFlag None flagArgs.bool_flag [of formal n d] by (simp add: boolText_def)
    next
      case (Some t)
      then show ?thesis using assms(3) d BoolFlag b(1) flagArgs.bool_value [of formal n d t b] by simp
    qed
    with b(2) show ?thesis by (intro exI [of _ "[s]"] exI [of _ args] exI [of _ "boolText b"]) auto
  qed
qed

lemma parseFlags_complete:
  "case parseFlags formal vals args of
     Inr (vals', rest) \<Rightarrow> rest = [] \<longrightarrow> (\<exists>flags. onlyFlags formal args flags \<and> vals' = buildMap vals flags)
   | Inl code \<Rightarrow> code = 2 \<or> code = 0 \<and> helpFlag formal args"
proof (induction "length args" arbitrary: vals args rule: less_induct)
  case less
  show ?case
  proof (cases args)
    case Nil
    then show ?thesis using flags_end [OF no_flag] by (auto intro: exI [of _ "[]"])
  next
    case (Cons s as)
    show ?thesis
    proof (cases "flagArgOf s")
      case Terminator
      then have "s = ''--''" by (auto simp: flagArgOf_def Let_def split: list.splits if_splits)
      then show ?thesis using Cons Terminator flags_terminator [OF no_flag] by (auto intro: exI [of _ "[]"])
    next
      case (FlagNamed n v)
      show ?thesis
      proof (cases "map_of formal n")
        case None
        from FlagNamed obtain d where "isDash d" "s = flagText d n v" by (rule flagArgOf_named)
        then show ?thesis using Cons FlagNamed None help_after [OF no_flag, of d n] by auto
      next
        case (Some k)
        show ?thesis
        proof (cases "parseFlags formal vals args = Inl 2")
          case False
          from flagArgs_first [OF _ FlagNamed Some False] Cons obtain as' args' t where
            first: "args = as' @ args'" "length args' < length args" "parseFlags formal (AList.update n t vals) args' = parseFlags formal vals args"
            and more: "\<And>more fs. flagArgs formal more fs \<Longrightarrow> flagArgs formal (as' @ more) ((n, t) # fs)" by metis
          have only: "onlyFlags formal (as' @ args') ((n, t) # fs)" if "onlyFlags formal args' fs" for fs
            using that
          proof cases
            case flags_end
            then show ?thesis using more by (blast intro: onlyFlags.intros)
          next
            case (flags_terminator args1)
            then show ?thesis using onlyFlags.flags_terminator [OF more] by simp
          qed
          have helped: "helpFlag formal (as' @ args')" if "helpFlag formal args'"
            using that
          proof cases
            case (help_after args1 flags d h w rest)
            then show ?thesis using helpFlag.help_after [OF more] by simp
          qed
          show ?thesis using less [OF first(2), of "AList.update n t vals"] only helped first(1,3)
            by (auto split: sum.splits prod.splits) (metis buildMap.simps(2))+
        qed simp
      qed
    qed (use Cons in simp_all)
  qed
qed

lemma parseFlags_spec:
  "onlyFlags formal args flags \<Longrightarrow> parseFlags formal vals args = Inr (buildMap vals flags, [])"
  "helpFlag formal args \<Longrightarrow> parseFlags formal vals args = Inl 0"
  "\<not> helpFlag formal args \<Longrightarrow> \<forall>flags. \<not> onlyFlags formal args flags \<Longrightarrow>
     parseFlags formal vals args = Inl 2 \<or> (\<exists>vals' a rest. parseFlags formal vals args = Inr (vals', a # rest))"
  using parseFlags_only parseFlags_help parseFlags_complete [where vals = vals and args = args]
  by (auto split: sum.splits prod.splits simp: neq_Nil_conv)

end

interpretation import_flags: named_flags importFlags
  by unfold_locales (auto simp: importFlags_def flagName_def split: if_splits)

interpretation generate_flags: named_flags generateFlags
  by unfold_locales (auto simp: generateFlags_def flagName_def split: if_splits)

text \<open>A word for the language may come before the flags of \<open>generate types\<close>.\<close>

definition langWord :: "string list \<Rightarrow> string list \<Rightarrow> bool" where
  "langWord lang args \<longleftrightarrow>
     lang = [] \<and> (args = [] \<or> \<not> isTypeScript (hd args)) \<or> (\<exists>l. lang = [l] \<and> isTypeScript l)"

text \<open>The commands that the command line understands, with the flags they set.\<close>

datatype cliCommand = ImportCommand "(string \<times> string) list" | GenerateCommand "(string \<times> string) list"

inductive understood :: "string list \<Rightarrow> cliCommand \<Rightarrow> bool" where
  understood_import: "onlyFlags importFlags args flags \<Longrightarrow> flagVal (buildMap importDefaults flags) ''input'' \<noteq> [] \<Longrightarrow>
    understood (''import'' # args) (ImportCommand flags)"
| understood_generate: "onlyFlags generateFlags args flags \<Longrightarrow> isTypeScript (flagVal (buildMap [(''lang'', ''typescript'')] flags) ''lang'') \<Longrightarrow>
    langWord lang args \<Longrightarrow>
    understood (''generate'' # ''types'' # lang @ args) (GenerateCommand flags)"

text \<open>The commands that are asked for help.\<close>

inductive asksHelp :: "string list \<Rightarrow> bool" where
  import_help: "helpFlag importFlags args \<Longrightarrow> asksHelp (''import'' # args)"
| generate_help: "helpFlag generateFlags args \<Longrightarrow>
    langWord lang args \<Longrightarrow>
    asksHelp (''generate'' # ''types'' # lang @ args)"

definition runCommand :: "('w, 'st) cliEnv \<Rightarrow> cliCommand \<Rightarrow> ('w, err, unit) comp" where
  "runCommand env cmd =
     (case cmd of
        ImportCommand flags \<Rightarrow> cliImport env (buildMap importDefaults flags)
      | GenerateCommand flags \<Rightarrow> cliGenerate env (buildMap (generateDefaults (cl_getenv env)) flags))"

lemma generate_args:
  assumes "langWord lang args"
  shows "(case lang @ args of a # as \<Rightarrow> if isTypeScript a then as else lang @ args | [] \<Rightarrow> []) = args"
  using assms by (auto simp: langWord_def split: list.split)

lemma langWord_exists: "\<exists>lang args. as = lang @ args \<and> langWord lang args"
proof (cases "as \<noteq> [] \<and> isTypeScript (hd as)")
  case True
  then show ?thesis by (intro exI [of _ "[hd as]"] exI [of _ "tl as"]) (simp add: langWord_def)
next
  case False
  then show ?thesis by (intro exI [of _ "[]"] exI [of _ as]) (auto simp: langWord_def)
qed

text \<open>The default language does not depend on the environment.\<close>

lemma generate_lang:
  "flagVal (buildMap (generateDefaults getenv) flags) ''lang'' = flagVal (buildMap [(''lang'', ''typescript'')] flags) ''lang''"
  by (simp add: flagVal_def map_of_buildMap map_add_def generateDefaults_def split: option.split)

lemma RunCli_understood:
  assumes "understood args cmd" shows "RunCli env args w = exitCode (runCommand env cmd) w"
  using assms
proof cases
  case (understood_import as flags)
  then show ?thesis by (simp add: RunCli_def isHelp_def runImport_def import_flags.parseFlags_only runCommand_def)
next
  case (understood_generate as flags lang)
  then show ?thesis
    by (simp add: RunCli_def isHelp_def runGenerate_def runGenerateTypes_def generate_args generate_flags.parseFlags_only
        generate_lang runCommand_def)
qed

lemma RunCli_help:
  assumes "asksHelp args" shows "RunCli env args w = (0, w)"
  using assms
proof cases
  case (import_help as)
  then show ?thesis by (simp add: RunCli_def isHelp_def runImport_def import_flags.parseFlags_help)
next
  case (generate_help as lang)
  then show ?thesis
    by (simp add: RunCli_def isHelp_def runGenerate_def runGenerateTypes_def generate_args generate_flags.parseFlags_help)
qed

lemma runImport_other:
  assumes "\<forall>cmd. \<not> understood (''import'' # as) cmd" "\<not> asksHelp (''import'' # as)"
  shows "runImport env as w = (2, w)"
proof -
  have "\<not> helpFlag importFlags as" using assms(2) asksHelp.import_help by blast
  moreover have "flagVal (buildMap importDefaults flags) ''input'' = []" if "onlyFlags importFlags as flags" for flags
    using assms(1) understood_import [OF that] by blast
  ultimately show ?thesis
    using import_flags.parseFlags_complete [where vals = importDefaults and args = as]
    by (auto simp: runImport_def split: sum.splits prod.splits)
qed

lemma runGenerate_other:
  assumes "\<forall>cmd. \<not> understood (''generate'' # as) cmd" "\<not> asksHelp (''generate'' # as)"
  shows "runGenerate env as w = (2, w)"
proof (cases "\<exists>as'. as = ''types'' # as'")
  case True
  then obtain lang args where as: "as = ''types'' # lang @ args" "langWord lang args" using langWord_exists by blast
  have "\<not> helpFlag generateFlags args" using assms(2) asksHelp.generate_help as by blast
  moreover have "\<not> isTypeScript (flagVal (buildMap [(''lang'', ''typescript'')] flags) ''lang'')" if "onlyFlags generateFlags args flags" for flags
    using assms(1) understood_generate [OF that _ as(2)] as(1) by blast
  ultimately show ?thesis
    using generate_flags.parseFlags_complete [where vals = "generateDefaults (cl_getenv env)" and args = args] as
    by (auto simp: runGenerate_def runGenerateTypes_def generate_args generate_lang split: sum.splits prod.splits)
qed (auto simp: runGenerate_def split: list.split)

lemma RunCli_other:
  assumes "\<forall>cmd. \<not> understood args cmd" "\<not> asksHelp args" shows "RunCli env args w = (2, w)"
proof (cases args)
  case (Cons a as)
  with assms have none: "\<forall>cmd. \<not> understood (a # as) cmd" "\<not> asksHelp (a # as)" by simp_all
  consider "a = ''import''" | "a = ''generate''" | "a \<noteq> ''import''" "a \<noteq> ''generate''" by blast
  then show ?thesis
  proof cases
    case 1
    with none Cons show ?thesis by (simp add: RunCli_def runImport_other)
  next
    case 2
    with none Cons show ?thesis by (simp add: RunCli_def runGenerate_other)
  qed (simp add: RunCli_def Cons)
qed (simp add: RunCli_def)

section \<open>Properties\<close>


text \<open>The request to the admin API with the same fields as the flags.\<close>

definition flagsRequest :: "(string \<times> string) list \<Rightarrow> string \<Rightarrow> importRequest" where
  "flagsRequest vals raw = fieldsRequest
     (\<lambda>k. flagVal vals (if k = ''serverName'' then ''server-name'' else k)) raw"

lemma cliConvertOptions_admin:
  assumes "TrimSpace (flagVal vals ''kind'') \<in> {KindOpenAPI, KindSQL, KindYAML}"
    and "TrimSpace (flagVal vals ''dialect'') = flagVal vals ''dialect''" "flagVal vals ''dialect'' \<noteq> []"
    and "TrimSpace (flagVal vals ''schema'') = flagVal vals ''schema''" "flagVal vals ''schema'' \<noteq> []"
  shows "cliConvertOptions env vals raw = liftC (importConvertOptions (flagsRequest vals raw))"
proof -
  consider "TrimSpace (flagVal vals ''kind'') = KindOpenAPI" | "TrimSpace (flagVal vals ''kind'') = KindSQL"
    | "TrimSpace (flagVal vals ''kind'') = KindYAML" using assms(1) by blast
  then show ?thesis
  proof cases
    case 2
    then show ?thesis
      using assms(2-5)
      by (cases "ParseSQLDialect (flagVal vals ''dialect'')")
        (simp_all add: cliConvertOptions_def importConvertOptions_def flagsRequest_def fieldsRequest_def resolveSQLDialect_def
          fun_eq_iff bindC_def retC_def liftC_def Let_def)
  qed (simp_all add: cliConvertOptions_def importConvertOptions_def flagsRequest_def fieldsRequest_def fun_eq_iff retC_def liftC_def Let_def)
qed

text \<open>C5: with flags that leave nothing to be guessed, \<open>import\<close> writes to the output exactly the text that the import of the admin API
  would store for a request with the same fields, and exits with 0 when that is written.\<close>

theorem cli_import_writes_conversion:
  assumes "list_all (\<lambda>(n, v). map_of importFlags n = Some StrFlag) flags"
    and "TrimSpace (flagVal (buildMap importDefaults flags) ''kind'') \<in> {KindOpenAPI, KindSQL, KindYAML}"
    and "TrimSpace (flagVal (buildMap importDefaults flags) ''dialect'') = flagVal (buildMap importDefaults flags) ''dialect''"
      "flagVal (buildMap importDefaults flags) ''dialect'' \<noteq> []"
    and "TrimSpace (flagVal (buildMap importDefaults flags) ''schema'') = flagVal (buildMap importDefaults flags) ''schema''"
      "flagVal (buildMap importDefaults flags) ''schema'' \<noteq> []"
    and "flagVal (buildMap importDefaults flags) ''input'' \<notin> {[], ''-''}"
    and "cl_readFile env (flagVal (buildMap importDefaults flags) ''input'') w = (Inr raw, w1)"
    and "bindE (importConvertOptions (flagsRequest (buildMap importDefaults flags) raw)) (Convert (cl_lib env)) = Inr out"
  shows "RunCli env (''import'' # printFlags flags) w =
    exitCode (cliWriteOutput env (flagVal (buildMap importDefaults flags) ''output'') out) w1"
proof -
  let ?vals = "buildMap importDefaults flags"
  have "list_all (\<lambda>(n, v). flagName n \<and> map_of importFlags n = Some StrFlag) flags"
    using assms(1) importFlags_names by (auto simp: list_all_iff)
  then have parsed: "parseFlags importFlags importDefaults (printFlags flags) = Inr (?vals, [])"
    by (rule parseFlags_printed)
  have "flagVal ?vals ''apply'' \<noteq> ''true''"
  proof -
    have "map_of importFlags ''apply'' \<noteq> Some StrFlag" by (simp add: importFlags_def)
    then have "''apply'' \<notin> fst ` set flags" using assms(1) by (auto simp: list_all_iff)
    then have "map_of (rev flags) ''apply'' = None" by (simp add: map_of_eq_None_iff)
    then show ?thesis by (simp add: flagVal_def map_of_buildMap map_add_def importDefaults_def)
  qed
  moreover obtain opts where "importConvertOptions (flagsRequest ?vals raw) = Inr opts" "Convert (cl_lib env) opts = Inr out"
    using assms(9) by (auto simp: bindE_def split: sum.splits)
  ultimately have "cliImport env ?vals w = cliWriteOutput env (flagVal ?vals ''output'') out w1"
    using assms(7,8) cliConvertOptions_admin [OF assms(2-6), of env raw]
    by (simp add: cliImport_def cliReadInput_def bindC_def liftC_def retC_def)
  then show ?thesis
    using assms(7) by (simp add: RunCli_def isHelp_def runImport_def parsed exitCode_def)
qed

section \<open>Example\<close>

definition exampleCli :: "((string \<times> string) list, unit) cliEnv" where
  "exampleCli =
     \<lparr>cl_getenv = (\<lambda>_. []), cl_readStdin = failC ErrEOF,
      cl_readFile = (\<lambda>p w. (case map_of w p of Some t \<Rightarrow> Inr t | None \<Rightarrow> Inl ErrEOF, w)),
      cl_stdout = (\<lambda>t. retC ()), cl_writeFile = (\<lambda>p t w. (Inr (), AList.update p t w)), cl_isTerminal = (\<lambda>_. False),
      cl_scanLine = failC ErrEOF, cl_lib = exampleLib,
      cl_http = \<lparr>mh_newRequest = (\<lambda>u. None), mh_do = (\<lambda>u hs. failC ErrEOF), mh_tables = (\<lambda>t. Inr []),
        mh_functions = (\<lambda>t. Inr []), mh_columns = (\<lambda>t. Inr []), mh_uuidText = decNat\<rparr>,
      cl_decode = Inr, cl_aes = (\<lambda>_. Inl ErrEOF), cl_newFile = (\<lambda>_ _. retC ()), cl_newDB = (\<lambda>_ _. retC ()),
      cl_import = (\<lambda>_ _. failC ErrEOF), cl_worldOf = (\<lambda>_. [])\<rparr>"


definition exampleFlags :: "(string \<times> string) list" where
  "exampleFlags = [(''input'', ''a.sql''), (''kind'', ''sql''), (''dialect'', ''postgres''), (''output'', ''b.yaml'')]"

theorem cli_import_writes_conversion_witness:
  "RunCli exampleCli [''import'', ''-input'', ''a.sql'', ''-kind'', ''sql'', ''-dialect'', ''postgres'', ''-output'', ''b.yaml'']
     [(''a.sql'', ''CREATE TABLE t (id int);'')]
   = (0, [(''a.sql'', ''CREATE TABLE t (id int);''), (''b.yaml'', ''doc'')])"
proof -
  let ?v = "buildMap importDefaults exampleFlags" and ?w = "[(''a.sql'', ''CREATE TABLE t (id int);'')]"
  have "list_all (\<lambda>(n, v). map_of importFlags n = Some StrFlag) exampleFlags" by code_simp
  moreover have "TrimSpace (flagVal ?v ''kind'') \<in> {KindOpenAPI, KindSQL, KindYAML}"
    "TrimSpace (flagVal ?v ''dialect'') = flagVal ?v ''dialect''" "flagVal ?v ''dialect'' \<noteq> []"
    "TrimSpace (flagVal ?v ''schema'') = flagVal ?v ''schema''" "flagVal ?v ''schema'' \<noteq> []"
    "flagVal ?v ''input'' \<notin> {[], ''-''}" by code_simp+
  moreover have "cl_readFile exampleCli (flagVal ?v ''input'') ?w = (Inr ''CREATE TABLE t (id int);'', ?w)" by code_simp
  moreover have "bindE (importConvertOptions (flagsRequest ?v ''CREATE TABLE t (id int);'')) (Convert (cl_lib exampleCli)) = Inr ''doc''"
    by code_simp
  ultimately have "RunCli exampleCli (''import'' # printFlags exampleFlags) ?w = exitCode (cliWriteOutput exampleCli (flagVal ?v ''output'') ''doc'') ?w"
    by (rule cli_import_writes_conversion)
  moreover have "exitCode (cliWriteOutput exampleCli (flagVal ?v ''output'') ''doc'') ?w = (0, ?w @ [(''b.yaml'', ''doc'')])" by code_simp
  ultimately show ?thesis by (simp add: printFlags_def exampleFlags_def)
qed

end
