(* ===== verification/Migrate.thy ===== *)
theory Migrate
  imports StoreConfig
begin

text \<open>
  Migrations of the metadata database (\<open>internal/migrate/migrate.go\<close>, \<open>internal/store/db/migrate.go\<close>): the tables of the five
  entities are made or dropped through GORM's migrator, which is a record of parameters.
\<close>

datatype entity = EntCredential | EntServer | EntTable | EntColumn | EntFunction

definition MetaModels :: "entity list" where
  "MetaModels = [EntCredential, EntServer, EntTable, EntColumn, EntFunction]"

record ('w, 'db) migrator =
  mi_connect :: "dialect \<Rightarrow> string \<Rightarrow> ('w, err, 'db) comp"
  mi_ping :: "'db \<Rightarrow> ('w, err, unit) comp"
  mi_handle :: "'db \<Rightarrow> err option"
  mi_close :: "'db \<Rightarrow> 'w \<Rightarrow> 'w"
  mi_autoMigrate :: "'db \<Rightarrow> entity list \<Rightarrow> ('w, err, unit) comp"
  mi_hasTable :: "'db \<Rightarrow> entity \<Rightarrow> 'w \<Rightarrow> bool"
  mi_dropTable :: "'db \<Rightarrow> entity \<Rightarrow> ('w, err, unit) comp"
  mi_typeName :: "entity \<Rightarrow> string"

definition dbAutoMigrate :: "('w, 'db) migrator \<Rightarrow> 'db \<Rightarrow> ('w, err, unit) comp" where
  "dbAutoMigrate mi gdb = mi_autoMigrate mi gdb MetaModels"

text \<open>Opening the database for a task; the connection is closed when the task returns.\<close>

definition withDB :: "('w, 'db) migrator \<Rightarrow> string \<Rightarrow> ('db \<Rightarrow> ('w, err, unit) comp) \<Rightarrow> ('w, err, unit) comp" where
  "withDB mi dsn f =
     bindC (openDB (mi_connect mi) (mi_ping mi) dsn) (\<lambda>gdb.
       case mi_handle mi gdb of
         Some e \<Rightarrow> failC e
       | None \<Rightarrow> (\<lambda>w. case f gdb w of (r, w1) \<Rightarrow> (r, mi_close mi gdb w1)))"

definition migrateUp :: "('w, 'db) migrator \<Rightarrow> string \<Rightarrow> ('w, err, unit) comp" where
  "migrateUp mi dsn = withDB mi dsn (dbAutoMigrate mi)"

definition dropIfExists :: "('w, 'db) migrator \<Rightarrow> 'db \<Rightarrow> entity \<Rightarrow> ('w, err, unit) comp" where
  "dropIfExists mi gdb m w = (if \<not> mi_hasTable mi gdb m w then (Inr (), w) else mi_dropTable mi gdb m w)"

fun dropModels :: "('w, 'db) migrator \<Rightarrow> 'db \<Rightarrow> entity list \<Rightarrow> ('w, err, unit) comp" where
  "dropModels mi gdb [] w = (Inr (), w)"
| "dropModels mi gdb (m # ms) w =
     (case dropIfExists mi gdb m w of
        (Inl e, w1) \<Rightarrow> (Inl (Wrapf (''drop '' @ mi_typeName mi m @ '': '') e []), w1)
      | (Inr _, w1) \<Rightarrow> dropModels mi gdb ms w1)"

definition migrateDown :: "('w, 'db) migrator \<Rightarrow> string \<Rightarrow> ('w, err, unit) comp" where
  "migrateDown mi dsn =
     withDB mi dsn (\<lambda>gdb. dropModels mi gdb [EntFunction, EntColumn, EntTable, EntServer, EntCredential])"

section \<open>What dropping leaves\<close>

text \<open>Dropping a table removes it and no other; what is closed keeps its tables.\<close>

definition migratorLaws :: "('w, 'db) migrator \<Rightarrow> 'db \<Rightarrow> bool" where
  "migratorLaws mi gdb \<longleftrightarrow>
     (\<forall>m w w'. mi_dropTable mi gdb m w = (Inr (), w') \<longrightarrow>
        (\<forall>m'. mi_hasTable mi gdb m' w' \<longleftrightarrow> m' \<noteq> m \<and> mi_hasTable mi gdb m' w))"

lemma dropIfExists_tables:
  assumes "migratorLaws mi gdb" "dropIfExists mi gdb m w = (Inr u, w')"
  shows "mi_hasTable mi gdb m' w' \<longleftrightarrow> m' \<noteq> m \<and> mi_hasTable mi gdb m' w"
  using assms by (auto simp: dropIfExists_def migratorLaws_def split: if_splits)

lemma dropModels_tables:
  "migratorLaws mi gdb \<Longrightarrow> dropModels mi gdb ms w = (Inr u, w') \<Longrightarrow>
   mi_hasTable mi gdb m w' \<longleftrightarrow> m \<notin> set ms \<and> mi_hasTable mi gdb m w"
proof (induction ms arbitrary: w)
  case (Cons m1 ms)
  then obtain u1 w1 where "dropIfExists mi gdb m1 w = (Inr u1, w1)" "dropModels mi gdb ms w1 = (Inr u, w')"
    by (auto split: prod.splits sum.splits)
  with Cons dropIfExists_tables show ?case by (metis list.set_intros(1) set_ConsD list.set_intros(2))
qed simp

text \<open>When \<open>Down\<close> succeeds, no table of the metadata was left when the connection was closed.\<close>

lemma down_drops_all:
  assumes "migratorLaws mi gdb"
    and "dropModels mi gdb [EntFunction, EntColumn, EntTable, EntServer, EntCredential] w = (Inr u, w')"
  shows "\<not> mi_hasTable mi gdb m w'"
  using dropModels_tables [OF assms] by (cases m) auto

end
