(* ===== verification/Recovery.thy ===== *)
theory Recovery
  imports Engine
begin

text \<open>
  What becomes of the engine after failures: the circuit breaker does not stay open, so a server whose back end works again is served.
\<close>

section \<open>The breaker\<close>

lemma recentFails_subset: "set (recentFails calls) \<subseteq> set calls"
  unfolding recentFails_def using set_takeWhileD by fastforce

lemma breaker_closes:
  assumes "\<And>t. CallFail t \<in> set calls \<Longrightarrow> t + br_cooldown (NewBreaker m c) < now"
  shows "\<exists>b. Allow now (breakerRun calls (NewBreaker m c)) = (None, b) \<and> \<not> br_open b"
proof -
  let ?b = "breakerRun calls (NewBreaker m c)"
  have "br_until ?b < now" if "br_open ?b"
  proof -
    from breakerInv_run [of calls m c] that obtain t rest where
      "recentFails calls = CallFail t # rest" "br_until ?b = t + br_cooldown (NewBreaker m c)"
      by (auto simp: breakerInv_def breakerRun_config)
    with recentFails_subset [of calls] assms show ?thesis by auto
  qed
  then show ?thesis by (auto simp: Allow_def)
qed

section \<open>The engine\<close>

lemma poolGet_created:
  assumes "poolLookup p sid v = None" "create w = (Inr d, w1)"
  shows "\<exists>w2 b. poolGet close sid v create (p, w) = (Inr (d, b), AList.update sid \<lparr>pd_version = v, pd_drv = d\<rparr> p, w2) \<and>
    ((\<forall>h x. f (close h x) = f x) \<longrightarrow> f w2 = f w1)"
  using assms by (auto simp: poolGet_def poolInstall_def poolLookup_def Let_def split: option.splits if_splits)

lemma poolLookup_update: "poolLookup (AList.update sid \<lparr>pd_version = v, pd_drv = d\<rparr> p) sid v = Some d"
  by (simp add: poolLookup_def update_conv')

text \<open>C4: however often the engine failed to make drivers, for this server or for others: once the cooldown after every failure is
  over and the back end of a server can be reached, the server gets a driver, the driver stays in the pool for the requests
  that follow, and the breaker lets other servers through as well.\<close>

theorem engine_recovers:
  assumes "eg_breaker s = breakerRun calls (NewBreaker m c)"
    and "\<forall>t. CallFail t \<in> set calls \<longrightarrow> t + br_cooldown (NewBreaker m c) < ee_now env w"
    and "st_ServerCredential (ee_store env) srv (eg_world s) = (Inr cred, w)"
    and "New (ee_factories env) srv cred w = (Inr d, w1)"
  shows "\<exists>d' s'. DriverFor env srv s = (Inr d', s') \<and>
    poolLookup (eg_pool s') (s_ID srv) (driverConfigVersion (ee_hash env) srv cred) = Some d' \<and>
    fst (Allow (ee_now env w) (eg_breaker s')) = None"
proof -
  let ?v = "driverConfigVersion (ee_hash env) srv cred" and ?close = "\<lambda>d (b, w). (b, ee_close env d w)"
  obtain b where b: "Allow (ee_now env w) (eg_breaker s) = (None, b)"
    using breaker_closes [of calls m c "ee_now env w"] assms(1,2) by auto
  note eq = DriverFor_eq [OF assms(3)]
  show ?thesis
  proof (cases "poolLookup (eg_pool s) (s_ID srv) ?v")
    case (Some d')
    then show ?thesis using b by (simp add: eq poolGet_def)
  next
    case None
    have "createDriver env srv cred (eg_breaker s, w) = (Inr d, Success b, w1)"
      by (simp add: createDriver_def b assms(4))
    from poolGet_created [where close = ?close and f = fst and create = "createDriver env srv cred" and w = "(eg_breaker s, w)", OF None this] obtain x flag where
      get: "poolGet ?close (s_ID srv) ?v (createDriver env srv cred) (eg_pool s, eg_breaker s, w) =
        (Inr (d, flag), AList.update (s_ID srv) \<lparr>pd_version = ?v, pd_drv = d\<rparr> (eg_pool s), x)" and "fst x = Success b"
      by (auto simp: case_prod_beta)
    then show ?thesis
      by (cases x) (simp add: eq poolLookup_update Allow_def Success_def)
  qed
qed

section \<open>Example\<close>

definition brokenEngine :: "int eng" where
  "brokenEngine = (NewEngine 2 60 0 100)\<lparr>eg_breaker := breakerRun [CallFail 0, CallFail 1] (NewBreaker 2 60)\<rparr>"

theorem engine_recovers_witness:
  "fst (Allow 50 (eg_breaker brokenEngine)) = Some ErrBreakerOpen \<and>
   (\<exists>d s'. DriverFor exampleEnv (exampleServer ProtocolFile RawEmpty) brokenEngine = (Inr d, s'))"
proof -
  have "fst (Allow 50 (eg_breaker brokenEngine)) = Some ErrBreakerOpen" by code_simp
  moreover have "eg_breaker brokenEngine = breakerRun [CallFail 0, CallFail 1] (NewBreaker 2 60)"
    by (simp add: brokenEngine_def)
  moreover have "\<forall>t. CallFail t \<in> set [CallFail 0, CallFail 1] \<longrightarrow> t + br_cooldown (NewBreaker 2 60) < ee_now exampleEnv 100"
    by (auto simp: NewBreaker_def exampleEnv_def)
  moreover have "st_ServerCredential (ee_store exampleEnv) (exampleServer ProtocolFile RawEmpty) (eg_world brokenEngine) = (Inr None, 100)"
    by (simp add: example_env_defs brokenEngine_def NewEngine_def)
  moreover have "New (ee_factories exampleEnv) (exampleServer ProtocolFile RawEmpty) None 100 = (Inr exampleDriver, 100)"
    by (simp add: New_def exampleEnv_def exampleServer_def retC_def)
  ultimately show ?thesis
    using engine_recovers [of brokenEngine "[CallFail 0, CallFail 1]" 2 60 exampleEnv 100 "exampleServer ProtocolFile RawEmpty" None exampleDriver 100]
    by blast
qed

end
