(* ===== verification/Spec2Isabelle.thy ===== *)
theory Spec2Isabelle
  imports Reload CacheFacts SqlUse DbImport FileDriver S3Driver HttpDriver KvFacts GenFacts CliApp Migrate Recovery
begin

text \<open>
  A model of dataspan (module \<open>github.com/monoposer/dataspan\<close>): a gateway that serves tables and functions of many
  back ends (PostgreSQL, MySQL, MongoDB, Redis, S3, files, HTTP services) under one PostgREST-like REST API, driven by metadata that
  an admin API, importers or a YAML file maintain.

  \<^bold>\<open>How the program works.\<close> A request passes the middleware (CORS, admin and data authentication) and reaches the data API or
  the admin API. The data API parses the query string, asks the engine to resolve the table in the metadata store (through a
  cache that a hash of the metadata invalidates), gets a driver for the table's server from a pool (behind a circuit breaker)
  and turns the driver's answer or error into a response. The admin API creates, reads, updates and deletes metadata in a
  store, of which there are two: a snapshot in memory that is written to drivers.yaml, and a database through GORM. Importers turn SQL schemas and
  OpenAPI documents into declarative documents, which both stores import.

  \<^bold>\<open>Theories and sources\<close> (under \<open>internal/\<close> unless said otherwise).
  \<^item> \<open>GoPrelude\<close>: strings, decimal numbers, quoting and maps of Go; computations with state and errors (\<open>comp\<close>) and their combinators.
    \<open>Values\<close>: JSON values, decoding into structs and maps, \<open>fmt.Sprint\<close>. \<open>HttpLib\<close>: headers, query values, requests, the response writer.
  \<^item> \<open>Errors\<close>: errkind, store/errs, driver/errors.go, api/rest/errors.go. \<open>Models\<close>: models/models.go.
  \<^item> \<open>Query\<close>: postgrest (query.go, filter_match.go, range.go, accept.go).
  \<^item> \<open>DriverApi\<close>: driver (interface, registry, count), with the contract of read-only drivers. \<open>FileDriver\<close>, \<open>S3Driver\<close>, \<open>SqlDrivers\<close> (postgres
    and mysql), \<open>HttpDriver\<close> (http, httpwrap and the presets airtable, notion, firebase, sheets), \<open>RedisDriver\<close>, \<open>MongoDriver\<close>, \<open>KvFacts\<close>:
    the packages of those names under driver.
  \<^item> \<open>HttpAuth\<close>: auth (vault, gateway and admin keys, overlay of credentials). \<open>ApiAuth\<close>: api/auth.go and the handler chain of cmd/server.
  \<^item> \<open>Breaker\<close>: the circuit breaker of observability/middleware.go. \<open>DriverPool\<close>, \<open>Engine\<close>, \<open>CacheFacts\<close>: engine (driver_pool.go, meta_cache.go, engine.go).
  \<^item> \<open>RestApi\<close>, \<open>OpenApi\<close>: api/rest, openapi. \<open>AdminApi\<close>, \<open>AdminFacts\<close>: api/admin, httpx/json.go.
  \<^item> \<open>Snapshot\<close>, \<open>Declarative\<close>, \<open>FileStore\<close>, \<open>CompileFacts\<close>, \<open>StoreInvariants\<close>, \<open>StoreProperties\<close>, \<open>Reload\<close>: store/file and
    the documents of importer (types.go, merge.go, mode.go). \<open>StoreConfig\<close>: store/config.go, store/db (config.go, open.go).
  \<^item> \<open>DbStore\<close>: store/db and models/entities.go; \<open>DbFacts\<close>, \<open>DbMemory\<close>, \<open>DbEquiv\<close>, \<open>DbImport\<close>: what it does, and that it agrees with the file store.
  \<^item> \<open>SqlImport\<close>, \<open>OpenApiImport\<close>, \<open>Importer\<close>: importer; \<open>SqlFacts\<close>, \<open>SqlRoundtrip\<close>, \<open>SqlUse\<close>, \<open>ImportFacts\<close>: what imports give.
  \<^item> \<open>GenTypes\<close>, \<open>GenFacts\<close>: gentypes. \<open>ServerMain\<close>: cmd/server, observability, logx, request logging and what is read from the
    environment. \<open>CliApp\<close>: cmd/cli, cliapp. \<open>Migrate\<close>: migrate. \<open>Recovery\<close>: the engine after failures.

  \<^bold>\<open>Conventions.\<close> A definition has the name of the Go function it models, with a prefix where several packages use one name. A
  function that may fail returns a sum, \<open>Inl\<close> the error; one with effects is a function from a state to a result and a new state,
  so that what a failing step leaves behind is part of the model. The state of a store or of the engine is a record; the
  world outside (files, databases, HTTP services, clocks) is a type variable with the calls the program makes as a record of
  parameters. Strings are lists of characters, read as ASCII where Go's Unicode functions differ. A Go map is an
  association list with distinct keys, and a loop over it visits the entries in the order of the list. Go leaves that order open: a definition
  that is given a map is given it in some order, so that statements for all lists cover every order (\<open>ParseQuery\<close> over the query
  values, \<open>MapRowToRemote\<close> and the statements built from a row, \<open>oasToDeclarative\<close>, the maps of \<open>GenTypes\<close>); one that builds a map
  (\<open>FiltersToQueryValues\<close>, \<open>MergeDeclarativeDocs\<close>) gives it in the order in which the keys were set, and a statement that
  relies on that order says so. A
  \<open>json.RawMessage\<close> is the outcome of parsing it; numbers keep their text. Identifiers are given out by a counter, as \<open>uuid.New\<close> never
  repeats one. An \<open>int\<close> whose overflow matters (\<open>itoa\<close>) is a 64-bit word. A method that holds a mutex for its whole body is one
  step; where the lock is released in between (the driver pool, the import of the file store) the steps are separate. No loop needs fuel: recursion is
  structural or has a measure, and \<open>SqlFacts\<close> shows that the scanner of the SQL import always returns.

  \<^bold>\<open>What the lemmas show.\<close>
  \<^item> \<open>Query\<close>: parsing reads back what printing gives, for filters, or-groups and nested lists; renaming the columns of a row can be undone.
  \<^item> The drivers: every placeholder of an SQL statement is bound to the value that belongs in its place; values are bound, not spliced; the pages of
    a read-only driver partition its result; a query sent upstream reads back as itself; a
    row inserted into redis is found by its key.
  \<^item> The engine: the cache serves nothing older than its time to live (\<open>CacheFacts\<close>), the pool neither leaks a driver nor closes one twice, the
    breaker is asked before a driver is made and lets the engine recover.
  \<^item> The file store: references resolve after any history of operations and loads, and names are unique where every
    document imported or merged has unique names; a file in the format of a snapshot is loaded unchecked, and is allowed where it has these properties; what is created can be
    read back; metadata survives writing and loading.
  \<^item> The database store: it answers as the file store does when it holds the
    same metadata; imports are atomic, and in replace mode give the same metadata as the file store up to what the tags of the entities change.
  \<^item> The process: it starts with a valid configuration or exits, and as it is started no request without the key its path needs
    gets anywhere; the command line runs the commands of its
    grammar, and converts as the admin API does.
  \<^item> The APIs: only authenticated requests change state, in file mode no admin request does; which operation of the store
    an admin request runs, and with which status it is answered; every data request gets one answer.
  \<^item> Type generation: what is fetched is well formed, and the text depends on its content alone.
  \<^item> The imports: printed schemas are read back, every imported table resolves, and which parts of a schema or document are lost.
  Where the program does not do what it means to, a lemma states what it does instead.

  \<^bold>\<open>Laws that are assumed\<close> are predicates on the parameters (\<open>gormReads\<close>, \<open>gormWrites\<close>, \<open>gormTransacts\<close>, \<open>redisLaws\<close>, the cipher's inverse, a marshaller and its
  parser); the examples at the end of the theories instantiate them. Reads of the database are assumed to succeed and \<open>ORDER BY\<close> to compare
  bytes; the commands of redis do what it documents, while the connection is up, and those on hashes fail on other types.

  \<^bold>\<open>Not modelled\<close>: what metrics, traces and log lines contain and the timing of requests (output of the running process only); the
  messages of the command line; the text syntaxes of JSON, YAML, CSV and XLSX, durations and floating-point numbers, and the network
  protocols of the back ends, which libraries implement; table creation by GORM; the redirects of \<open>net/http\<close>. A YAML node holds a
  JSON value, so that marshalling it does not fail and numbers keep their text, where the source prints them again from a \<open>float64\<close>.
\<close>

end
